(* ===== verification/Prelude.thy ===== *)
theory Prelude
  imports Complex_Main "HOL-Library.AList" "HOL-Library.Multiset" "HOL-Library.Sublist"
    "HOL-Library.While_Combinator"
begin

text \<open>
  Shared vocabulary of the MedCore model.  The dashboard code is TypeScript that runs on
  JavaScript numbers, strings and arrays; this theory fixes how those primitives are read
  in HOL, once, so that every component theory uses the same reading:
  \<^item> \<open>Math.round\<close> is \<open>math_round\<close>, \<open>floor (x + 1/2)\<close> on exact rationals (the model
    does not follow IEEE-754 rounding of the quotient; see the root header);
  \<^item> \<open>Array.prototype.sort\<close> with a comparator is \<open>js_sort\<close>, a stable insertion
    sort, which ECMA-262 (2019 and later) requires to agree with any conforming engine
    for a consistent comparator; \<open>js_sort_key_eq\<close> shows it equals HOL's \<open>sort_key\<close>;
  \<^item> \<open>Array.prototype.slice(0, n)\<close> is \<open>take\<close>, \<open>filter\<close> and \<open>map\<close> are HOL's;
  \<^item> JavaScript \<open>Map\<close> used as get-or-default-then-set keeps the first insertion order of
    its keys; that is \<open>AList.update_with_aux\<close>.
  Timestamps are milliseconds since the epoch, as \<open>Date.getTime()\<close> returns them.
\<close>

named_theorems js_simps "evaluation rules for the JavaScript primitives of the model"

type_synonym timestamp = int

section \<open>Math.round\<close>

definition math_round :: "rat \<Rightarrow> int" where
  "math_round x = \<lfloor>x + 1/2\<rfloor>"

section \<open>Array.prototype.sort with a comparator\<close>

text \<open>
  Insertion into an already sorted prefix puts \<open>x\<close> before the first element that
  compares strictly greater, i.e.\ after every element it ties with: the stable order.
\<close>

fun js_insert :: "('a \<Rightarrow> 'a \<Rightarrow> int) \<Rightarrow> 'a \<Rightarrow> 'a list \<Rightarrow> 'a list" where
  "js_insert cmp x [] = [x]"
| "js_insert cmp x (y # ys) = (if cmp x y < 0 then x # y # ys else y # js_insert cmp x ys)"

definition js_sort :: "('a \<Rightarrow> 'a \<Rightarrow> int) \<Rightarrow> 'a list \<Rightarrow> 'a list" where
  "js_sort cmp xs = foldl (\<lambda>acc x. js_insert cmp x acc) [] xs"

section \<open>Number.prototype.toString\<close>

text \<open>Decimal notation of a non-negative integer, and of a signed one with a leading minus.\<close>

fun nat_to_string :: "nat \<Rightarrow> string" where
  "nat_to_string n =
     (if n < 10 then [''0123456789'' ! n]
      else nat_to_string (n div 10) @ [''0123456789'' ! (n mod 10)])"

definition int_to_string :: "int \<Rightarrow> string" where
  "int_to_string i = (if i < 0 then ''-'' @ nat_to_string (nat (- i)) else nat_to_string (nat i))"

section \<open>String.prototype.split, parseInt and integer division\<close>

text \<open>
  \<open>js_split c s\<close> is \<open>s.split(c)\<close> for a one-character separator (an empty string gives
  \<open>[""]\<close>).  \<open>js_parseInt\<close> is \<open>parseInt\<close> in base 10: leading white space, an optional
  sign, the longest run of digits; \<open>None\<close> is \<open>NaN\<close>.  \<open>js_trunc_div a b\<close> is
  \<open>Math.trunc(a / b)\<close> for \<open>b > 0\<close>, the rounding of date-fns' differences.
\<close>

definition is_digit :: "char \<Rightarrow> bool" where
  "is_digit c \<longleftrightarrow> 48 \<le> (of_char c :: nat) \<and> (of_char c :: nat) \<le> 57"

definition digit_value :: "char \<Rightarrow> nat" where
  "digit_value c = of_char c - 48"

definition digits_value :: "string \<Rightarrow> nat" where
  "digits_value ds = foldl (\<lambda>acc d. 10 * acc + digit_value d) 0 ds"

definition js_whitespace :: "char \<Rightarrow> bool" where
  "js_whitespace c \<longleftrightarrow> c \<in> set [CHR 0x20, CHR 0x0A, CHR 0x09, CHR 0x0D, CHR 0x0B, CHR 0x0C]"

definition js_parseInt :: "string \<Rightarrow> int option" where
  "js_parseInt s =
     (let t = dropWhile js_whitespace s;
          (sgn, u) = (if t \<noteq> [] \<and> hd t = CHR ''-'' then (-1, tl t)
                      else if t \<noteq> [] \<and> hd t = CHR ''+'' then (1, tl t) else (1, t));
          ds = takeWhile is_digit u
      in if ds = [] then None else Some (sgn * int (digits_value ds)))"

fun js_split :: "char \<Rightarrow> string \<Rightarrow> string list" where
  "js_split c [] = [[]]"
| "js_split c (x # xs) =
     (if x = c then [] # js_split c xs
      else (case js_split c xs of [] \<Rightarrow> [[x]] | w # ws \<Rightarrow> (x # w) # ws))"

definition js_trunc_div :: "int \<Rightarrow> int \<Rightarrow> int" where
  "js_trunc_div a b = (if 0 \<le> a then a div b else - ((- a) div b))"

definition js_str_opt :: "string option \<Rightarrow> string" where
  "js_str_opt s = (case s of None \<Rightarrow> ''undefined'' | Some x \<Rightarrow> x)"

section \<open>String.prototype.toLowerCase, toUpperCase and includes\<close>

text \<open>
  Case mapping on ASCII letters; other bytes are kept (the model does not map accented
  letters).  \<open>s.includes(p)\<close> is \<open>sublist p s\<close>.
\<close>

definition ascii_lower :: "char \<Rightarrow> char" where
  "ascii_lower c = (if 65 \<le> (of_char c :: nat) \<and> (of_char c :: nat) \<le> 90
                    then char_of (of_char c + (32 :: nat)) else c)"

definition ascii_upper :: "char \<Rightarrow> char" where
  "ascii_upper c = (if 97 \<le> (of_char c :: nat) \<and> (of_char c :: nat) \<le> 122
                    then char_of (of_char c - (32 :: nat)) else c)"

definition js_toLowerCase :: "string \<Rightarrow> string" where
  "js_toLowerCase s = map ascii_lower s"

definition js_toUpperCase :: "string \<Rightarrow> string" where
  "js_toUpperCase s = map ascii_upper s"

definition js_includes :: "string \<Rightarrow> string \<Rightarrow> bool" where
  "js_includes s p \<longleftrightarrow> sublist p s"

section \<open>String constants\<close>

text \<open>
  Status values of the database are Portuguese strings; the ones with accents are written
  as their UTF-8 bytes, which is how the model represents every non-ASCII character.
\<close>

definition STATUS_DISPONIVEL :: string where
  "STATUS_DISPONIVEL = ''Dispon'' @ [CHR 0xC3, CHR 0xAD] @ ''vel''"

definition STATUS_MANUTENCAO :: string where
  "STATUS_MANUTENCAO = ''Manuten'' @ [CHR 0xC3, CHR 0xA7, CHR 0xC3, CHR 0xA3] @ ''o''"

definition CONDITION_CRITICO :: string where
  "CONDITION_CRITICO = ''Cr'' @ [CHR 0xC3, CHR 0xAD] @ ''tico''"

section \<open>Lemmas on the primitives\<close>

declare nat_to_string.simps [simp del]

lemmas to_string_simps [js_simps] = nat_to_string.simps int_to_string_def

lemma math_round_quotient [js_simps]:
  assumes "0 < b"
  shows "math_round (of_int a / of_int b) = (2 * a + b) div (2 * b)"
proof -
  have eq: "of_int a / of_int b + 1/2 = (of_int (2 * a + b) / of_int (2 * b) :: rat)"
    using assms by (simp add: field_simps)
  have "math_round (of_int a / of_int b) = \<lfloor>(of_int (2 * a + b) / of_int (2 * b) :: rat)\<rfloor>"
    unfolding math_round_def by (simp only: eq)
  also have "\<dots> = (2 * a + b) div (2 * b)"
    by (rule floor_divide_of_int_eq)
  finally show ?thesis .
qed

lemma math_round_percent [js_simps]:
  assumes "0 < t"
  shows "math_round (of_nat p / of_nat t * 100) = (200 * int p + int t) div (2 * int t)"
proof -
  have "math_round (of_nat p / of_nat t * 100) = math_round (of_int (100 * int p) / of_int (int t))"
    by (simp add: mult.commute)
  also have "\<dots> = (2 * (100 * int p) + int t) div (2 * int t)"
    using assms by (simp only: math_round_quotient of_nat_0_less_iff)
  finally show ?thesis
    by simp
qed

text \<open>A rounded percentage of a part of a whole lies between 0 and 100.\<close>

lemma percent_div_bounds:
  assumes "p \<le> t" and "0 < t"
  shows "0 \<le> (200 * int p + int t) div (2 * int t)"
    and "(200 * int p + int t) div (2 * int t) \<le> 100"
proof -
  have eq: "(200 * int p + int t) div (2 * int t) = int ((200 * p + t) div (2 * t))"
    by (simp add: zdiv_int)
  then show "0 \<le> (200 * int p + int t) div (2 * int t)"
    by simp
  have "200 * p + t < 101 * (2 * t)"
    using assms by linarith
  then have "(200 * p + t) div (2 * t) < 101"
    using assms by (simp add: div_less_iff_less_mult)
  then show "(200 * int p + int t) div (2 * int t) \<le> 100"
    unfolding eq by simp
qed

lemma percent_div_nat:
  "(200 * int p + int t) div (2 * int t) = int ((200 * p + t) div (2 * t))"
  by (simp add: zdiv_int)

lemma percent_div_ge_iff:
  assumes "0 < t"
  shows "int k \<le> (200 * int p + int t) div (2 * int t) \<longleftrightarrow> k * (2 * t) \<le> 200 * p + t"
proof -
  have "int k \<le> (200 * int p + int t) div (2 * int t) \<longleftrightarrow> k \<le> (200 * p + t) div (2 * t)"
    by (simp add: percent_div_nat)
  also have "\<dots> \<longleftrightarrow> k * (2 * t) \<le> 200 * p + t"
    using assms by (simp add: less_eq_div_iff_mult_less_eq)
  finally show ?thesis .
qed

lemma percent_div_mono:
  assumes "p \<le> q" and "0 < t"
  shows "(200 * int p + int t) div (2 * int t) \<le> (200 * int q + int t) div (2 * int t)"
  using assms by (simp add: zdiv_mono1)

lemma mset_js_insert [simp]: "mset (js_insert cmp x ys) = add_mset x (mset ys)"
  by (induction ys) auto

lemma js_sort_Nil [simp]: "js_sort cmp [] = []"
  by (simp add: js_sort_def)

lemma js_sort_snoc [simp]: "js_sort cmp (xs @ [x]) = js_insert cmp x (js_sort cmp xs)"
  by (simp add: js_sort_def)

lemma mset_js_sort [simp]: "mset (js_sort cmp xs) = mset xs"
  by (induction xs rule: rev_induct) auto

lemma set_js_sort [simp]: "set (js_sort cmp xs) = set xs"
  by (metis mset_js_sort set_mset_mset)

lemma length_js_sort [simp]: "length (js_sort cmp xs) = length xs"
  by (metis mset_js_sort size_mset)

lemma sorted_js_insert:
  "sorted (map k ys) \<Longrightarrow> sorted (map k (js_insert (\<lambda>a b. k a - k b) x ys))"
proof (induction ys)
  case Nil
  then show ?case by simp
next
  case (Cons y ys)
  have "set (js_insert (\<lambda>a b. k a - k b) x ys) = insert x (set ys)"
    by (metis mset_js_insert set_mset_add_mset_insert set_mset_mset)
  with Cons show ?case by auto
qed

lemma filter_js_insert:
  assumes "sorted (map k ys)"
  shows "filter (\<lambda>y. c = k y) (js_insert (\<lambda>a b. k a - k b) x ys)
         = filter (\<lambda>y. c = k y) ys @ (if c = k x then [x] else [])"
  using assms
proof (induction ys)
  case Nil
  then show ?case by simp
next
  case (Cons y ys)
  show ?case
  proof (cases "k x < k y")
    case True
    with Cons.prems have "\<forall>z\<in>set (y # ys). k x < k z"
      by auto
    then have "c = k x \<Longrightarrow> filter (\<lambda>z. c = k z) (y # ys) = []"
      by (auto simp: filter_empty_conv)
    with True show ?thesis by auto
  next
    case False
    from Cons.prems have "sorted (map k ys)"
      by simp
    then have IH: "filter (\<lambda>y. c = k y) (js_insert (\<lambda>a b. k a - k b) x ys)
        = filter (\<lambda>y. c = k y) ys @ (if c = k x then [x] else [])"
      by (rule Cons.IH)
    from False have "js_insert (\<lambda>a b. k a - k b) x (y # ys)
        = y # js_insert (\<lambda>a b. k a - k b) x ys"
      by simp
    with IH show ?thesis
      by (cases "c = k y") auto
  qed
qed

lemma sorted_js_sort: "sorted (map k (js_sort (\<lambda>a b. k a - k b) xs))"
  by (induction xs rule: rev_induct) (auto intro: sorted_js_insert)

lemma js_sort_stable:
  "filter (\<lambda>y. c = k y) (js_sort (\<lambda>a b. k a - k b) xs) = filter (\<lambda>y. c = k y) xs"
  by (induction xs rule: rev_induct) (simp_all add: filter_js_insert sorted_js_sort)

text \<open>The JavaScript sort with a key comparator is HOL's stable \<^const>\<open>sort_key\<close>.\<close>

lemma js_sort_key_eq: "js_sort (\<lambda>a b. k a - k b) xs = sort_key k xs"
  by (rule properties_for_sort_key [symmetric]) (simp_all add: js_sort_stable sorted_js_sort)

text \<open>Comparators of the form \<open>(a, b) => f(b) - f(a)\<close> sort by \<open>f\<close> descending.\<close>

lemma js_sort_desc_eq: "js_sort (\<lambda>a b. k b - k a) xs = sort_key (\<lambda>x. - k x) xs"
proof -
  have "(\<lambda>a b. k b - k a) = (\<lambda>a b. (- k a) - (- k b))"
    by (simp add: fun_eq_iff)
  then show ?thesis
    using js_sort_key_eq [of "\<lambda>x. - k x" xs] by simp
qed

lemma sorted_desc_sort_key:
  "sorted_wrt (\<lambda>a b. k b \<le> (k a :: int)) (sort_key (\<lambda>x. - k x) xs)"
  using sorted_sort_key [of "\<lambda>x. - k x" xs] by (simp add: sorted_wrt_map)

lemma of_char_digit_table: "d < 10 \<Longrightarrow> of_char (''0123456789'' ! d) = (48 + d :: nat)"
proof -
  assume "d < 10"
  then have "d \<in> {0, 1, 2, 3, 4, 5, 6, 7, 8, 9}" by auto
  then show ?thesis by auto
qed

lemma digit_table_is_digit: "d < 10 \<Longrightarrow> is_digit (''0123456789'' ! d) \<and> \<not> js_whitespace (''0123456789'' ! d)"
proof -
  assume d: "d < 10"
  then have "of_char (''0123456789'' ! d) = (48 + d :: nat)" by (rule of_char_digit_table)
  moreover have "\<not> js_whitespace c" if "(48::nat) \<le> of_char c" for c
    using that by (auto simp: js_whitespace_def)
  ultimately show ?thesis
    using d by (auto simp: is_digit_def)
qed

lemma digit_value_nth: "d < 10 \<Longrightarrow> digit_value (''0123456789'' ! d) = d"
  by (simp add: digit_value_def of_char_digit_table)

lemma nat_to_string_digits: "\<forall>c\<in>set (nat_to_string n). is_digit c \<and> \<not> js_whitespace c"
proof (induction n rule: nat_to_string.induct)
  case (1 n)
  show ?case
  proof (cases "n < 10")
    case True
    then show ?thesis by (subst nat_to_string.simps) (simp add: digit_table_is_digit)
  next
    case False
    with "1.IH" show ?thesis
      by (subst nat_to_string.simps) (simp add: digit_table_is_digit)
  qed
qed

lemma digits_value_snoc: "digits_value (ds @ [d]) = 10 * digits_value ds + digit_value d"
  by (simp add: digits_value_def)

lemma digits_value_nat_to_string: "digits_value (nat_to_string n) = n"
proof (induction n rule: nat_to_string.induct)
  case (1 n)
  show ?case
  proof (cases "n < 10")
    case True
    then show ?thesis by (subst nat_to_string.simps) (simp add: digits_value_def digit_value_nth)
  next
    case False
    with "1.IH" show ?thesis
      by (subst nat_to_string.simps) (simp add: digits_value_snoc digit_value_nth)
  qed
qed

lemma nat_to_string_not_Nil: "nat_to_string n \<noteq> []"
  by (subst nat_to_string.simps) simp

lemma js_parseInt_nat_to_string: "js_parseInt (nat_to_string n) = Some (int n)"
proof -
  have digits: "\<forall>c\<in>set (nat_to_string n). is_digit c \<and> \<not> js_whitespace c"
    by (rule nat_to_string_digits)
  have ne: "nat_to_string n \<noteq> []"
    by (rule nat_to_string_not_Nil)
  then have "is_digit (hd (nat_to_string n))"
    using digits by simp
  then have h: "hd (nat_to_string n) \<noteq> CHR ''-''" "hd (nat_to_string n) \<noteq> CHR ''+''"
    by (auto simp: is_digit_def)
  have dw: "dropWhile js_whitespace (nat_to_string n) = nat_to_string n"
    using digits ne by (simp add: dropWhile_eq_self_iff)
  have tw: "takeWhile is_digit (nat_to_string n) = nat_to_string n"
    using digits by (simp add: takeWhile_eq_all_conv)
  show ?thesis
    by (simp add: js_parseInt_def Let_def dw tw h ne digits_value_nat_to_string)
qed

lemma is_digit_not_special:
  "is_digit c \<Longrightarrow> \<not> js_whitespace c \<and> c \<noteq> CHR ''-'' \<and> c \<noteq> CHR ''+'' \<and> c \<noteq> CHR '':''"
  by (auto simp: is_digit_def js_whitespace_def)

lemma js_parseInt_digits:
  assumes "ds \<noteq> []" and "\<forall>c\<in>set ds. is_digit c"
  shows "js_parseInt ds = Some (int (digits_value ds))"
proof -
  have "is_digit (hd ds)"
    using assms by simp
  then have h: "hd ds \<noteq> CHR ''-''" "hd ds \<noteq> CHR ''+''"
    by (simp_all add: is_digit_not_special)
  have dw: "dropWhile js_whitespace ds = ds"
    using assms by (simp add: dropWhile_eq_self_iff is_digit_not_special)
  have tw: "takeWhile is_digit ds = ds"
    using assms by (simp add: takeWhile_eq_all_conv)
  show ?thesis
    using assms(1) by (simp add: js_parseInt_def Let_def dw tw h)
qed

lemma digits_value_zeros: "digits_value (replicate k (CHR ''0'') @ ds) = digits_value ds"
  by (induction k) (simp_all add: digits_value_def digit_value_def)

lemma js_split_append:
  "c \<notin> set xs \<Longrightarrow> js_split c (xs @ c # ys) = xs # js_split c ys"
  by (induction xs) auto

lemma zdiv_le_iff_less_mult:
  assumes "0 < (b::int)"
  shows "d div b \<le> k \<longleftrightarrow> d < (k + 1) * b"
proof
  have d: "d = d div b * b + d mod b" by simp
  have r: "0 \<le> d mod b" "d mod b < b" using assms by simp_all
  { assume "d div b \<le> k"
    then have "(d div b + 1) * b \<le> (k + 1) * b" using assms by simp
    moreover have "d < (d div b + 1) * b" 
    proof -
      have "(d div b + 1) * b = d div b * b + b" by (simp add: distrib_right)
      then show ?thesis using d r by linarith
    qed
    ultimately show "d < (k + 1) * b" by linarith }
  { assume "d < (k + 1) * b"
    then have "d div b * b < (k + 1) * b" using d r by linarith
    then show "d div b \<le> k" using assms by simp }
qed
lemma js_trunc_div_nonneg [simp]: "0 \<le> d \<Longrightarrow> js_trunc_div d b = d div b"
  by (simp add: js_trunc_div_def)

lemma js_trunc_div_pos_iff:
  assumes "0 < b"
  shows "0 < js_trunc_div d b \<longleftrightarrow> b \<le> d"
proof (cases "0 \<le> d")
  case True
  then show ?thesis using assms by (simp add: pos_imp_zdiv_pos_iff)
next
  case False
  have "0 \<le> (- d) div b" using False assms by (simp add: pos_imp_zdiv_nonneg_iff)
  then show ?thesis using False assms by (simp add: js_trunc_div_def)
qed

lemma js_trunc_div_le_iff:
  assumes "0 < b" and "0 \<le> k"
  shows "js_trunc_div d b \<le> k \<longleftrightarrow> d < (k + 1) * b"
proof (cases "0 \<le> d")
  case True
  then show ?thesis using assms by (simp add: zdiv_le_iff_less_mult)
next
  case False
  have "0 \<le> (- d) div b" using False assms by (simp add: pos_imp_zdiv_nonneg_iff)
  then have "js_trunc_div d b \<le> k" using False assms by (simp add: js_trunc_div_def)
  moreover have "0 < (k + 1) * b" using assms by simp
  then have "d < (k + 1) * b" using False by linarith
  ultimately show ?thesis by simp
qed

lemma of_char_ascii_lower:
  "of_char (ascii_lower c) = (if 65 \<le> (of_char c :: nat) \<and> (of_char c :: nat) \<le> 90
                              then of_char c + 32 else (of_char c :: nat))"
proof -
  have "(of_char c :: nat) < 256" by (rule nat_of_char_less_256)
  then show ?thesis by (simp add: ascii_lower_def of_char_of)
qed

lemma ascii_lower_nonletter:
  assumes "\<not> (65 \<le> (of_char d :: nat) \<and> (of_char d :: nat) \<le> 90)"
      and "\<not> (97 \<le> (of_char d :: nat) \<and> (of_char d :: nat) \<le> 122)"
  shows "ascii_lower c = d \<longleftrightarrow> c = d"
proof
  assume "ascii_lower c = d"
  then have "of_char (ascii_lower c) = (of_char d :: nat)" by simp
  then have "(of_char c :: nat) = of_char d"
    using assms by (auto simp: of_char_ascii_lower split: if_splits)
  then show "c = d" by simp
next
  assume cd: "c = d"
  from assms(1) show "ascii_lower c = d" by (simp only: ascii_lower_def cd if_False)
qed

lemma nat_to_string_inj: "nat_to_string a = nat_to_string b \<longleftrightarrow> a = b"
  by (metis js_parseInt_nat_to_string option.inject of_nat_eq_iff)

section \<open>Lists\<close>

lemma find_SomeD: "find P xs = Some x \<Longrightarrow> P x \<and> x \<in> set xs"
  by (induction xs) (auto split: if_splits)

lemma find_unique_Some:
  assumes "x \<in> set ys" "P x" "\<forall>y\<in>set ys. P y \<longrightarrow> y = x"
  shows "find P ys = Some x"
proof -
  have "find P ys \<noteq> None" using assms(1,2) by (auto simp: find_None_iff)
  then obtain z where z: "find P ys = Some z" by blast
  then have "P z \<and> z \<in> set ys" by (rule find_SomeD)
  with assms(3) z show ?thesis by simp
qed

lemma mset_take_subseteq: "mset (take n xs) \<subseteq># mset xs"
  by (metis append_take_drop_id mset_append mset_subset_eq_add_left)

lemma in_set_map_filter: "x \<in> set (List.map_filter f xs) \<longleftrightarrow> (\<exists>y\<in>set xs. f y = Some x)"
  by (induction xs) (auto simp: map_filter_simps split: option.splits)

lemma sorted_wrt_take_drop:
  assumes "sorted_wrt R xs" and "x \<in> set (take n xs)" and "y \<in> set (drop n xs)"
  shows "R x y"
  using assms sorted_wrt_append [of R "take n xs" "drop n xs"] by simp

lemma notin_take_in_drop:
  "x \<in> set xs \<Longrightarrow> x \<notin> set (take n xs) \<Longrightarrow> x \<in> set (drop n xs)"
  by (metis Un_iff append_take_drop_id set_append)

section \<open>Counting\<close>

lemma sum_list_map_mset_eq:
  assumes "mset xs = mset ys"
  shows "sum_list (map f xs) = (sum_list (map f ys) :: 'b::comm_monoid_add)"
proof -
  have "sum_list (map f xs) = sum_mset (image_mset f (mset xs))"
    by (simp add: sum_mset_sum_list [symmetric])
  also have "\<dots> = sum_mset (image_mset f (mset ys))"
    by (simp only: assms)
  also have "\<dots> = sum_list (map f ys)"
    by (simp add: sum_mset_sum_list [symmetric])
  finally show ?thesis .
qed

lemma sum_list_map_filter_count:
  "sum_list (map (\<lambda>x. if P x then 1 else 0) xs) = length (filter P xs)"
  by (induction xs) auto

end
