(* ===== verification/Occupancy.thy ===== *)
theory Occupancy
  imports Prelude
begin

text \<open>
  The bed-occupancy card of the dashboard, \<open>src/components/dashboard/BedOccupancy.tsx\<close>.
  It reads the \<open>beds\<close> table (department and status of every bed), groups the beds by
  department in a JavaScript \<open>Map\<close> (\<open>groupBedsByDepartment\<close>), sorts the departments by
  occupancy percentage, highest first, and renders one item per department with its
  percentage, its level (critical from 90\%, high from 80\%) and the number of free beds.
  The abstract specification is \<open>dept_counts\<close>: the number of occupied and of all beds of one
  department; \<open>map_of_departmentMap\<close> is the refinement lemma that the Map computes it.
\<close>

section \<open>Data\<close>

record bed =
  department :: string
  status :: string

record department_occupancy =
  name :: string
  occupied :: nat
  total :: nat

datatype occupancy_level = Critical | High | Normal

definition OCCUPANCY_THRESHOLDS_HIGH :: int where
  "OCCUPANCY_THRESHOLDS_HIGH = 80"

definition OCCUPANCY_THRESHOLDS_CRITICAL :: int where
  "OCCUPANCY_THRESHOLDS_CRITICAL = 90"

section \<open>Operations\<close>

definition calculateOccupancyPercentage :: "nat \<Rightarrow> nat \<Rightarrow> int" where
  "calculateOccupancyPercentage occ tot =
     (if tot > 0 then math_round (of_nat occ / of_nat tot * 100) else 0)"

definition getOccupancyLevel :: "int \<Rightarrow> occupancy_level" where
  "getOccupancyLevel percentage =
     (if percentage \<ge> OCCUPANCY_THRESHOLDS_CRITICAL then Critical
      else if percentage \<ge> OCCUPANCY_THRESHOLDS_HIGH then High
      else Normal)"

fun getProgressColor :: "occupancy_level \<Rightarrow> string" where
  "getProgressColor Critical = ''bg-destructive''"
| "getProgressColor High = ''bg-warning''"
| "getProgressColor Normal = ''bg-success''"

fun getTextColor :: "occupancy_level \<Rightarrow> string" where
  "getTextColor Critical = ''text-destructive font-medium''"
| "getTextColor High = ''text-warning font-medium''"
| "getTextColor Normal = ''text-success font-medium''"

text \<open>
  One iteration of \<open>beds.forEach\<close>: the entry of the bed's department (or
  \<open>{occupied: 0, total: 0}\<close> when the Map has none) gets one more bed, and one more
  occupied bed when the status is \<open>"Ocupado"\<close>; \<open>Map.set\<close> of an existing key keeps its
  position, of a new key appends it.
\<close>

definition count_bed :: "bed \<Rightarrow> nat \<times> nat \<Rightarrow> nat \<times> nat" where
  "count_bed b = (\<lambda>(occ, tot). (if status b = ''Ocupado'' then occ + 1 else occ, tot + 1))"

definition departmentMap :: "bed list \<Rightarrow> (string \<times> (nat \<times> nat)) list" where
  "departmentMap beds =
     foldl (\<lambda>m b. AList.update_with_aux (0, 0) (department b) (count_bed b) m) [] beds"

definition mk_department :: "string \<times> (nat \<times> nat) \<Rightarrow> department_occupancy" where
  "mk_department = (\<lambda>(n, (occ, tot)). \<lparr>name = n, occupied = occ, total = tot\<rparr>)"

abbreviation dept_percentage :: "department_occupancy \<Rightarrow> int" where
  "dept_percentage d \<equiv> calculateOccupancyPercentage (occupied d) (total d)"

definition groupBedsByDepartment :: "bed list \<Rightarrow> department_occupancy list" where
  "groupBedsByDepartment beds =
     js_sort (\<lambda>a b. calculateOccupancyPercentage (occupied b) (total b)
                    - calculateOccupancyPercentage (occupied a) (total a))
       (map mk_department (departmentMap beds))"

text \<open>The view model of \<open>DepartmentItem\<close>: what one row of the card shows.\<close>

record department_item =
  item_name :: string
  item_occupied :: nat
  item_total :: nat
  item_percentage :: int
  item_level :: occupancy_level
  item_available :: int
  item_progress_color :: string
  item_text_color :: string

definition DepartmentItem :: "department_occupancy \<Rightarrow> department_item" where
  "DepartmentItem d =
     (let percentage = calculateOccupancyPercentage (occupied d) (total d);
          level = getOccupancyLevel percentage;
          available = int (total d) - int (occupied d)
      in \<lparr>item_name = name d, item_occupied = occupied d, item_total = total d,
          item_percentage = percentage, item_level = level, item_available = available,
          item_progress_color = getProgressColor level, item_text_color = getTextColor level\<rparr>)"

text \<open>
  The component: \<open>fetchBedOccupancy\<close> awaits the query, throws its error (caught and logged),
  groups \<open>beds || []\<close> on success, and in every case clears \<open>loading\<close>.
\<close>

record bed_occupancy_state =
  departments :: "department_occupancy list"
  loading :: bool

definition bed_occupancy_init :: bed_occupancy_state where
  "bed_occupancy_init = \<lparr>departments = [], loading = True\<rparr>"

datatype 'e query_result = QueryError 'e | QueryData "bed list option"

fun fetchBedOccupancy :: "'e query_result \<Rightarrow> bed_occupancy_state \<Rightarrow> bed_occupancy_state" where
  "fetchBedOccupancy (QueryError e) s = s\<lparr>loading := False\<rparr>"
| "fetchBedOccupancy (QueryData beds) s =
     s\<lparr>departments := groupBedsByDepartment (case beds of None \<Rightarrow> [] | Some bs \<Rightarrow> bs),
       loading := False\<rparr>"

datatype bed_occupancy_view = LoadingSkeleton | EmptyState | DepartmentList "department_item list"

definition BedOccupancy_render :: "bed_occupancy_state \<Rightarrow> bed_occupancy_view" where
  "BedOccupancy_render s =
     (if loading s then LoadingSkeleton
      else if departments s = [] then EmptyState
      else DepartmentList (map DepartmentItem (departments s)))"

section \<open>The abstract specification and the refinement lemma\<close>

definition dept_counts :: "bed list \<Rightarrow> string \<Rightarrow> nat \<times> nat" where
  "dept_counts beds d =
     (length (filter (\<lambda>b. department b = d \<and> status b = ''Ocupado'') beds),
      length (filter (\<lambda>b. department b = d) beds))"

definition dept_entry :: "department_occupancy \<Rightarrow> string \<times> (nat \<times> nat)" where
  "dept_entry d = (name d, (occupied d, total d))"

section \<open>Lemmas\<close>

lemma departmentMap_Nil [simp]: "departmentMap [] = []"
  by (simp add: departmentMap_def)

lemma departmentMap_snoc [simp]:
  "departmentMap (beds @ [b]) =
     AList.update_with_aux (0, 0) (department b) (count_bed b) (departmentMap beds)"
  by (simp add: departmentMap_def)

lemma dept_counts_snoc:
  "dept_counts (beds @ [b]) d =
     (if department b = d then count_bed b (dept_counts beds d) else dept_counts beds d)"
  by (simp add: dept_counts_def count_bed_def)

lemma dept_counts_absent:
  "d \<notin> department ` set beds \<Longrightarrow> dept_counts beds d = (0, 0)"
  by (auto simp: dept_counts_def filter_empty_conv)

lemma map_of_departmentMap:
  "map_of (departmentMap beds) d =
     (if d \<in> department ` set beds then Some (dept_counts beds d) else None)"
proof (induction beds rule: rev_induct)
  case Nil
  then show ?case by simp
next
  case (snoc b beds)
  then show ?case
    by (auto simp: map_of_update_with_aux' dept_counts_snoc dept_counts_absent)
qed

lemma distinct_departmentMap: "distinct (map fst (departmentMap beds))"
  by (induction beds rule: rev_induct) simp_all

lemma map_fst_update_with_aux:
  "map fst (AList.update_with_aux v k f ps) =
     (if k \<in> set (map fst ps) then map fst ps else map fst ps @ [k])"
  by (induction ps) auto

text \<open>The Map's keys are the departments in the order of their first bed.\<close>

lemma keys_departmentMap:
  "map fst (departmentMap beds) = rev (remdups (rev (map department beds)))"
proof (induction beds rule: rev_induct)
  case Nil
  then show ?case by simp
next
  case (snoc b beds)
  have "set (map fst (departmentMap beds)) = department ` set beds"
    by (simp add: snoc.IH)
  with snoc.IH show ?case
    by (auto simp: map_fst_update_with_aux)
qed

lemma set_departmentMap:
  "(n, c) \<in> set (departmentMap beds) \<longleftrightarrow> n \<in> department ` set beds \<and> c = dept_counts beds n"
proof -
  have "(n, c) \<in> set (departmentMap beds) \<longleftrightarrow> map_of (departmentMap beds) n = Some c"
    by (simp add: map_of_eq_Some_iff [OF distinct_departmentMap])
  then show ?thesis
    by (auto simp: map_of_departmentMap)
qed

lemma groupBedsByDepartment_sort_key:
  "groupBedsByDepartment beds =
     sort_key (\<lambda>d. - dept_percentage d) (map mk_department (departmentMap beds))"
  unfolding groupBedsByDepartment_def
  by (rule js_sort_desc_eq)

lemma set_groupBedsByDepartment:
  "set (groupBedsByDepartment beds) = mk_department ` set (departmentMap beds)"
  by (simp add: groupBedsByDepartment_sort_key)

lemma calculateOccupancyPercentage_div:
  "0 < tot \<Longrightarrow> calculateOccupancyPercentage occ tot = (200 * int occ + int tot) div (2 * int tot)"
  using math_round_percent [of tot occ] by (simp add: calculateOccupancyPercentage_def)

lemma dept_entry_mk_department [simp]: "dept_entry (mk_department p) = p"
  by (cases p) (simp add: dept_entry_def mk_department_def)

lemma mk_department_sel [simp]:
  "name (mk_department p) = fst p" "occupied (mk_department p) = fst (snd p)"
  "total (mk_department p) = snd (snd p)"
  by (cases p, simp add: mk_department_def)+

lemma mset_groupBedsByDepartment:
  "mset (groupBedsByDepartment beds) = mset (map mk_department (departmentMap beds))"
  by (simp add: groupBedsByDepartment_sort_key)

lemma entries_groupBedsByDepartment:
  "mset (map dept_entry (groupBedsByDepartment beds)) = mset (departmentMap beds)"
proof -
  have "mset (map dept_entry (groupBedsByDepartment beds))
        = mset (map dept_entry (map mk_department (departmentMap beds)))"
    by (simp only: mset_map mset_groupBedsByDepartment)
  then show ?thesis
    by (simp add: comp_def)
qed

lemma department_in_group:
  "d \<in> set (groupBedsByDepartment beds) \<Longrightarrow>
     name d \<in> department ` set beds \<and> (occupied d, total d) = dept_counts beds (name d)"
  by (auto simp: set_groupBedsByDepartment set_departmentMap)

lemma dept_counts_present:
  assumes "n \<in> department ` set beds"
  shows "0 < snd (dept_counts beds n)" and "fst (dept_counts beds n) \<le> snd (dept_counts beds n)"
proof -
  from assms obtain b where "b \<in> set beds" "department b = n" by auto
  then show "0 < snd (dept_counts beds n)"
    by (auto simp: dept_counts_def filter_empty_conv length_greater_0_conv)
  show "fst (dept_counts beds n) \<le> snd (dept_counts beds n)"
    unfolding dept_counts_def by (simp add: length_filter_conv_card card_mono Collect_mono_iff)
qed

lemma sum_occupied_update:
  "sum_list (map (fst \<circ> snd) (AList.update_with_aux (0, 0) k (count_bed b) ps)) =
     sum_list (map (fst \<circ> snd) ps) + (if status b = ''Ocupado'' then 1 else 0)"
  by (induction ps) (auto simp: count_bed_def split: prod.splits)

lemma sum_total_update:
  "sum_list (map (snd \<circ> snd) (AList.update_with_aux (0, 0) k (count_bed b) ps)) =
     sum_list (map (snd \<circ> snd) ps) + 1"
  by (induction ps) (auto simp: count_bed_def split: prod.splits)

lemma sums_departmentMap:
  "sum_list (map (fst \<circ> snd) (departmentMap beds)) = length (filter (\<lambda>b. status b = ''Ocupado'') beds)"
  "sum_list (map (snd \<circ> snd) (departmentMap beds)) = length beds"
  by (induction beds rule: rev_induct) (simp_all add: sum_occupied_update sum_total_update)

lemma calculateOccupancyPercentage_eq:
  "calculateOccupancyPercentage occ tot =
     (if tot = 0 then 0 else (200 * int occ + int tot) div (2 * int tot))"
  using calculateOccupancyPercentage_div [of tot occ] by (simp add: calculateOccupancyPercentage_def)

lemma filter_pct_groupBedsByDepartment:
  "filter (\<lambda>d. dept_percentage d = p) (groupBedsByDepartment beds) =
     filter (\<lambda>d. dept_percentage d = p) (map mk_department (departmentMap beds))"
proof -
  have "(\<lambda>d. dept_percentage d = p) = (\<lambda>d. - dept_percentage d = - p)"
    by (simp add: fun_eq_iff)
  then show ?thesis
    by (simp only: groupBedsByDepartment_sort_key sort_key_stable)
qed

lemma filter_mk_department:
  "filter P (map mk_department (departmentMap beds)) =
     map mk_department (filter (\<lambda>e. P (mk_department (fst e, dept_counts beds (fst e)))) (departmentMap beds))"
proof -
  have "\<And>e. e \<in> set (departmentMap beds) \<Longrightarrow> e = (fst e, dept_counts beds (fst e))"
    by (metis prod.collapse set_departmentMap)
  then have "filter (P \<circ> mk_department) (departmentMap beds) =
      filter (\<lambda>e. P (mk_department (fst e, dept_counts beds (fst e)))) (departmentMap beds)"
    by (intro filter_cong) (auto simp: comp_def)
  then show ?thesis
    by (simp add: filter_map)
qed

lemma groupBedsByDepartment_Nil_iff: "groupBedsByDepartment beds = [] \<longleftrightarrow> beds = []"
proof -
  have "length (groupBedsByDepartment beds) = length (departmentMap beds)"
    by (simp add: groupBedsByDepartment_sort_key)
  then have "groupBedsByDepartment beds = [] \<longleftrightarrow> departmentMap beds = []"
    by (metis length_0_conv)
  also have "\<dots> \<longleftrightarrow> beds = []"
    by (metis Nil_is_map_conv keys_departmentMap remdups_eq_nil_iff rev_is_Nil_conv)
  finally show ?thesis .
qed

lemma groupBedsByDepartment_sums:
  "sum_list (map occupied (groupBedsByDepartment beds)) = length (filter (\<lambda>b. status b = ''Ocupado'') beds)
   \<and> sum_list (map total (groupBedsByDepartment beds)) = length beds"
proof -
  have "sum_list (map occupied (groupBedsByDepartment beds)) = sum_list (map occupied (map mk_department (departmentMap beds)))"
    by (rule sum_list_map_mset_eq) (rule mset_groupBedsByDepartment)
  moreover have "sum_list (map total (groupBedsByDepartment beds)) = sum_list (map total (map mk_department (departmentMap beds)))"
    by (rule sum_list_map_mset_eq) (rule mset_groupBedsByDepartment)
  ultimately show ?thesis
    by (simp add: comp_def sums_departmentMap [unfolded comp_def])
qed

section \<open>Properties\<close>

text \<open>
  C1 (refinement). The grouping computes the abstract department counts: the department map
  of the card, read as a map from names to (occupied, total), is defined exactly on the
  departments of the input beds, and there it holds the number of occupied beds and of all
  beds of that department; no department appears twice.
\<close>

theorem occupancy_refines_dept_counts:
  "map_of (map dept_entry (groupBedsByDepartment beds)) =
     (\<lambda>n. if n \<in> department ` set beds then Some (dept_counts beds n) else None)
   \<and> distinct (map name (groupBedsByDepartment beds))"
proof -
  let ?G = "map dept_entry (groupBedsByDepartment beds)"
  have m: "mset ?G = mset (departmentMap beds)"
    by (rule entries_groupBedsByDepartment)
  have "mset (map fst ?G) = image_mset fst (mset ?G)"
    by (rule mset_map)
  also have "\<dots> = image_mset fst (mset (departmentMap beds))"
    by (simp only: m)
  also have "\<dots> = mset (map fst (departmentMap beds))"
    by (rule mset_map [symmetric])
  finally have "distinct (map fst ?G) \<longleftrightarrow> distinct (map fst (departmentMap beds))"
    by (rule mset_eq_imp_distinct_iff)
  with distinct_departmentMap have d: "distinct (map fst ?G)"
    by blast
  from m have "set ?G = set (departmentMap beds)"
    by (rule mset_eq_setD)
  with d distinct_departmentMap have "map_of ?G = map_of (departmentMap beds)"
    by (simp only: map_of_inject_set)
  also have "\<dots> = (\<lambda>n. if n \<in> department ` set beds then Some (dept_counts beds n) else None)"
    by (rule ext) (rule map_of_departmentMap)
  finally have mo: "map_of ?G = (\<lambda>n. if n \<in> department ` set beds then Some (dept_counts beds n) else None)" .
  have "map fst ?G = map name (groupBedsByDepartment beds)"
    by (simp add: dept_entry_def comp_def)
  with d have "distinct (map name (groupBedsByDepartment beds))"
    by (simp only:)
  with mo show ?thesis
    by (rule conjI)
qed

text \<open>
  C2 (functional). Summed over the departments, the occupied counts give the number of
  beds with status Ocupado and the totals give the number of beds (spec section 8).
\<close>

theorem occupancy_totals:
  "sum_list (map occupied (groupBedsByDepartment beds)) = length (filter (\<lambda>b. status b = ''Ocupado'') beds)
   \<and> sum_list (map total (groupBedsByDepartment beds)) = length beds"
  by (rule groupBedsByDepartment_sums)

text \<open>
  C3 (functional). The departments are listed by occupancy percentage, highest first:
  every department's percentage is at least that of every later one.
\<close>

theorem occupancy_sorted_desc:
  "sorted_wrt (\<lambda>a b. dept_percentage b \<le> dept_percentage a) (groupBedsByDepartment beds)"
  unfolding groupBedsByDepartment_sort_key by (rule sorted_desc_sort_key)

text \<open>
  Ties keep the order in which the departments first occur among the
  beds: the departments with one given percentage appear in first-occurrence order.
\<close>

theorem occupancy_ties_first_seen:
  "map name (filter (\<lambda>d. dept_percentage d = p) (groupBedsByDepartment beds)) =
     filter (\<lambda>n. calculateOccupancyPercentage (fst (dept_counts beds n)) (snd (dept_counts beds n)) = p)
       (rev (remdups (rev (map department beds))))"
proof -
  let ?Q = "\<lambda>n. calculateOccupancyPercentage (fst (dept_counts beds n)) (snd (dept_counts beds n)) = p"
  have "map name (filter (\<lambda>d. dept_percentage d = p) (groupBedsByDepartment beds))
        = map fst (filter (\<lambda>e. ?Q (fst e)) (departmentMap beds))"
    by (simp add: filter_pct_groupBedsByDepartment filter_mk_department comp_def)
  also have "\<dots> = filter ?Q (map fst (departmentMap beds))"
    by (simp add: filter_map comp_def)
  finally show ?thesis
    by (simp only: keys_departmentMap)
qed

text \<open>
  C5 (bounds). Every listed department has at least one bed, no more occupied beds than
  beds, and a percentage between 0 and 100.
\<close>

theorem occupancy_entry_bounds:
  "\<forall>d \<in> set (groupBedsByDepartment beds).
     0 < total d \<and> occupied d \<le> total d \<and> 0 \<le> dept_percentage d \<and> dept_percentage d \<le> 100"
proof
  fix d assume "d \<in> set (groupBedsByDepartment beds)"
  then have n: "name d \<in> department ` set beds" and c: "(occupied d, total d) = dept_counts beds (name d)"
    by (auto dest: department_in_group)
  from dept_counts_present [OF n] c have "0 < total d" "occupied d \<le> total d"
    by (metis fst_conv snd_conv)+
  moreover have "dept_percentage d = (200 * int (occupied d) + int (total d)) div (2 * int (total d))"
    using \<open>0 < total d\<close> by (rule calculateOccupancyPercentage_div)
  moreover have "0 \<le> (200 * int (occupied d) + int (total d)) div (2 * int (total d))"
    and "(200 * int (occupied d) + int (total d)) div (2 * int (total d)) \<le> 100"
    using percent_div_bounds [of "occupied d" "total d"] \<open>0 < total d\<close> \<open>occupied d \<le> total d\<close>
    by blast+
  ultimately show "0 < total d \<and> occupied d \<le> total d \<and> 0 \<le> dept_percentage d \<and> dept_percentage d \<le> 100"
    by (simp only:)
qed

theorem occupancy_entry_bounds_witness:
  "\<lparr>name = ''UTI'', occupied = 1, total = 1\<rparr>
      \<in> set (groupBedsByDepartment [\<lparr>department = ''UTI'', status = ''Ocupado''\<rparr>])
   \<and> 0 < total \<lparr>name = ''UTI'', occupied = 1, total = 1\<rparr>
   \<and> occupied \<lparr>name = ''UTI'', occupied = 1, total = 1\<rparr> \<le> total \<lparr>name = ''UTI'', occupied = 1, total = 1\<rparr>
   \<and> 0 \<le> dept_percentage \<lparr>name = ''UTI'', occupied = 1, total = 1\<rparr>
   \<and> dept_percentage \<lparr>name = ''UTI'', occupied = 1, total = 1\<rparr> \<le> 100"
proof -
  have m: "\<lparr>name = ''UTI'', occupied = 1, total = 1\<rparr>
      \<in> set (groupBedsByDepartment [\<lparr>department = ''UTI'', status = ''Ocupado''\<rparr>])"
    by (simp add: groupBedsByDepartment_def departmentMap_def count_bed_def mk_department_def js_sort_def)
  with occupancy_entry_bounds [of "[\<lparr>department = ''UTI'', status = ''Ocupado''\<rparr>]"] show ?thesis
    by blast
qed

text \<open>
  C6 (bounds). With the percentage rounded half up, a department is shown critical
  exactly when at least 89.5 percent of its beds are occupied (200 occ >= 179 total), and
  high exactly when at least 79.5 percent are.
\<close>

theorem occupancy_level_thresholds:
  assumes "0 < tot"
  shows "getOccupancyLevel (calculateOccupancyPercentage occ tot) =
     (if 179 * tot \<le> 200 * occ then Critical else if 159 * tot \<le> 200 * occ then High else Normal)"
proof -
  let ?p = "calculateOccupancyPercentage occ tot"
  have p: "?p = (200 * int occ + int tot) div (2 * int tot)"
    using assms by (rule calculateOccupancyPercentage_div)
  have "90 \<le> ?p \<longleftrightarrow> 90 * (2 * tot) \<le> 200 * occ + tot"
    using percent_div_ge_iff [OF assms, of 90 occ] unfolding p by simp
  then have c: "90 \<le> ?p \<longleftrightarrow> 179 * tot \<le> 200 * occ"
    by linarith
  have "80 \<le> ?p \<longleftrightarrow> 80 * (2 * tot) \<le> 200 * occ + tot"
    using percent_div_ge_iff [OF assms, of 80 occ] unfolding p by simp
  then have h: "80 \<le> ?p \<longleftrightarrow> 159 * tot \<le> 200 * occ"
    by linarith
  show ?thesis
    unfolding getOccupancyLevel_def OCCUPANCY_THRESHOLDS_CRITICAL_def OCCUPANCY_THRESHOLDS_HIGH_def
    by (simp only: c h)
qed

theorem occupancy_level_thresholds_witness:
  "0 < (10::nat) \<and> getOccupancyLevel (calculateOccupancyPercentage 9 10) = Critical"
  using occupancy_level_thresholds [of 10 9] by simp

text \<open>
  The scenario of spec section 8: two occupied and one free UTI bed and
  one free Pediatria bed give UTI 2/3 at 67 percent before Pediatria 0/1 at 0 percent,
  both at the normal level, each with one free bed.
\<close>

theorem occupancy_spec_scenario:
  "groupBedsByDepartment
     [\<lparr>department = ''UTI'', status = ''Ocupado''\<rparr>, \<lparr>department = ''UTI'', status = ''Ocupado''\<rparr>,
      \<lparr>department = ''UTI'', status = STATUS_DISPONIVEL\<rparr>,
      \<lparr>department = ''Pediatria'', status = STATUS_DISPONIVEL\<rparr>]
   = [\<lparr>name = ''UTI'', occupied = 2, total = 3\<rparr>, \<lparr>name = ''Pediatria'', occupied = 0, total = 1\<rparr>]
   \<and> map DepartmentItem
       [\<lparr>name = ''UTI'', occupied = 2, total = 3\<rparr>, \<lparr>name = ''Pediatria'', occupied = 0, total = 1\<rparr>]
     = [\<lparr>item_name = ''UTI'', item_occupied = 2, item_total = 3, item_percentage = 67,
         item_level = Normal, item_available = 1, item_progress_color = ''bg-success'',
         item_text_color = ''text-success font-medium''\<rparr>,
        \<lparr>item_name = ''Pediatria'', item_occupied = 0, item_total = 1, item_percentage = 0,
         item_level = Normal, item_available = 1, item_progress_color = ''bg-success'',
         item_text_color = ''text-success font-medium''\<rparr>]"
  by (simp add: groupBedsByDepartment_def departmentMap_def count_bed_def mk_department_def
      calculateOccupancyPercentage_eq js_sort_def DepartmentItem_def getOccupancyLevel_def
      OCCUPANCY_THRESHOLDS_CRITICAL_def OCCUPANCY_THRESHOLDS_HIGH_def STATUS_DISPONIVEL_def)

text \<open>
  A failed bed query leaves the card in the same state as an empty table:
  it renders the empty state ("no beds registered") and not an error; a non-empty
  result renders one item per department in the grouped order.
\<close>

theorem occupancy_fetch_error_shows_empty:
  "BedOccupancy_render (fetchBedOccupancy (QueryError e) bed_occupancy_init) = EmptyState
   \<and> BedOccupancy_render (fetchBedOccupancy (QueryData (Some [])) bed_occupancy_init) = EmptyState
   \<and> BedOccupancy_render (fetchBedOccupancy (QueryData (Some (b # bs))) bed_occupancy_init)
       = DepartmentList (map DepartmentItem (groupBedsByDepartment (b # bs)))"
  by (simp add: BedOccupancy_render_def bed_occupancy_init_def groupBedsByDepartment_Nil_iff)

end
