(* ===== verification/Dashboard.thy ===== *)
theory Dashboard
  imports Occupancy
begin

text \<open>
  The dashboard page, \<open>src/pages/Index.tsx\<close>, and its KPI cards,
  \<open>src/components/dashboard/StatsCard.tsx\<close>.  \<open>fetchAllStats\<close> issues seven
  independent Supabase queries (\<open>Promise.all\<close>) and reads their counts with
  \<open>count || 0\<close> and the beds with \<open>data || []\<close>; the page derives the occupancy
  percentage and three trends (\<open>calculateTrend\<close>), each shown only when its previous
  value is non-zero, and \<open>StatsCard\<close> shows a trend as an icon, a colour and
  \<open>Math.abs(value)%\<close>.  The query results are inputs of the model: a count result is its
  count (null when the query failed) and its error, which the code never reads.
\<close>

section \<open>Data\<close>

record dashboard_stats =
  totalPatients :: nat
  patientsYesterday :: nat
  scheduledAppointments :: nat
  appointmentsLastWeek :: nat
  occupiedBeds :: nat
  totalBeds :: nat
  activeAdmissions :: nat
  admissionsYesterday :: nat

definition INITIAL_STATS :: dashboard_stats where
  "INITIAL_STATS =
     \<lparr>totalPatients = 0, patientsYesterday = 0, scheduledAppointments = 0,
      appointmentsLastWeek = 0, occupiedBeds = 0, totalBeds = 0, activeAdmissions = 0,
      admissionsYesterday = 0\<rparr>"

text \<open>A Supabase response: \<open>{count, error}\<close> for a head-only count, \<open>{data, error}\<close> for rows.\<close>

record count_result =
  result_count :: "nat option"
  result_error :: "string option"

record 'a rows_result =
  result_data :: "'a list option"
  rows_error :: "string option"

record trend =
  trend_value :: int
  trend_label :: string

record index_state =
  stats :: dashboard_stats
  loading :: bool

datatype trend_icon = TrendingUp | TrendingDown | Minus

record stats_card =
  card_title :: string
  card_value :: string
  card_subtitle :: "string option"
  card_trend :: "trend option"

section \<open>Operations\<close>

definition calculateTrend :: "int \<Rightarrow> int \<Rightarrow> int" where
  "calculateTrend current previous =
     (if previous = 0 then (if current > 0 then 100 else 0)
      else math_round (of_int (current - previous) / of_int previous * 100))"

definition calculatePercentage :: "nat \<Rightarrow> nat \<Rightarrow> int" where
  "calculatePercentage part tot = (if tot > 0 then math_round (of_nat part / of_nat tot * 100) else 0)"

definition countOccupiedBeds :: "bed list \<Rightarrow> nat" where
  "countOccupiedBeds beds = length (filter (\<lambda>bed. status bed = ''Ocupado'') beds)"

definition count_or_zero :: "count_result \<Rightarrow> nat" where
  "count_or_zero r = (case result_count r of None \<Rightarrow> 0 | Some n \<Rightarrow> n)"

definition data_or_empty :: "'a rows_result \<Rightarrow> 'a list" where
  "data_or_empty r = (case result_data r of None \<Rightarrow> [] | Some xs \<Rightarrow> xs)"

definition fetchAllStats ::
  "count_result \<Rightarrow> count_result \<Rightarrow> count_result \<Rightarrow> count_result \<Rightarrow> bed rows_result
   \<Rightarrow> count_result \<Rightarrow> count_result \<Rightarrow> dashboard_stats" where
  "fetchAllStats patientsResult patientsYesterdayResult appointmentsResult
       appointmentsLastWeekResult bedsResult admissionsResult admissionsYesterdayResult =
     (let beds = data_or_empty bedsResult
      in \<lparr>totalPatients = count_or_zero patientsResult,
          patientsYesterday = count_or_zero patientsYesterdayResult,
          scheduledAppointments = count_or_zero appointmentsResult,
          appointmentsLastWeek = count_or_zero appointmentsLastWeekResult,
          occupiedBeds = countOccupiedBeds beds,
          totalBeds = length beds,
          activeAdmissions = count_or_zero admissionsResult,
          admissionsYesterday = count_or_zero admissionsYesterdayResult\<rparr>)"

definition index_init :: index_state where
  "index_init = \<lparr>stats = INITIAL_STATS, loading = True\<rparr>"

text \<open>\<open>loadDashboardStats\<close>: a rejected \<open>fetchAllStats\<close> (\<open>Inl\<close>) is logged and leaves the stats.\<close>

definition loadDashboardStats :: "string + dashboard_stats \<Rightarrow> index_state \<Rightarrow> index_state" where
  "loadDashboardStats r s =
     (case r of Inl e \<Rightarrow> s\<lparr>loading := False\<rparr>
      | Inr st \<Rightarrow> s\<lparr>stats := st, loading := False\<rparr>)"

definition occupancyPercentage :: "dashboard_stats \<Rightarrow> int" where
  "occupancyPercentage st = calculatePercentage (occupiedBeds st) (totalBeds st)"

definition patientsTrend :: "dashboard_stats \<Rightarrow> trend option" where
  "patientsTrend st =
     (if patientsYesterday st > 0
      then Some \<lparr>trend_value = calculateTrend (int (totalPatients st))
                                (int (totalPatients st) - int (patientsYesterday st)),
                 trend_label = ''novos ontem''\<rparr>
      else None)"

definition appointmentsTrend :: "dashboard_stats \<Rightarrow> trend option" where
  "appointmentsTrend st =
     (if appointmentsLastWeek st > 0
      then Some \<lparr>trend_value = calculateTrend (int (scheduledAppointments st)) (int (appointmentsLastWeek st)),
                 trend_label = ''vs semana''\<rparr>
      else None)"

definition admissionsTrend :: "dashboard_stats \<Rightarrow> trend option" where
  "admissionsTrend st =
     (if admissionsYesterday st > 0
      then Some \<lparr>trend_value = int (admissionsYesterday st), trend_label = ''novas ontem''\<rparr>
      else None)"

text \<open>\<open>StatsCard\<close>: icon and colour of a trend, and the text \<open>{Math.abs(trend.value)}%\<close>.\<close>

definition getTrendIcon :: "trend option \<Rightarrow> trend_icon option" where
  "getTrendIcon t =
     (case t of None \<Rightarrow> None
      | Some tr \<Rightarrow> Some (if trend_value tr > 0 then TrendingUp
                         else if trend_value tr < 0 then TrendingDown else Minus))"

definition getTrendColor :: "trend option \<Rightarrow> string" where
  "getTrendColor t =
     (case t of None \<Rightarrow> ''''
      | Some tr \<Rightarrow> (if trend_value tr > 0 then ''text-success''
                    else if trend_value tr < 0 then ''text-destructive'' else ''text-muted-foreground''))"

definition trend_text :: "trend \<Rightarrow> string" where
  "trend_text tr = int_to_string \<bar>trend_value tr\<bar> @ ''%''"

definition card_number :: "bool \<Rightarrow> nat \<Rightarrow> string" where
  "card_number is_loading n = (if is_loading then ''...'' else nat_to_string n)"

definition Index_render :: "index_state \<Rightarrow> stats_card list" where
  "Index_render s =
     (let st = stats s in
      [\<lparr>card_title = ''Total de Pacientes'', card_value = card_number (loading s) (totalPatients st),
        card_subtitle = None, card_trend = patientsTrend st\<rparr>,
       \<lparr>card_title = ''Consultas Agendadas'', card_value = card_number (loading s) (scheduledAppointments st),
        card_subtitle = None, card_trend = appointmentsTrend st\<rparr>,
       \<lparr>card_title = ''Leitos Ocupados'',
        card_value = (if loading s then ''...'' else nat_to_string (occupiedBeds st) @ ''/'' @ nat_to_string (totalBeds st)),
        card_subtitle = Some (int_to_string (occupancyPercentage st) @ ''% de ocupa'' @ [CHR 0xC3, CHR 0xA7, CHR 0xC3, CHR 0xA3] @ ''o''),
        card_trend = None\<rparr>,
       \<lparr>card_title = ''Interna'' @ [CHR 0xC3, CHR 0xA7, CHR 0xC3, CHR 0xB5] @ ''es Ativas'',
        card_value = card_number (loading s) (activeAdmissions st),
        card_subtitle = None, card_trend = admissionsTrend st\<rparr>])"

section \<open>Lemmas\<close>

lemma calculateTrend_pos:
  assumes "0 < previous"
  shows "calculateTrend current previous = (200 * (current - previous) + previous) div (2 * previous)"
proof -
  have "math_round (of_int (current - previous) / of_int previous * 100)
        = math_round (of_int (100 * (current - previous)) / of_int previous)"
    by (simp add: mult.commute)
  also have "\<dots> = (2 * (100 * (current - previous)) + previous) div (2 * previous)"
    using assms by (rule math_round_quotient)
  finally show ?thesis
    using assms by (simp add: calculateTrend_def)
qed

lemma calculatePercentage_eq_occupancy:
  "calculatePercentage = calculateOccupancyPercentage"
  by (simp add: fun_eq_iff calculatePercentage_def calculateOccupancyPercentage_def)

lemma countOccupiedBeds_eq: "countOccupiedBeds beds = length (filter (\<lambda>b. status b = ''Ocupado'') beds)"
  by (simp add: countOccupiedBeds_def)

lemma int_to_string_nat: "int_to_string (int n) = nat_to_string n"
  by (simp add: int_to_string_def)

lemma calculateTrend_nonneg:
  assumes "0 \<le> previous" and "previous \<le> current"
  shows "0 \<le> calculateTrend current previous"
proof (cases "previous = 0")
  case True
  then show ?thesis by (simp add: calculateTrend_def)
next
  case False
  with assms have "0 < previous" by simp
  moreover have "0 \<le> 200 * (current - previous) + previous"
    using assms by simp
  ultimately show ?thesis
    by (simp add: calculateTrend_pos pos_imp_zdiv_nonneg_iff)
qed

section \<open>Properties\<close>

text \<open>
  The trend values of spec section 8: trend(0, 0) = 0, trend(5, 0) = 100,
  trend(10, 5) = 100 and trend(5, 10) = -50.
\<close>
theorem calculateTrend_spec_values:
  "calculateTrend 0 0 = 0 \<and> calculateTrend 5 0 = 100 \<and> calculateTrend 10 5 = 100
   \<and> calculateTrend 5 10 = -50"
  by (simp add: calculateTrend_pos) (simp add: calculateTrend_def)

text \<open>
  C10 (bounds). For a positive previous value the rounded trend is positive exactly when
  the growth is at least half a percent (200 (current - previous) >= previous) and negative
  exactly when the fall is more than half a percent; smaller changes show as 0.
\<close>
theorem calculateTrend_sign:
  assumes "0 < previous"
  shows "(0 < calculateTrend current previous \<longleftrightarrow> previous \<le> 200 * (current - previous))
       \<and> (calculateTrend current previous < 0 \<longleftrightarrow> 200 * (current - previous) < - previous)"
proof -
  have t: "calculateTrend current previous = (200 * (current - previous) + previous) div (2 * previous)"
    using assms by (rule calculateTrend_pos)
  have pos: "0 < (200 * (current - previous) + previous) div (2 * previous)
             \<longleftrightarrow> 2 * previous \<le> 200 * (current - previous) + previous"
    using assms by (simp add: pos_imp_zdiv_pos_iff)
  have neg: "(200 * (current - previous) + previous) div (2 * previous) < 0
             \<longleftrightarrow> 200 * (current - previous) + previous < 0"
    using assms by (simp add: pos_imp_zdiv_neg_iff)
  show ?thesis
    unfolding t using pos neg by linarith
qed

theorem calculateTrend_sign_witness:
  "0 < (200::int) \<and> 0 < calculateTrend 201 200 \<and> calculateTrend 200 201 = 0"
  using calculateTrend_sign [of 200 201] calculateTrend_sign [of 201 200] by simp

text \<open>
  The patients scenario of spec section 8: 100 patients of which 10 were
  created yesterday show the card value 100 with the trend 11 labelled novos ontem.
\<close>
theorem dashboard_patients_scenario:
  "Index_render (loadDashboardStats (Inr (INITIAL_STATS\<lparr>totalPatients := 100, patientsYesterday := 10\<rparr>))
                  index_init) ! 0
   = \<lparr>card_title = ''Total de Pacientes'', card_value = ''100'', card_subtitle = None,
      card_trend = Some \<lparr>trend_value = 11, trend_label = ''novos ontem''\<rparr>\<rparr>"
  by (simp add: Index_render_def loadDashboardStats_def index_init_def INITIAL_STATS_def
      card_number_def patientsTrend_def calculateTrend_pos js_simps Let_def)

text \<open>
  The admissions trend is the raw number of admissions of yesterday, and
  StatsCard prints it followed by a percent sign: 3 admissions are shown as 3% novas ontem.
\<close>
theorem dashboard_admissions_count_shown_as_percent:
  assumes "0 < admissionsYesterday st"
  shows "map_option trend_text (admissionsTrend st) = Some (nat_to_string (admissionsYesterday st) @ ''%'')
         \<and> map_option trend_label (admissionsTrend st) = Some ''novas ontem''"
  using assms by (simp add: admissionsTrend_def trend_text_def int_to_string_nat)

theorem dashboard_admissions_count_shown_as_percent_witness:
  "0 < admissionsYesterday (INITIAL_STATS\<lparr>admissionsYesterday := 3\<rparr>)
   \<and> map_option trend_text (admissionsTrend (INITIAL_STATS\<lparr>admissionsYesterday := 3\<rparr>)) = Some ''3%''"
  using dashboard_admissions_count_shown_as_percent [of "INITIAL_STATS\<lparr>admissionsYesterday := 3\<rparr>"]
  by (simp add: INITIAL_STATS_def js_simps)

text \<open>
  C13 (error). The errors of the seven queries are never read: a failed count query gives
  the same statistics as a count of 0, a failed beds query the same as an empty bed list,
  and the occupancy then shows 0%.
\<close>
theorem dashboard_errors_read_as_zero:
  "fetchAllStats \<lparr>result_count = None, result_error = Some e\<rparr> r2 r3 r4 rb r6 r7
     = fetchAllStats \<lparr>result_count = Some 0, result_error = None\<rparr> r2 r3 r4 rb r6 r7
   \<and> fetchAllStats r1 r2 r3 r4 \<lparr>result_data = None, rows_error = Some e\<rparr> r6 r7
     = fetchAllStats r1 r2 r3 r4 \<lparr>result_data = Some [], rows_error = None\<rparr> r6 r7
   \<and> occupancyPercentage (fetchAllStats r1 r2 r3 r4 \<lparr>result_data = None, rows_error = Some e\<rparr> r6 r7) = 0"
  by (simp add: fetchAllStats_def count_or_zero_def data_or_empty_def occupancyPercentage_def
      calculatePercentage_def countOccupiedBeds_def)

text \<open>
  As long as the count of patients created yesterday does not exceed the
  total count, the patients card never shows a falling trend.
\<close>
theorem dashboard_patients_trend_never_down:
  assumes "patientsYesterday st \<le> totalPatients st"
  shows "getTrendIcon (patientsTrend st) \<noteq> Some TrendingDown"
proof -
  have "0 \<le> calculateTrend (int (totalPatients st)) (int (totalPatients st) - int (patientsYesterday st))"
    using assms by (intro calculateTrend_nonneg) simp_all
  then show ?thesis
    by (simp add: getTrendIcon_def patientsTrend_def)
qed

theorem dashboard_patients_trend_never_down_witness:
  "patientsYesterday (INITIAL_STATS\<lparr>totalPatients := 100, patientsYesterday := 10\<rparr>)
     \<le> totalPatients (INITIAL_STATS\<lparr>totalPatients := 100, patientsYesterday := 10\<rparr>)
   \<and> getTrendIcon (patientsTrend (INITIAL_STATS\<lparr>totalPatients := 100, patientsYesterday := 10\<rparr>))
     \<noteq> Some TrendingDown"
  using dashboard_patients_trend_never_down [of "INITIAL_STATS\<lparr>totalPatients := 100, patientsYesterday := 10\<rparr>"]
  by (simp add: INITIAL_STATS_def)

end
