(* ===== verification/Notifications.thy ===== *)
theory Notifications
  imports Dashboard "HOL-Library.List_Lexorder" "HOL-Library.Char_ord"
begin

text \<open>
  The notification feed of the header bar, \<open>src/components/layout/Header.tsx\<close>
  (\<open>fetchNotifications\<close>, \<open>formatNotificationTime\<close> and the bell's badge).  Time is
  milliseconds since the epoch; the browser's local time zone is a fixed offset \<open>tz\<close>
  (milliseconds added to UTC to get the wall clock), so local midnight, the \<open>yyyy-MM-dd\<close>
  date of the query and the \<open>dd/MM\<close> label are computed from \<open>now\<close> and \<open>tz\<close>.  The three
  Supabase queries are modelled twice: their results are inputs of \<open>fetchNotifications\<close>
  (as for the dashboard), and \<open>appointmentsQuery\<close>, \<open>admissionsQuery\<close> and
  \<open>recentPatientsQuery\<close> say which rows the filters, order and limit of each query
  select from a table.
\<close>

section \<open>Calendar arithmetic of date-fns\<close>

definition MS_PER_MINUTE :: int where "MS_PER_MINUTE = 60000"
definition MS_PER_HOUR :: int where "MS_PER_HOUR = 3600000"
definition MS_PER_DAY :: int where "MS_PER_DAY = 86400000"

text \<open>Local midnight of the day of \<open>t\<close>: \<open>new Date(); setHours(0, 0, 0, 0)\<close>.\<close>

definition local_midnight :: "int \<Rightarrow> timestamp \<Rightarrow> timestamp" where
  "local_midnight tz t = t - (t + tz) mod MS_PER_DAY"

text \<open>Proleptic Gregorian year, month and day of a day number counted from 1970-01-01.\<close>

definition civil_from_days :: "int \<Rightarrow> int \<times> int \<times> int" where
  "civil_from_days z =
     (let z' = z + 719468; era = z' div 146097; doe = z' - era * 146097;
          yoe = (doe - doe div 1460 + doe div 36524 - doe div 146096) div 365;
          doy = doe - (365 * yoe + yoe div 4 - yoe div 100);
          mp = (5 * doy + 2) div 153;
          d = doy - (153 * mp + 2) div 5 + 1;
          m = (if mp < 10 then mp + 3 else mp - 9)
      in (yoe + era * 400 + (if m \<le> 2 then 1 else 0), m, d))"

definition pad_start :: "nat \<Rightarrow> string \<Rightarrow> string" where
  "pad_start w s = replicate (w - length s) (CHR ''0'') @ s"

definition local_date :: "int \<Rightarrow> timestamp \<Rightarrow> int \<times> int \<times> int" where
  "local_date tz t = civil_from_days ((t + tz) div MS_PER_DAY)"

text \<open>\<open>format(t, "yyyy-MM-dd")\<close> and \<open>format(t, "dd/MM")\<close> in local time.\<close>

definition format_yyyy_MM_dd :: "int \<Rightarrow> timestamp \<Rightarrow> string" where
  "format_yyyy_MM_dd tz t = (case local_date tz t of (y, m, d) \<Rightarrow>
     pad_start 4 (int_to_string y) @ ''-'' @ pad_start 2 (int_to_string m) @ ''-''
       @ pad_start 2 (int_to_string d))"

definition format_dd_MM :: "int \<Rightarrow> timestamp \<Rightarrow> string" where
  "format_dd_MM tz t = (case local_date tz t of (y, m, d) \<Rightarrow>
     pad_start 2 (int_to_string d) @ ''/'' @ pad_start 2 (int_to_string m))"

text \<open>\<open>differenceInMinutes(a, b)\<close> and \<open>differenceInHours(a, b)\<close> truncate towards zero.\<close>

definition differenceInMinutes :: "timestamp \<Rightarrow> timestamp \<Rightarrow> int" where
  "differenceInMinutes a b = js_trunc_div (a - b) MS_PER_MINUTE"

definition differenceInHours :: "timestamp \<Rightarrow> timestamp \<Rightarrow> int" where
  "differenceInHours a b = js_trunc_div (a - b) MS_PER_HOUR"

section \<open>Rows and notifications\<close>

record appointment_row =
  apt_id :: string
  apt_date :: string
  apt_time :: string
  apt_status :: string
  apt_type :: string
  apt_is_video :: bool
  apt_patient_name :: "string option"

record bed_ref =
  ref_bed_number :: string
  ref_department :: string

record admission_row =
  adm_id :: string
  adm_created_at :: timestamp
  adm_condition :: string
  adm_status :: string
  adm_patient_name :: "string option"
  adm_bed :: "bed_ref option"

record patient_row =
  pat_id :: string
  pat_name :: string
  pat_created_at :: timestamp

datatype notification_type = NotifAppointment | NotifAdmission | NotifPatient

datatype notification_variant = WarningLight | InfoLight | SuccessLight | PrimaryLight

record notification =
  notif_id :: string
  notif_type :: notification_type
  notif_title :: string
  notif_message :: string
  notif_time :: timestamp
  notif_variant :: notification_variant

section \<open>fetchNotifications\<close>

text \<open>
  \<open>const [hours, minutes] = apt.appointment_time.split(":"); aptTime.setHours(parseInt(hours),
  parseInt(minutes), 0, 0)\<close>: a missing field is \<open>undefined\<close>, whose \<open>parseInt\<close> is \<open>NaN\<close>,
  and \<open>setHours\<close> with \<open>NaN\<close> gives an invalid date (\<open>None\<close>).
\<close>

definition appointment_start :: "timestamp \<Rightarrow> string \<Rightarrow> timestamp option" where
  "appointment_start midnight s =
     (case js_split (CHR '':'') s of
        hs # ms # _ \<Rightarrow>
          (case (js_parseInt hs, js_parseInt ms) of
             (Some h, Some m) \<Rightarrow> Some (midnight + h * MS_PER_HOUR + m * MS_PER_MINUTE)
           | _ \<Rightarrow> None)
      | _ \<Rightarrow> None)"

text \<open>
  The body of \<open>appointments?.forEach\<close>: the appointment is notified when the truncated
  minute difference is in \<open>(0, 60]\<close>; an invalid date compares false (\<open>NaN > 0\<close>).
\<close>

definition appointment_notification ::
    "int \<Rightarrow> timestamp \<Rightarrow> appointment_row \<Rightarrow> notification option" where
  "appointment_notification tz now apt =
     (case appointment_start (local_midnight tz now) (apt_time apt) of
        None \<Rightarrow> None
      | Some aptTime \<Rightarrow>
          (let minDiff = differenceInMinutes aptTime now in
           if 0 < minDiff \<and> minDiff \<le> 60 then
             Some \<lparr>notif_id = ''apt-'' @ apt_id apt, notif_type = NotifAppointment,
                   notif_title = (if apt_is_video apt then ''Teleconsulta'' else apt_type apt),
                   notif_message = js_str_opt (apt_patient_name apt) @ '' em ''
                                   @ int_to_string minDiff @ '' minutos'',
                   notif_time = aptTime,
                   notif_variant = (if apt_is_video apt then InfoLight else PrimaryLight)\<rparr>
           else None))"

definition INTERNACAO_URGENTE :: string where
  "INTERNACAO_URGENTE = ''Interna'' @ [CHR 0xC3, CHR 0xA7, CHR 0xC3, CHR 0xA3] @ ''o Urgente''"

definition NOVA_INTERNACAO :: string where
  "NOVA_INTERNACAO = ''Nova Interna'' @ [CHR 0xC3, CHR 0xA7, CHR 0xC3, CHR 0xA3] @ ''o''"

definition admission_notification :: "admission_row \<Rightarrow> notification" where
  "admission_notification adm =
     \<lparr>notif_id = ''adm-'' @ adm_id adm, notif_type = NotifAdmission,
      notif_title = (if adm_condition adm = CONDITION_CRITICO then INTERNACAO_URGENTE
                     else NOVA_INTERNACAO),
      notif_message = js_str_opt (adm_patient_name adm) @ '' - ''
        @ js_str_opt (map_option ref_department (adm_bed adm)) @ '' (Leito ''
        @ js_str_opt (map_option ref_bed_number (adm_bed adm)) @ '')'',
      notif_time = adm_created_at adm,
      notif_variant = (if adm_condition adm = CONDITION_CRITICO then WarningLight
                       else SuccessLight)\<rparr>"

definition patient_notification :: "patient_row \<Rightarrow> notification" where
  "patient_notification p =
     \<lparr>notif_id = ''patient-'' @ pat_id p, notif_type = NotifPatient,
      notif_title = ''Novo Paciente'', notif_message = pat_name p @ '' foi cadastrado'',
      notif_time = pat_created_at p, notif_variant = SuccessLight\<rparr>"

text \<open>
  The merged list in push order, then \<open>notifs.sort((a, b) => b.time - a.time)\<close> and
  \<open>notifs.slice(0, 10)\<close>.
\<close>

definition collectNotifications ::
    "int \<Rightarrow> timestamp \<Rightarrow> appointment_row list \<Rightarrow> admission_row list \<Rightarrow> patient_row list
     \<Rightarrow> notification list" where
  "collectNotifications tz now apts adms pats =
     List.map_filter (appointment_notification tz now) apts
     @ map admission_notification adms @ map patient_notification pats"

definition NOTIFICATION_LIMIT :: nat where "NOTIFICATION_LIMIT = 10"

definition buildNotifications ::
    "int \<Rightarrow> timestamp \<Rightarrow> appointment_row list \<Rightarrow> admission_row list \<Rightarrow> patient_row list
     \<Rightarrow> notification list" where
  "buildNotifications tz now apts adms pats =
     take NOTIFICATION_LIMIT
       (js_sort (\<lambda>a b. notif_time b - notif_time a) (collectNotifications tz now apts adms pats))"

record header_state =
  notifications :: "notification list"
  loadingNotifications :: bool

definition header_init :: header_state where
  "header_init = \<lparr>notifications = [], loadingNotifications = True\<rparr>"

text \<open>
  \<open>fetchNotifications\<close> sets the loading flag, awaits the three queries (a failed query
  has \<open>data = null\<close> and contributes nothing: \<open>?.forEach\<close>), sets the list and clears
  the flag in \<open>finally\<close>.  No statement of the \<open>try\<close> block throws on rows of the
  schema's types, so the \<open>catch\<close> branch is not reachable in the model.
\<close>

definition fetchNotifications_begin :: "header_state \<Rightarrow> header_state" where
  "fetchNotifications_begin s = s\<lparr>loadingNotifications := True\<rparr>"

definition fetchNotifications ::
    "int \<Rightarrow> timestamp \<Rightarrow> appointment_row rows_result \<Rightarrow> admission_row rows_result
     \<Rightarrow> patient_row rows_result \<Rightarrow> header_state \<Rightarrow> header_state" where
  "fetchNotifications tz now ra rb rc s =
     (fetchNotifications_begin s)\<lparr>notifications := buildNotifications tz now (data_or_empty ra)
        (data_or_empty rb) (data_or_empty rc), loadingNotifications := False\<rparr>"

section \<open>The queries\<close>

text \<open>
  \<open>.eq("appointment_date", today).eq("status", "Agendado").order("appointment_time",
  ascending).limit(5)\<close>; \<open>HH:MM:SS\<close> times order as strings.  Rows with equal keys keep
  table order (the database leaves it open).
\<close>

definition appointmentsQuery :: "int \<Rightarrow> timestamp \<Rightarrow> appointment_row list \<Rightarrow> appointment_row list" where
  "appointmentsQuery tz now tbl =
     take 5 (sort_key apt_time
       (filter (\<lambda>a. apt_date a = format_yyyy_MM_dd tz now \<and> apt_status a = ''Agendado'') tbl))"

definition admissionsQuery :: "timestamp \<Rightarrow> admission_row list \<Rightarrow> admission_row list" where
  "admissionsQuery now tbl =
     take 3 (sort_key (\<lambda>a. - adm_created_at a)
       (filter (\<lambda>a. now - MS_PER_DAY \<le> adm_created_at a \<and> adm_status a = ''Ativa'') tbl))"

definition recentPatientsQuery :: "timestamp \<Rightarrow> patient_row list \<Rightarrow> patient_row list" where
  "recentPatientsQuery now tbl =
     take 3 (sort_key (\<lambda>p. - pat_created_at p) (filter (\<lambda>p. now - MS_PER_DAY \<le> pat_created_at p) tbl))"

section \<open>Display\<close>

definition formatNotificationTime :: "int \<Rightarrow> timestamp \<Rightarrow> timestamp \<Rightarrow> string" where
  "formatNotificationTime tz now t =
     (let minDiff = differenceInMinutes now t; hoursDiff = differenceInHours now t in
      if minDiff < 1 then ''Agora''
      else if minDiff < 60 then int_to_string minDiff @ '' min''
      else if hoursDiff < 24 then int_to_string hoursDiff @ ''h''
      else format_dd_MM tz t)"

text \<open>The bell's badge: hidden for an empty list, \<open>9+\<close> above nine.\<close>

definition notification_badge :: "header_state \<Rightarrow> string option" where
  "notification_badge s =
     (if length (notifications s) > 0 then
        Some (if length (notifications s) > 9 then ''9+'' else nat_to_string (length (notifications s)))
      else None)"

section \<open>Sample rows\<close>

text \<open>Rows of the scenarios below: a day (1970-01-01, UTC) of scheduled appointments.\<close>

definition sample_appointment :: "string \<Rightarrow> appointment_row" where
  "sample_appointment t = \<lparr>apt_id = t, apt_date = ''1970-01-01'', apt_time = t,
     apt_status = ''Agendado'', apt_type = ''Consulta'', apt_is_video = False,
     apt_patient_name = Some ''Ana''\<rparr>"

definition sample_day :: "appointment_row list" where
  "sample_day = map sample_appointment
     [''14:30:00'', ''08:00:00'', ''09:00:00'', ''10:00:00'', ''11:00:00'', ''12:00:00'']"

definition sample_patient :: "nat \<Rightarrow> patient_row" where
  "sample_patient k = \<lparr>pat_id = nat_to_string k, pat_name = ''P'', pat_created_at = int k * 1000\<rparr>"

section \<open>Properties of the feed\<close>

lemma minute_window_iff:
  "(0 < js_trunc_div d MS_PER_MINUTE \<and> js_trunc_div d MS_PER_MINUTE \<le> 60)
   \<longleftrightarrow> 60000 \<le> d \<and> d < 3660000"
  by (simp add: MS_PER_MINUTE_def js_trunc_div_pos_iff js_trunc_div_le_iff)

lemma appointment_notification_Some:
  "appointment_notification tz now apt = Some n \<longleftrightarrow>
   (\<exists>t. appointment_start (local_midnight tz now) (apt_time apt) = Some t
        \<and> now + 60000 \<le> t \<and> t < now + 3660000
        \<and> n = \<lparr>notif_id = ''apt-'' @ apt_id apt, notif_type = NotifAppointment,
                notif_title = (if apt_is_video apt then ''Teleconsulta'' else apt_type apt),
                notif_message = js_str_opt (apt_patient_name apt) @ '' em ''
                                @ int_to_string ((t - now) div 60000) @ '' minutos'',
                notif_time = t,
                notif_variant = (if apt_is_video apt then InfoLight else PrimaryLight)\<rparr>)"
proof -
  have w: "(0 < differenceInMinutes t now \<and> differenceInMinutes t now \<le> 60)
           \<longleftrightarrow> now + 60000 \<le> t \<and> t < now + 3660000" for t
    using minute_window_iff [of "t - now"] unfolding differenceInMinutes_def by linarith
  have m: "now + 60000 \<le> t \<Longrightarrow> differenceInMinutes t now = (t - now) div 60000" for t
    by (simp add: differenceInMinutes_def MS_PER_MINUTE_def)
  show ?thesis
    by (auto simp: appointment_notification_def Let_def w m split: option.splits)
qed

lemma appointment_notification_SomeD:
  "appointment_notification tz now apt = Some n \<Longrightarrow>
   notif_type n = NotifAppointment \<and> now + 60000 \<le> notif_time n \<and> notif_time n < now + 3660000"
  by (auto simp: appointment_notification_Some)

text \<open>
  C16 (functional). An appointment row yields a notification exactly when its time parses
  and it starts at least one minute and less than 61 minutes after \<open>now\<close>: the truncated
  minute difference is in \<open>(0, 60]\<close>.
\<close>
theorem appointment_notified_iff:
  "(\<exists>n. appointment_notification tz now apt = Some n) \<longleftrightarrow>
   (\<exists>t. appointment_start (local_midnight tz now) (apt_time apt) = Some t
        \<and> now + 60000 \<le> t \<and> t < now + 3660000)"
  by (auto simp: appointment_notification_Some)

lemma buildNotifications_sort_key:
  "buildNotifications tz now apts adms pats
   = take NOTIFICATION_LIMIT (sort_key (\<lambda>n. - notif_time n) (collectNotifications tz now apts adms pats))"
  by (simp add: buildNotifications_def js_sort_desc_eq)

lemma pad_start_nat_to_string:
  "js_parseInt (pad_start w (nat_to_string n)) = Some (int n)"
proof -
  have "\<forall>c\<in>set (pad_start w (nat_to_string n)). is_digit c"
    using nat_to_string_digits [of n] by (auto simp: pad_start_def is_digit_def)
  moreover have "pad_start w (nat_to_string n) \<noteq> []"
    by (simp add: pad_start_def nat_to_string_not_Nil)
  ultimately show ?thesis
    by (simp add: js_parseInt_digits pad_start_def digits_value_zeros digits_value_nat_to_string)
qed

lemma colon_notin_pad_start: "CHR '':'' \<notin> set (pad_start w (nat_to_string n))"
  using nat_to_string_digits [of n] is_digit_not_special by (auto simp: pad_start_def)

text \<open>
  The start time of an appointment whose \<open>appointment_time\<close> is the
  database's \<open>HH:MM:00\<close> rendering of hour \<open>h\<close> and minute \<open>m\<close> is local midnight plus
  \<open>h\<close> hours and \<open>m\<close> minutes: \<open>split\<close> and \<open>parseInt\<close> read back what was printed.
\<close>

theorem appointment_start_roundtrip:
  "appointment_start midnight (pad_start 2 (nat_to_string h) @ '':'' @ pad_start 2 (nat_to_string m) @ '':00'')
   = Some (midnight + int h * MS_PER_HOUR + int m * MS_PER_MINUTE)"
proof -
  have "js_split (CHR '':'') (pad_start 2 (nat_to_string h) @ '':'' @ pad_start 2 (nat_to_string m) @ '':00'')
        = pad_start 2 (nat_to_string h) # pad_start 2 (nat_to_string m) # js_split (CHR '':'') ''00''"
    using js_split_append colon_notin_pad_start by (simp del: js_split.simps)
  then show ?thesis
    by (simp add: appointment_start_def pad_start_nat_to_string del: js_split.simps)
qed


lemma appointment_in_collect:
  assumes "n \<in> set (collectNotifications tz now apts adms pats)"
      and "notif_type n = NotifAppointment"
  shows "\<exists>apt\<in>set apts. appointment_notification tz now apt = Some n"
  using assms
  by (auto simp: collectNotifications_def in_set_map_filter admission_notification_def
      patient_notification_def)

lemma sorted_buildNotifications:
  "sorted_wrt (\<lambda>a b. notif_time b \<le> notif_time a) (buildNotifications tz now apts adms pats)"
  unfolding buildNotifications_sort_key by (rule sorted_wrt_take) (rule sorted_desc_sort_key)

text \<open>
  C19 (functional). The feed is sorted most recent first, holds the first
  \<open>min 10 n\<close> of the \<open>n\<close> collected notifications, and only notifications that were
  collected.
\<close>
theorem notification_feed_sorted_bounded:
  "sorted_wrt (\<lambda>a b. notif_time b \<le> notif_time a) (buildNotifications tz now apts adms pats)
   \<and> length (buildNotifications tz now apts adms pats)
       = min 10 (length (collectNotifications tz now apts adms pats))
   \<and> mset (buildNotifications tz now apts adms pats) \<subseteq># mset (collectNotifications tz now apts adms pats)"
proof (intro conjI)
  show "sorted_wrt (\<lambda>a b. notif_time b \<le> notif_time a) (buildNotifications tz now apts adms pats)"
    by (rule sorted_buildNotifications)
  show "length (buildNotifications tz now apts adms pats)
       = min 10 (length (collectNotifications tz now apts adms pats))"
    by (simp add: buildNotifications_sort_key NOTIFICATION_LIMIT_def)
  show "mset (buildNotifications tz now apts adms pats) \<subseteq># mset (collectNotifications tz now apts adms pats)"
    using mset_take_subseteq by (metis buildNotifications_sort_key mset_sort)
qed

text \<open>
  The cut at 10 drops only the oldest: a collected notification missing from
  the feed is not more recent than any notification in it.
\<close>
theorem notification_feed_keeps_newest:
  assumes "x \<in> set (collectNotifications tz now apts adms pats)"
      and "x \<notin> set (buildNotifications tz now apts adms pats)"
      and "y \<in> set (buildNotifications tz now apts adms pats)"
  shows "notif_time x \<le> notif_time y"
proof -
  let ?L = "sort_key (\<lambda>n. - notif_time n) (collectNotifications tz now apts adms pats)"
  have "x \<in> set ?L" using assms(1) by simp
  then have "x \<in> set (drop NOTIFICATION_LIMIT ?L)"
    using assms(2) by (simp add: buildNotifications_sort_key notin_take_in_drop)
  moreover have "y \<in> set (take NOTIFICATION_LIMIT ?L)"
    using assms(3) by (simp add: buildNotifications_sort_key)
  ultimately show ?thesis
    using sorted_wrt_take_drop [OF sorted_desc_sort_key [of notif_time], where x=y and y=x]
    by simp
qed

text \<open>
  An appointment notification in the feed, shown up to a minute after the
  fetch, is labelled \<open>Agora\<close> ("now"): \<open>formatNotificationTime\<close> measures the time since
  the event, which is negative for an upcoming appointment.
\<close>
theorem upcoming_appointment_labelled_now:
  assumes "n \<in> set (buildNotifications tz now apts adms pats)"
      and "notif_type n = NotifAppointment"
      and "now' \<le> now + 60000"
  shows "formatNotificationTime tz now' (notif_time n) = ''Agora''"
proof -
  have "n \<in> set (collectNotifications tz now apts adms pats)"
    using assms(1) unfolding buildNotifications_sort_key by (metis in_set_takeD set_sort)
  then obtain apt where "appointment_notification tz now apt = Some n"
    using appointment_in_collect assms(2) by blast
  then have "now' - notif_time n < MS_PER_MINUTE"
    using appointment_notification_SomeD assms(3) by (fastforce simp: MS_PER_MINUTE_def)
  then have "\<not> 0 < differenceInMinutes now' (notif_time n)"
    by (simp add: differenceInMinutes_def js_trunc_div_pos_iff MS_PER_MINUTE_def)
  then show ?thesis
    by (simp add: formatNotificationTime_def Let_def)
qed

text \<open>
  After a fetch the loading flag is off and the badge shows the number
  of collected notifications, hidden when there is none and \<open>9+\<close> from ten on, since the
  feed is cut at 10.
\<close>
theorem notification_badge_after_fetch:
  "notification_badge (fetchNotifications tz now ra rb rc s)
     = (let k = length (collectNotifications tz now (data_or_empty ra) (data_or_empty rb) (data_or_empty rc))
        in if k = 0 then None else if 10 \<le> k then Some ''9+'' else Some (nat_to_string k))
   \<and> \<not> loadingNotifications (fetchNotifications tz now ra rb rc s)"
  by (simp add: notification_badge_def fetchNotifications_def fetchNotifications_begin_def
      buildNotifications_sort_key NOTIFICATION_LIMIT_def Let_def)

text \<open>
  The boundary cases of spec section 8, at 14:00 (13:59:30 for the last):
  an appointment exactly 60 minutes ahead is notified with "em 60 minutos", one 61 minutes
  ahead is not, one in the past is not, and one 30 seconds ahead is not (minute difference 0).
\<close>

theorem appointment_window_spec_cases:
  "appointment_notification 0 50400000 (sample_appointment ''15:00:00'')
     = Some \<lparr>notif_id = ''apt-15:00:00'', notif_type = NotifAppointment, notif_title = ''Consulta'',
             notif_message = ''Ana em 60 minutos'', notif_time = 54000000,
             notif_variant = PrimaryLight\<rparr>
   \<and> appointment_notification 0 50400000 (sample_appointment ''15:01:00'') = None
   \<and> appointment_notification 0 50400000 (sample_appointment ''13:00:00'') = None
   \<and> appointment_notification 0 50370000 (sample_appointment ''14:00:00'') = None"
  by code_simp

text \<open>
  C18 (functional; a defect of the code). The appointment query keeps the first five of the
  day's scheduled appointments in time order before the 60-minute window is applied on the
  client.  On a day with five earlier appointments, an appointment due in 30 minutes is in
  the table and would be notified, but the fetched feed has no appointment notification.
\<close>

theorem query_limit_hides_upcoming_appointment:
  "sample_appointment ''14:30:00'' \<in> set sample_day
   \<and> apt_date (sample_appointment ''14:30:00'') = format_yyyy_MM_dd 0 50400000
   \<and> appointment_notification 0 50400000 (sample_appointment ''14:30:00'') \<noteq> None
   \<and> filter (\<lambda>n. notif_type n = NotifAppointment)
       (notifications (fetchNotifications 0 50400000
          \<lparr>result_data = Some (appointmentsQuery 0 50400000 sample_day), rows_error = None\<rparr>
          \<lparr>result_data = Some [], rows_error = None\<rparr> \<lparr>result_data = Some [], rows_error = None\<rparr>
          header_init)) = []"
  by code_simp

theorem notification_feed_keeps_newest_witness:
  "patient_notification (sample_patient 0)
     \<in> set (collectNotifications 0 0 [] [] (map sample_patient [0..<11]))
   \<and> patient_notification (sample_patient 0)
     \<notin> set (buildNotifications 0 0 [] [] (map sample_patient [0..<11]))
   \<and> patient_notification (sample_patient 1)
     \<in> set (buildNotifications 0 0 [] [] (map sample_patient [0..<11]))
   \<and> notif_time (patient_notification (sample_patient 0))
     \<le> notif_time (patient_notification (sample_patient 1))"
proof -
  have h1: "patient_notification (sample_patient 0)
     \<in> set (collectNotifications 0 0 [] [] (map sample_patient [0..<11]))"
    by code_simp
  have h2: "patient_notification (sample_patient 0)
     \<notin> set (buildNotifications 0 0 [] [] (map sample_patient [0..<11]))"
    by code_simp
  have h3: "patient_notification (sample_patient 1)
     \<in> set (buildNotifications 0 0 [] [] (map sample_patient [0..<11]))"
    by code_simp
  show ?thesis
    using notification_feed_keeps_newest [OF h1 h2 h3] h1 h2 h3 by blast
qed

theorem upcoming_appointment_labelled_now_witness:
  "\<lparr>notif_id = ''apt-14:30:00'', notif_type = NotifAppointment, notif_title = ''Consulta'',
      notif_message = ''Ana em 30 minutos'', notif_time = 52200000, notif_variant = PrimaryLight\<rparr>
     \<in> set (buildNotifications 0 50400000 [sample_appointment ''14:30:00''] [] [])
   \<and> formatNotificationTime 0 50400000 52200000 = ''Agora''"
proof -
  have h: "\<lparr>notif_id = ''apt-14:30:00'', notif_type = NotifAppointment, notif_title = ''Consulta'',
      notif_message = ''Ana em 30 minutos'', notif_time = 52200000, notif_variant = PrimaryLight\<rparr>
     \<in> set (buildNotifications 0 50400000 [sample_appointment ''14:30:00''] [] [])"
    by code_simp
  have "formatNotificationTime 0 50400000 (notif_time \<lparr>notif_id = ''apt-14:30:00'',
      notif_type = NotifAppointment, notif_title = ''Consulta'',
      notif_message = ''Ana em 30 minutos'', notif_time = 52200000, notif_variant = PrimaryLight\<rparr>)
      = ''Agora''"
    using upcoming_appointment_labelled_now [OF h] by simp
  with h show ?thesis by simp
qed

end
