(* ===== verification/Search.thy ===== *)
theory Search
  imports Dashboard "HOL-Library.Sublist"
begin

text \<open>
  The search box of the header bar, \<open>src/components/layout/Header.tsx\<close>: the state
  \<open>searchOpen\<close>, \<open>searchQuery\<close>, \<open>searchResults\<close>, \<open>searching\<close>; the handlers the markup
  wires (\<open>onChange\<close>, \<open>onFocus\<close>, the clear button, the popover's \<open>onOpenChange\<close>,
  \<open>handleResultClick\<close>) as a step function on UI events; \<open>performSearch\<close> with its three
  queries; and the popover's three render branches.  \<open>ILIKE\<close> is PostgreSQL's pattern
  match (\<open>%\<close> any sequence, \<open>_\<close> any one character) after lower-casing; the model
  lower-cases the ASCII letters and the capitals of Latin-1 (the accented letters of
  Portuguese, two bytes in UTF-8), and does not model the backslash escape.
\<close>

section \<open>ILIKE\<close>

fun like_match :: "string \<Rightarrow> string \<Rightarrow> bool" where
  "like_match [] s = (s = [])"
| "like_match (c # p) [] = (c = CHR ''%'' \<and> like_match p [])"
| "like_match (c # p) (x # s) =
     (if c = CHR ''%'' then like_match p (x # s) \<or> like_match (c # p) s
      else (c = CHR ''_'' \<or> x = c) \<and> like_match p s)"

text \<open>
  \<open>lower()\<close> of a UTF-8 database on the byte string: ASCII capitals, and the Latin-1
  capitals \<open>C3 80\<close> to \<open>C3 9E\<close> but the multiplication sign \<open>C3 97\<close>, whose lower case
  is 32 further.
\<close>

fun pg_lower :: "string \<Rightarrow> string" where
  "pg_lower [] = []"
| "pg_lower [c] = [ascii_lower c]"
| "pg_lower (c # d # r) =
     (if c = CHR 0xC3 \<and> 128 \<le> (of_char d :: nat) \<and> (of_char d :: nat) \<le> 158 \<and> (of_char d :: nat) \<noteq> 151
      then c # char_of (of_char d + (32 :: nat)) # pg_lower r else ascii_lower c # pg_lower (d # r))"

definition ilike :: "string \<Rightarrow> string \<Rightarrow> bool" where
  "ilike s p = like_match (pg_lower p) (pg_lower s)"

text \<open>The pattern \<open>%${query}%\<close> interpolated into the filters.\<close>

definition contains_pattern :: "string \<Rightarrow> string" where
  "contains_pattern q = CHR ''%'' # q @ [CHR ''%'']"

section \<open>Rows, results and state\<close>

record search_patient_row =
  sp_id :: string
  sp_name :: string
  sp_cpf :: string

record professional_row =
  prof_id :: string
  prof_name :: string
  prof_specialty :: string

record record_row =
  rec_id :: string
  rec_number :: string
  rec_patient_name :: "string option"

datatype search_result_type = SRPatient | SRProfessional | SRMedicalRecord

record search_result =
  sr_id :: string
  sr_name :: string
  sr_type :: search_result_type
  sr_subtitle :: "string option"

record search_state =
  searchOpen :: bool
  searchQuery :: string
  searchResults :: "search_result list"
  searching :: bool

definition search_init :: search_state where
  "search_init = \<lparr>searchOpen = False, searchQuery = [], searchResults = [], searching = False\<rparr>"

section \<open>performSearch\<close>

text \<open>
  The three lookups: \<open>.or("name.ilike.%q%,cpf.ilike.%q%").limit(5)\<close>,
  \<open>.or("name.ilike.%q%,specialty.ilike.%q%").limit(5)\<close> and
  \<open>.ilike("record_number", "%q%").limit(5)\<close>; no order is requested, so rows come in
  table order.
\<close>

definition patientsSearchQuery :: "string \<Rightarrow> search_patient_row list \<Rightarrow> search_patient_row list" where
  "patientsSearchQuery q tbl =
     take 5 (filter (\<lambda>p. ilike (sp_name p) (contains_pattern q) \<or> ilike (sp_cpf p) (contains_pattern q)) tbl)"

definition professionalsSearchQuery :: "string \<Rightarrow> professional_row list \<Rightarrow> professional_row list" where
  "professionalsSearchQuery q tbl =
     take 5 (filter (\<lambda>p. ilike (prof_name p) (contains_pattern q)
                         \<or> ilike (prof_specialty p) (contains_pattern q)) tbl)"

definition recordsSearchQuery :: "string \<Rightarrow> record_row list \<Rightarrow> record_row list" where
  "recordsSearchQuery q tbl = take 5 (filter (\<lambda>r. ilike (rec_number r) (contains_pattern q)) tbl)"

datatype search_lookup = PatientsLookup string | ProfessionalsLookup string | RecordsLookup string

text \<open>The lookups \<open>performSearch q\<close> sends: the three, whatever \<open>q\<close> is.\<close>

definition performSearch_lookups :: "string \<Rightarrow> search_lookup list" where
  "performSearch_lookups q = [PatientsLookup q, ProfessionalsLookup q, RecordsLookup q]"

definition patient_result :: "search_patient_row \<Rightarrow> search_result" where
  "patient_result p = \<lparr>sr_id = sp_id p, sr_name = sp_name p, sr_type = SRPatient,
                       sr_subtitle = Some (sp_cpf p)\<rparr>"

definition professional_result :: "professional_row \<Rightarrow> search_result" where
  "professional_result p = \<lparr>sr_id = prof_id p, sr_name = prof_name p, sr_type = SRProfessional,
                            sr_subtitle = Some (prof_specialty p)\<rparr>"

definition record_result :: "record_row \<Rightarrow> search_result" where
  "record_result r = \<lparr>sr_id = rec_id r, sr_name = rec_number r, sr_type = SRMedicalRecord,
                      sr_subtitle = rec_patient_name r\<rparr>"

definition performSearch_begin :: "search_state \<Rightarrow> search_state" where
  "performSearch_begin s = s\<lparr>searching := True\<rparr>"

text \<open>
  The state after \<open>performSearch\<close> with the three responses: a failed lookup has
  \<open>data = null\<close> and contributes nothing (\<open>?.forEach\<close>).
\<close>

definition performSearch ::
    "search_patient_row rows_result \<Rightarrow> professional_row rows_result \<Rightarrow> record_row rows_result
     \<Rightarrow> search_state \<Rightarrow> search_state" where
  "performSearch pr fr rr s =
     (performSearch_begin s)\<lparr>searchResults := map patient_result (data_or_empty pr)
        @ map professional_result (data_or_empty fr) @ map record_result (data_or_empty rr),
      searching := False\<rparr>"

section \<open>The search box\<close>

datatype route = RoutePacientes | RouteProfissionais | RouteProntuarios

definition result_route :: "search_result \<Rightarrow> route" where
  "result_route r = (case sr_type r of SRPatient \<Rightarrow> RoutePacientes
     | SRProfessional \<Rightarrow> RouteProfissionais | SRMedicalRecord \<Rightarrow> RouteProntuarios)"

definition PRONTUARIO :: string where
  "PRONTUARIO = ''Prontu'' @ [CHR 0xC3, CHR 0xA1] @ ''rio''"

definition getTypeLabel :: "search_result_type \<Rightarrow> string" where
  "getTypeLabel t = (case t of SRPatient \<Rightarrow> ''Paciente'' | SRProfessional \<Rightarrow> ''Profissional''
     | SRMedicalRecord \<Rightarrow> PRONTUARIO)"

definition getTypeVariant :: "search_result_type \<Rightarrow> string" where
  "getTypeVariant t = (case t of SRPatient \<Rightarrow> ''primary-light'' | SRProfessional \<Rightarrow> ''info-light''
     | SRMedicalRecord \<Rightarrow> ''success-light'')"

text \<open>
  The events the markup wires.  The clear button is rendered only when the query is not
  empty, and a result can be clicked only when it is listed; an event on an element that
  is not rendered changes nothing.  A step returns the new state and the route navigated to.
\<close>

datatype search_event =
    QueryChanged string
  | InputFocused
  | ClearClicked
  | PopoverOpenChange bool
  | ResultClicked search_result

datatype search_view = SearchSpinner | NoResults | ResultList "search_result list"

definition search_view :: "search_state \<Rightarrow> search_view" where
  "search_view s = (if searching s then SearchSpinner
     else if searchResults s = [] then NoResults else ResultList (searchResults s))"

fun search_step :: "search_event \<Rightarrow> search_state \<Rightarrow> search_state \<times> route option" where
  "search_step (QueryChanged v) s =
     (s\<lparr>searchQuery := v, searchOpen := (if 1 \<le> length v then True else searchOpen s)\<rparr>, None)"
| "search_step InputFocused s =
     (s\<lparr>searchOpen := (if 1 \<le> length (searchQuery s) then True else searchOpen s)\<rparr>, None)"
| "search_step ClearClicked s =
     (if searchQuery s \<noteq> [] then (s\<lparr>searchQuery := [], searchResults := []\<rparr>, None) else (s, None))"
| "search_step (PopoverOpenChange b) s = (s\<lparr>searchOpen := b\<rparr>, None)"
| "search_step (ResultClicked r) s =
     (if searchOpen s \<and> search_view s = ResultList (searchResults s) \<and> r \<in> set (searchResults s)
      then (s\<lparr>searchOpen := False, searchQuery := []\<rparr>, Some (result_route r))
      else (s, None))"

inductive search_reachable :: "search_state \<Rightarrow> bool" where
  init: "search_reachable search_init"
| step: "search_reachable s \<Longrightarrow> search_reachable (fst (search_step e s))"

code_pred search_reachable .

section \<open>Invariants and side conditions\<close>

text \<open>A query with no \<open>%\<close> or \<open>_\<close> is matched literally by ILIKE.\<close>

definition literal_pattern :: "string \<Rightarrow> bool" where
  "literal_pattern q \<longleftrightarrow> CHR ''%'' \<notin> set q \<and> CHR ''_'' \<notin> set q"

text \<open>What every reachable state of the search box satisfies: no results, not searching.\<close>

definition search_inv :: "search_state \<Rightarrow> bool" where
  "search_inv s \<longleftrightarrow> searchResults s = [] \<and> \<not> searching s"

section \<open>Properties\<close>

lemma ex_drop_Cons:
  "(\<exists>k\<le>Suc (length s). P (drop k (x # s))) \<longleftrightarrow> P (x # s) \<or> (\<exists>k\<le>length s. P (drop k s))"
proof
  assume "\<exists>k\<le>Suc (length s). P (drop k (x # s))"
  then obtain k where k: "k \<le> Suc (length s)" "P (drop k (x # s))" by blast
  then show "P (x # s) \<or> (\<exists>k\<le>length s. P (drop k s))"
    by (cases k) auto
next
  assume "P (x # s) \<or> (\<exists>k\<le>length s. P (drop k s))"
  then show "\<exists>k\<le>Suc (length s). P (drop k (x # s))"
    by (metis Suc_le_mono drop0 drop_Suc_Cons le0)
qed

lemma ex_drop_sublist: "(\<exists>k\<le>length s. prefix q (drop k s)) \<longleftrightarrow> sublist q s"
proof (induction s)
  case Nil
  then show ?case by simp
next
  case (Cons x s)
  then show ?case by (simp add: ex_drop_Cons sublist_Cons_right)
qed

lemma like_match_percent:
  "like_match (CHR ''%'' # p) s \<longleftrightarrow> (\<exists>k\<le>length s. like_match p (drop k s))"
  by (induction s) (simp_all add: ex_drop_Cons)

lemma like_match_literal_prefix:
  "literal_pattern q \<Longrightarrow> like_match (q @ [CHR ''%'']) s \<longleftrightarrow> prefix q s"
proof (induction q arbitrary: s)
  case Nil
  then show ?case by (simp add: like_match_percent) (metis drop_all order_refl)
next
  case (Cons c q)
  then have "literal_pattern q" "c \<noteq> CHR ''%''" "c \<noteq> CHR ''_''"
    by (auto simp: literal_pattern_def)
  with Cons.IH show ?case
    by (cases s) auto
qed

lemma like_match_contains:
  "literal_pattern q \<Longrightarrow> like_match (contains_pattern q) s \<longleftrightarrow> sublist q s"
  by (simp add: contains_pattern_def like_match_percent like_match_literal_prefix ex_drop_sublist)

lemma ascii_lower_percent: "ascii_lower c = CHR ''%'' \<longleftrightarrow> c = CHR ''%''"
  using ascii_lower_nonletter [of "CHR ''%''" c] by simp

lemma ascii_lower_percent_id: "ascii_lower (CHR ''%'') = CHR ''%''"
  by (simp add: ascii_lower_percent)

lemma like_match_percent_any: "like_match [CHR ''%''] s"
  using like_match_percent [of "[]" s] by (metis drop_all like_match.simps(1) order_refl)

lemma ilike_empty_query: "ilike s (contains_pattern [])"
  using like_match_percent [of "[CHR ''%'']" "pg_lower s"] like_match_percent_any
  by (auto simp: ilike_def contains_pattern_def ascii_lower_percent_id)

lemma search_step_inv: "search_inv s \<Longrightarrow> search_inv (fst (search_step e s))"
  by (cases e) (auto simp: search_inv_def search_view_def)

lemma search_step_no_route: "search_inv s \<Longrightarrow> snd (search_step e s) = None"
  by (cases e) (auto simp: search_inv_def search_view_def)

lemma search_reachable_inv: "search_reachable s \<Longrightarrow> search_inv s"
proof (induction rule: search_reachable.induct)
  case init
  show ?case by (simp add: search_inv_def search_init_def)
next
  case (step s e)
  then show ?case by (blast intro: search_step_inv)
qed

text \<open>
  C24 (invariant). \<open>performSearch\<close> is never called by the component: in every state
  the search box reaches through the events the markup wires, the popover shows
  "Nenhum resultado encontrado." (no results and no spinner).
\<close>

theorem search_box_never_shows_results:
  "search_reachable s \<Longrightarrow> search_view s = NoResults"
  by (drule search_reachable_inv) (simp add: search_inv_def search_view_def)

theorem search_box_never_shows_results_witness:
  "search_reachable (fst (search_step (QueryChanged ''Ana'') search_init))
   \<and> searchOpen (fst (search_step (QueryChanged ''Ana'') search_init))
   \<and> search_view (fst (search_step (QueryChanged ''Ana'') search_init)) = NoResults"
proof -
  have r: "search_reachable (fst (search_step (QueryChanged ''Ana'') search_init))"
    by (rule search_reachable.step [OF search_reachable.init])
  then show ?thesis
    using search_box_never_shows_results [OF r] by simp
qed

text \<open>
  Consequently no event of a reachable state navigates: the result buttons
  of \<open>handleResultClick\<close> are never rendered.
\<close>

theorem search_result_click_never_navigates:
  "search_reachable s \<Longrightarrow> snd (search_step e s) = None"
  by (drule search_reachable_inv) (rule search_step_no_route)

text \<open>
  \<open>performSearch\<close> has no guard for the empty query: it issues the
  three lookups, and each returns the first five rows of its table unfiltered.
\<close>

theorem search_empty_query_unfiltered:
  "performSearch_lookups [] = [PatientsLookup [], ProfessionalsLookup [], RecordsLookup []]
   \<and> patientsSearchQuery [] t1 = take 5 t1
   \<and> professionalsSearchQuery [] t2 = take 5 t2
   \<and> recordsSearchQuery [] t3 = take 5 t3"
  by (simp add: performSearch_lookups_def patientsSearchQuery_def professionalsSearchQuery_def
      recordsSearchQuery_def ilike_empty_query)

text \<open>
  The results of \<open>performSearch\<close> are the patients, then the
  professionals, then the records, at most five of each, with no re-ranking.
\<close>

theorem performSearch_grouped:
  "map sr_type (searchResults (performSearch \<lparr>result_data = Some (patientsSearchQuery q t1), rows_error = e1\<rparr>
      \<lparr>result_data = Some (professionalsSearchQuery q t2), rows_error = e2\<rparr>
      \<lparr>result_data = Some (recordsSearchQuery q t3), rows_error = e3\<rparr> s))
     = replicate (length (patientsSearchQuery q t1)) SRPatient
       @ replicate (length (professionalsSearchQuery q t2)) SRProfessional
       @ replicate (length (recordsSearchQuery q t3)) SRMedicalRecord
   \<and> length (searchResults (performSearch \<lparr>result_data = Some (patientsSearchQuery q t1), rows_error = e1\<rparr>
      \<lparr>result_data = Some (professionalsSearchQuery q t2), rows_error = e2\<rparr>
      \<lparr>result_data = Some (recordsSearchQuery q t3), rows_error = e3\<rparr> s)) \<le> 15"
  by (simp add: performSearch_def performSearch_begin_def data_or_empty_def patient_result_def
      professional_result_def record_result_def map_replicate_const patientsSearchQuery_def
      professionalsSearchQuery_def recordsSearchQuery_def comp_def)

text \<open>
  The query text is interpolated into the pattern unescaped: the query
  \<open>_\<close> matches a patient whose name and CPF do not contain it.
\<close>

theorem search_wildcard_query:
  "patientsSearchQuery ''_'' [\<lparr>sp_id = ''1'', sp_name = ''Ana'', sp_cpf = ''123''\<rparr>]
     = [\<lparr>sp_id = ''1'', sp_name = ''Ana'', sp_cpf = ''123''\<rparr>]
   \<and> \<not> sublist ''_'' ''Ana'' \<and> \<not> sublist ''_'' ''123''"
  by code_simp

theorem search_result_click_never_navigates_witness:
  "search_reachable (fst (search_step (QueryChanged ''Ana'') search_init))
   \<and> snd (search_step (ResultClicked \<lparr>sr_id = ''1'', sr_name = ''Ana'', sr_type = SRPatient,
         sr_subtitle = None\<rparr>) (fst (search_step (QueryChanged ''Ana'') search_init))) = None"
proof -
  have r: "search_reachable (fst (search_step (QueryChanged ''Ana'') search_init))"
    by (rule search_reachable.step [OF search_reachable.init])
  moreover have "snd (search_step (ResultClicked \<lparr>sr_id = ''1'', sr_name = ''Ana'', sr_type = SRPatient,
         sr_subtitle = None\<rparr>) (fst (search_step (QueryChanged ''Ana'') search_init))) = None"
    by (rule search_result_click_never_navigates [OF r])
  ultimately show ?thesis ..
qed

end
