(* ===== verification/Toast.thy ===== *)
theory Toast
  imports Prelude
begin

text \<open>
  The toast store of \<open>src/hooks/use-toast.ts\<close>.  The module keeps four pieces of global
  state: \<open>idCounter\<close>, \<open>memoryState\<close> (the toasts), \<open>toastTimeouts\<close> (the ids with a
  pending removal timer, a \<open>Map\<close> whose keys are kept in insertion order) and
  \<open>listeners\<close> (the mounted \<open>useToast\<close> hooks, each with its React state).  They are the
  record \<open>toast_store\<close>.  The reducer and its four handlers, \<open>dispatch\<close>, \<open>generateId\<close>,
  \<open>scheduleToastRemoval\<close> and \<open>toast\<close> are functions on it; a timer firing after
  \<open>TOAST_REMOVE_DELAY\<close> is the event \<open>timer_fires\<close>.  The store's runs are the
  inductive \<open>toast_reachable\<close>: the calls the application can make (\<open>toast\<close>, a
  dismissal through \<open>onOpenChange(false)\<close> or \<open>dismiss\<close>, hooks mounting and unmounting)
  and timers firing, in any order.
\<close>

section \<open>State and actions\<close>

definition TOAST_LIMIT :: nat where "TOAST_LIMIT = 1"

definition TOAST_REMOVE_DELAY :: nat where "TOAST_REMOVE_DELAY = 1000000"

definition MAX_SAFE_INTEGER :: nat where "MAX_SAFE_INTEGER = 9007199254740991"

text \<open>A toast's data fields; \<open>action\<close> and \<open>onOpenChange\<close> are closures, modelled by the events.\<close>

record toaster_toast =
  toast_id :: string
  toast_title :: "string option"
  toast_description :: "string option"
  toast_variant :: "string option"
  toast_open :: bool

text \<open>A \<open>Partial<ToasterToast>\<close>: \<open>None\<close> is an absent key.\<close>

record toast_patch =
  patch_id :: string
  patch_title :: "string option option"
  patch_description :: "string option option"
  patch_variant :: "string option option"
  patch_open :: "bool option"

datatype toast_action =
    ADD_TOAST toaster_toast
  | UPDATE_TOAST toast_patch
  | DISMISS_TOAST "string option"
  | REMOVE_TOAST "string option"

record toast_store =
  idCounter :: nat
  memoryState :: "toaster_toast list"
  toastTimeouts :: "string list"
  listeners :: "nat list"
  listener_state :: "nat \<Rightarrow> toaster_toast list"

definition toast_store_init :: toast_store where
  "toast_store_init = \<lparr>idCounter = 0, memoryState = [], toastTimeouts = [], listeners = [],
     listener_state = (\<lambda>_. [])\<rparr>"

section \<open>The reducer\<close>

definition generateId :: "toast_store \<Rightarrow> toast_store \<times> string" where
  "generateId s =
     (let c = (idCounter s + 1) mod MAX_SAFE_INTEGER in (s\<lparr>idCounter := c\<rparr>, nat_to_string c))"

text \<open>\<open>scheduleToastRemoval\<close>: nothing if a timer is pending for the id, else a new one.\<close>

definition scheduleToastRemoval :: "string \<Rightarrow> string list \<Rightarrow> string list" where
  "scheduleToastRemoval i tm = (if i \<in> set tm then tm else tm @ [i])"

definition handleAddToast :: "toaster_toast list \<Rightarrow> toaster_toast \<Rightarrow> toaster_toast list" where
  "handleAddToast ts t = take TOAST_LIMIT (t # ts)"

definition merge_patch :: "toaster_toast \<Rightarrow> toast_patch \<Rightarrow> toaster_toast" where
  "merge_patch t p = t\<lparr>toast_id := patch_id p,
     toast_title := (case patch_title p of None \<Rightarrow> toast_title t | Some v \<Rightarrow> v),
     toast_description := (case patch_description p of None \<Rightarrow> toast_description t | Some v \<Rightarrow> v),
     toast_variant := (case patch_variant p of None \<Rightarrow> toast_variant t | Some v \<Rightarrow> v),
     toast_open := (case patch_open p of None \<Rightarrow> toast_open t | Some v \<Rightarrow> v)\<rparr>"

definition handleUpdateToast :: "toaster_toast list \<Rightarrow> toast_patch \<Rightarrow> toaster_toast list" where
  "handleUpdateToast ts p = map (\<lambda>t. if toast_id t = patch_id p then merge_patch t p else t) ts"

text \<open>
  \<open>handleDismissToast\<close>: \<open>if (toastId)\<close> is false for a missing and for an empty id, and
  then every toast gets a timer; the toasts closed are those whose id is the given one, or
  all when it is missing.
\<close>

definition handleDismissToast ::
    "toaster_toast list \<Rightarrow> string list \<Rightarrow> string option \<Rightarrow> toaster_toast list \<times> string list" where
  "handleDismissToast ts tm toastId =
     (let tm' = (case toastId of
                   Some i \<Rightarrow> if i \<noteq> [] then scheduleToastRemoval i tm
                             else foldl (\<lambda>m t. scheduleToastRemoval (toast_id t) m) tm ts
                 | None \<Rightarrow> foldl (\<lambda>m t. scheduleToastRemoval (toast_id t) m) tm ts)
      in (map (\<lambda>t. if toastId = Some (toast_id t) \<or> toastId = None then t\<lparr>toast_open := False\<rparr> else t) ts,
          tm'))"

definition handleRemoveToast :: "toaster_toast list \<Rightarrow> string option \<Rightarrow> toaster_toast list" where
  "handleRemoveToast ts toastId =
     (case toastId of None \<Rightarrow> [] | Some i \<Rightarrow> filter (\<lambda>t. toast_id t \<noteq> i) ts)"

fun reducer :: "toast_action \<Rightarrow> toaster_toast list \<times> string list \<Rightarrow> toaster_toast list \<times> string list" where
  "reducer (ADD_TOAST t) (ts, tm) = (handleAddToast ts t, tm)"
| "reducer (UPDATE_TOAST p) (ts, tm) = (handleUpdateToast ts p, tm)"
| "reducer (DISMISS_TOAST i) (ts, tm) = handleDismissToast ts tm i"
| "reducer (REMOVE_TOAST i) (ts, tm) = (handleRemoveToast ts i, tm)"

text \<open>\<open>dispatch\<close>: the new state is stored and every listener's \<open>setState\<close> receives it.\<close>

definition dispatch :: "toast_action \<Rightarrow> toast_store \<Rightarrow> toast_store" where
  "dispatch a s =
     (case reducer a (memoryState s, toastTimeouts s) of (ts, tm) \<Rightarrow>
        s\<lparr>memoryState := ts, toastTimeouts := tm,
          listener_state := (\<lambda>l. if l \<in> set (listeners s) then ts else listener_state s l)\<rparr>)"

text \<open>\<open>toast(props)\<close>: a fresh id, then \<open>ADD_TOAST\<close> of the toast opened; the handle is the id.\<close>

definition toast :: "toaster_toast \<Rightarrow> toast_store \<Rightarrow> toast_store \<times> string" where
  "toast props s =
     (case generateId s of (s1, i) \<Rightarrow>
        (dispatch (ADD_TOAST (props\<lparr>toast_id := i, toast_open := True\<rparr>)) s1, i))"

text \<open>The callback of the removal timer of \<open>i\<close>: \<open>toastTimeouts.delete(i)\<close>, then \<open>REMOVE_TOAST\<close>.\<close>

definition timer_fires :: "string \<Rightarrow> toast_store \<Rightarrow> toast_store" where
  "timer_fires i s =
     (if i \<in> set (toastTimeouts s)
      then dispatch (REMOVE_TOAST (Some i)) (s\<lparr>toastTimeouts := removeAll i (toastTimeouts s)\<rparr>)
      else s)"

text \<open>
  \<open>useToast\<close> mounting: \<open>useState(memoryState)\<close> and \<open>listeners.push(setState)\<close>;
  unmounting: the effect's cleanup splices it out.
\<close>

definition useToast_mount :: "nat \<Rightarrow> toast_store \<Rightarrow> toast_store" where
  "useToast_mount l s = s\<lparr>listeners := listeners s @ [l],
     listener_state := (listener_state s)(l := memoryState s)\<rparr>"

definition useToast_unmount :: "nat \<Rightarrow> toast_store \<Rightarrow> toast_store" where
  "useToast_unmount l s = s\<lparr>listeners := remove1 l (listeners s)\<rparr>"

section \<open>Runs of the store\<close>

text \<open>
  The steps the application causes: a \<open>toast\<close> call, a dismissal (of one toast or of all,
  by \<open>onOpenChange(false)\<close> from the toaster or by \<open>useToast().dismiss\<close>), a hook
  mounting or unmounting, and a pending timer firing.  No source file calls a toast's
  \<open>update\<close>; it is covered separately below.
\<close>

inductive toast_reachable :: "toast_store \<Rightarrow> bool" where
  init: "toast_reachable toast_store_init"
| add: "toast_reachable s \<Longrightarrow> toast_reachable (fst (toast props s))"
| dismiss: "toast_reachable s \<Longrightarrow> toast_reachable (dispatch (DISMISS_TOAST i) s)"
| fire: "toast_reachable s \<Longrightarrow> i \<in> set (toastTimeouts s) \<Longrightarrow> toast_reachable (timer_fires i s)"
| mount: "toast_reachable s \<Longrightarrow> l \<notin> set (listeners s) \<Longrightarrow> toast_reachable (useToast_mount l s)"
| unmount: "toast_reachable s \<Longrightarrow> toast_reachable (useToast_unmount l s)"

text \<open>Firing every pending timer, in the order they were set.\<close>

definition flush_timers :: "toast_store \<Rightarrow> toast_store" where
  "flush_timers s = foldl (\<lambda>st i. timer_fires i st) s (toastTimeouts s)"

text \<open>
  The event loop: while a removal timer is pending, the earliest one fires.  A loop that
  need not end is a \<open>while_option\<close>; \<open>None\<close> would mean that timers keep firing forever.
\<close>

definition run_timers :: "toast_store \<Rightarrow> toast_store option" where
  "run_timers s = while_option (\<lambda>st. toastTimeouts st \<noteq> []) (\<lambda>st. timer_fires (hd (toastTimeouts st)) st) s"

text \<open>A toast as \<open>Profissionais.tsx\<close> raises it (the id and \<open>open\<close> are set by \<open>toast\<close>).\<close>

definition sample_toast :: toaster_toast where
  "sample_toast = \<lparr>toast_id = [], toast_title = Some ''Erro'', toast_description = None,
     toast_variant = Some ''destructive'', toast_open = False\<rparr>"

definition close_patch :: "string \<Rightarrow> toast_patch" where
  "close_patch i = \<lparr>patch_id = i, patch_title = None, patch_description = None,
     patch_variant = None, patch_open = Some False\<rparr>"

text \<open>The store after a \<open>toast\<close> call and the dismissal of that toast.\<close>

abbreviation dismissed_sample :: toast_store where
  "dismissed_sample \<equiv> dispatch (DISMISS_TOAST (Some ''1'')) (fst (toast sample_toast toast_store_init))"

text \<open>The invariant of the store's reachable states.\<close>

definition toast_inv :: "toast_store \<Rightarrow> bool" where
  "toast_inv s \<longleftrightarrow> length (memoryState s) \<le> TOAST_LIMIT
     \<and> idCounter s < MAX_SAFE_INTEGER
     \<and> distinct (toastTimeouts s)
     \<and> distinct (listeners s)
     \<and> (\<forall>t\<in>set (memoryState s). \<not> toast_open t \<longrightarrow> toast_id t \<in> set (toastTimeouts s))
     \<and> (\<forall>l\<in>set (listeners s). listener_state s l = memoryState s)"

section \<open>Properties\<close>

lemma set_scheduleToastRemoval [simp]: "set (scheduleToastRemoval i tm) = insert i (set tm)"
  by (auto simp: scheduleToastRemoval_def)

lemma distinct_scheduleToastRemoval [simp]: "distinct (scheduleToastRemoval i tm) = distinct tm"
  by (simp add: scheduleToastRemoval_def)

lemma schedule_all_set:
  "set (foldl (\<lambda>m t. scheduleToastRemoval (toast_id t) m) tm ts) = set tm \<union> toast_id ` set ts"
  by (induction ts arbitrary: tm) auto

lemma schedule_all_distinct:
  "distinct (foldl (\<lambda>m t. scheduleToastRemoval (toast_id t) m) tm ts) = distinct tm"
  by (induction ts arbitrary: tm) auto

lemma dispatch_fields:
  "memoryState (dispatch a s) = fst (reducer a (memoryState s, toastTimeouts s))"
  "toastTimeouts (dispatch a s) = snd (reducer a (memoryState s, toastTimeouts s))"
  "listeners (dispatch a s) = listeners s"
  "idCounter (dispatch a s) = idCounter s"
  "l \<in> set (listeners s) \<Longrightarrow> listener_state (dispatch a s) l = fst (reducer a (memoryState s, toastTimeouts s))"
  by (simp_all add: dispatch_def split: prod.splits)

lemma toast_inv_init: "toast_inv toast_store_init"
  by (simp add: toast_inv_def toast_store_init_def MAX_SAFE_INTEGER_def)

lemma toast_inv_add: "toast_inv s \<Longrightarrow> toast_inv (fst (toast props s))"
  by (simp add: toast_inv_def toast_def generateId_def Let_def dispatch_fields handleAddToast_def
      TOAST_LIMIT_def MAX_SAFE_INTEGER_def split: prod.splits)

lemma toast_inv_dismiss: "toast_inv s \<Longrightarrow> toast_inv (dispatch (DISMISS_TOAST i) s)"
  by (auto simp: toast_inv_def dispatch_fields handleDismissToast_def Let_def schedule_all_set
      schedule_all_distinct split: option.splits)

lemma toast_inv_fire: "toast_inv s \<Longrightarrow> toast_inv (timer_fires i s)"
  by (auto simp: toast_inv_def timer_fires_def dispatch_fields handleRemoveToast_def distinct_removeAll
      intro: le_trans [OF length_filter_le])

lemma toast_inv_mount: "toast_inv s \<Longrightarrow> l \<notin> set (listeners s) \<Longrightarrow> toast_inv (useToast_mount l s)"
  by (auto simp: toast_inv_def useToast_mount_def)

lemma toast_inv_unmount: "toast_inv s \<Longrightarrow> toast_inv (useToast_unmount l s)"
  by (auto simp: toast_inv_def useToast_unmount_def)

lemma toast_reachable_inv: "toast_reachable s \<Longrightarrow> toast_inv s"
  by (induction rule: toast_reachable.induct)
     (simp_all add: toast_inv_init toast_inv_add toast_inv_dismiss toast_inv_fire toast_inv_mount
        toast_inv_unmount)

lemma fire_all:
  assumes "distinct ids" and "set ids \<subseteq> set (toastTimeouts s)"
  shows "memoryState (foldl (\<lambda>st i. timer_fires i st) s ids)
           = filter (\<lambda>t. toast_id t \<notin> set ids) (memoryState s)
         \<and> toastTimeouts (foldl (\<lambda>st i. timer_fires i st) s ids)
           = filter (\<lambda>i. i \<notin> set ids) (toastTimeouts s)"
  using assms
proof (induction ids arbitrary: s)
  case Nil
  then show ?case by simp
next
  case (Cons i ids)
  let ?s' = "timer_fires i s"
  have fired: "memoryState ?s' = filter (\<lambda>t. toast_id t \<noteq> i) (memoryState s)"
              "toastTimeouts ?s' = removeAll i (toastTimeouts s)"
    using Cons.prems by (simp_all add: timer_fires_def dispatch_fields handleRemoveToast_def)
  have "set ids \<subseteq> set (toastTimeouts ?s')"
    using Cons.prems fired(2) by auto
  with Cons.prems have "memoryState (foldl (\<lambda>st i. timer_fires i st) ?s' ids)
           = filter (\<lambda>t. toast_id t \<notin> set ids) (memoryState ?s')
         \<and> toastTimeouts (foldl (\<lambda>st i. timer_fires i st) ?s' ids)
           = filter (\<lambda>i. i \<notin> set ids) (toastTimeouts ?s')"
    by (intro Cons.IH) simp_all
  then show ?case
    by (simp add: fired removeAll_filter_not_eq conj_commute eq_commute [of i])
qed

lemma fire_all_reachable:
  "toast_reachable s \<Longrightarrow> distinct ids \<Longrightarrow> set ids \<subseteq> set (toastTimeouts s)
   \<Longrightarrow> toast_reachable (foldl (\<lambda>st i. timer_fires i st) s ids)"
proof (induction ids arbitrary: s)
  case Nil
  then show ?case by simp
next
  case (Cons i ids)
  have r: "toast_reachable (timer_fires i s)"
    using Cons.prems by (simp add: toast_reachable.fire)
  have "set ids \<subseteq> set (toastTimeouts (timer_fires i s))"
    using Cons.prems by (auto simp: timer_fires_def dispatch_fields)
  with r Cons.prems show ?case by (simp add: Cons.IH)
qed

text \<open>
  C32 (liveness). From every reachable state, once the pending removal timers have fired
  (\<open>TOAST_REMOVE_DELAY\<close> after each dismissal) the store is again reachable, no timer is
  pending and every toast left is open: a dismissed toast does not stay in the store.
\<close>

theorem toast_dismissed_removed_after_timers:
  assumes "toast_reachable s"
  shows "toast_reachable (flush_timers s)
         \<and> toastTimeouts (flush_timers s) = []
         \<and> (\<forall>t\<in>set (memoryState (flush_timers s)). toast_open t)"
proof -
  have inv: "toast_inv s" using assms by (rule toast_reachable_inv)
  then have d: "distinct (toastTimeouts s)" by (simp add: toast_inv_def)
  have f: "memoryState (flush_timers s) = filter (\<lambda>t. toast_id t \<notin> set (toastTimeouts s)) (memoryState s)
         \<and> toastTimeouts (flush_timers s) = filter (\<lambda>i. i \<notin> set (toastTimeouts s)) (toastTimeouts s)"
    unfolding flush_timers_def using d by (intro fire_all) simp_all
  have "toast_reachable (flush_timers s)"
    unfolding flush_timers_def using assms d by (intro fire_all_reachable) simp_all
  moreover have "toastTimeouts (flush_timers s) = []"
    using f by (simp add: filter_empty_conv)
  moreover have "\<forall>t\<in>set (memoryState (flush_timers s)). toast_open t"
    using f inv by (auto simp: toast_inv_def)
  ultimately show ?thesis by simp
qed

text \<open>
  C30 (bounds). In every reachable state the store holds at most \<open>TOAST_LIMIT\<close> (one)
  toast and the id counter stays below \<open>Number.MAX_SAFE_INTEGER\<close>.
\<close>

theorem toast_limit_and_counter_bounds:
  "toast_reachable s \<Longrightarrow> length (memoryState s) \<le> TOAST_LIMIT \<and> idCounter s < MAX_SAFE_INTEGER"
  by (drule toast_reachable_inv) (simp add: toast_inv_def)

text \<open>
  Every mounted \<open>useToast\<close> hook holds the store's current toasts:
  \<open>dispatch\<close> hands the new state to every listener.
\<close>

theorem toast_listeners_in_sync:
  "toast_reachable s \<Longrightarrow> l \<in> set (listeners s) \<Longrightarrow> listener_state s l = memoryState s"
  by (drule toast_reachable_inv) (simp add: toast_inv_def)


lemmas toast_eval_simps = toast_def generateId_def Let_def dispatch_def toast_store_init_def
  MAX_SAFE_INTEGER_def handleAddToast_def TOAST_LIMIT_def handleDismissToast_def handleUpdateToast_def
  merge_patch_def close_patch_def handleRemoveToast_def flush_timers_def timer_fires_def
  scheduleToastRemoval_def sample_toast_def useToast_mount_def nat_to_string.simps

lemma idCounter_funpow:
  "idCounter s < MAX_SAFE_INTEGER \<Longrightarrow>
   idCounter (((\<lambda>s. fst (generateId s)) ^^ n) s) = (idCounter s + n) mod MAX_SAFE_INTEGER"
  by (induction n) (simp_all add: generateId_def Let_def mod_Suc_eq)

text \<open>
  \<open>generateId\<close> counts modulo \<open>MAX_SAFE_INTEGER\<close>: from a counter in
  range, the id returned after \<open>n\<close> further calls equals the current one exactly when
  \<open>n\<close> is a multiple of \<open>2^53 - 1\<close>, so ids repeat only after that many toasts.
\<close>

theorem generateId_period:
  assumes "idCounter s < MAX_SAFE_INTEGER"
  shows "snd (generateId (((\<lambda>s. fst (generateId s)) ^^ n) s)) = snd (generateId s)
         \<longleftrightarrow> n mod MAX_SAFE_INTEGER = 0"
proof -
  have g: "snd (generateId x) = nat_to_string ((idCounter x + 1) mod MAX_SAFE_INTEGER)" for x
    by (simp add: generateId_def Let_def)
  have "(idCounter (((\<lambda>s. fst (generateId s)) ^^ n) s) + 1) mod MAX_SAFE_INTEGER
        = (idCounter s + 1 + n) mod MAX_SAFE_INTEGER"
    using assms by (simp only: idCounter_funpow) (simp add: mod_Suc_eq ac_simps)
  then have "snd (generateId (((\<lambda>s. fst (generateId s)) ^^ n) s))
        = nat_to_string ((idCounter s + 1 + n) mod MAX_SAFE_INTEGER)"
    by (simp only: g)
  moreover have "snd (generateId s) = nat_to_string ((idCounter s + 1) mod MAX_SAFE_INTEGER)"
    by (rule g)
  moreover have "(idCounter s + 1 + n) mod MAX_SAFE_INTEGER = (idCounter s + 1) mod MAX_SAFE_INTEGER
                 \<longleftrightarrow> n mod MAX_SAFE_INTEGER = 0"
    by (simp add: mod_eq_dvd_iff_nat dvd_eq_mod_eq_0)
  ultimately show ?thesis by (simp add: nat_to_string_inj)
qed

theorem generateId_period_witness:
  "idCounter toast_store_init < MAX_SAFE_INTEGER
   \<and> snd (generateId (((\<lambda>s. fst (generateId s)) ^^ 1) toast_store_init))
     \<noteq> snd (generateId toast_store_init)"
proof -
  have h: "idCounter toast_store_init < MAX_SAFE_INTEGER"
    by (simp add: toast_store_init_def MAX_SAFE_INTEGER_def)
  have "(1::nat) mod MAX_SAFE_INTEGER \<noteq> 0" by (simp add: MAX_SAFE_INTEGER_def)
  with generateId_period [OF h, of 1] h show ?thesis by blast
qed

text \<open>
  A toast closed through its handle's \<open>update({open: false})\<close>, not
  through \<open>dismiss\<close>, gets no removal timer: firing the pending timers leaves it in
  the store, closed.
\<close>

theorem toast_update_close_never_removed:
  "toast_reachable (fst (toast sample_toast toast_store_init))
   \<and> memoryState (dispatch (UPDATE_TOAST (close_patch ''1'')) (fst (toast sample_toast toast_store_init)))
       = [sample_toast\<lparr>toast_id := ''1'', toast_open := False\<rparr>]
   \<and> toastTimeouts (dispatch (UPDATE_TOAST (close_patch ''1'')) (fst (toast sample_toast toast_store_init))) = []
   \<and> memoryState (flush_timers (dispatch (UPDATE_TOAST (close_patch ''1''))
        (fst (toast sample_toast toast_store_init))))
       = [sample_toast\<lparr>toast_id := ''1'', toast_open := False\<rparr>]"
proof -
  have "toast_reachable (fst (toast sample_toast toast_store_init))"
    by (rule toast_reachable.add [OF toast_reachable.init])
  moreover have "memoryState (dispatch (UPDATE_TOAST (close_patch ''1'')) (fst (toast sample_toast toast_store_init)))
       = [sample_toast\<lparr>toast_id := ''1'', toast_open := False\<rparr>]
   \<and> toastTimeouts (dispatch (UPDATE_TOAST (close_patch ''1'')) (fst (toast sample_toast toast_store_init))) = []
   \<and> memoryState (flush_timers (dispatch (UPDATE_TOAST (close_patch ''1''))
        (fst (toast sample_toast toast_store_init))))
       = [sample_toast\<lparr>toast_id := ''1'', toast_open := False\<rparr>]"
    by (simp add: toast_eval_simps)
  ultimately show ?thesis by blast
qed

lemma dismissed_sample_reachable: "toast_reachable dismissed_sample"
  by (intro toast_reachable.dismiss toast_reachable.add toast_reachable.init)

theorem toast_dismissed_removed_after_timers_witness:
  "toast_reachable dismissed_sample
   \<and> memoryState dismissed_sample = [sample_toast\<lparr>toast_id := ''1'', toast_open := False\<rparr>]
   \<and> toast_reachable (flush_timers dismissed_sample)
   \<and> toastTimeouts (flush_timers dismissed_sample) = []
   \<and> memoryState (flush_timers dismissed_sample) = []"
proof -
  have "memoryState dismissed_sample = [sample_toast\<lparr>toast_id := ''1'', toast_open := False\<rparr>]"
    by (simp add: toast_eval_simps)
  moreover have "memoryState (flush_timers dismissed_sample) = []"
    by (simp add: toast_eval_simps)
  ultimately show ?thesis
    using toast_dismissed_removed_after_timers [OF dismissed_sample_reachable] dismissed_sample_reachable
    by blast
qed

theorem toast_limit_and_counter_bounds_witness:
  "toast_reachable dismissed_sample
   \<and> length (memoryState dismissed_sample) \<le> TOAST_LIMIT \<and> idCounter dismissed_sample < MAX_SAFE_INTEGER"
  using toast_limit_and_counter_bounds [OF dismissed_sample_reachable] dismissed_sample_reachable by blast

theorem toast_listeners_in_sync_witness:
  "toast_reachable (fst (toast sample_toast (useToast_mount 0 toast_store_init)))
   \<and> 0 \<in> set (listeners (fst (toast sample_toast (useToast_mount 0 toast_store_init))))
   \<and> listener_state (fst (toast sample_toast (useToast_mount 0 toast_store_init))) 0
       = memoryState (fst (toast sample_toast (useToast_mount 0 toast_store_init)))"
proof -
  have r: "toast_reachable (fst (toast sample_toast (useToast_mount 0 toast_store_init)))"
    by (intro toast_reachable.add toast_reachable.mount toast_reachable.init)
       (simp add: toast_store_init_def)
  have l: "0 \<in> set (listeners (fst (toast sample_toast (useToast_mount 0 toast_store_init))))"
    by (simp add: toast_eval_simps)
  show ?thesis using toast_listeners_in_sync [OF r l] r l by blast
qed


lemma timer_fires_hd_shrinks:
  "toastTimeouts s \<noteq> [] \<Longrightarrow> length (toastTimeouts (timer_fires (hd (toastTimeouts s)) s)) < length (toastTimeouts s)"
proof -
  assume ne: "toastTimeouts s \<noteq> []"
  then have "hd (toastTimeouts s) \<in> set (toastTimeouts s)" by simp
  then have "length (removeAll (hd (toastTimeouts s)) (toastTimeouts s)) < length (toastTimeouts s)"
    by (simp add: length_removeAll_less)
  with ne show ?thesis by (simp add: timer_fires_def dispatch_fields)
qed

text \<open>
  C25 (termination). The event loop that fires the pending removal timers one at a time
  always stops (\<open>while_option\<close> returns \<open>Some\<close>), from any store whatever, with no timer
  left pending: each firing removes its own timer and schedules none.
\<close>

theorem run_timers_terminates:
  "\<exists>s'. run_timers s = Some s' \<and> toastTimeouts s' = []"
proof -
  obtain t where t: "while_option (\<lambda>st. toastTimeouts st \<noteq> []) (\<lambda>st. timer_fires (hd (toastTimeouts st)) st) s
                     = Some t"
  proof -
    have "\<exists>t. while_option (\<lambda>st. toastTimeouts st \<noteq> []) (\<lambda>st. timer_fires (hd (toastTimeouts st)) st) s
              = Some t"
      by (rule measure_while_option_Some [where P = "\<lambda>_. True" and f = "\<lambda>st. length (toastTimeouts st)"])
         (simp_all add: timer_fires_hd_shrinks)
    then show ?thesis using that by blast
  qed
  then have "toastTimeouts t = []" using while_option_stop by fastforce
  with t show ?thesis by (simp add: run_timers_def)
qed

end
