(* ===== verification/Errors.thy ===== *)
theory Errors
  imports Prelude
begin

text \<open>
  The user-facing error messages of \<open>src/lib/errorHandler.ts\<close>: the pattern table
  \<open>ERROR_PATTERNS\<close>, \<open>findErrorMessage\<close> (its \<open>for\<close> loop with an early return is the
  recursion \<open>find_pattern_loop\<close>), and \<open>handlePatientError\<close>.  A thrown value is an
  \<open>Error\<close> instance with its message, or any other value (for instance a plain object with
  a \<open>message\<close> field), which \<open>instanceof Error\<close> rejects.  \<open>logError\<close> only writes to the
  console in development builds and is not modelled.  Accented letters are their UTF-8
  bytes.
\<close>

section \<open>Messages\<close>

definition ACUTE_A :: string where "ACUTE_A = [CHR 0xC3, CHR 0xA1]"
definition TILDE_A :: string where "TILDE_A = [CHR 0xC3, CHR 0xA3]"
definition CEDILLA :: string where "CEDILLA = [CHR 0xC3, CHR 0xA7]"
definition CIRC_E :: string where "CIRC_E = [CHR 0xC3, CHR 0xAA]"

definition MSG_DUPLICATE :: string where
  "MSG_DUPLICATE = ''Este registro j'' @ ACUTE_A @ '' existe no sistema.''"

definition MSG_FOREIGN_KEY :: string where
  "MSG_FOREIGN_KEY = ''Opera'' @ CEDILLA @ TILDE_A @ ''o n'' @ TILDE_A
     @ ''o permitida devido a dados relacionados.''"

definition MSG_INVALID :: string where
  "MSG_INVALID = ''Os dados fornecidos n'' @ TILDE_A @ ''o s'' @ TILDE_A @ ''o v'' @ ACUTE_A @ ''lidos.''"

definition MSG_PERMISSION :: string where
  "MSG_PERMISSION = ''Voc'' @ CIRC_E @ '' n'' @ TILDE_A @ ''o tem permiss'' @ TILDE_A
     @ ''o para realizar esta opera'' @ CEDILLA @ TILDE_A @ ''o.''"

definition MSG_NETWORK :: string where
  "MSG_NETWORK = ''Erro de conex'' @ TILDE_A @ ''o. Verifique sua internet e tente novamente.''"

definition MSG_TIMEOUT :: string where
  "MSG_TIMEOUT = ''A opera'' @ CEDILLA @ TILDE_A @ ''o demorou muito. Tente novamente.''"

definition MSG_NOT_FOUND :: string where
  "MSG_NOT_FOUND = ''Recurso n'' @ TILDE_A @ ''o encontrado.''"

definition MSG_SESSION :: string where
  "MSG_SESSION = ''Sess'' @ TILDE_A @ ''o expirada. Fa'' @ CEDILLA @ ''a login novamente.''"

definition ERROR_PATTERNS :: "(string \<times> string) list" where
  "ERROR_PATTERNS =
     [(''23505'', MSG_DUPLICATE), (''duplicate'', MSG_DUPLICATE),
      (''23503'', MSG_FOREIGN_KEY), (''foreign key'', MSG_FOREIGN_KEY),
      (''23514'', MSG_INVALID), (''check constraint'', MSG_INVALID),
      (''42501'', MSG_PERMISSION), (''policy'', MSG_PERMISSION), (''permission'', MSG_PERMISSION),
      (''network'', MSG_NETWORK), (''fetch'', MSG_NETWORK),
      (''timeout'', MSG_TIMEOUT),
      (''not found'', MSG_NOT_FOUND), (''404'', MSG_NOT_FOUND),
      (''unauthorized'', MSG_SESSION), (''401'', MSG_SESSION)]"

definition DEFAULT_ERROR_MESSAGE :: string where
  "DEFAULT_ERROR_MESSAGE = ''Ocorreu um erro. Por favor, tente novamente.''"

definition CPF_DUPLICATE_MESSAGE :: string where
  "CPF_DUPLICATE_MESSAGE = ''CPF j'' @ ACUTE_A @ '' cadastrado no sistema.''"

section \<open>findErrorMessage and handlePatientError\<close>

text \<open>The loop over the table: the first pattern the lower-cased text includes wins.\<close>

fun find_pattern_loop :: "string \<Rightarrow> (string \<times> string) list \<Rightarrow> string" where
  "find_pattern_loop lowerCaseError [] = DEFAULT_ERROR_MESSAGE"
| "find_pattern_loop lowerCaseError ((pattern, message) # rest) =
     (if js_includes lowerCaseError pattern then message
      else find_pattern_loop lowerCaseError rest)"

definition findErrorMessage :: "string \<Rightarrow> string" where
  "findErrorMessage errorText = find_pattern_loop (js_toLowerCase errorText) ERROR_PATTERNS"

datatype thrown = ErrorInstance string | OtherValue "string option"

definition handlePatientError :: "thrown \<Rightarrow> string" where
  "handlePatientError e =
     (case e of
        ErrorInstance msg \<Rightarrow>
          (let message = js_toLowerCase msg in
           if js_includes message ''duplicate'' \<or> js_includes message ''23505''
           then CPF_DUPLICATE_MESSAGE else findErrorMessage msg)
      | OtherValue _ \<Rightarrow> DEFAULT_ERROR_MESSAGE)"

text \<open>The reference reading of the table: the message of the first matching entry.\<close>

definition error_message_spec :: "string \<Rightarrow> string" where
  "error_message_spec errorText =
     (case find (\<lambda>(p, m). sublist p (js_toLowerCase errorText)) ERROR_PATTERNS of
        None \<Rightarrow> DEFAULT_ERROR_MESSAGE
      | Some (p, m) \<Rightarrow> m)"

definition user_messages :: "string set" where
  "user_messages = insert DEFAULT_ERROR_MESSAGE (snd ` set ERROR_PATTERNS)"

section \<open>Properties\<close>

lemma find_pattern_loop_find:
  "find_pattern_loop t ps
   = (case find (\<lambda>(p, m). sublist p t) ps of None \<Rightarrow> DEFAULT_ERROR_MESSAGE | Some (p, m) \<Rightarrow> m)"
  by (induction t ps rule: find_pattern_loop.induct) (simp_all add: js_includes_def)

text \<open>
  The loop of \<open>findErrorMessage\<close>, with its early return, computes the
  reference reading of the table: the message of the first pattern the lower-cased text
  contains, or the default message.
\<close>

theorem findErrorMessage_eq_spec: "findErrorMessage e = error_message_spec e"
  by (simp add: findErrorMessage_def error_message_spec_def find_pattern_loop_find)

lemma find_pattern_loop_in: "find_pattern_loop t ps \<in> insert DEFAULT_ERROR_MESSAGE (snd ` set ps)"
  by (induction t ps rule: find_pattern_loop.induct) auto

text \<open>
  Whatever the error, the user sees one of the fixed messages of the table,
  the default message, or the CPF message: no raw error text reaches the toast.
\<close>

theorem error_messages_fixed:
  "findErrorMessage e \<in> user_messages
   \<and> handlePatientError x \<in> insert CPF_DUPLICATE_MESSAGE user_messages"
proof -
  have f: "findErrorMessage m \<in> user_messages" for m
    using find_pattern_loop_in by (simp add: findErrorMessage_def user_messages_def)
  moreover have "handlePatientError x \<in> insert CPF_DUPLICATE_MESSAGE user_messages"
    using f by (cases x) (auto simp: handlePatientError_def Let_def user_messages_def)
  ultimately show ?thesis by blast
qed

text \<open>
  Examples: a failed \<open>fetch\<close> and a row-level-security refusal are recognised; an expired
  JWT gets the default message; a duplicate key reaches the CPF message only when it is
  thrown as an \<open>Error\<close> instance.
\<close>

theorem error_messages_examples:
  "findErrorMessage ''TypeError: Failed to fetch'' = MSG_NETWORK
   \<and> findErrorMessage ''new row violates row-level security policy for table \"patients\"'' = MSG_PERMISSION
   \<and> findErrorMessage ''JWT expired'' = DEFAULT_ERROR_MESSAGE
   \<and> handlePatientError (ErrorInstance ''Duplicate key value violates unique constraint'') = CPF_DUPLICATE_MESSAGE
   \<and> handlePatientError (OtherValue (Some ''duplicate key value violates unique constraint'')) = DEFAULT_ERROR_MESSAGE"
  by code_simp
end
