(* ===== verification/Patients.thy ===== *)
theory Patients
  imports Errors
begin

text \<open>
  The patients page, \<open>src/pages/Pacientes.tsx\<close>: the helpers \<open>getStatusVariant\<close>,
  \<open>getInitials\<close>, \<open>formatDate\<close>, \<open>formatCPF\<close> and \<open>formatPhone\<close>; the list filter
  \<open>filteredPatients\<close>; the page state with its dialogs and form; the submit, edit and
  delete handlers with the outcome of their mutation as an input (the writes they issue
  and the toasts they raise are outputs); and the rendering of the table.
  \<open>String.prototype.replace\<close> with the first-match regular expressions of the masks is
  \<open>regex_group_replace\<close> (\<open>/(\d{n})(\d)/\<close>) and \<open>regex_trunc_dash\<close> (\<open>/(-\d{k})\d+?$/\<close>),
  each searching the leftmost match as the regular-expression engine does.
\<close>

section \<open>Rows and helpers\<close>

record patient =
  p_id :: string
  p_name :: string
  p_cpf :: string
  p_birth_date :: string
  p_phone :: "string option"
  p_email :: "string option"
  p_status :: string
  p_created_at :: string
  p_updated_at :: string

definition getStatusVariant :: "string \<Rightarrow> string" where
  "getStatusVariant status =
     (if status = ''Ativo'' then ''success-light''
      else if status = ''Em tratamento'' then ''info-light''
      else if status = ''Internado'' then ''warning-light'' else ''secondary'')"

text \<open>
  \<open>n[0]\<close> is the first character (its UTF-8 bytes: the lead byte and its continuation
  bytes), \<open>undefined\<close> for an empty word, which \<open>join("")\<close> renders as the empty string.
\<close>

definition utf8_continuation :: "char \<Rightarrow> bool" where
  "utf8_continuation c \<longleftrightarrow> 128 \<le> (of_char c :: nat) \<and> (of_char c :: nat) < 192"

definition first_char :: "string \<Rightarrow> string" where
  "first_char w = (case w of [] \<Rightarrow> [] | c # r \<Rightarrow> c # takeWhile utf8_continuation r)"

definition getInitials :: "string \<Rightarrow> string" where
  "getInitials name = js_toUpperCase (concat (take 2 (map first_char (js_split (CHR '' '') name))))"

subsection \<open>Dates\<close>

definition is_leap_year :: "int \<Rightarrow> bool" where
  "is_leap_year y \<longleftrightarrow> (4 dvd y \<and> \<not> 100 dvd y) \<or> 400 dvd y"

definition days_in_month :: "int \<Rightarrow> int \<Rightarrow> int" where
  "days_in_month y m =
     (if m = 2 then (if is_leap_year y then 29 else 28)
      else if m \<in> {4, 6, 9, 11} then 30 else 31)"

text \<open>
  A value of a \<open>date\<close> column (and of an \<open>input type="date"\<close>): \<open>yyyy-MM-dd\<close>; \<open>None\<close>
  is what \<open>parseISO\<close> rejects as an invalid date.
\<close>

definition parse_iso_date :: "string \<Rightarrow> (int \<times> int \<times> int) option" where
  "parse_iso_date s =
     (if length s = 10 \<and> s ! 4 = CHR ''-'' \<and> s ! 7 = CHR ''-''
         \<and> list_all is_digit (take 4 s @ take 2 (drop 5 s) @ drop 8 s)
      then (let y = int (digits_value (take 4 s)); m = int (digits_value (take 2 (drop 5 s)));
                d = int (digits_value (drop 8 s))
            in if 1 \<le> m \<and> m \<le> 12 \<and> 1 \<le> d \<and> d \<le> days_in_month y m then Some (y, m, d) else None)
      else None)"

definition pad2 :: "int \<Rightarrow> string" where
  "pad2 n = (let s = int_to_string n in replicate (2 - length s) (CHR ''0'') @ s)"

definition pad4 :: "int \<Rightarrow> string" where
  "pad4 n = (let s = int_to_string n in replicate (4 - length s) (CHR ''0'') @ s)"

definition DATA_INVALIDA :: string where
  "DATA_INVALIDA = ''Data inv'' @ ACUTE_A @ ''lida''"

text \<open>\<open>formatDate(dateString)\<close> with the default \<open>dd/MM/yyyy\<close>, on the values of a date column.\<close>

definition formatDate :: "string \<Rightarrow> string" where
  "formatDate s =
     (if s = [] then DATA_INVALIDA
      else case parse_iso_date s of
             None \<Rightarrow> DATA_INVALIDA
           | Some (y, m, d) \<Rightarrow> pad2 d @ ''/'' @ pad2 m @ ''/'' @ pad4 y)"

text \<open>
  \<open>new Date(s)\<close> of a date-only string is its UTC midnight; the model compares day
  numbers (\<open>days_from_civil\<close>), \<open>NaN\<close> (an invalid date) compares false.
\<close>

definition days_from_civil :: "int \<Rightarrow> int \<Rightarrow> int \<Rightarrow> int" where
  "days_from_civil y m d =
     (let y' = (if m \<le> 2 then y - 1 else y); era = y' div 400; yoe = y' - era * 400;
          mp = (m + 9) mod 12; doy = (153 * mp + 2) div 5 + d - 1;
          doe = yoe * 365 + yoe div 4 - yoe div 100 + doy
      in era * 146097 + doe - 719468)"

definition js_date_value :: "string \<Rightarrow> int option" where
  "js_date_value s = map_option (\<lambda>(y, m, d). days_from_civil y m d) (parse_iso_date s)"

definition date_ge :: "string \<Rightarrow> string \<Rightarrow> bool" where
  "date_ge a b = (case (js_date_value a, js_date_value b) of (Some x, Some y) \<Rightarrow> y \<le> x | _ \<Rightarrow> False)"

subsection \<open>Input masks\<close>

text \<open>
  \<open>s.replace(/(\d{n})(\d)/, pre + "$1" + sep + "$2")\<close>: at the leftmost position where
  \<open>n + 1\<close> digits follow, \<open>pre\<close> goes before the first \<open>n\<close> and \<open>sep\<close> after them.
  (\<open>/(\d{3})(\d{1,2})/\<close> with \<open>"$1-$2"\<close> is the same replacement, since both groups are
  written back.)
\<close>

fun regex_group_replace :: "nat \<Rightarrow> string \<Rightarrow> string \<Rightarrow> string \<Rightarrow> string" where
  "regex_group_replace n pre sep [] = []"
| "regex_group_replace n pre sep (c # r) =
     (if Suc n \<le> length (c # r) \<and> list_all is_digit (take (Suc n) (c # r))
      then pre @ take n (c # r) @ sep @ drop n (c # r)
      else c # regex_group_replace n pre sep r)"

text \<open>\<open>s.replace(/(-\d{k})\d+?$/, "$1")\<close>: a dash, \<open>k\<close> digits and at least one more digit up
  to the end keep only the dash and the \<open>k\<close> digits.\<close>

fun regex_trunc_dash :: "nat \<Rightarrow> string \<Rightarrow> string" where
  "regex_trunc_dash k [] = []"
| "regex_trunc_dash k (c # r) =
     (if c = CHR ''-'' \<and> k < length r \<and> list_all is_digit r then c # take k r
      else c # regex_trunc_dash k r)"

definition formatCPF :: "string \<Rightarrow> string" where
  "formatCPF value =
     (let numbers = filter is_digit value in
      regex_trunc_dash 2 (regex_group_replace 3 [] ''-''
        (regex_group_replace 3 [] ''.'' (regex_group_replace 3 [] ''.'' numbers))))"

definition formatPhone :: "string \<Rightarrow> string" where
  "formatPhone value =
     (let numbers = filter is_digit value in
      regex_trunc_dash 4 (regex_group_replace 5 [] ''-'' (regex_group_replace 2 ''('' '') '' numbers)))"

text \<open>The layout the CPF mask produces from a string of digits: \<open>ddd.ddd.ddd-dd\<close>, cut at 11.\<close>

definition cpf_layout :: "string \<Rightarrow> string" where
  "cpf_layout ds =
     (if length ds \<le> 3 then ds
      else if length ds \<le> 6 then take 3 ds @ ''.'' @ drop 3 ds
      else if length ds \<le> 9 then take 3 ds @ ''.'' @ take 3 (drop 3 ds) @ ''.'' @ drop 6 ds
      else take 3 ds @ ''.'' @ take 3 (drop 3 ds) @ ''.'' @ take 3 (drop 6 ds) @ ''-'' @ take 2 (drop 9 ds))"

text \<open>The layout of the phone mask: \<open>(dd) ddddd-dddd\<close>, cut at 11 digits.\<close>

definition phone_layout :: "string \<Rightarrow> string" where
  "phone_layout ds =
     (if length ds \<le> 2 then ds
      else if length ds \<le> 7 then ''('' @ take 2 ds @ '') '' @ drop 2 ds
      else ''('' @ take 2 ds @ '') '' @ take 5 (drop 2 ds) @ ''-'' @ take 4 (drop 7 ds))"

subsection \<open>The list filter\<close>

record patient_filters =
  f_status :: string
  f_dateFrom :: string
  f_dateTo :: string

definition emptyFilters :: patient_filters where
  "emptyFilters = \<lparr>f_status = [], f_dateFrom = [], f_dateTo = []\<rparr>"

definition hasActiveFilters :: "patient_filters \<Rightarrow> bool" where
  "hasActiveFilters f \<longleftrightarrow> f_status f \<noteq> [] \<or> f_dateFrom f \<noteq> [] \<or> f_dateTo f \<noteq> []"

definition patient_matches :: "string \<Rightarrow> patient_filters \<Rightarrow> patient \<Rightarrow> bool" where
  "patient_matches searchTerm f p \<longleftrightarrow>
     (js_includes (js_toLowerCase (p_name p)) (js_toLowerCase searchTerm)
      \<or> js_includes (p_cpf p) searchTerm
      \<or> js_includes (js_toLowerCase (p_id p)) (js_toLowerCase searchTerm))
     \<and> (f_status f = [] \<or> p_status p = f_status f)
     \<and> (f_dateFrom f = [] \<or> date_ge (p_birth_date p) (f_dateFrom f))
     \<and> (f_dateTo f = [] \<or> date_ge (f_dateTo f) (p_birth_date p))"

definition filteredPatients :: "string \<Rightarrow> patient_filters \<Rightarrow> patient list \<Rightarrow> patient list" where
  "filteredPatients searchTerm f patients = filter (patient_matches searchTerm f) patients"

section \<open>Page state and handlers\<close>

record patient_form =
  fd_name :: string
  fd_cpf :: string
  fd_birth_date :: string
  fd_phone :: string
  fd_email :: string
  fd_status :: string

definition emptyFormData :: patient_form where
  "emptyFormData = \<lparr>fd_name = [], fd_cpf = [], fd_birth_date = [], fd_phone = [], fd_email = [],
     fd_status = ''Ativo''\<rparr>"

record pacientes_state =
  searchTerm :: string
  isDialogOpen :: bool
  isEditDialogOpen :: bool
  isViewDialogOpen :: bool
  isDeleteDialogOpen :: bool
  selectedPatient :: "patient option"
  formData :: patient_form
  filters :: patient_filters
  isFiltersOpen :: bool

definition pacientes_init :: pacientes_state where
  "pacientes_init = \<lparr>searchTerm = [], isDialogOpen = False, isEditDialogOpen = False,
     isViewDialogOpen = False, isDeleteDialogOpen = False, selectedPatient = None,
     formData = emptyFormData, filters = emptyFilters, isFiltersOpen = False\<rparr>"

text \<open>The columns a create or an update writes; \<open>phone || null\<close> maps an empty field to null.\<close>

record patient_fields =
  w_name :: string
  w_cpf :: string
  w_birth_date :: string
  w_phone :: "string option"
  w_email :: "string option"
  w_status :: string

datatype patient_write = InsertPatient patient_fields | UpdatePatient string patient_fields
  | DeletePatient string

datatype ui_toast = ToastSuccess string | ToastError string

datatype write_outcome = WriteOk | WriteFailed thrown

definition form_fields :: "patient_form \<Rightarrow> patient_fields" where
  "form_fields fd = \<lparr>w_name = fd_name fd, w_cpf = fd_cpf fd, w_birth_date = fd_birth_date fd,
     w_phone = (if fd_phone fd = [] then None else Some (fd_phone fd)),
     w_email = (if fd_email fd = [] then None else Some (fd_email fd)),
     w_status = fd_status fd\<rparr>"

definition MSG_REQUIRED :: string where
  "MSG_REQUIRED = ''Preencha todos os campos obrigat'' @ [CHR 0xC3, CHR 0xB3] @ ''rios.''"

definition MSG_DELETE_FAILED :: string where
  "MSG_DELETE_FAILED = ''Erro ao excluir paciente. Tente novamente.''"

definition MSG_DELETED :: string where
  "MSG_DELETED = ''Paciente exclu'' @ [CHR 0xC3, CHR 0xAD] @ ''do com sucesso!''"

text \<open>
  A handler's effect: the new state, the writes it issues and the toasts it raises.  The
  mutation's outcome is the input \<open>r\<close>; \<open>onSuccess\<close> and \<open>onError\<close> are its two branches.
\<close>

type_synonym pacientes_effect = "pacientes_state \<times> patient_write list \<times> ui_toast list"

definition handleSubmit :: "write_outcome \<Rightarrow> pacientes_state \<Rightarrow> pacientes_effect" where
  "handleSubmit r s =
     (let fd = formData s in
      if fd_name fd = [] \<or> fd_cpf fd = [] \<or> fd_birth_date fd = [] then (s, [], [ToastError MSG_REQUIRED])
      else (case r of
              WriteOk \<Rightarrow> (s\<lparr>isDialogOpen := False, formData := emptyFormData\<rparr>,
                          [InsertPatient (form_fields fd)], [ToastSuccess ''Paciente cadastrado com sucesso!''])
            | WriteFailed e \<Rightarrow> (s, [InsertPatient (form_fields fd)], [ToastError (handlePatientError e)])))"

definition handleEditSubmit :: "write_outcome \<Rightarrow> pacientes_state \<Rightarrow> pacientes_effect" where
  "handleEditSubmit r s =
     (let fd = formData s in
      case selectedPatient s of
        None \<Rightarrow> (s, [], [ToastError MSG_REQUIRED])
      | Some p \<Rightarrow>
          if fd_name fd = [] \<or> fd_cpf fd = [] \<or> fd_birth_date fd = [] then (s, [], [ToastError MSG_REQUIRED])
          else (case r of
                  WriteOk \<Rightarrow> (s\<lparr>isEditDialogOpen := False, selectedPatient := None, formData := emptyFormData\<rparr>,
                              [UpdatePatient (p_id p) (form_fields fd)],
                              [ToastSuccess ''Paciente atualizado com sucesso!''])
                | WriteFailed e \<Rightarrow> (s, [UpdatePatient (p_id p) (form_fields fd)],
                                    [ToastError (handlePatientError e)])))"

text \<open>The delete confirmation: \<open>selectedPatient && deletePatient.mutate(selectedPatient.id)\<close>.\<close>

definition confirmDelete :: "write_outcome \<Rightarrow> pacientes_state \<Rightarrow> pacientes_effect" where
  "confirmDelete r s =
     (case selectedPatient s of
        None \<Rightarrow> (s, [], [])
      | Some p \<Rightarrow>
          (case r of
             WriteOk \<Rightarrow> (s\<lparr>isDeleteDialogOpen := False, selectedPatient := None\<rparr>,
                         [DeletePatient (p_id p)], [ToastSuccess MSG_DELETED])
           | WriteFailed e \<Rightarrow> (s, [DeletePatient (p_id p)], [ToastError MSG_DELETE_FAILED])))"

definition openEditDialog :: "patient \<Rightarrow> pacientes_state \<Rightarrow> pacientes_state" where
  "openEditDialog p s = s\<lparr>selectedPatient := Some p,
     formData := \<lparr>fd_name = p_name p, fd_cpf = p_cpf p, fd_birth_date = p_birth_date p,
                  fd_phone = (case p_phone p of None \<Rightarrow> [] | Some x \<Rightarrow> x),
                  fd_email = (case p_email p of None \<Rightarrow> [] | Some x \<Rightarrow> x), fd_status = p_status p\<rparr>,
     isEditDialogOpen := True\<rparr>"

definition openViewDialog :: "patient \<Rightarrow> pacientes_state \<Rightarrow> pacientes_state" where
  "openViewDialog p s = s\<lparr>selectedPatient := Some p, isViewDialogOpen := True\<rparr>"

definition openDeleteDialog :: "patient \<Rightarrow> pacientes_state \<Rightarrow> pacientes_state" where
  "openDeleteDialog p s = s\<lparr>selectedPatient := Some p, isDeleteDialogOpen := True\<rparr>"

definition clearFilters :: "pacientes_state \<Rightarrow> pacientes_state" where
  "clearFilters s = s\<lparr>filters := emptyFilters\<rparr>"

text \<open>The form's and the toolbar's input events (both dialogs share one form).\<close>

datatype pacientes_input =
    SearchInput string | NameInput string | CpfInput string | BirthDateInput string
  | PhoneInput string | EmailInput string | StatusSelect string
  | FilterStatus string | FilterDateFrom string | FilterDateTo string

fun pacientes_input_step :: "pacientes_input \<Rightarrow> pacientes_state \<Rightarrow> pacientes_state" where
  "pacientes_input_step (SearchInput v) s = s\<lparr>searchTerm := v\<rparr>"
| "pacientes_input_step (NameInput v) s = s\<lparr>formData := (formData s)\<lparr>fd_name := v\<rparr>\<rparr>"
| "pacientes_input_step (CpfInput v) s = s\<lparr>formData := (formData s)\<lparr>fd_cpf := formatCPF v\<rparr>\<rparr>"
| "pacientes_input_step (BirthDateInput v) s = s\<lparr>formData := (formData s)\<lparr>fd_birth_date := v\<rparr>\<rparr>"
| "pacientes_input_step (PhoneInput v) s = s\<lparr>formData := (formData s)\<lparr>fd_phone := formatPhone v\<rparr>\<rparr>"
| "pacientes_input_step (EmailInput v) s = s\<lparr>formData := (formData s)\<lparr>fd_email := v\<rparr>\<rparr>"
| "pacientes_input_step (StatusSelect v) s = s\<lparr>formData := (formData s)\<lparr>fd_status := v\<rparr>\<rparr>"
| "pacientes_input_step (FilterStatus v) s = s\<lparr>filters := (filters s)\<lparr>f_status := v\<rparr>\<rparr>"
| "pacientes_input_step (FilterDateFrom v) s = s\<lparr>filters := (filters s)\<lparr>f_dateFrom := v\<rparr>\<rparr>"
| "pacientes_input_step (FilterDateTo v) s = s\<lparr>filters := (filters s)\<lparr>f_dateTo := v\<rparr>\<rparr>"

section \<open>Rendering\<close>

record patient_table_row =
  row_initials :: string
  row_name :: string
  row_short_id :: string
  row_cpf :: string
  row_phone :: "string option"
  row_email :: "string option"
  row_birth :: string
  row_status :: string
  row_variant :: string

definition patient_row_view :: "patient \<Rightarrow> patient_table_row" where
  "patient_row_view p = \<lparr>row_initials = getInitials (p_name p), row_name = p_name p,
     row_short_id = take 8 (p_id p), row_cpf = p_cpf p,
     row_phone = (case p_phone p of Some x \<Rightarrow> if x = [] then None else Some x | None \<Rightarrow> None),
     row_email = (case p_email p of Some x \<Rightarrow> if x = [] then None else Some x | None \<Rightarrow> None),
     row_birth = formatDate (p_birth_date p), row_status = p_status p,
     row_variant = getStatusVariant (p_status p)\<rparr>"

datatype pacientes_table = TableLoading | TableEmpty string | TableRows "patient_table_row list"

definition pacientes_table_view :: "bool \<Rightarrow> patient list \<Rightarrow> pacientes_state \<Rightarrow> pacientes_table \<times> string" where
  "pacientes_table_view isLoading patients s =
     (let shown = filteredPatients (searchTerm s) (filters s) patients in
      (if isLoading then TableLoading
       else if shown = [] then
         TableEmpty (if searchTerm s \<noteq> [] \<or> hasActiveFilters (filters s)
                     then ''Nenhum paciente encontrado.'' else ''Nenhum paciente cadastrado.'')
       else TableRows (map patient_row_view shown),
       ''Mostrando '' @ nat_to_string (length shown) @ '' de '' @ nat_to_string (length patients)
         @ '' pacientes''))"

definition NAO_INFORMADO :: string where
  "NAO_INFORMADO = ''N'' @ TILDE_A @ ''o informado''"

text \<open>The details dialog: phone and e-mail fall back to "Nao informado" when empty or null.\<close>

definition patient_details :: "patient \<Rightarrow> string list" where
  "patient_details p =
     [getInitials (p_name p), p_name p, p_status p, p_cpf p, formatDate (p_birth_date p),
      (case p_phone p of Some x \<Rightarrow> if x = [] then NAO_INFORMADO else x | None \<Rightarrow> NAO_INFORMADO),
      (case p_email p of Some x \<Rightarrow> if x = [] then NAO_INFORMADO else x | None \<Rightarrow> NAO_INFORMADO),
      p_id p]"

section \<open>Properties\<close>

lemma regex_group_replace_short:
  "length ds \<le> n \<Longrightarrow> regex_group_replace n pre sep ds = ds"
  by (induction ds) auto

lemma regex_group_replace_digits:
  assumes "list_all is_digit ds"
  shows "regex_group_replace n pre sep ds
         = (if Suc n \<le> length ds then pre @ take n ds @ sep @ drop n ds else ds)"
proof (cases ds)
  case Nil
  then show ?thesis by simp
next
  case (Cons c r)
  show ?thesis
  proof (cases "Suc n \<le> length ds")
    case True
    moreover have "list_all is_digit (take (Suc n) ds)"
      using assms by (auto simp: list_all_iff dest: in_set_takeD)
    ultimately show ?thesis using Cons by (simp only: regex_group_replace.simps(2)) simp
  next
    case False
    then show ?thesis by (simp add: regex_group_replace_short)
  qed
qed

lemma regex_group_replace_skip:
  assumes "\<not> is_digit c" and "length p \<le> n"
  shows "regex_group_replace n pre sep (p @ c # q) = p @ c # regex_group_replace n pre sep q"
  using assms
proof (induction p)
  case Nil
  then have nc: "\<not> (Suc n \<le> length (c # q) \<and> list_all is_digit (take (Suc n) (c # q)))"
    by simp
  show ?case by (simp only: append_Nil regex_group_replace.simps(2) nc if_False)
next
  case (Cons x p)
  have "c \<in> set (take (Suc n) (x # p @ c # q))"
    using Cons.prems by (simp add: take_Cons' take_append)
  then have "\<not> list_all is_digit (take (Suc n) (x # p @ c # q))"
    using Cons.prems by (auto simp: list_all_iff)
  then have nc: "\<not> (Suc n \<le> length (x # p @ c # q) \<and> list_all is_digit (take (Suc n) (x # p @ c # q)))"
    by blast
  have "regex_group_replace n pre sep (x # p @ c # q) = x # regex_group_replace n pre sep (p @ c # q)"
    by (simp only: regex_group_replace.simps(2) nc if_False)
  with Cons show ?case by simp
qed

lemma regex_trunc_dash_skip:
  "CHR ''-'' \<notin> set p \<Longrightarrow> regex_trunc_dash k (p @ q) = p @ regex_trunc_dash k q"
  by (induction p) auto

lemma regex_trunc_dash_none: "CHR ''-'' \<notin> set s \<Longrightarrow> regex_trunc_dash k s = s"
  using regex_trunc_dash_skip [of s k "[]"] by simp

lemma regex_trunc_dash_digits:
  "list_all is_digit r \<Longrightarrow>
   regex_trunc_dash k (CHR ''-'' # r) = CHR ''-'' # (if k < length r then take k r else r)"
proof -
  assume d: "list_all is_digit r"
  then have "CHR ''-'' \<notin> set r" by (auto simp: list_all_iff is_digit_def)
  then show ?thesis using d regex_trunc_dash_none [of r k] by simp
qed


lemma list_all_take_drop:
  "list_all P xs \<Longrightarrow> list_all P (take k xs) \<and> list_all P (drop k xs)"
  by (auto simp: list_all_iff dest: in_set_takeD in_set_dropD)

lemma mask_chars_not_digit:
  "\<not> is_digit (CHR ''.'')" "\<not> is_digit (CHR ''-'')" "\<not> is_digit (CHR ''('')"
  "\<not> is_digit (CHR '')'')" "\<not> is_digit (CHR '' '')"
  by (simp_all add: is_digit_def)

lemma digits_no_dash: "list_all is_digit ds \<Longrightarrow> CHR ''-'' \<notin> set ds"
  by (auto simp: list_all_iff is_digit_def)

lemma regex_group_replace_skip0:
  "\<not> is_digit c \<Longrightarrow> regex_group_replace n pre sep (c # q) = c # regex_group_replace n pre sep q"
  using regex_group_replace_skip [of c "[]"] by simp

lemmas mask_simps = regex_group_replace_skip0 regex_group_replace_digits regex_group_replace_skip regex_group_replace_short
  regex_trunc_dash_skip regex_trunc_dash_none regex_trunc_dash_digits list_all_take_drop
  mask_chars_not_digit digits_no_dash

lemma formatCPF_layout_digits:
  assumes d: "list_all is_digit ds"
  shows "regex_trunc_dash 2 (regex_group_replace 3 [] ''-''
           (regex_group_replace 3 [] ''.'' (regex_group_replace 3 [] ''.'' ds))) = cpf_layout ds"
proof -
  have dd: "list_all is_digit (take k ds)" "list_all is_digit (drop k ds)" for k
    using list_all_take_drop [OF d] by simp_all
  have nd: "CHR ''-'' \<notin> set (take k ds)" "CHR ''-'' \<notin> set (drop k ds)" for k
    using dd digits_no_dash by blast+
  consider "length ds \<le> 3" | "3 < length ds" "length ds \<le> 6" | "6 < length ds" "length ds \<le> 9"
    | "9 < length ds" by linarith
  then show ?thesis
  proof cases
    case 1
    then show ?thesis using d by (simp add: mask_simps cpf_layout_def)
  next
    case 2
    then show ?thesis using d dd nd by (simp add: mask_simps cpf_layout_def)
  next
    case 3
    then show ?thesis using d dd nd by (simp add: mask_simps cpf_layout_def drop_take min_def) arith
  next
    case 4
    then show ?thesis using d dd nd by (simp add: mask_simps cpf_layout_def drop_take min_def) arith
  qed
qed


lemma formatCPF_eq: "formatCPF v = cpf_layout (filter is_digit v)"
  unfolding formatCPF_def Let_def by (rule formatCPF_layout_digits) (simp add: list_all_iff)

lemma filter_digits_id: "list_all is_digit xs \<Longrightarrow> filter is_digit xs = xs"
  by (simp add: list_all_iff)

lemma take_take_drop:
  "take a xs @ take b (drop a xs) = take (a + b) xs"
  "take a xs @ take b (drop a xs) @ ys = take (a + b) xs @ ys"
  by (simp_all add: take_add)

lemma cpf_layout_props:
  assumes d: "list_all is_digit ds"
  shows "filter is_digit (cpf_layout ds) = take 11 ds \<and> length (cpf_layout ds) \<le> 14
         \<and> cpf_layout (take 11 ds) = cpf_layout ds"
proof -
  have dd: "list_all is_digit (take k ds)" "list_all is_digit (drop k ds)" for k
    using list_all_take_drop [OF d] by simp_all
  have f: "filter is_digit (take k (drop j ds)) = take k (drop j ds)"
          "filter is_digit (take k ds) = take k ds" "filter is_digit (drop k ds) = drop k ds" for k j
    using dd list_all_take_drop [OF dd(2)] filter_digits_id by blast+
  have "filter is_digit (cpf_layout ds) = take 11 ds"
    using d f by (simp add: cpf_layout_def mask_chars_not_digit filter_digits_id take_take_drop take_all)
  moreover have "length (cpf_layout ds) \<le> 14"
    by (simp add: cpf_layout_def)
  moreover have "cpf_layout (take 11 ds) = cpf_layout ds"
    by (simp add: cpf_layout_def drop_take min_def)
  ultimately show ?thesis by blast
qed


lemma formatPhone_layout_digits:
  assumes d: "list_all is_digit ds"
  shows "regex_trunc_dash 4 (regex_group_replace 5 [] ''-'' (regex_group_replace 2 ''('' '') '' ds))
         = phone_layout ds"
proof -
  have dd: "list_all is_digit (take k ds)" "list_all is_digit (drop k ds)" for k
    using list_all_take_drop [OF d] by simp_all
  have dd2: "list_all is_digit (take k (drop j ds))" "list_all is_digit (drop k (drop j ds))" for k j
    using list_all_take_drop [OF dd(2)] by simp_all
  have nd: "CHR ''-'' \<notin> set (take k ds)" "CHR ''-'' \<notin> set (drop k ds)"
           "CHR ''-'' \<notin> set (take k (drop j ds))" for k j
    using dd dd2 digits_no_dash by blast+
  consider "length ds \<le> 2" | "2 < length ds" "length ds \<le> 7" | "7 < length ds" by linarith
  then show ?thesis
  proof cases
    case 1
    then show ?thesis using d by (simp add: mask_simps phone_layout_def)
  next
    case 2
    then show ?thesis using d dd nd by (simp add: mask_simps phone_layout_def)
  next
    case 3
    then show ?thesis using d dd dd2 nd by (simp add: mask_simps phone_layout_def drop_take min_def)
  qed
qed

lemma formatPhone_eq: "formatPhone v = phone_layout (filter is_digit v)"
  unfolding formatPhone_def Let_def by (rule formatPhone_layout_digits) (simp add: list_all_iff)

lemma phone_layout_props:
  assumes d: "list_all is_digit ds"
  shows "filter is_digit (phone_layout ds) = take 11 ds \<and> length (phone_layout ds) \<le> 15"
proof -
  have dd: "list_all is_digit (take k ds)" "list_all is_digit (drop k ds)" for k
    using list_all_take_drop [OF d] by simp_all
  have f: "filter is_digit (take k (drop j ds)) = take k (drop j ds)"
          "filter is_digit (take k ds) = take k ds" "filter is_digit (drop k ds) = drop k ds" for k j
    using dd list_all_take_drop [OF dd(2)] filter_digits_id by blast+
  have "filter is_digit (phone_layout ds) = take 11 ds"
    using d f by (simp add: phone_layout_def mask_chars_not_digit filter_digits_id take_take_drop take_all)
  moreover have "length (phone_layout ds) \<le> 15"
    by (simp add: phone_layout_def) arith
  ultimately show ?thesis by blast
qed


text \<open>
  C37 (roundtrip). The CPF mask keeps the first 11 digits of what was typed and nothing
  else, fits the input's \<open>maxLength\<close> of 14, and is idempotent: re-masking the masked
  value (as \<open>onChange\<close> does on every keystroke) changes nothing.
\<close>

theorem formatCPF_roundtrip:
  "filter is_digit (formatCPF v) = take 11 (filter is_digit v)
   \<and> length (formatCPF v) \<le> 14
   \<and> formatCPF (formatCPF v) = formatCPF v"
proof -
  have d: "list_all is_digit (filter is_digit v)" by (simp add: list_all_iff)
  note p = cpf_layout_props [OF d]
  have "formatCPF (formatCPF v) = cpf_layout (take 11 (filter is_digit v))"
    using p by (simp add: formatCPF_eq)
  then show ?thesis using p by (simp add: formatCPF_eq)
qed

text \<open>
  C38 (functional). The phone mask keeps the first 11 digits and fits \<open>maxLength\<close> 15;
  it formats a mobile number as \<open>(dd) ddddd-dddd\<close>, but a 10-digit landline as
  \<open>(dd) ddddd-ddd\<close>, not \<open>(dd) dddd-dddd\<close>.
\<close>

theorem formatPhone_landline:
  "filter is_digit (formatPhone v) = take 11 (filter is_digit v)
   \<and> length (formatPhone v) \<le> 15
   \<and> formatPhone ''11987654321'' = ''(11) 98765-4321''
   \<and> formatPhone ''1133334444'' = ''(11) 33334-444''"
proof -
  have d: "list_all is_digit (filter is_digit v)" by (simp add: list_all_iff)
  have "formatPhone ''11987654321'' = ''(11) 98765-4321''" by code_simp
  moreover have "formatPhone ''1133334444'' = ''(11) 33334-444''" by code_simp
  ultimately show ?thesis using phone_layout_props [OF d] by (simp add: formatPhone_eq)
qed

lemma submit_reset_changes:
  assumes "fd_name (formData s) \<noteq> []"
  shows "s\<lparr>isDialogOpen := b, formData := emptyFormData\<rparr> \<noteq> s"
proof
  assume "s\<lparr>isDialogOpen := b, formData := emptyFormData\<rparr> = s"
  then have "formData s = emptyFormData"
    by (metis pacientes_state.select_convs(7) pacientes_state.surjective pacientes_state.update_convs(2)
        pacientes_state.update_convs(7))
  with assms show False by (simp add: emptyFormData_def)
qed

text \<open>
  C39 (error). \<open>handleSubmit\<close> writes exactly when name, CPF and birth date are filled
  in, always raises one toast, and leaves the page state (dialog and typed form) untouched
  unless the insert succeeded.
\<close>

theorem handleSubmit_contract:
  "(fst (snd (handleSubmit r s)) \<noteq> []
      \<longleftrightarrow> fd_name (formData s) \<noteq> [] \<and> fd_cpf (formData s) \<noteq> [] \<and> fd_birth_date (formData s) \<noteq> [])
   \<and> length (snd (snd (handleSubmit r s))) = 1
   \<and> (fst (handleSubmit r s) = s
      \<longleftrightarrow> r \<noteq> WriteOk \<or> fd_name (formData s) = [] \<or> fd_cpf (formData s) = []
          \<or> fd_birth_date (formData s) = [])"
  by (cases r) (auto simp: handleSubmit_def Let_def submit_reset_changes)

theorem handleSubmit_contract_witness:
  "(fst (snd (handleSubmit (WriteFailed (OtherValue None))
       (pacientes_init\<lparr>formData := emptyFormData\<lparr>fd_name := ''Ana''\<rparr>\<rparr>))) \<noteq> []
     \<longleftrightarrow> False)
   \<and> fst (handleSubmit (WriteFailed (OtherValue None))
       (pacientes_init\<lparr>formData := emptyFormData\<lparr>fd_name := ''Ana''\<rparr>\<rparr>))
     = pacientes_init\<lparr>formData := emptyFormData\<lparr>fd_name := ''Ana''\<rparr>\<rparr>"
  using handleSubmit_contract [of "WriteFailed (OtherValue None)"
      "pacientes_init\<lparr>formData := emptyFormData\<lparr>fd_name := ''Ana''\<rparr>\<rparr>"]
  by (simp add: emptyFormData_def)

lemma sublist_digits_sep:
  assumes q: "list_all is_digit q" and c: "\<not> is_digit c" and sub: "sublist q (a @ c # b)"
  shows "sublist q a \<or> sublist q b"
proof (cases q)
  case Nil
  then show ?thesis by simp
next
  case (Cons x xs)
  have not_pre: "\<not> prefix q' (c # b)" if "q' \<noteq> []" "list_all is_digit q'" for q'
    using that c by (cases q') auto
  have "sublist q a \<or> sublist q (c # b) \<or> (\<exists>q1 q2. q = q1 @ q2 \<and> suffix q1 a \<and> prefix q2 (c # b))"
    using sub by (simp add: sublist_append)
  moreover have "sublist q (c # b) \<Longrightarrow> sublist q b"
    using not_pre [OF _ q] Cons by (auto simp: sublist_Cons_right)
  moreover have "sublist q a" if "q = q1 @ q2" "suffix q1 a" "prefix q2 (c # b)" for q1 q2
  proof -
    have "q2 = []" using not_pre [of q2] q that(1,3) by auto
    then show ?thesis using that(1,2) by (simp add: suffix_imp_sublist)
  qed
  ultimately show ?thesis by blast
qed

lemma cpf_layout_digit_runs:
  assumes q: "list_all is_digit q" and sub: "sublist q (cpf_layout ds)"
  shows "length q \<le> 3"
proof -
  have nd: "\<not> is_digit (CHR ''.'')" "\<not> is_digit (CHR ''-'')" by (simp_all add: is_digit_def)
  have short: "length q \<le> 3" if "sublist q xs" "length xs \<le> 3" for xs
    using sublist_length_le [OF that(1)] that(2) by simp
  have one: "length q \<le> 3" if "sublist q (a @ c # b)" "\<not> is_digit c" "length a \<le> 3" "length b \<le> 3" for a b c
    using sublist_digits_sep [OF q that(2,1)] short that(3,4) by blast
  have two: "length q \<le> 3" if "sublist q (a @ c # b @ d # e)" "\<not> is_digit c" "\<not> is_digit d"
      "length a \<le> 3" "length b \<le> 3" "length e \<le> 3" for a b c d e
    using sublist_digits_sep [OF q that(2,1)] one [OF _ that(3,5,6)] short that(4) by blast
  have three: "length q \<le> 3" if "sublist q (a @ c # b @ d # e @ f # g)" "\<not> is_digit c" "\<not> is_digit d"
      "\<not> is_digit f" "length a \<le> 3" "length b \<le> 3" "length e \<le> 3" "length g \<le> 3" for a b c d e f g
    using sublist_digits_sep [OF q that(2,1)] two [OF _ that(3,4,6,7,8)] short that(5) by blast
  show ?thesis
    using sub short [of ds] one [of "take 3 ds" _ "drop 3 ds"] two [of "take 3 ds" _ "take 3 (drop 3 ds)" _ "drop 6 ds"]
      three [of "take 3 ds" _ "take 3 (drop 3 ds)" _ "take 3 (drop 6 ds)" _ "take 2 (drop 9 ds)"] nd
    by (auto simp: cpf_layout_def split: if_splits)
qed

text \<open>
  C40 (functional). The list search matches the CPF as stored, with the mask the form puts
  on it: a search of four digits or more never finds a patient through a CPF typed in the
  form, only through the name or the id, so the CPF's own 11 digits do not find its patient.
\<close>

theorem patient_search_cpf_digits:
  assumes "p_cpf p = formatCPF v" and "list_all is_digit q" and "4 \<le> length q"
    and "\<not> js_includes (js_toLowerCase (p_name p)) q" and "\<not> js_includes (js_toLowerCase (p_id p)) q"
  shows "p \<notin> set (filteredPatients q f ps)"
proof -
  have low: "js_toLowerCase q = q"
    using assms(2) by (induction q) (simp_all add: js_toLowerCase_def ascii_lower_def is_digit_def)
  have "\<not> js_includes (p_cpf p) q"
    using cpf_layout_digit_runs [OF assms(2)] assms(1,3) by (auto simp: js_includes_def formatCPF_eq)
  then show ?thesis using assms(4,5) low by (simp add: filteredPatients_def patient_matches_def)
qed

theorem patient_search_cpf_digits_witness:
  "\<lparr>p_id = ''7f3a'', p_name = ''Ana'', p_cpf = formatCPF ''12345678901'', p_birth_date = ''1990-05-17'',
      p_phone = None, p_email = None, p_status = ''Ativo'', p_created_at = [], p_updated_at = []\<rparr>
   \<notin> set (filteredPatients ''12345678901'' emptyFilters
        [\<lparr>p_id = ''7f3a'', p_name = ''Ana'', p_cpf = formatCPF ''12345678901'', p_birth_date = ''1990-05-17'',
          p_phone = None, p_email = None, p_status = ''Ativo'', p_created_at = [], p_updated_at = []\<rparr>])"
  by (rule patient_search_cpf_digits [where v = "''12345678901''"]) code_simp+

end
