(* ===== verification/Beds.thy ===== *)
theory Beds
  imports Notifications Patients
begin

text \<open>
  Bed and admission management, \<open>src/pages/Leitos.tsx\<close>.  The two tables the page writes
  are an explicit store (\<open>ward_db\<close>: the \<open>beds\<close> rows and the \<open>admissions\<close> rows); each
  mutation is its sequence of writes, and each write succeeds or fails by an input flag,
  so that a failure between the two writes of an admission or of a discharge is a state
  of the model.  The page's derived data (beds joined with their active admission, the
  filters, the four counters, the per-department statistics) and its views are functions
  of the rows the queries return.
\<close>

section \<open>Rows and the store\<close>

record ward_bed =
  lb_id :: string
  lb_number :: string
  lb_department :: string
  lb_status :: string

record ward_admission =
  wa_id :: string
  wa_patient_id :: string
  wa_bed_id :: string
  wa_professional_id :: "string option"
  wa_admission_date :: string
  wa_discharge_date :: "string option"
  wa_condition :: string
  wa_diagnosis :: "string option"
  wa_notes :: "string option"
  wa_status :: string

record ward_db =
  db_beds :: "ward_bed list"
  db_admissions :: "ward_admission list"
  db_next_id :: nat

definition STATUS_OCUPADO :: string where "STATUS_OCUPADO = ''Ocupado''"
definition ADMISSION_ACTIVE :: string where "ADMISSION_ACTIVE = ''Ativa''"
definition ADMISSION_DISCHARGED :: string where "ADMISSION_DISCHARGED = ''Alta''"

definition CONDITIONS :: "string list" where
  "CONDITIONS = [CONDITION_CRITICO, ''Est'' @ ACUTE_A @ ''vel'', ''Recupera'' @ CEDILLA @ TILDE_A @ ''o'']"

definition CENTRO_CIRURGICO :: string where
  "CENTRO_CIRURGICO = ''Centro Cir'' @ [CHR 0xC3, CHR 0xBA] @ ''rgico''"

definition DEPARTMENTS :: "string list" where
  "DEPARTMENTS = [''UTI'', ''Enfermaria A'', ''Enfermaria B'', ''Pediatria'', ''Maternidade'', CENTRO_CIRURGICO]"

definition getConditionVariant :: "string option \<Rightarrow> string" where
  "getConditionVariant c =
     (if c = Some CONDITION_CRITICO then ''destructive-light''
      else if c = Some (''Est'' @ ACUTE_A @ ''vel'') then ''success-light''
      else if c = Some (''Recupera'' @ CEDILLA @ TILDE_A @ ''o'') then ''info-light'' else ''secondary'')"

definition getBedStatusVariant :: "string \<Rightarrow> string" where
  "getBedStatusVariant st =
     (if st = STATUS_OCUPADO then ''primary-light''
      else if st = STATUS_DISPONIVEL then ''success-light''
      else if st = STATUS_MANUTENCAO then ''warning-light'' else ''secondary'')"

section \<open>Writes\<close>

text \<open>\<open>update(...).eq("id", x)\<close> on the two tables.\<close>

definition set_bed_status :: "string \<Rightarrow> string \<Rightarrow> ward_db \<Rightarrow> ward_db" where
  "set_bed_status bid st db =
     db\<lparr>db_beds := map (\<lambda>b. if lb_id b = bid then b\<lparr>lb_status := st\<rparr> else b) (db_beds db)\<rparr>"

definition discharge_admission :: "string \<Rightarrow> string \<Rightarrow> ward_db \<Rightarrow> ward_db" where
  "discharge_admission aid today db =
     db\<lparr>db_admissions := map (\<lambda>a. if wa_id a = aid
          then a\<lparr>wa_status := ADMISSION_DISCHARGED, wa_discharge_date := Some today\<rparr> else a)
          (db_admissions db)\<rparr>"

record admission_form =
  af_patient_id :: string
  af_bed_id :: string
  af_professional_id :: string
  af_condition :: string
  af_diagnosis :: string
  af_notes :: string

definition empty_admission_form :: admission_form where
  "empty_admission_form = \<lparr>af_patient_id = [], af_bed_id = [], af_professional_id = [],
     af_condition = ''Est'' @ ACUTE_A @ ''vel'', af_diagnosis = [], af_notes = []\<rparr>"

definition opt_field :: "string \<Rightarrow> string option" where
  "opt_field s = (if s = [] then None else Some s)"

text \<open>
  The admission insert: the database fills \<open>id\<close>, \<open>admission_date\<close> (today) and
  \<open>status\<close> (\<open>Ativa\<close>) with the column defaults.
\<close>

definition insert_admission :: "admission_form \<Rightarrow> string \<Rightarrow> ward_db \<Rightarrow> ward_db" where
  "insert_admission fd today db =
     db\<lparr>db_admissions := db_admissions db @
          [\<lparr>wa_id = nat_to_string (db_next_id db), wa_patient_id = af_patient_id fd,
            wa_bed_id = af_bed_id fd, wa_professional_id = opt_field (af_professional_id fd),
            wa_admission_date = today, wa_discharge_date = None, wa_condition = af_condition fd,
            wa_diagnosis = opt_field (af_diagnosis fd), wa_notes = opt_field (af_notes fd),
            wa_status = ADMISSION_ACTIVE\<rparr>],
        db_next_id := Suc (db_next_id db)\<rparr>"

datatype ward_outcome = WardOk | WardError string

text \<open>
  \<open>createAdmission\<close>: the insert, then the bed update, each thrown on error (\<open>ok1\<close>,
  \<open>ok2\<close> say whether the write succeeds).  A failed second write leaves the first one done.
\<close>

definition createAdmission ::
    "admission_form \<Rightarrow> string \<Rightarrow> bool \<Rightarrow> bool \<Rightarrow> ward_db \<Rightarrow> ward_db \<times> ward_outcome" where
  "createAdmission fd today ok1 ok2 db =
     (if \<not> ok1 then (db, WardError ''admissions'')
      else let db1 = insert_admission fd today db in
           if \<not> ok2 then (db1, WardError ''beds'')
           else (set_bed_status (af_bed_id fd) STATUS_OCUPADO db1, WardOk))"

definition dischargePatient ::
    "string \<Rightarrow> string \<Rightarrow> string \<Rightarrow> bool \<Rightarrow> bool \<Rightarrow> ward_db \<Rightarrow> ward_db \<times> ward_outcome" where
  "dischargePatient admissionId bedId today ok1 ok2 db =
     (if \<not> ok1 then (db, WardError ''admissions'')
      else let db1 = discharge_admission admissionId today db in
           if \<not> ok2 then (db1, WardError ''beds'')
           else (set_bed_status bedId STATUS_DISPONIVEL db1, WardOk))"

section \<open>Derived data\<close>

text \<open>The query of active admissions, and each bed with the first of them on it.\<close>

definition active_admissions :: "ward_db \<Rightarrow> ward_admission list" where
  "active_admissions db = filter (\<lambda>a. wa_status a = ADMISSION_ACTIVE) (db_admissions db)"

definition bedsWithAdmissions :: "ward_bed list \<Rightarrow> ward_admission list \<Rightarrow> (ward_bed \<times> ward_admission option) list" where
  "bedsWithAdmissions beds admissions =
     map (\<lambda>b. (b, find (\<lambda>a. wa_bed_id a = lb_id b) admissions)) beds"

definition filteredBeds ::
    "string \<Rightarrow> string \<Rightarrow> (ward_bed \<times> ward_admission option) list \<Rightarrow> (ward_bed \<times> ward_admission option) list" where
  "filteredBeds departmentFilter statusFilter bs =
     filter (\<lambda>(b, _). (departmentFilter = ''all'' \<or> lb_department b = departmentFilter)
                     \<and> (statusFilter = ''all'' \<or> lb_status b = statusFilter)) bs"

definition availableBeds :: "ward_bed list \<Rightarrow> ward_bed list" where
  "availableBeds beds = filter (\<lambda>b. lb_status b = STATUS_DISPONIVEL) beds"

definition ward_counters :: "ward_bed list \<Rightarrow> ward_admission list \<Rightarrow> nat \<times> nat \<times> nat \<times> nat" where
  "ward_counters beds admissions =
     (length beds, length (filter (\<lambda>b. lb_status b = STATUS_OCUPADO) beds),
      length (availableBeds beds), length (filter (\<lambda>a. wa_condition a = CONDITION_CRITICO) admissions))"

record department_stat =
  ds_name :: string
  ds_total :: nat
  ds_occupied :: nat
  ds_available :: nat
  ds_critical :: nat
  ds_status :: string
  ds_percentage :: int

definition ATENCAO :: string where "ATENCAO = ''Aten'' @ CEDILLA @ TILDE_A @ ''o''"

definition department_status :: "int \<Rightarrow> string" where
  "department_status percentage =
     (if 90 \<le> percentage then ''Alerta'' else if 70 \<le> percentage then ATENCAO else ''Normal'')"

definition department_stat_of ::
    "(ward_bed \<times> ward_admission option) list \<Rightarrow> string \<Rightarrow> department_stat" where
  "department_stat_of bs dept =
     (let deptBeds = filter (\<lambda>(b, _). lb_department b = dept) bs;
          tot = length deptBeds;
          occ = length (filter (\<lambda>(b, _). lb_status b = STATUS_OCUPADO) deptBeds);
          percentage = (if tot > 0 then math_round (of_nat occ / of_nat tot * 100) else 0)
      in \<lparr>ds_name = dept, ds_total = tot, ds_occupied = occ,
          ds_available = length (filter (\<lambda>(b, _). lb_status b = STATUS_DISPONIVEL) deptBeds),
          ds_critical = length (filter (\<lambda>(_, a). map_option wa_condition a = Some CONDITION_CRITICO) deptBeds),
          ds_status = department_status percentage, ds_percentage = percentage\<rparr>)"

definition departmentStats :: "(ward_bed \<times> ward_admission option) list \<Rightarrow> department_stat list" where
  "departmentStats bs = filter (\<lambda>d. ds_total d > 0) (map (department_stat_of bs) DEPARTMENTS)"

definition getStatusColor :: "string \<Rightarrow> string" where
  "getStatusColor st =
     (if st = ''Alerta'' then ''destructive'' else if st = ATENCAO then ''warning'' else ''success'')"

definition progress_indicator :: "int \<Rightarrow> string" where
  "progress_indicator p = (if 90 \<le> p then ''bg-destructive'' else if 70 \<le> p then ''bg-warning'' else ''bg-success'')"

text \<open>
  The store's consistency: a bed is occupied exactly when an active admission is on it,
  no bed has two active admissions, bed ids are distinct, and admission ids are below the
  next id the database hands out.
\<close>

definition ward_consistent :: "ward_db \<Rightarrow> bool" where
  "ward_consistent db \<longleftrightarrow>
     distinct (map lb_id (db_beds db))
     \<and> (\<forall>b\<in>set (db_beds db). lb_status b = STATUS_OCUPADO
           \<longleftrightarrow> (\<exists>a\<in>set (db_admissions db). wa_bed_id a = lb_id b \<and> wa_status a = ADMISSION_ACTIVE))
     \<and> (\<forall>a\<in>set (db_admissions db). \<forall>a'\<in>set (db_admissions db).
           wa_status a = ADMISSION_ACTIVE \<and> wa_status a' = ADMISSION_ACTIVE \<and> wa_bed_id a = wa_bed_id a'
           \<longrightarrow> a = a')
     \<and> (\<forall>a\<in>set (db_admissions db). wa_id a \<in> nat_to_string ` {..<db_next_id db})
     \<and> distinct (map wa_id (db_admissions db))
     \<and> (\<forall>a\<in>set (db_admissions db). wa_status a = ADMISSION_ACTIVE \<longrightarrow> wa_bed_id a \<in> lb_id ` set (db_beds db))"

text \<open>The status filter's options: the values a bed's status takes.\<close>

definition BED_STATUSES :: "string list" where
  "BED_STATUSES = [STATUS_DISPONIVEL, STATUS_OCUPADO, STATUS_MANUTENCAO]"

definition bed_status_valid :: "ward_db \<Rightarrow> bool" where
  "bed_status_valid db \<longleftrightarrow> list_all (\<lambda>b. lb_status b \<in> set BED_STATUSES) (db_beds db)"

section \<open>Page state and handlers\<close>

record leitos_state =
  l_isDialogOpen :: bool
  l_isDetailsOpen :: bool
  l_selectedBed :: "(ward_bed \<times> ward_admission option) option"
  l_departmentFilter :: string
  l_statusFilter :: string
  l_formData :: admission_form

definition leitos_init :: leitos_state where
  "leitos_init = \<lparr>l_isDialogOpen = False, l_isDetailsOpen = False, l_selectedBed = None,
     l_departmentFilter = ''all'', l_statusFilter = ''all'', l_formData = empty_admission_form\<rparr>"

definition hasActiveBedFilters :: "leitos_state \<Rightarrow> bool" where
  "hasActiveBedFilters s \<longleftrightarrow> l_departmentFilter s \<noteq> ''all'' \<or> l_statusFilter s \<noteq> ''all''"

definition active_filter_count :: "leitos_state \<Rightarrow> nat" where
  "active_filter_count s = length (filter (\<lambda>v. v \<noteq> ''all'') [l_departmentFilter s, l_statusFilter s])"

definition MSG_ADMISSION_REQUIRED :: string where
  "MSG_ADMISSION_REQUIRED = ''Preencha todos os campos obrigat'' @ [CHR 0xC3, CHR 0xB3] @ ''rios''"

text \<open>
  \<open>handleSubmit\<close> of the admission dialog on the store: the guard, then
  \<open>createAdmission\<close> with its \<open>onSuccess\<close> (dialog closed, form reset) and \<open>onError\<close>
  (the error toast); the store after the writes is returned with the page state.
\<close>

definition leitos_handleSubmit ::
    "string \<Rightarrow> bool \<Rightarrow> bool \<Rightarrow> leitos_state \<times> ward_db \<Rightarrow> (leitos_state \<times> ward_db) \<times> ui_toast list" where
  "leitos_handleSubmit today ok1 ok2 st =
     (case st of (s, db) \<Rightarrow>
       if af_patient_id (l_formData s) = [] \<or> af_bed_id (l_formData s) = []
       then ((s, db), [ToastError MSG_ADMISSION_REQUIRED])
       else (case createAdmission (l_formData s) today ok1 ok2 db of
               (db', WardOk) \<Rightarrow> ((s\<lparr>l_isDialogOpen := False, l_formData := empty_admission_form\<rparr>, db'),
                                 [ToastSuccess (''Interna'' @ CEDILLA @ TILDE_A @ ''o realizada com sucesso!'')])
             | (db', WardError m) \<Rightarrow> ((s, db'),
                                 [ToastError (''Erro ao realizar interna'' @ CEDILLA @ TILDE_A @ ''o: '' @ m)])))"

text \<open>"Dar Alta" in the details dialog of the selected bed.\<close>

definition leitos_discharge ::
    "string \<Rightarrow> bool \<Rightarrow> bool \<Rightarrow> leitos_state \<times> ward_db \<Rightarrow> (leitos_state \<times> ward_db) \<times> ui_toast list" where
  "leitos_discharge today ok1 ok2 st =
     (case st of (s, db) \<Rightarrow>
       case l_selectedBed s of
         Some (b, Some a) \<Rightarrow>
           (case dischargePatient (wa_id a) (lb_id b) today ok1 ok2 db of
              (db', WardOk) \<Rightarrow> ((s\<lparr>l_isDetailsOpen := False, l_selectedBed := None\<rparr>, db'),
                                [ToastSuccess ''Alta realizada com sucesso!''])
            | (db', WardError m) \<Rightarrow> ((s, db'), [ToastError (''Erro ao dar alta: '' @ m)]))
       | _ \<Rightarrow> ((s, db), []))"

definition clear_bed_filters :: "leitos_state \<Rightarrow> leitos_state" where
  "clear_bed_filters s = s\<lparr>l_departmentFilter := ''all'', l_statusFilter := ''all''\<rparr>"

text \<open>"Internar Paciente" on an available bed's card, and "Ver detalhes" on an occupied one.\<close>

definition admit_on_bed :: "ward_bed \<Rightarrow> leitos_state \<Rightarrow> leitos_state" where
  "admit_on_bed b s = s\<lparr>l_formData := (l_formData s)\<lparr>af_bed_id := lb_id b\<rparr>, l_isDialogOpen := True\<rparr>"

definition open_bed_details :: "ward_bed \<times> ward_admission option \<Rightarrow> leitos_state \<Rightarrow> leitos_state" where
  "open_bed_details bw s = s\<lparr>l_selectedBed := Some bw, l_isDetailsOpen := True\<rparr>"

section \<open>Views\<close>

definition admission_days :: "timestamp \<Rightarrow> string \<Rightarrow> int option" where
  "admission_days now d =
     map_option (\<lambda>day. js_trunc_div (now - day * MS_PER_DAY) MS_PER_DAY) (js_date_value d)"

datatype bed_card_body =
    CardAdmitted "string option" string "int option"
  | CardFree string bool

text \<open>\<open>names\<close> is the \<open>patient:patients(name)\<close> join of the admissions query.\<close>

definition bed_card ::
    "(string \<Rightarrow> string option) \<Rightarrow> timestamp \<Rightarrow> ward_bed \<times> ward_admission option
     \<Rightarrow> string \<times> string \<times> string \<times> bed_card_body" where
  "bed_card names now bw =
     (case bw of (b, adm) \<Rightarrow>
       (lb_number b, lb_department b, getBedStatusVariant (lb_status b),
        case adm of
          Some a \<Rightarrow> CardAdmitted (names (wa_patient_id a)) (wa_condition a) (admission_days now (wa_admission_date a))
        | None \<Rightarrow> CardFree (if lb_status b = STATUS_MANUTENCAO then ''Em manuten'' @ CEDILLA @ TILDE_A @ ''o''
                            else ''Leito dispon'' @ [CHR 0xC3, CHR 0xAD] @ ''vel'')
                           (lb_status b = STATUS_DISPONIVEL)))"

definition I_ACUTE :: string where "I_ACUTE = [CHR 0xC3, CHR 0xAD]"

text \<open>The four stat cards above the page: value and label.\<close>

definition ward_stat_cards :: "ward_bed list \<Rightarrow> ward_admission list \<Rightarrow> (nat \<times> string) list" where
  "ward_stat_cards beds admissions =
     (case ward_counters beds admissions of (t, occ, avail, crit) \<Rightarrow>
       [(t, ''Total de Leitos''), (occ, ''Ocupados''),
        (avail, ''Dispon'' @ I_ACUTE @ ''veis''), (crit, ''Cr'' @ I_ACUTE @ ''ticos'')])"

text \<open>One row of the "Por Departamento" card.\<close>

record department_row_view =
  dr_name :: string
  dr_badge :: string
  dr_badge_variant :: string
  dr_count :: string
  dr_progress :: int
  dr_indicator :: string
  dr_available :: string
  dr_critical :: "string option"

definition department_row :: "department_stat \<Rightarrow> department_row_view" where
  "department_row dept =
     \<lparr>dr_name = ds_name dept, dr_badge = ds_status dept, dr_badge_variant = getStatusColor (ds_status dept),
      dr_count = nat_to_string (ds_occupied dept) @ ''/'' @ nat_to_string (ds_total dept),
      dr_progress = ds_percentage dept, dr_indicator = progress_indicator (ds_percentage dept),
      dr_available = nat_to_string (ds_available dept) @ '' dispon'' @ I_ACUTE @ ''veis'',
      dr_critical = (if ds_critical dept > 0
                     then Some (nat_to_string (ds_critical dept) @ '' cr'' @ I_ACUTE @ ''tico(s)'') else None)\<rparr>"

text \<open>
  The details dialog of the selected bed, shown when the bed has an admission.  The
  admission date is formatted from \<open>date + "T12:00:00"\<close> (local noon, so the calendar day
  is the column's); \<open>format\<close> of an invalid date throws, which is \<open>None\<close>.  \<open>names\<close> and
  \<open>profs\<close> are the \<open>patient(name)\<close> and \<open>professional(name)\<close> joins.
\<close>

record admission_details_view =
  ad_patient :: "string option"
  ad_bed_number :: string
  ad_department :: string
  ad_date :: "string option"
  ad_days :: "int option"
  ad_professional :: string
  ad_condition :: string
  ad_condition_variant :: string
  ad_diagnosis :: "string option"
  ad_notes :: "string option"

definition NAO_DEFINIDO :: string where "NAO_DEFINIDO = ''N'' @ TILDE_A @ ''o definido''"

definition js_truthy_str :: "string option \<Rightarrow> string option" where
  "js_truthy_str v = (case v of Some x \<Rightarrow> if x = [] then None else Some x | None \<Rightarrow> None)"

definition details_dialog ::
    "(string \<Rightarrow> string option) \<Rightarrow> (string \<Rightarrow> string option) \<Rightarrow> timestamp \<Rightarrow> leitos_state
     \<Rightarrow> admission_details_view option" where
  "details_dialog names profs now s =
     (if \<not> l_isDetailsOpen s then None
      else case l_selectedBed s of
        Some (b, Some a) \<Rightarrow> Some
          \<lparr>ad_patient = names (wa_patient_id a), ad_bed_number = lb_number b, ad_department = lb_department b,
           ad_date = map_option (\<lambda>(y, m, d). pad2 d @ ''/'' @ pad2 m @ ''/'' @ pad4 y)
                       (parse_iso_date (wa_admission_date a)),
           ad_days = admission_days now (wa_admission_date a),
           ad_professional = (case js_truthy_str (Option.bind (wa_professional_id a) profs) of
                                Some n \<Rightarrow> n | None \<Rightarrow> NAO_DEFINIDO),
           ad_condition = wa_condition a, ad_condition_variant = getConditionVariant (Some (wa_condition a)),
           ad_diagnosis = js_truthy_str (wa_diagnosis a), ad_notes = js_truthy_str (wa_notes a)\<rparr>
      | _ \<Rightarrow> None)"

section \<open>The ward as a state machine\<close>

text \<open>
  The store after any sequence of the page's two mutations, from a store \<open>db0\<close>: an
  admission on a bed the dialog offers (\<open>availableBeds\<close>) with a patient chosen, and a
  discharge from the details dialog of a bed with its active admission.  \<open>W\<close> is the set of
  outcomes of the two writes that the environment may produce.
\<close>

inductive ward_reachable :: "(bool \<times> bool) set \<Rightarrow> ward_db \<Rightarrow> ward_db \<Rightarrow> bool"
  for W :: "(bool \<times> bool) set" and db0 :: ward_db where
  ward_start: "ward_reachable W db0 db0"
| ward_admit: "\<lbrakk>ward_reachable W db0 db; b \<in> set (availableBeds (db_beds db)); af_bed_id fd = lb_id b;
                af_patient_id fd \<noteq> []; (ok1, ok2) \<in> W\<rbrakk>
               \<Longrightarrow> ward_reachable W db0 (fst (createAdmission fd today ok1 ok2 db))"
| ward_discharge: "\<lbrakk>ward_reachable W db0 db;
                (b, Some a) \<in> set (bedsWithAdmissions (db_beds db) (active_admissions db)); (ok1, ok2) \<in> W\<rbrakk>
               \<Longrightarrow> ward_reachable W db0 (fst (dischargePatient (wa_id a) (lb_id b) today ok1 ok2 db))"

section \<open>A sample ward\<close>

definition sample_ward :: ward_db where
  "sample_ward = \<lparr>db_beds = [\<lparr>lb_id = ''b1'', lb_number = ''101'', lb_department = ''UTI'',
     lb_status = STATUS_DISPONIVEL\<rparr>], db_admissions = [], db_next_id = 0\<rparr>"

definition sample_admission_form :: "string \<Rightarrow> admission_form" where
  "sample_admission_form p = empty_admission_form\<lparr>af_patient_id := p, af_bed_id := ''b1''\<rparr>"

section \<open>Lemmas: the writes on the store\<close>

lemma set_bed_status_simps [simp]:
  "db_admissions (set_bed_status bid st db) = db_admissions db"
  "db_next_id (set_bed_status bid st db) = db_next_id db"
  "map lb_id (db_beds (set_bed_status bid st db)) = map lb_id (db_beds db)"
  by (simp_all add: set_bed_status_def comp_def)

lemma set_bed_status_beds:
  "set (db_beds (set_bed_status bid st db))
   = (\<lambda>b. if lb_id b = bid then b\<lparr>lb_status := st\<rparr> else b) ` set (db_beds db)"
  by (simp add: set_bed_status_def)

lemma insert_admission_simps [simp]:
  "db_beds (insert_admission fd today db) = db_beds db"
  "db_next_id (insert_admission fd today db) = Suc (db_next_id db)"
  by (simp_all add: insert_admission_def)

lemma fresh_admission_id:
  "ward_consistent db \<Longrightarrow> nat_to_string (db_next_id db) \<notin> wa_id ` set (db_admissions db)"
  by (auto simp: ward_consistent_def nat_to_string_inj)

lemma admission_keeps_consistency:
  assumes c: "ward_consistent db"
      and b: "b \<in> set (db_beds db)" "lb_id b = af_bed_id fd" "lb_status b = STATUS_DISPONIVEL"
  shows "ward_consistent (fst (createAdmission fd today True True db))"
proof -
  let ?new = "\<lparr>wa_id = nat_to_string (db_next_id db), wa_patient_id = af_patient_id fd,
            wa_bed_id = af_bed_id fd, wa_professional_id = opt_field (af_professional_id fd),
            wa_admission_date = today, wa_discharge_date = None, wa_condition = af_condition fd,
            wa_diagnosis = opt_field (af_diagnosis fd), wa_notes = opt_field (af_notes fd),
            wa_status = ADMISSION_ACTIVE\<rparr>"
  have res: "fst (createAdmission fd today True True db)
             = set_bed_status (af_bed_id fd) STATUS_OCUPADO (insert_admission fd today db)"
    by (simp add: createAdmission_def Let_def)
  have adms: "db_admissions (insert_admission fd today db) = db_admissions db @ [?new]"
    by (simp add: insert_admission_def)
  have disp: "STATUS_DISPONIVEL \<noteq> STATUS_OCUPADO"
    by (simp add: STATUS_DISPONIVEL_def STATUS_OCUPADO_def)
  from c b disp have none: "\<forall>a\<in>set (db_admissions db). wa_bed_id a = af_bed_id fd \<longrightarrow> wa_status a \<noteq> ADMISSION_ACTIVE"
    unfolding ward_consistent_def by metis
  have fresh: "nat_to_string (db_next_id db) \<notin> wa_id ` set (db_admissions db)"
    using c by (rule fresh_admission_id)
  have dist: "distinct (map lb_id (db_beds db))"
    using c by (simp add: ward_consistent_def)
  note adms [simp]
  show ?thesis
    unfolding res ward_consistent_def
  proof (intro conjI)
    show "distinct (map lb_id (db_beds (set_bed_status (af_bed_id fd) STATUS_OCUPADO (insert_admission fd today db))))"
      using dist by simp
    show "\<forall>c\<in>set (db_beds (set_bed_status (af_bed_id fd) STATUS_OCUPADO (insert_admission fd today db))).
            (lb_status c = STATUS_OCUPADO) = (\<exists>a\<in>set (db_admissions (set_bed_status (af_bed_id fd) STATUS_OCUPADO
               (insert_admission fd today db))). wa_bed_id a = lb_id c \<and> wa_status a = ADMISSION_ACTIVE)"
      using c unfolding set_bed_status_beds ward_consistent_def by auto
    show "\<forall>a\<in>set (db_admissions (set_bed_status (af_bed_id fd) STATUS_OCUPADO (insert_admission fd today db))).
            \<forall>a'\<in>set (db_admissions (set_bed_status (af_bed_id fd) STATUS_OCUPADO (insert_admission fd today db))).
            wa_status a = ADMISSION_ACTIVE \<and> wa_status a' = ADMISSION_ACTIVE \<and> wa_bed_id a = wa_bed_id a' \<longrightarrow> a = a'"
      using c none unfolding ward_consistent_def by auto
    show "\<forall>a\<in>set (db_admissions (set_bed_status (af_bed_id fd) STATUS_OCUPADO (insert_admission fd today db))).
            wa_id a \<in> nat_to_string ` {..<db_next_id (set_bed_status (af_bed_id fd) STATUS_OCUPADO (insert_admission fd today db))}"
      using c unfolding ward_consistent_def by force
    show "distinct (map wa_id (db_admissions (set_bed_status (af_bed_id fd) STATUS_OCUPADO (insert_admission fd today db))))"
      using c fresh unfolding ward_consistent_def by auto
    show "\<forall>a\<in>set (db_admissions (set_bed_status (af_bed_id fd) STATUS_OCUPADO (insert_admission fd today db))).
            wa_status a = ADMISSION_ACTIVE \<longrightarrow>
            wa_bed_id a \<in> lb_id ` set (db_beds (set_bed_status (af_bed_id fd) STATUS_OCUPADO (insert_admission fd today db)))"
    proof -
      have "lb_id ` set (db_beds (set_bed_status (af_bed_id fd) STATUS_OCUPADO (insert_admission fd today db)))
            = lb_id ` set (db_beds db)"
        by (metis insert_admission_simps(1) list.set_map set_bed_status_simps(3))
      moreover have "af_bed_id fd \<in> lb_id ` set (db_beds db)" using b by force
      ultimately show ?thesis using c unfolding ward_consistent_def by auto
    qed
  qed
qed
lemma discharge_admission_simps [simp]:
  "db_beds (discharge_admission aid today db) = db_beds db"
  "db_next_id (discharge_admission aid today db) = db_next_id db"
  "map wa_id (db_admissions (discharge_admission aid today db)) = map wa_id (db_admissions db)"
  by (simp_all add: discharge_admission_def comp_def)

lemma discharge_admission_adms:
  "set (db_admissions (discharge_admission aid today db))
   = (\<lambda>a. if wa_id a = aid then a\<lparr>wa_status := ADMISSION_DISCHARGED, wa_discharge_date := Some today\<rparr>
          else a) ` set (db_admissions db)"
  by (simp add: discharge_admission_def)

lemma discharge_active_old:
  "x \<in> set (db_admissions (discharge_admission aid today db)) \<Longrightarrow> wa_status x = ADMISSION_ACTIVE
   \<Longrightarrow> x \<in> set (db_admissions db)"
  by (auto simp: discharge_admission_adms ADMISSION_DISCHARGED_def ADMISSION_ACTIVE_def)

lemma ward_admission_id_unique:
  "ward_consistent db \<Longrightarrow> a \<in> set (db_admissions db) \<Longrightarrow> a' \<in> set (db_admissions db)
   \<Longrightarrow> wa_id a' = wa_id a \<Longrightarrow> a' = a"
  unfolding ward_consistent_def by (metis distinct_map inj_onD)

lemma discharge_active_iff:
  assumes "ward_consistent db" "a \<in> set (db_admissions db)"
  shows "(\<exists>a'\<in>set (db_admissions (discharge_admission (wa_id a) today db)).
            wa_bed_id a' = k \<and> wa_status a' = ADMISSION_ACTIVE)
         \<longleftrightarrow> (\<exists>a'\<in>set (db_admissions db). wa_bed_id a' = k \<and> wa_status a' = ADMISSION_ACTIVE \<and> a' \<noteq> a)"
proof -
  have d: "ADMISSION_DISCHARGED \<noteq> ADMISSION_ACTIVE"
    by (simp add: ADMISSION_DISCHARGED_def ADMISSION_ACTIVE_def)
  show ?thesis unfolding discharge_admission_adms using ward_admission_id_unique [OF assms] d by force
qed

lemma discharge_keeps_consistency:
  assumes c: "ward_consistent db"
      and a: "a \<in> set (db_admissions db)" "wa_status a = ADMISSION_ACTIVE"
  shows "ward_consistent (fst (dischargePatient (wa_id a) (wa_bed_id a) today True True db))"
proof -
  let ?db = "set_bed_status (wa_bed_id a) STATUS_DISPONIVEL (discharge_admission (wa_id a) today db)"
  have res: "fst (dischargePatient (wa_id a) (wa_bed_id a) today True True db) = ?db"
    by (simp add: dischargePatient_def Let_def)
  have disp: "STATUS_DISPONIVEL \<noteq> STATUS_OCUPADO" "ADMISSION_DISCHARGED \<noteq> ADMISSION_ACTIVE"
    by (simp_all add: STATUS_DISPONIVEL_def STATUS_OCUPADO_def ADMISSION_DISCHARGED_def ADMISSION_ACTIVE_def)
  have ubed: "\<And>a'. a' \<in> set (db_admissions db) \<Longrightarrow> wa_status a' = ADMISSION_ACTIVE
                \<Longrightarrow> wa_bed_id a' = wa_bed_id a \<Longrightarrow> a' = a"
    using c a unfolding ward_consistent_def by blast
  note act = discharge_active_iff [OF c a(1)]
  have ids: "lb_id ` set (db_beds ?db) = lb_id ` set (db_beds db)"
    by (metis discharge_admission_simps(1) list.set_map set_bed_status_simps(3))
  have wids: "wa_id ` set (db_admissions ?db) = wa_id ` set (db_admissions db)"
    by (metis discharge_admission_simps(3) list.set_map set_bed_status_simps(1))
  have u: "\<forall>x\<in>set (db_admissions db). \<forall>y\<in>set (db_admissions db). wa_status x = ADMISSION_ACTIVE
             \<and> wa_status y = ADMISSION_ACTIVE \<and> wa_bed_id x = wa_bed_id y \<longrightarrow> x = y"
    and below: "wa_id ` set (db_admissions db) \<subseteq> nat_to_string ` {..<db_next_id db}"
    and bref: "\<forall>x\<in>set (db_admissions db). wa_status x = ADMISSION_ACTIVE \<longrightarrow> wa_bed_id x \<in> lb_id ` set (db_beds db)"
    using c by (auto simp: ward_consistent_def)
  show ?thesis
    unfolding res ward_consistent_def
  proof (intro conjI)
    show "distinct (map lb_id (db_beds ?db))"
      using c by (simp add: ward_consistent_def)
    show "\<forall>b\<in>set (db_beds ?db). (lb_status b = STATUS_OCUPADO)
            = (\<exists>a'\<in>set (db_admissions ?db). wa_bed_id a' = lb_id b \<and> wa_status a' = ADMISSION_ACTIVE)"
    proof
      fix b assume "b \<in> set (db_beds ?db)"
      then obtain b0 where b0: "b0 \<in> set (db_beds db)"
        and bdef: "b = (if lb_id b0 = wa_bed_id a then b0\<lparr>lb_status := STATUS_DISPONIVEL\<rparr> else b0)"
        by (auto simp: set_bed_status_beds)
      have occ: "(lb_status b0 = STATUS_OCUPADO)
             = (\<exists>a'\<in>set (db_admissions db). wa_bed_id a' = lb_id b0 \<and> wa_status a' = ADMISSION_ACTIVE)"
        using c b0 unfolding ward_consistent_def by blast
      show "(lb_status b = STATUS_OCUPADO)
            = (\<exists>a'\<in>set (db_admissions ?db). wa_bed_id a' = lb_id b \<and> wa_status a' = ADMISSION_ACTIVE)"
      proof (cases "lb_id b0 = wa_bed_id a")
        case True
        then show ?thesis using bdef disp ubed by (simp add: act)
      next
        case False
        then show ?thesis using bdef occ by (auto simp: act)
      qed
    qed
    show "\<forall>x\<in>set (db_admissions ?db). \<forall>y\<in>set (db_admissions ?db).
            wa_status x = ADMISSION_ACTIVE \<and> wa_status y = ADMISSION_ACTIVE \<and> wa_bed_id x = wa_bed_id y \<longrightarrow> x = y"
      using u by (auto dest: discharge_active_old)
    show "\<forall>x\<in>set (db_admissions ?db). wa_id x \<in> nat_to_string ` {..<db_next_id ?db}"
    proof -
      have "wa_id ` set (db_admissions ?db) \<subseteq> nat_to_string ` {..<db_next_id ?db}"
        using below wids by simp
      then show ?thesis by blast
    qed
    show "distinct (map wa_id (db_admissions ?db))"
      using c by (simp add: ward_consistent_def)
    show "\<forall>x\<in>set (db_admissions ?db). wa_status x = ADMISSION_ACTIVE \<longrightarrow> wa_bed_id x \<in> lb_id ` set (db_beds ?db)"
      unfolding ids using bref by (auto dest: discharge_active_old)
  qed
qed
lemma createAdmission_failed_first [simp]: "fst (createAdmission fd today False ok2 db) = db"
  by (simp add: createAdmission_def)

lemma dischargePatient_failed_first [simp]: "fst (dischargePatient aid bid today False ok2 db) = db"
  by (simp add: dischargePatient_def)

lemma bedsWithAdmissions_admission:
  "(b, Some a) \<in> set (bedsWithAdmissions (db_beds db) (active_admissions db))
   \<Longrightarrow> a \<in> set (db_admissions db) \<and> wa_status a = ADMISSION_ACTIVE \<and> wa_bed_id a = lb_id b"
  by (auto simp: bedsWithAdmissions_def active_admissions_def dest: sym [THEN find_SomeD])

lemma ward_reachable_consistent_inv:
  assumes "ward_consistent db0" "W \<subseteq> {(ok1, ok2). ok1 \<longrightarrow> ok2}" "ward_reachable W db0 db"
  shows "ward_consistent db"
  using assms(3)
proof induction
  case ward_start
  then show ?case using assms(1) .
next
  case (ward_admit db b fd ok1 ok2 today)
  have "ok1 \<longrightarrow> ok2" using ward_admit.hyps(5) assms(2) by blast
  then show ?case using ward_admit
    by (cases ok1) (auto simp: availableBeds_def intro: admission_keeps_consistency)
next
  case (ward_discharge db b a ok1 ok2 today)
  have "ok1 \<longrightarrow> ok2" using ward_discharge.hyps(3) assms(2) by blast
  moreover note adm = bedsWithAdmissions_admission [OF ward_discharge.hyps(2)]
  moreover have "lb_id b = wa_bed_id a" using adm by simp
  ultimately show ?case using ward_discharge.IH
    by (cases ok1) (auto intro: discharge_keeps_consistency)
qed

text \<open>
  C14 (invariant). When the second write of a mutation never fails after the first succeeded,
  every store the page reaches from a consistent store is consistent: a bed is occupied
  exactly when one active admission is on it, no bed holds two, ids stay unique.
\<close>

theorem ward_reachable_consistent:
  assumes "ward_consistent db0" "W \<subseteq> {(ok1, ok2). ok1 \<longrightarrow> ok2}" "ward_reachable W db0 db"
  shows "ward_consistent db"
  using assms by (rule ward_reachable_consistent_inv)
lemma set_bed_status_valid:
  "st \<in> set BED_STATUSES \<Longrightarrow> bed_status_valid db \<Longrightarrow> bed_status_valid (set_bed_status bid st db)"
  by (auto simp: bed_status_valid_def set_bed_status_def list_all_iff)

text \<open>
  C21 (type). Whatever the writes' outcomes, every bed of a reachable store keeps a status of
  the page's domain (Disponivel, Ocupado, Manutencao) when the initial store has one.
\<close>

theorem ward_reachable_bed_status:
  assumes "bed_status_valid db0" "ward_reachable W db0 db"
  shows "bed_status_valid db"
  using assms(2)
proof induction
  case ward_start
  then show ?case using assms(1) .
next
  case (ward_admit db b fd ok1 ok2 today)
  then show ?case
    by (auto simp: createAdmission_def Let_def BED_STATUSES_def intro!: set_bed_status_valid)
      (auto simp: bed_status_valid_def insert_admission_def)
next
  case (ward_discharge db b a ok1 ok2 today)
  then show ?case
    by (auto simp: dischargePatient_def Let_def BED_STATUSES_def intro!: set_bed_status_valid)
      (auto simp: bed_status_valid_def discharge_admission_def)
qed

theorem ward_reachable_bed_status_witness:
  "bed_status_valid sample_ward
   \<and> ward_reachable UNIV sample_ward
        (fst (createAdmission (sample_admission_form ''p1'') ''2025-01-01'' True False sample_ward))
   \<and> bed_status_valid (fst (createAdmission (sample_admission_form ''p1'') ''2025-01-01'' True False sample_ward))"
proof -
  let ?b = "\<lparr>lb_id = ''b1'', lb_number = ''101'', lb_department = ''UTI'', lb_status = STATUS_DISPONIVEL\<rparr>"
  have v: "bed_status_valid sample_ward"
    by (simp add: bed_status_valid_def sample_ward_def BED_STATUSES_def)
  have r: "ward_reachable UNIV sample_ward
        (fst (createAdmission (sample_admission_form ''p1'') ''2025-01-01'' True False sample_ward))"
    by (rule ward_admit [OF ward_start, of ?b])
       (simp_all add: sample_ward_def availableBeds_def sample_admission_form_def empty_admission_form_def)
  show ?thesis using ward_reachable_bed_status [OF v r] v r by simp
qed

text \<open>
  C23 (error). \<open>createAdmission\<close> is two writes without a transaction: when the bed update
  fails after the insert, the store holds an active admission on a bed still available,
  the dialog still offers that bed, and a second admission puts two active patients on it.
\<close>

theorem admission_partial_failure:
  "ward_reachable UNIV sample_ward (fst (createAdmission (sample_admission_form ''p1'') ''2025-01-01'' True False sample_ward))
   \<and> \<not> ward_consistent (fst (createAdmission (sample_admission_form ''p1'') ''2025-01-01'' True False sample_ward))
   \<and> ward_reachable UNIV sample_ward
       (fst (createAdmission (sample_admission_form ''p2'') ''2025-01-01'' True True
          (fst (createAdmission (sample_admission_form ''p1'') ''2025-01-01'' True False sample_ward))))
   \<and> length (filter (\<lambda>a. wa_bed_id a = ''b1'')
         (active_admissions (fst (createAdmission (sample_admission_form ''p2'') ''2025-01-01'' True True
          (fst (createAdmission (sample_admission_form ''p1'') ''2025-01-01'' True False sample_ward)))))) = 2"
proof -
  let ?b = "\<lparr>lb_id = ''b1'', lb_number = ''101'', lb_department = ''UTI'', lb_status = STATUS_DISPONIVEL\<rparr>"
  let ?db1 = "fst (createAdmission (sample_admission_form ''p1'') ''2025-01-01'' True False sample_ward)"
  have r1: "ward_reachable UNIV sample_ward ?db1"
    by (rule ward_admit [OF ward_start, of ?b])
       (simp_all add: sample_ward_def availableBeds_def sample_admission_form_def empty_admission_form_def)
  have b1: "?b \<in> set (availableBeds (db_beds ?db1))"
    by (simp add: sample_ward_def availableBeds_def createAdmission_def insert_admission_def)
  have r2: "ward_reachable UNIV sample_ward
       (fst (createAdmission (sample_admission_form ''p2'') ''2025-01-01'' True True ?db1))"
    by (rule ward_admit [OF r1 b1])
       (simp_all add: sample_admission_form_def empty_admission_form_def)
  have nc: "\<not> ward_consistent ?db1"
    by (simp add: ward_consistent_def sample_ward_def createAdmission_def insert_admission_def
        sample_admission_form_def STATUS_DISPONIVEL_def STATUS_OCUPADO_def)
  have two: "length (filter (\<lambda>a. wa_bed_id a = ''b1'')
         (active_admissions (fst (createAdmission (sample_admission_form ''p2'') ''2025-01-01'' True True ?db1)))) = 2"
    by (simp add: active_admissions_def sample_ward_def createAdmission_def insert_admission_def
        sample_admission_form_def set_bed_status_def)
  show ?thesis using r1 r2 nc two by blast
qed
lemma ward_occupied_ids:
  assumes "ward_consistent db"
  shows "lb_id ` set (filter (\<lambda>b. lb_status b = STATUS_OCUPADO) (db_beds db))
         = wa_bed_id ` set (active_admissions db)"
proof -
  have occ: "\<forall>b\<in>set (db_beds db). lb_status b = STATUS_OCUPADO
           \<longleftrightarrow> (\<exists>a\<in>set (db_admissions db). wa_bed_id a = lb_id b \<and> wa_status a = ADMISSION_ACTIVE)"
    and bref: "\<forall>a\<in>set (db_admissions db). wa_status a = ADMISSION_ACTIVE \<longrightarrow> wa_bed_id a \<in> lb_id ` set (db_beds db)"
    using assms by (simp_all add: ward_consistent_def)
  show ?thesis
  proof (rule set_eqI, rule iffI)
    fix k assume "k \<in> lb_id ` set (filter (\<lambda>b. lb_status b = STATUS_OCUPADO) (db_beds db))"
    then obtain b where b: "b \<in> set (db_beds db)" "lb_status b = STATUS_OCUPADO" "k = lb_id b" by auto
    have "\<exists>a\<in>set (db_admissions db). wa_bed_id a = lb_id b \<and> wa_status a = ADMISSION_ACTIVE"
      using bspec [OF occ b(1)] b(2) by simp
    then obtain a where "a \<in> set (db_admissions db)" "wa_bed_id a = k" "wa_status a = ADMISSION_ACTIVE"
      using b(3) by blast
    then show "k \<in> wa_bed_id ` set (active_admissions db)"
      by (auto simp: active_admissions_def)
  next
    fix k assume "k \<in> wa_bed_id ` set (active_admissions db)"
    then obtain a where a: "a \<in> set (db_admissions db)" "wa_status a = ADMISSION_ACTIVE" "k = wa_bed_id a"
      by (auto simp: active_admissions_def)
    have "k \<in> lb_id ` set (db_beds db)" using bspec [OF bref a(1)] a(2,3) by simp
    then obtain b where b: "b \<in> set (db_beds db)" "lb_id b = k" by blast
    have "lb_status b = STATUS_OCUPADO" using bspec [OF occ b(1)] a b(2) by auto
    with b show "k \<in> lb_id ` set (filter (\<lambda>b. lb_status b = STATUS_OCUPADO) (db_beds db))" by auto
  qed
qed

lemma ward_consistent_occupied_count:
  assumes "ward_consistent db"
  shows "length (filter (\<lambda>b. lb_status b = STATUS_OCUPADO) (db_beds db)) = length (active_admissions db)"
proof -
  let ?O = "filter (\<lambda>b. lb_status b = STATUS_OCUPADO) (db_beds db)"
  have dO: "distinct (map lb_id ?O)" and dA: "distinct (map wa_id (active_admissions db))"
    using assms by (simp_all add: ward_consistent_def distinct_map_filter active_admissions_def)
  have injA: "inj_on wa_bed_id (set (active_admissions db))"
    using assms by (auto simp: ward_consistent_def active_admissions_def inj_on_def)
  have "length ?O = card (lb_id ` set ?O)"
    using distinct_card [OF dO] by simp
  also have "\<dots> = card (wa_bed_id ` set (active_admissions db))"
    using ward_occupied_ids [OF assms] by simp
  also have "\<dots> = card (set (active_admissions db))"
    using injA by (rule card_image)
  also have "\<dots> = length (active_admissions db)"
    using dA by (simp add: distinct_card distinct_map)
  finally show ?thesis .
qed

text \<open>
  C33 (refinement). On every store the page reaches from a consistent one, the "Ocupados" card
  of the page (\<open>ward_counters\<close> over the beds and the active admissions) shows the number
  of active admissions, the rows of "Pacientes Internados".
\<close>

theorem ward_occupied_count:
  assumes "ward_consistent db0" "W \<subseteq> {(ok1, ok2). ok1 \<longrightarrow> ok2}" "ward_reachable W db0 db"
  shows "ward_stat_cards (db_beds db) (active_admissions db) ! 1 = (length (active_admissions db), ''Ocupados'')"
  using ward_consistent_occupied_count [OF ward_reachable_consistent_inv [OF assms]]
  by (simp add: ward_stat_cards_def ward_counters_def)

theorem ward_reachable_consistent_witness:
  "ward_consistent sample_ward \<and> {(True, True)} \<subseteq> {(ok1, ok2). ok1 \<longrightarrow> ok2}
   \<and> ward_reachable {(True, True)} sample_ward
        (fst (createAdmission (sample_admission_form ''p1'') ''2025-01-01'' True True sample_ward))
   \<and> ward_consistent (fst (createAdmission (sample_admission_form ''p1'') ''2025-01-01'' True True sample_ward))"
proof -
  let ?b = "\<lparr>lb_id = ''b1'', lb_number = ''101'', lb_department = ''UTI'', lb_status = STATUS_DISPONIVEL\<rparr>"
  have c0: "ward_consistent sample_ward"
    by (simp add: ward_consistent_def sample_ward_def STATUS_DISPONIVEL_def STATUS_OCUPADO_def)
  have r: "ward_reachable {(True, True)} sample_ward
        (fst (createAdmission (sample_admission_form ''p1'') ''2025-01-01'' True True sample_ward))"
    by (rule ward_admit [OF ward_start, of ?b])
       (simp_all add: sample_ward_def availableBeds_def sample_admission_form_def empty_admission_form_def)
  show ?thesis using ward_reachable_consistent [OF c0 _ r] c0 r by simp
qed

theorem ward_occupied_count_witness:
  "ward_consistent sample_ward \<and> {(True, True)} \<subseteq> {(ok1, ok2). ok1 \<longrightarrow> ok2}
   \<and> ward_reachable {(True, True)} sample_ward
        (fst (createAdmission (sample_admission_form ''p1'') ''2025-01-01'' True True sample_ward))
   \<and> ward_stat_cards (db_beds (fst (createAdmission (sample_admission_form ''p1'') ''2025-01-01'' True True sample_ward)))
        (active_admissions (fst (createAdmission (sample_admission_form ''p1'') ''2025-01-01'' True True sample_ward))) ! 1
     = (length (active_admissions (fst (createAdmission (sample_admission_form ''p1'') ''2025-01-01'' True True sample_ward))),
        ''Ocupados'')"
proof -
  let ?b = "\<lparr>lb_id = ''b1'', lb_number = ''101'', lb_department = ''UTI'', lb_status = STATUS_DISPONIVEL\<rparr>"
  have c0: "ward_consistent sample_ward"
    by (simp add: ward_consistent_def sample_ward_def STATUS_DISPONIVEL_def STATUS_OCUPADO_def)
  have r: "ward_reachable {(True, True)} sample_ward
        (fst (createAdmission (sample_admission_form ''p1'') ''2025-01-01'' True True sample_ward))"
    by (rule ward_admit [OF ward_start, of ?b])
       (simp_all add: sample_ward_def availableBeds_def sample_admission_form_def empty_admission_form_def)
  show ?thesis using ward_occupied_count [OF c0 _ r] c0 r by simp
qed
end
