(* ===== verification/Appointments.thy ===== *)
theory Appointments
  imports Beds
begin

text \<open>
  The scheduling page, \<open>src/pages/Agendamentos.tsx\<close>.  The \<open>appointments\<close> table is an
  explicit store (\<open>appt_db\<close>); the page's three mutations (insert, status update, delete)
  take the error the backend answers with as an input (\<open>None\<close> when the write succeeds),
  as \<open>if (error) throw error\<close> does.  The selected date is a timestamp read in local time
  with a fixed offset \<open>tz\<close>; moving by a day is adding \<open>MS_PER_DAY\<close>.  The page state,
  its handlers and its views (the mini calendar, the day schedule, the details dialog)
  are functions of the state and of the rows the query returns.
\<close>

section \<open>Constants and rows\<close>

definition timeSlots :: "string list" where
  "timeSlots = [''08:00'', ''08:30'', ''09:00'', ''09:30'', ''10:00'', ''10:30'',
                ''11:00'', ''11:30'', ''14:00'', ''14:30'', ''15:00'', ''15:30'',
                ''16:00'', ''16:30'', ''17:00'', ''17:30'']"

definition TELECONSULTA :: string where "TELECONSULTA = ''Teleconsulta''"

definition appointmentTypes :: "string list" where
  "appointmentTypes = [''Consulta'', ''Retorno'', TELECONSULTA, ''Exame'', ''Procedimento'']"

definition CONCLUIDO :: string where "CONCLUIDO = ''Conclu'' @ I_ACUTE @ ''do''"

definition appointmentStatuses :: "string list" where
  "appointmentStatuses = [''Agendado'', ''Confirmado'', ''Em atendimento'', CONCLUIDO, ''Cancelado'']"

definition weekDays :: "string list" where
  "weekDays = [''Dom'', ''Seg'', ''Ter'', ''Qua'', ''Qui'', ''Sex'', ''S'' @ ACUTE_A @ ''b'']"

text \<open>
  A row of \<open>appointments\<close> as the page reads it.  \<open>ap_duration\<close> is the value the insert
  sends, \<open>parseInt\<close> of the form's string (\<open>None\<close> for \<open>NaN\<close>, sent as \<open>null\<close>); the
  \<open>patient\<close> and \<open>professional\<close> joins are lookups passed to the views.
\<close>

record appointment =
  ap_id :: string
  ap_patient_id :: string
  ap_professional_id :: string
  ap_date :: string
  ap_time :: string
  ap_duration :: "int option"
  ap_type :: string
  ap_is_video :: bool
  ap_status :: string
  ap_notes :: "string option"

record appt_db =
  adb_rows :: "appointment list"
  adb_next_id :: nat

text \<open>
  The \<open>status\<close> column's default, which the insert relies on: the database schema is not
  part of the repository, and the page lists \<open>Agendado\<close> as the first status.
\<close>

definition STATUS_DEFAULT :: string where "STATUS_DEFAULT = ''Agendado''"

text \<open>A \<open>time\<close> column stores \<open>HH:MM\<close> as \<open>HH:MM:00\<close> and returns it in that form.\<close>

definition pg_time :: "string \<Rightarrow> string" where
  "pg_time t = (if length t = 5 then t @ '':00'' else t)"

section \<open>Page state\<close>

datatype agenda_view = DayView | WeekView

record appt_form =
  fa_patient_id :: string
  fa_professional_id :: string
  fa_date :: string
  fa_time :: string
  fa_duration :: string
  fa_type :: string
  fa_is_video :: bool
  fa_notes :: string

definition appt_form_init :: "string \<Rightarrow> appt_form" where
  "appt_form_init today = \<lparr>fa_patient_id = [], fa_professional_id = [], fa_date = today, fa_time = [],
     fa_duration = ''30'', fa_type = ''Consulta'', fa_is_video = False, fa_notes = []\<rparr>"

record agenda_state =
  ag_selectedDate :: timestamp
  ag_view :: agenda_view
  ag_isDialogOpen :: bool
  ag_isDetailsOpen :: bool
  ag_selectedAppointment :: "appointment option"
  ag_typeFilter :: string
  ag_professionalFilter :: string
  ag_statusFilter :: string
  ag_formData :: appt_form

definition agenda_init :: "int \<Rightarrow> timestamp \<Rightarrow> agenda_state" where
  "agenda_init tz now = \<lparr>ag_selectedDate = now, ag_view = DayView, ag_isDialogOpen = False,
     ag_isDetailsOpen = False, ag_selectedAppointment = None, ag_typeFilter = ''all'',
     ag_professionalFilter = ''all'', ag_statusFilter = ''all'',
     ag_formData = appt_form_init (format_yyyy_MM_dd tz now)\<rparr>"

section \<open>The query and the mutations\<close>

text \<open>The appointments of the selected day, ordered by time.\<close>

definition agenda_appointments :: "int \<Rightarrow> timestamp \<Rightarrow> appt_db \<Rightarrow> appointment list" where
  "agenda_appointments tz sel db =
     sort_key ap_time (filter (\<lambda>a. ap_date a = format_yyyy_MM_dd tz sel) (adb_rows db))"

definition insert_appointment :: "appt_form \<Rightarrow> appt_db \<Rightarrow> appt_db" where
  "insert_appointment fd db =
     db\<lparr>adb_rows := adb_rows db @
          [\<lparr>ap_id = nat_to_string (adb_next_id db), ap_patient_id = fa_patient_id fd,
            ap_professional_id = fa_professional_id fd, ap_date = fa_date fd, ap_time = pg_time (fa_time fd),
            ap_duration = js_parseInt (fa_duration fd), ap_type = fa_type fd, ap_is_video = fa_is_video fd,
            ap_status = STATUS_DEFAULT, ap_notes = opt_field (fa_notes fd)\<rparr>],
        adb_next_id := Suc (adb_next_id db)\<rparr>"

definition createAppointment :: "appt_form \<Rightarrow> string option \<Rightarrow> appt_db \<Rightarrow> appt_db \<times> string option" where
  "createAppointment fd err db = (case err of None \<Rightarrow> (insert_appointment fd db, None) | Some m \<Rightarrow> (db, Some m))"

definition updateAppointmentStatus ::
    "string \<Rightarrow> string \<Rightarrow> string option \<Rightarrow> appt_db \<Rightarrow> appt_db \<times> string option" where
  "updateAppointmentStatus aid st err db =
     (case err of
        None \<Rightarrow> (db\<lparr>adb_rows := map (\<lambda>a. if ap_id a = aid then a\<lparr>ap_status := st\<rparr> else a) (adb_rows db)\<rparr>, None)
      | Some m \<Rightarrow> (db, Some m))"

definition deleteAppointment :: "string \<Rightarrow> string option \<Rightarrow> appt_db \<Rightarrow> appt_db \<times> string option" where
  "deleteAppointment aid err db =
     (case err of
        None \<Rightarrow> (db\<lparr>adb_rows := filter (\<lambda>a. ap_id a \<noteq> aid) (adb_rows db)\<rparr>, None)
      | Some m \<Rightarrow> (db, Some m))"

section \<open>Handlers\<close>

definition MSG_APPT_REQUIRED :: string where
  "MSG_APPT_REQUIRED = ''Preencha todos os campos obrigat'' @ [CHR 0xC3, CHR 0xB3] @ ''rios''"

text \<open>
  \<open>handleSubmit\<close> with \<open>createAppointment\<close>'s \<open>onSuccess\<close> and \<open>onError\<close>; \<open>today\<close> is
  \<open>format(new Date(), "yyyy-MM-dd")\<close> when \<open>resetForm\<close> runs.
\<close>

definition agenda_handleSubmit ::
    "string \<Rightarrow> string option \<Rightarrow> agenda_state \<times> appt_db \<Rightarrow> (agenda_state \<times> appt_db) \<times> ui_toast list" where
  "agenda_handleSubmit today err st =
     (case st of (s, db) \<Rightarrow>
       if fa_patient_id (ag_formData s) = [] \<or> fa_professional_id (ag_formData s) = [] \<or> fa_time (ag_formData s) = []
       then ((s, db), [ToastError MSG_APPT_REQUIRED])
       else (case createAppointment (ag_formData s) err db of
               (db', None) \<Rightarrow> ((s\<lparr>ag_isDialogOpen := False, ag_formData := appt_form_init today\<rparr>, db'),
                               [ToastSuccess ''Agendamento criado com sucesso!''])
             | (db', Some m) \<Rightarrow> ((s, db'), [ToastError (''Erro ao criar agendamento: '' @ m)])))"

text \<open>
  The status select of the details dialog: the update is sent and the dialog's copy of the
  appointment takes the new status at once, whatever the update's outcome.
\<close>

definition agenda_change_status ::
    "string \<Rightarrow> string option \<Rightarrow> agenda_state \<times> appt_db \<Rightarrow> (agenda_state \<times> appt_db) \<times> ui_toast list" where
  "agenda_change_status value err st =
     (case st of (s, db) \<Rightarrow>
       case ag_selectedAppointment s of
         None \<Rightarrow> ((s, db), [])
       | Some a \<Rightarrow>
           (case updateAppointmentStatus (ap_id a) value err db of
              (db', r) \<Rightarrow> ((s\<lparr>ag_selectedAppointment := Some (a\<lparr>ap_status := value\<rparr>)\<rparr>, db'),
                 [case r of None \<Rightarrow> ToastSuccess ''Status atualizado com sucesso!''
                          | Some m \<Rightarrow> ToastError (''Erro ao atualizar status: '' @ m)])))"

definition agenda_confirm_delete ::
    "string option \<Rightarrow> agenda_state \<times> appt_db \<Rightarrow> (agenda_state \<times> appt_db) \<times> ui_toast list" where
  "agenda_confirm_delete err st =
     (case st of (s, db) \<Rightarrow>
       case ag_selectedAppointment s of
         None \<Rightarrow> ((s, db), [])
       | Some a \<Rightarrow>
           (case deleteAppointment (ap_id a) err db of
              (db', None) \<Rightarrow> ((s\<lparr>ag_isDetailsOpen := False, ag_selectedAppointment := None\<rparr>, db'),
                              [ToastSuccess (''Agendamento exclu'' @ I_ACUTE @ ''do com sucesso!'')])
            | (db', Some m) \<Rightarrow> ((s, db'), [ToastError (''Erro ao excluir agendamento: '' @ m)])))"

definition agenda_prev_day :: "agenda_state \<Rightarrow> agenda_state" where
  "agenda_prev_day s = s\<lparr>ag_selectedDate := ag_selectedDate s - MS_PER_DAY\<rparr>"

definition agenda_next_day :: "agenda_state \<Rightarrow> agenda_state" where
  "agenda_next_day s = s\<lparr>ag_selectedDate := ag_selectedDate s + MS_PER_DAY\<rparr>"

definition agenda_clearFilters :: "agenda_state \<Rightarrow> agenda_state" where
  "agenda_clearFilters s = s\<lparr>ag_typeFilter := ''all'', ag_professionalFilter := ''all'', ag_statusFilter := ''all''\<rparr>"

definition agenda_hasActiveFilters :: "agenda_state \<Rightarrow> bool" where
  "agenda_hasActiveFilters s \<longleftrightarrow>
     ag_typeFilter s \<noteq> ''all'' \<or> ag_professionalFilter s \<noteq> ''all'' \<or> ag_statusFilter s \<noteq> ''all''"

definition agenda_filter_count :: "agenda_state \<Rightarrow> nat" where
  "agenda_filter_count s =
     length (filter (\<lambda>v. v \<noteq> ''all'') [ag_typeFilter s, ag_professionalFilter s, ag_statusFilter s])"

text \<open>The type select of the form: choosing "Teleconsulta" makes the appointment a video one.\<close>

definition agenda_set_type :: "string \<Rightarrow> agenda_state \<Rightarrow> agenda_state" where
  "agenda_set_type value s =
     s\<lparr>ag_formData := (ag_formData s)\<lparr>fa_type := value, fa_is_video := (value = TELECONSULTA)\<rparr>\<rparr>"

text \<open>"+ Agendar" on a free slot, and "Detalhes" on a booked one.\<close>

definition agenda_book_slot :: "int \<Rightarrow> string \<Rightarrow> agenda_state \<Rightarrow> agenda_state" where
  "agenda_book_slot tz time s =
     s\<lparr>ag_formData := (ag_formData s)\<lparr>fa_date := format_yyyy_MM_dd tz (ag_selectedDate s), fa_time := time\<rparr>,
       ag_isDialogOpen := True\<rparr>"

definition agenda_open_details :: "appointment \<Rightarrow> agenda_state \<Rightarrow> agenda_state" where
  "agenda_open_details a s = s\<lparr>ag_selectedAppointment := Some a, ag_isDetailsOpen := True\<rparr>"

section \<open>Derived data\<close>

definition filteredAppointments :: "agenda_state \<Rightarrow> appointment list \<Rightarrow> appointment list" where
  "filteredAppointments s apts =
     filter (\<lambda>apt. (ag_typeFilter s = ''all'' \<or> ap_type apt = ag_typeFilter s)
                 \<and> (ag_professionalFilter s = ''all'' \<or> ap_professional_id apt = ag_professionalFilter s)
                 \<and> (ag_statusFilter s = ''all'' \<or> ap_status apt = ag_statusFilter s)) apts"

definition getAppointmentForSlot :: "appointment list \<Rightarrow> string \<Rightarrow> appointment option" where
  "getAppointmentForSlot fa time = find (\<lambda>apt. take 5 (ap_time apt) = time) fa"

text \<open>\<open>Date.prototype.getDay\<close> in local time (1970-01-01 was a Thursday).\<close>

definition js_getDay :: "int \<Rightarrow> timestamp \<Rightarrow> int" where
  "js_getDay tz t = ((t + tz) div MS_PER_DAY + 4) mod 7"

definition generateWeekDates :: "int \<Rightarrow> timestamp \<Rightarrow> timestamp list" where
  "generateWeekDates tz sel =
     (let startOfWeek = sel - js_getDay tz sel * MS_PER_DAY
      in map (\<lambda>i. startOfWeek + int i * MS_PER_DAY) [0..<7])"

definition same_local_day :: "int \<Rightarrow> timestamp \<Rightarrow> timestamp \<Rightarrow> bool" where
  "same_local_day tz a b \<longleftrightarrow> (a + tz) div MS_PER_DAY = (b + tz) div MS_PER_DAY"

definition teleconsultasCount :: "appointment list \<Rightarrow> nat" where
  "teleconsultasCount fa = length (filter ap_is_video fa)"

definition presenciaisCount :: "appointment list \<Rightarrow> nat" where
  "presenciaisCount fa = length (filter (\<lambda>a. \<not> ap_is_video a) fa)"

definition getStatusBadgeVariant :: "string \<Rightarrow> string" where
  "getStatusBadgeVariant st =
     (if st = ''Confirmado'' then ''success-light'' else if st = ''Em atendimento'' then ''info-light''
      else if st = CONCLUIDO then ''secondary'' else if st = ''Cancelado'' then ''destructive''
      else ''primary-light'')"

section \<open>Views\<close>

text \<open>The pt-BR names \<open>Intl\<close> and date-fns' \<open>ptBR\<close> locale use for week days and months.\<close>

definition PT_WEEKDAYS :: "string list" where
  "PT_WEEKDAYS = [''domingo'', ''segunda-feira'', ''ter'' @ CEDILLA @ ''a-feira'', ''quarta-feira'',
                  ''quinta-feira'', ''sexta-feira'', ''s'' @ ACUTE_A @ ''bado'']"

definition PT_MONTHS :: "string list" where
  "PT_MONTHS = [''janeiro'', ''fevereiro'', ''mar'' @ CEDILLA @ ''o'', ''abril'', ''maio'', ''junho'',
                ''julho'', ''agosto'', ''setembro'', ''outubro'', ''novembro'', ''dezembro'']"

text \<open>
  \<open>formatDate(date)\<close>: \<open>toLocaleDateString("pt-BR", {weekday: "long", day: "numeric",
  month: "long", year: "numeric"})\<close>, for instance "segunda-feira, 6 de janeiro de 2025".
\<close>

definition agenda_formatDate :: "int \<Rightarrow> timestamp \<Rightarrow> string" where
  "agenda_formatDate tz t =
     (case local_date tz t of (y, m, d) \<Rightarrow>
        PT_WEEKDAYS ! nat (js_getDay tz t) @ '', '' @ int_to_string d @ '' de ''
        @ PT_MONTHS ! nat (m - 1) @ '' de '' @ int_to_string y)"

text \<open>
  The details dialog's date: \<open>format(new Date(date + "T12:00:00"), "dd 'de' MMMM 'de' yyyy")\<close>
  of the date column (local noon, so the calendar day is the column's); \<open>format\<close> of an
  invalid date throws, which is \<open>None\<close>.
\<close>

definition details_date :: "string \<Rightarrow> string option" where
  "details_date s =
     map_option (\<lambda>(y, m, d). pad2 d @ '' de '' @ PT_MONTHS ! nat (m - 1) @ '' de '' @ pad4 y) (parse_iso_date s)"

text \<open>The mini calendar: each date of the week with its day of month, selected and today flags.\<close>

definition mini_calendar :: "int \<Rightarrow> timestamp \<Rightarrow> agenda_state \<Rightarrow> (int \<times> bool \<times> bool) list" where
  "mini_calendar tz now s =
     map (\<lambda>date. (snd (snd (local_date tz date)), same_local_day tz date (ag_selectedDate s),
                  same_local_day tz date now))
         (generateWeekDates tz (ag_selectedDate s))"

definition agenda_stats :: "appointment list \<Rightarrow> (string \<times> nat) list" where
  "agenda_stats fa = [(''Total hoje'', length fa), (''Teleconsultas'', teleconsultasCount fa),
                      (''Presenciais'', presenciaisCount fa)]"

text \<open>One slot of the day schedule; \<open>names\<close> and \<open>profs\<close> are the two joins.\<close>

datatype slot_view =
    SlotBooked string "string option" string string string "string option" string
  | SlotFree string

definition modality_label :: "bool \<Rightarrow> string" where
  "modality_label v = (if v then TELECONSULTA else ''Presencial'')"

definition js_duration :: "int option \<Rightarrow> string" where
  "js_duration d = (case d of Some n \<Rightarrow> int_to_string n | None \<Rightarrow> ''null'')"

definition slot_view :: "(string \<Rightarrow> string option) \<Rightarrow> (string \<Rightarrow> string option) \<Rightarrow> appointment list
    \<Rightarrow> string \<Rightarrow> slot_view" where
  "slot_view names profs fa time =
     (case getAppointmentForSlot fa time of
        Some a \<Rightarrow> SlotBooked time (names (ap_patient_id a)) (modality_label (ap_is_video a)) (ap_status a)
                   (getStatusBadgeVariant (ap_status a)) (profs (ap_professional_id a))
                   (js_duration (ap_duration a) @ '' min'')
      | None \<Rightarrow> SlotFree time)"

datatype schedule_view = ScheduleLoading | Schedule "slot_view list"

definition agenda_schedule ::
    "(string \<Rightarrow> string option) \<Rightarrow> (string \<Rightarrow> string option) \<Rightarrow> bool \<Rightarrow> agenda_state \<Rightarrow> appointment list
     \<Rightarrow> schedule_view" where
  "agenda_schedule names profs isLoading s apts =
     (if isLoading then ScheduleLoading
      else Schedule (map (slot_view names profs (filteredAppointments s apts)) timeSlots))"

record appt_details_view =
  dv_patient :: "string option"
  dv_date :: "string option"
  dv_time :: string
  dv_professional :: "string option"
  dv_type :: string
  dv_status :: string
  dv_notes :: "string option"

definition agenda_details ::
    "(string \<Rightarrow> string option) \<Rightarrow> (string \<Rightarrow> string option) \<Rightarrow> agenda_state \<Rightarrow> appt_details_view option" where
  "agenda_details names profs s =
     (if \<not> ag_isDetailsOpen s then None
      else map_option (\<lambda>a. \<lparr>dv_patient = names (ap_patient_id a), dv_date = details_date (ap_date a),
               dv_time = take 5 (ap_time a) @ '' ('' @ js_duration (ap_duration a) @ '' min)'',
               dv_professional = profs (ap_professional_id a), dv_type = modality_label (ap_is_video a),
               dv_status = ap_status a, dv_notes = js_truthy_str (ap_notes a)\<rparr>)
             (ag_selectedAppointment s))"

section \<open>Sample bookings\<close>

text \<open>Booking the 09:00 slot of the selected day for patient \<open>p\<close> with professional \<open>d1\<close>.\<close>

definition sample_booking :: "string \<Rightarrow> agenda_state \<Rightarrow> agenda_state" where
  "sample_booking p s =
     agenda_book_slot 0 ''09:00'' (s\<lparr>ag_formData := (ag_formData s)\<lparr>fa_patient_id := p, fa_professional_id := ''d1''\<rparr>\<rparr>)"

definition empty_appt_db :: appt_db where
  "empty_appt_db = \<lparr>adb_rows = [], adb_next_id = 0\<rparr>"

section \<open>Properties\<close>

lemma take5_pg_time: "t \<in> set timeSlots \<Longrightarrow> take 5 (pg_time t) = t"
  by (auto simp: timeSlots_def pg_time_def)

lemma filteredAppointments_all:
  "\<not> agenda_hasActiveFilters s \<Longrightarrow> filteredAppointments s apts = apts"
  by (simp add: agenda_hasActiveFilters_def filteredAppointments_def)

lemma agenda_submit_ok:
  assumes "fa_patient_id (ag_formData s) \<noteq> []" "fa_professional_id (ag_formData s) \<noteq> []"
          "fa_time (ag_formData s) \<noteq> []"
  shows "agenda_handleSubmit today None (s, db)
         = ((s\<lparr>ag_isDialogOpen := False, ag_formData := appt_form_init today\<rparr>, insert_appointment (ag_formData s) db),
            [ToastSuccess ''Agendamento criado com sucesso!''])"
  using assms by (simp add: agenda_handleSubmit_def createAppointment_def)

text \<open>
  C4 (functional). Booking a free slot of the day schedule ("+ Agendar", then "Salvar" with
  a patient and a professional chosen) with no filter active and a successful insert makes
  the schedule of the same day show the new appointment, of that patient, in that slot.
\<close>

theorem agenda_booked_slot_shown:
  assumes slot: "t \<in> set timeSlots"
      and free: "getAppointmentForSlot (filteredAppointments s (agenda_appointments tz (ag_selectedDate s) db)) t = None"
      and nf: "\<not> agenda_hasActiveFilters s"
      and filled: "fa_patient_id (ag_formData s) \<noteq> []" "fa_professional_id (ag_formData s) \<noteq> []"
      and res: "agenda_handleSubmit today None (agenda_book_slot tz t s, db) = ((s', db'), toasts)"
  shows "\<exists>a. getAppointmentForSlot (filteredAppointments s' (agenda_appointments tz (ag_selectedDate s') db')) t = Some a
             \<and> ap_patient_id a = fa_patient_id (ag_formData s) \<and> ap_date a = format_yyyy_MM_dd tz (ag_selectedDate s)
             \<and> toasts = [ToastSuccess ''Agendamento criado com sucesso!'']"
proof -
  let ?s1 = "agenda_book_slot tz t s"
  let ?new = "last (adb_rows (insert_appointment (ag_formData ?s1) db))"
  have t5: "length t = 5" using slot by (auto simp: timeSlots_def)
  have tne: "t \<noteq> []" using t5 by auto
  have sub: "agenda_handleSubmit today None (?s1, db)
         = ((?s1\<lparr>ag_isDialogOpen := False, ag_formData := appt_form_init today\<rparr>, insert_appointment (ag_formData ?s1) db),
            [ToastSuccess ''Agendamento criado com sucesso!''])"
    by (rule agenda_submit_ok) (use filled tne in \<open>simp_all add: agenda_book_slot_def\<close>)
  with res have s': "s' = ?s1\<lparr>ag_isDialogOpen := False, ag_formData := appt_form_init today\<rparr>"
    and db': "db' = insert_appointment (ag_formData ?s1) db"
    and toasts: "toasts = [ToastSuccess ''Agendamento criado com sucesso!'']" by simp_all
  have sel: "ag_selectedDate s' = ag_selectedDate s" and nf': "\<not> agenda_hasActiveFilters s'"
    using nf by (simp_all add: s' agenda_book_slot_def agenda_hasActiveFilters_def)
  have rows: "adb_rows db' = adb_rows db @ [?new]" by (simp add: db' insert_appointment_def)
  have new: "take 5 (ap_time ?new) = t" "ap_date ?new = format_yyyy_MM_dd tz (ag_selectedDate s)"
            "ap_patient_id ?new = fa_patient_id (ag_formData s)"
    using take5_pg_time [OF slot] by (simp_all add: insert_appointment_def agenda_book_slot_def)
  have none: "\<forall>y\<in>set (agenda_appointments tz (ag_selectedDate s) db). take 5 (ap_time y) \<noteq> t"
    using free filteredAppointments_all [OF nf] by (simp add: getAppointmentForSlot_def find_None_iff)
  have "getAppointmentForSlot (agenda_appointments tz (ag_selectedDate s) db') t = Some ?new"
    unfolding getAppointmentForSlot_def
  proof (rule find_unique_Some)
    show "?new \<in> set (agenda_appointments tz (ag_selectedDate s) db')"
      using new(2) by (simp add: agenda_appointments_def rows)
    show "take 5 (ap_time ?new) = t" by (rule new(1))
    show "\<forall>y\<in>set (agenda_appointments tz (ag_selectedDate s) db'). take 5 (ap_time y) = t \<longrightarrow> y = ?new"
      using none by (auto simp: agenda_appointments_def rows)
  qed
  then show ?thesis
    using new toasts by (simp add: sel filteredAppointments_all [OF nf'])
qed
text \<open>
  C28 (error). When the status update of the details dialog fails, the store keeps the old
  status but the dialog shows the new one (its copy is updated before the outcome is
  known), next to the error toast.
\<close>

theorem agenda_failed_status_shown:
  assumes "ag_selectedAppointment s = Some a" "ag_isDetailsOpen s"
      and "agenda_change_status v (Some m) (s, db) = ((s', db'), ts)"
  shows "db' = db \<and> map_option dv_status (agenda_details names profs s') = Some v
         \<and> ts = [ToastError (''Erro ao atualizar status: '' @ m)]"
  using assms by (auto simp: agenda_change_status_def updateAppointmentStatus_def agenda_details_def)

lemma day_shift:
  "(t + k * MS_PER_DAY + tz) div MS_PER_DAY = (t + tz) div MS_PER_DAY + k"
  by (simp add: MS_PER_DAY_def algebra_simps)

lemma js_getDay_shift:
  "js_getDay tz (t + k * MS_PER_DAY) = (js_getDay tz t + k) mod 7"
  unfolding js_getDay_def day_shift by presburger

lemma generateWeekDates_nth:
  "generateWeekDates tz sel = map (\<lambda>i. sel + (int i - js_getDay tz sel) * MS_PER_DAY) [0..<7]"
  by (simp add: generateWeekDates_def algebra_simps)

lemma js_getDay_range: "0 \<le> js_getDay tz t \<and> js_getDay tz t < 7"
  by (simp add: js_getDay_def)

text \<open>
  C11 (functional). The mini calendar shows the Sunday-to-Saturday week of the selected
  date: seven consecutive local days, the i-th a day of week i, and the selected date
  highlighted exactly at its own day of week.
\<close>

theorem generateWeekDates_week:
  "map (js_getDay tz) (generateWeekDates tz sel) = [0, 1, 2, 3, 4, 5, 6]
   \<and> map (\<lambda>d. (d + tz) div MS_PER_DAY) (generateWeekDates tz sel)
     = map (\<lambda>i. (sel + tz) div MS_PER_DAY - js_getDay tz sel + int i) [0..<7]
   \<and> map (\<lambda>(_, selected, _). selected) (mini_calendar tz now s)
     = map (\<lambda>i. int i = js_getDay tz (ag_selectedDate s)) [0..<7]"
proof (intro conjI)
  have g: "js_getDay tz (sel + (int i - js_getDay tz sel) * MS_PER_DAY) = int i" if "i < 7" for i sel
    using that js_getDay_range [of tz sel] by (simp add: js_getDay_shift)
  show "map (js_getDay tz) (generateWeekDates tz sel) = [0, 1, 2, 3, 4, 5, 6]"
  proof -
    have "map (js_getDay tz) (generateWeekDates tz sel) = map int [0..<7]"
      unfolding generateWeekDates_nth map_map comp_def by (rule map_cong) (simp_all add: g)
    then show ?thesis by (simp add: upt_rec)
  qed
  show "map (\<lambda>d. (d + tz) div MS_PER_DAY) (generateWeekDates tz sel)
     = map (\<lambda>i. (sel + tz) div MS_PER_DAY - js_getDay tz sel + int i) [0..<7]"
    unfolding generateWeekDates_nth map_map comp_def day_shift by (simp add: algebra_simps)
  show "map (\<lambda>(_, selected, _). selected) (mini_calendar tz now s)
     = map (\<lambda>i. int i = js_getDay tz (ag_selectedDate s)) [0..<7]"
    by (simp add: mini_calendar_def generateWeekDates_nth same_local_day_def day_shift)
qed
text \<open>
  C20 (error). Nothing checks that a slot is free: booking 09:00 twice on the same day
  succeeds twice; the day then has two appointments ("Total hoje" counts 2) but the
  schedule shows only the first, and the second patient appears in no slot.
\<close>

theorem agenda_double_booking:
  "let r1 = agenda_handleSubmit ''1970-01-01'' None (sample_booking ''p1'' (agenda_init 0 0), empty_appt_db);
       r2 = agenda_handleSubmit ''1970-01-01'' None (sample_booking ''p2'' (fst (fst r1)), snd (fst r1));
       fa = filteredAppointments (fst (fst r2)) (agenda_appointments 0 (ag_selectedDate (fst (fst r2))) (snd (fst r2)))
   in length fa = 2
      \<and> map_option ap_patient_id (getAppointmentForSlot fa ''09:00'') = Some ''p1''
      \<and> Some ''p2'' \<notin> set (map (\<lambda>t. map_option ap_patient_id (getAppointmentForSlot fa t)) timeSlots)"
  by code_simp
theorem agenda_booked_slot_shown_witness:
  "let S = (agenda_init 0 0)\<lparr>ag_formData := (ag_formData (agenda_init 0 0))\<lparr>fa_patient_id := ''p1'',
             fa_professional_id := ''d1''\<rparr>\<rparr>;
       R = agenda_handleSubmit ''1970-01-01'' None (agenda_book_slot 0 ''09:00'' S, empty_appt_db)
   in ''09:00'' \<in> set timeSlots
      \<and> getAppointmentForSlot (filteredAppointments S (agenda_appointments 0 (ag_selectedDate S) empty_appt_db)) ''09:00'' = None
      \<and> \<not> agenda_hasActiveFilters S \<and> fa_patient_id (ag_formData S) \<noteq> [] \<and> fa_professional_id (ag_formData S) \<noteq> []
      \<and> (\<exists>a. getAppointmentForSlot (filteredAppointments (fst (fst R))
              (agenda_appointments 0 (ag_selectedDate (fst (fst R))) (snd (fst R)))) ''09:00'' = Some a
            \<and> ap_patient_id a = ''p1'')"
proof -
  define S where "S = (agenda_init 0 0)\<lparr>ag_formData := (ag_formData (agenda_init 0 0))\<lparr>fa_patient_id := ''p1'',
             fa_professional_id := ''d1''\<rparr>\<rparr>"
  define R where "R = agenda_handleSubmit ''1970-01-01'' None (agenda_book_slot 0 ''09:00'' S, empty_appt_db)"
  have pre: "''09:00'' \<in> set timeSlots"
     "getAppointmentForSlot (filteredAppointments S (agenda_appointments 0 (ag_selectedDate S) empty_appt_db)) ''09:00'' = None"
     "\<not> agenda_hasActiveFilters S" "fa_patient_id (ag_formData S) \<noteq> []" "fa_professional_id (ag_formData S) \<noteq> []"
    by (simp_all add: S_def timeSlots_def agenda_appointments_def empty_appt_db_def getAppointmentForSlot_def
        filteredAppointments_def agenda_hasActiveFilters_def agenda_init_def appt_form_init_def)
  have r: "agenda_handleSubmit ''1970-01-01'' None (agenda_book_slot 0 ''09:00'' S, empty_appt_db)
           = ((fst (fst R), snd (fst R)), snd R)"
    by (simp add: R_def)
  from agenda_booked_slot_shown [OF pre r] pre
  show ?thesis by (auto simp: Let_def S_def R_def)
qed
theorem agenda_failed_status_shown_witness:
  "let D = insert_appointment (ag_formData (sample_booking ''p1'' (agenda_init 0 0))) empty_appt_db;
       A = hd (adb_rows D);
       S = agenda_open_details A (agenda_init 0 0);
       R = agenda_change_status ''Confirmado'' (Some ''timeout'') (S, D)
   in ag_selectedAppointment S = Some A \<and> ag_isDetailsOpen S
      \<and> snd (fst R) = D \<and> map (\<lambda>a. ap_status a) (adb_rows (snd (fst R))) = [''Agendado'']
      \<and> map_option dv_status (agenda_details (\<lambda>_. None) (\<lambda>_. None) (fst (fst R))) = Some ''Confirmado''
      \<and> snd R = [ToastError (''Erro ao atualizar status: '' @ ''timeout'')]"
proof -
  define D where "D = insert_appointment (ag_formData (sample_booking ''p1'' (agenda_init 0 0))) empty_appt_db"
  define A where "A = hd (adb_rows D)"
  define S where "S = agenda_open_details A (agenda_init 0 0)"
  define R where "R = agenda_change_status ''Confirmado'' (Some ''timeout'') (S, D)"
  have pre: "ag_selectedAppointment S = Some A" "ag_isDetailsOpen S"
    by (simp_all add: S_def agenda_open_details_def)
  have r: "agenda_change_status ''Confirmado'' (Some ''timeout'') (S, D) = ((fst (fst R), snd (fst R)), snd R)"
    by (simp add: R_def)
  have st: "map (\<lambda>a. ap_status a) (adb_rows D) = [''Agendado'']"
    by (simp add: D_def insert_appointment_def empty_appt_db_def STATUS_DEFAULT_def)
  from agenda_failed_status_shown [OF pre r, of "\<lambda>_. None" "\<lambda>_. None"] pre st
  show ?thesis by (simp add: Let_def D_def A_def S_def R_def)
qed

end
