(* ===== verification/Professionals.thy ===== *)
theory Professionals
  imports Beds
begin

text \<open>
  The professionals registry, \<open>src/pages/Profissionais.tsx\<close>.  The \<open>professionals\<close> table
  is an explicit store (\<open>prof_db\<close>); insert, update and delete take the backend's error as
  an input (\<open>None\<close> when the write succeeds).  The page's toasts go through \<open>useToast\<close>
  (\<open>src/hooks/use-toast.ts\<close>, theory \<open>Toast\<close>) and are returned as their title,
  description and variant.  The list filter, the specialty list of the filter, the cards,
  the profile dialog and the form's input events are functions of the state and the rows.
\<close>

section \<open>Constants and rows\<close>

definition prof_getStatusVariant :: "string \<Rightarrow> string" where
  "prof_getStatusVariant st =
     (if st = STATUS_DISPONIVEL then ''success-light''
      else if st = ''Em atendimento'' then ''info-light''
      else if st = ''Em plant'' @ TILDE_A @ ''o'' then ''warning-light''
      else if st = ''F'' @ [CHR 0xC3, CHR 0xA9] @ ''rias'' then ''secondary'' else ''secondary'')"

text \<open>
  This page's \<open>getInitials\<close> joins the first characters of all the words and then keeps
  two UTF-16 code units (\<open>join("").substring(0, 2)\<close>); \<open>Pacientes.tsx\<close> keeps two words
  first.  Characters are taken whole (the page's names are in the Basic Multilingual Plane,
  one code unit each).
\<close>

function utf8_chars :: "string \<Rightarrow> string list" where
  "utf8_chars [] = []"
| "utf8_chars (c # r) = (c # takeWhile utf8_continuation r) # utf8_chars (dropWhile utf8_continuation r)"
  by pat_completeness auto
termination
  by (relation "measure length") (auto simp: le_imp_less_Suc length_dropWhile_le)

definition prof_getInitials :: "string \<Rightarrow> string" where
  "prof_getInitials nm =
     js_toUpperCase (concat (take 2 (utf8_chars (concat (map first_char (js_split (CHR '' '') nm))))))"

definition specialties :: "string list" where
  "specialties = [''Cardiologia'', ''Dermatologia'', ''Ortopedia'', ''Neurologia'', ''Psiquiatria'',
     ''Pediatria'', ''Ginecologia'', ''Urologia'', ''Oftalmologia'', ''Enfermagem UTI'',
     ''Enfermagem Geral'', ''Fisioterapia'']"

definition registrationTypes :: "string list" where
  "registrationTypes = [''CRM'', ''COREN'', ''CRF'', ''CREFITO'', ''CRO'']"

definition prof_statusOptions :: "string list" where
  "prof_statusOptions = [STATUS_DISPONIVEL, ''Em atendimento'', ''Em plant'' @ TILDE_A @ ''o'',
     ''F'' @ [CHR 0xC3, CHR 0xA9] @ ''rias'']"

text \<open>A row of \<open>professionals\<close>; \<open>rating\<close> is a number of the database.\<close>

record professional =
  pr_id :: string
  pr_name :: string
  pr_specialty :: string
  pr_registration_type :: string
  pr_registration_number :: string
  pr_status :: string
  pr_phone :: "string option"
  pr_email :: "string option"
  pr_rating :: "rat option"
  pr_patients_count :: "int option"
  pr_next_available :: "string option"
  pr_created_at :: timestamp

record prof_db =
  pdb_rows :: "professional list"
  pdb_next_id :: nat

section \<open>Page state\<close>

record prof_form =
  pf_name :: string
  pf_specialty :: string
  pf_registration_type :: string
  pf_registration_number :: string
  pf_status :: string
  pf_phone :: string
  pf_email :: string

definition prof_form_init :: prof_form where
  "prof_form_init = \<lparr>pf_name = [], pf_specialty = [], pf_registration_type = ''CRM'',
     pf_registration_number = [], pf_status = STATUS_DISPONIVEL, pf_phone = [], pf_email = []\<rparr>"

record prof_state =
  ps_searchTerm :: string
  ps_statusFilter :: string
  ps_specialtyFilter :: string
  ps_isFiltersOpen :: bool
  ps_isDialogOpen :: bool
  ps_isEditDialogOpen :: bool
  ps_isViewDialogOpen :: bool
  ps_isDeleteAlertOpen :: bool
  ps_selectedProfessional :: "professional option"
  ps_formData :: prof_form

definition prof_init :: prof_state where
  "prof_init = \<lparr>ps_searchTerm = [], ps_statusFilter = [], ps_specialtyFilter = [], ps_isFiltersOpen = False,
     ps_isDialogOpen = False, ps_isEditDialogOpen = False, ps_isViewDialogOpen = False,
     ps_isDeleteAlertOpen = False, ps_selectedProfessional = None, ps_formData = prof_form_init\<rparr>"

text \<open>A toast of \<open>useToast\<close>: title, description, and whether its variant is "destructive".\<close>

type_synonym prof_toast = "string \<times> string \<times> bool"

section \<open>The query and the mutations\<close>

text \<open>\<open>select("*").order("created_at", {ascending: false})\<close>.\<close>

definition professionalsQuery :: "prof_db \<Rightarrow> professional list" where
  "professionalsQuery db = sort_key (\<lambda>p. - pr_created_at p) (pdb_rows db)"

definition insert_professional :: "timestamp \<Rightarrow> prof_form \<Rightarrow> prof_db \<Rightarrow> prof_db" where
  "insert_professional now fd db =
     db\<lparr>pdb_rows := pdb_rows db @
          [\<lparr>pr_id = nat_to_string (pdb_next_id db), pr_name = pf_name fd, pr_specialty = pf_specialty fd,
            pr_registration_type = pf_registration_type fd, pr_registration_number = pf_registration_number fd,
            pr_status = pf_status fd, pr_phone = opt_field (pf_phone fd), pr_email = opt_field (pf_email fd),
            pr_rating = None, pr_patients_count = None, pr_next_available = None, pr_created_at = now\<rparr>],
        pdb_next_id := Suc (pdb_next_id db)\<rparr>"

definition createProfessional :: "timestamp \<Rightarrow> prof_form \<Rightarrow> string option \<Rightarrow> prof_db \<Rightarrow> prof_db \<times> string option" where
  "createProfessional now fd err db = (case err of None \<Rightarrow> (insert_professional now fd db, None) | Some m \<Rightarrow> (db, Some m))"

definition update_professional_row :: "prof_form \<Rightarrow> professional \<Rightarrow> professional" where
  "update_professional_row fd p =
     p\<lparr>pr_name := pf_name fd, pr_specialty := pf_specialty fd, pr_registration_type := pf_registration_type fd,
       pr_registration_number := pf_registration_number fd, pr_status := pf_status fd,
       pr_phone := opt_field (pf_phone fd), pr_email := opt_field (pf_email fd)\<rparr>"

definition updateProfessional ::
    "string \<Rightarrow> prof_form \<Rightarrow> string option \<Rightarrow> prof_db \<Rightarrow> prof_db \<times> string option" where
  "updateProfessional pid fd err db =
     (case err of
        None \<Rightarrow> (db\<lparr>pdb_rows := map (\<lambda>p. if pr_id p = pid then update_professional_row fd p else p) (pdb_rows db)\<rparr>, None)
      | Some m \<Rightarrow> (db, Some m))"

definition deleteProfessional :: "string \<Rightarrow> string option \<Rightarrow> prof_db \<Rightarrow> prof_db \<times> string option" where
  "deleteProfessional pid err db =
     (case err of
        None \<Rightarrow> (db\<lparr>pdb_rows := filter (\<lambda>p. pr_id p \<noteq> pid) (pdb_rows db)\<rparr>, None)
      | Some m \<Rightarrow> (db, Some m))"

section \<open>Handlers\<close>

definition MSG_PROF_REQUIRED :: string where
  "MSG_PROF_REQUIRED = ''Preencha todos os campos obrigat'' @ [CHR 0xC3, CHR 0xB3] @ ''rios.''"

definition prof_required_missing :: "prof_form \<Rightarrow> bool" where
  "prof_required_missing fd \<longleftrightarrow> pf_name fd = [] \<or> pf_specialty fd = [] \<or> pf_registration_number fd = []"

definition prof_handleSubmit ::
    "timestamp \<Rightarrow> string option \<Rightarrow> prof_state \<times> prof_db \<Rightarrow> (prof_state \<times> prof_db) \<times> prof_toast list" where
  "prof_handleSubmit now err st =
     (case st of (s, db) \<Rightarrow>
       if prof_required_missing (ps_formData s) then ((s, db), [(''Erro'', MSG_PROF_REQUIRED, True)])
       else (case createProfessional now (ps_formData s) err db of
               (db', None) \<Rightarrow> ((s\<lparr>ps_isDialogOpen := False, ps_formData := prof_form_init\<rparr>, db'),
                               [(''Sucesso'', ''Profissional cadastrado com sucesso!'', False)])
             | (db', Some m) \<Rightarrow> ((s, db'), [(''Erro'', ''Erro ao cadastrar profissional: '' @ m, True)])))"

definition prof_or_empty :: "string option \<Rightarrow> string" where
  "prof_or_empty v = (case v of Some x \<Rightarrow> x | None \<Rightarrow> [])"

definition prof_handleEdit :: "professional \<Rightarrow> prof_state \<Rightarrow> prof_state" where
  "prof_handleEdit p s =
     s\<lparr>ps_selectedProfessional := Some p,
       ps_formData := \<lparr>pf_name = pr_name p, pf_specialty = pr_specialty p,
         pf_registration_type = pr_registration_type p, pf_registration_number = pr_registration_number p,
         pf_status = pr_status p, pf_phone = prof_or_empty (pr_phone p), pf_email = prof_or_empty (pr_email p)\<rparr>,
       ps_isEditDialogOpen := True\<rparr>"

definition prof_handleEditSubmit ::
    "string option \<Rightarrow> prof_state \<times> prof_db \<Rightarrow> (prof_state \<times> prof_db) \<times> prof_toast list" where
  "prof_handleEditSubmit err st =
     (case st of (s, db) \<Rightarrow>
       case ps_selectedProfessional s of
         None \<Rightarrow> ((s, db), [])
       | Some p \<Rightarrow>
           if prof_required_missing (ps_formData s) then ((s, db), [(''Erro'', MSG_PROF_REQUIRED, True)])
           else (case updateProfessional (pr_id p) (ps_formData s) err db of
                   (db', None) \<Rightarrow> ((s\<lparr>ps_isEditDialogOpen := False, ps_selectedProfessional := None\<rparr>, db'),
                                   [(''Sucesso'', ''Profissional atualizado com sucesso!'', False)])
                 | (db', Some m) \<Rightarrow> ((s, db'), [(''Erro'', ''Erro ao atualizar profissional: '' @ m, True)])))"

definition prof_handleView :: "professional \<Rightarrow> prof_state \<Rightarrow> prof_state" where
  "prof_handleView p s = s\<lparr>ps_selectedProfessional := Some p, ps_isViewDialogOpen := True\<rparr>"

definition prof_handleDeleteClick :: "professional \<Rightarrow> prof_state \<Rightarrow> prof_state" where
  "prof_handleDeleteClick p s = s\<lparr>ps_selectedProfessional := Some p, ps_isDeleteAlertOpen := True\<rparr>"

definition prof_handleDeleteConfirm ::
    "string option \<Rightarrow> prof_state \<times> prof_db \<Rightarrow> (prof_state \<times> prof_db) \<times> prof_toast list" where
  "prof_handleDeleteConfirm err st =
     (case st of (s, db) \<Rightarrow>
       case ps_selectedProfessional s of
         None \<Rightarrow> ((s, db), [])
       | Some p \<Rightarrow>
           (case deleteProfessional (pr_id p) err db of
              (db', None) \<Rightarrow> ((s\<lparr>ps_isDeleteAlertOpen := False, ps_selectedProfessional := None\<rparr>, db'),
                              [(''Sucesso'', ''Profissional exclu'' @ I_ACUTE @ ''do com sucesso!'', False)])
            | (db', Some m) \<Rightarrow> ((s, db'), [(''Erro'', ''Erro ao excluir profissional: '' @ m, True)])))"

definition prof_clearFilters :: "prof_state \<Rightarrow> prof_state" where
  "prof_clearFilters s = s\<lparr>ps_statusFilter := [], ps_specialtyFilter := []\<rparr>"

text \<open>The form's inputs and selects, one event per field (both dialogs share \<open>formData\<close>).\<close>

datatype prof_field = PName | PSpecialty | PRegistrationType | PRegistrationNumber | PStatus | PPhone | PEmail

definition prof_set_field :: "prof_field \<Rightarrow> string \<Rightarrow> prof_state \<Rightarrow> prof_state" where
  "prof_set_field f v s =
     s\<lparr>ps_formData := (case f of
          PName \<Rightarrow> (ps_formData s)\<lparr>pf_name := v\<rparr>
        | PSpecialty \<Rightarrow> (ps_formData s)\<lparr>pf_specialty := v\<rparr>
        | PRegistrationType \<Rightarrow> (ps_formData s)\<lparr>pf_registration_type := v\<rparr>
        | PRegistrationNumber \<Rightarrow> (ps_formData s)\<lparr>pf_registration_number := v\<rparr>
        | PStatus \<Rightarrow> (ps_formData s)\<lparr>pf_status := v\<rparr>
        | PPhone \<Rightarrow> (ps_formData s)\<lparr>pf_phone := v\<rparr>
        | PEmail \<Rightarrow> (ps_formData s)\<lparr>pf_email := v\<rparr>)\<rparr>"

text \<open>"Novo Profissional", and the events of the two dialogs: an input, "Cancelar", "Salvar".\<close>

definition prof_open_new :: "prof_state \<Rightarrow> prof_state" where
  "prof_open_new s = s\<lparr>ps_isDialogOpen := True\<rparr>"

datatype prof_dialog_event = DField prof_field string | DCancel | DSubmit

definition prof_new_dialog_step ::
    "timestamp \<Rightarrow> string option \<Rightarrow> prof_dialog_event \<Rightarrow> prof_state \<times> prof_db
     \<Rightarrow> (prof_state \<times> prof_db) \<times> prof_toast list" where
  "prof_new_dialog_step now err ev st =
     (case st of (s, db) \<Rightarrow>
       case ev of
         DField f v \<Rightarrow> ((prof_set_field f v s, db), [])
       | DCancel \<Rightarrow> ((s\<lparr>ps_isDialogOpen := False\<rparr>, db), [])
       | DSubmit \<Rightarrow> prof_handleSubmit now err (s, db))"

definition prof_edit_dialog_step ::
    "string option \<Rightarrow> prof_dialog_event \<Rightarrow> prof_state \<times> prof_db \<Rightarrow> (prof_state \<times> prof_db) \<times> prof_toast list" where
  "prof_edit_dialog_step err ev st =
     (case st of (s, db) \<Rightarrow>
       case ev of
         DField f v \<Rightarrow> ((prof_set_field f v s, db), [])
       | DCancel \<Rightarrow> ((s\<lparr>ps_isEditDialogOpen := False\<rparr>, db), [])
       | DSubmit \<Rightarrow> prof_handleEditSubmit err (s, db))"

section \<open>Derived data\<close>

definition filteredProfessionals :: "prof_state \<Rightarrow> professional list \<Rightarrow> professional list" where
  "filteredProfessionals s profs =
     filter (\<lambda>p. (js_includes (js_toLowerCase (pr_name p)) (js_toLowerCase (ps_searchTerm s))
                  \<or> js_includes (js_toLowerCase (pr_specialty p)) (js_toLowerCase (ps_searchTerm s)))
                 \<and> (ps_statusFilter s = [] \<or> pr_status p = ps_statusFilter s)
                 \<and> (ps_specialtyFilter s = [] \<or> pr_specialty p = ps_specialtyFilter s)) profs"

text \<open>
  \<open>[...new Set(specialties)].sort()\<close>: the distinct specialties in code-unit order (the
  byte order of the UTF-8 strings, which is the code-point order).
\<close>

definition uniqueSpecialties :: "professional list \<Rightarrow> string list" where
  "uniqueSpecialties profs = sort (remdups (map pr_specialty profs))"

definition prof_hasActiveFilters :: "prof_state \<Rightarrow> bool" where
  "prof_hasActiveFilters s \<longleftrightarrow> ps_statusFilter s \<noteq> [] \<or> ps_specialtyFilter s \<noteq> []"

section \<open>Views\<close>

text \<open>
  \<open>prof.rating || "5.0"\<close>: a rating of 0 is falsy and shows as the default.  The value
  shown is either the default text or the number.
\<close>

datatype rating_shown = RatingDefault | RatingValue rat

definition rating_shown :: "rat option \<Rightarrow> rating_shown" where
  "rating_shown r = (case r of Some x \<Rightarrow> if x = 0 then RatingDefault else RatingValue x | None \<Rightarrow> RatingDefault)"

definition prof_count_or_zero :: "int option \<Rightarrow> int" where
  "prof_count_or_zero c = (case c of Some n \<Rightarrow> n | None \<Rightarrow> 0)"

definition registration_text :: "professional \<Rightarrow> string" where
  "registration_text p = pr_registration_type p @ ''-SP '' @ pr_registration_number p"

record prof_card_view =
  pc_initials :: string
  pc_name :: string
  pc_specialty :: string
  pc_registration :: string
  pc_status :: string
  pc_status_variant :: string
  pc_rating :: rating_shown
  pc_patients :: string
  pc_next_available :: string

definition prof_card :: "professional \<Rightarrow> prof_card_view" where
  "prof_card p =
     \<lparr>pc_initials = prof_getInitials (pr_name p), pc_name = pr_name p, pc_specialty = pr_specialty p,
      pc_registration = registration_text p, pc_status = pr_status p,
      pc_status_variant = prof_getStatusVariant (pr_status p), pc_rating = rating_shown (pr_rating p),
      pc_patients = int_to_string (prof_count_or_zero (pr_patients_count p)) @ '' pacientes'',
      pc_next_available = (case js_truthy_str (pr_next_available p) of Some t \<Rightarrow> t | None \<Rightarrow> NAO_DEFINIDO)\<rparr>"

datatype prof_list_view = ProfLoading | ProfEmpty string bool | ProfGrid "prof_card_view list"

definition prof_list_view :: "bool \<Rightarrow> prof_state \<Rightarrow> professional list \<Rightarrow> prof_list_view" where
  "prof_list_view isLoading s profs =
     (if isLoading then ProfLoading
      else if filteredProfessionals s profs = []
      then ProfEmpty (if ps_searchTerm s \<noteq> []
                      then ''Nenhum profissional corresponde '' @ [CHR 0xC3, CHR 0xA0] @ '' sua busca.''
                      else ''Comece adicionando o primeiro profissional.'') (ps_searchTerm s = [])
      else ProfGrid (map prof_card (filteredProfessionals s profs)))"

record prof_profile_view =
  pv_card :: prof_card_view
  pv_phone :: "string option"
  pv_email :: "string option"

definition prof_profile :: "prof_state \<Rightarrow> prof_profile_view option" where
  "prof_profile s =
     (if \<not> ps_isViewDialogOpen s then None
      else map_option (\<lambda>p. \<lparr>pv_card = prof_card p, pv_phone = js_truthy_str (pr_phone p),
                              pv_email = js_truthy_str (pr_email p)\<rparr>) (ps_selectedProfessional s))"

text \<open>The profile dialog's "Editar": close the dialog and open the edit form.\<close>

definition prof_profile_edit :: "prof_state \<Rightarrow> prof_state" where
  "prof_profile_edit s =
     (case ps_selectedProfessional s of
        Some p \<Rightarrow> prof_handleEdit p (s\<lparr>ps_isViewDialogOpen := False\<rparr>)
      | None \<Rightarrow> s)"

section \<open>A sample registry\<close>

definition sample_professional :: professional where
  "sample_professional = \<lparr>pr_id = ''0'', pr_name = ''Ana Lima'', pr_specialty = ''Cardiologia'',
     pr_registration_type = ''CRM'', pr_registration_number = ''123456'', pr_status = STATUS_DISPONIVEL,
     pr_phone = None, pr_email = Some ''ana@example.com'', pr_rating = Some 0, pr_patients_count = None,
     pr_next_available = None, pr_created_at = 0\<rparr>"

definition sample_prof_db :: prof_db where
  "sample_prof_db = \<lparr>pdb_rows = [sample_professional], pdb_next_id = 1\<rparr>"

section \<open>Properties\<close>

lemma opt_field_or_empty: "v \<noteq> Some [] \<Longrightarrow> opt_field (prof_or_empty v) = v"
  by (cases v) (simp_all add: opt_field_def prof_or_empty_def)

lemma update_professional_row_same:
  assumes "pr_phone p \<noteq> Some []" "pr_email p \<noteq> Some []"
  shows "update_professional_row (ps_formData (prof_handleEdit p s)) p = p"
  using assms by (simp add: update_professional_row_def prof_handleEdit_def opt_field_or_empty)

lemma map_update_unique:
  "distinct (map key xs) \<Longrightarrow> x \<in> set xs \<Longrightarrow> f x = x
   \<Longrightarrow> map (\<lambda>y. if key y = key x then f y else y) xs = xs"
proof (induction xs)
  case (Cons y ys)
  show ?case
  proof (cases "y = x")
    case True
    with Cons.prems have "\<forall>z\<in>set ys. key z \<noteq> key x" by (auto simp: image_iff)
    then have "map (\<lambda>y. if key y = key x then f y else y) ys = ys" by (simp add: map_idI)
    with True Cons.prems show ?thesis by simp
  next
    case False
    with Cons.prems have "x \<in> set ys" "key y \<noteq> key x" by (auto simp: image_iff)
    with Cons show ?thesis by simp
  qed
qed simp

text \<open>
  C36 (roundtrip). Opening "Editar" on a professional of the table and saving without a
  change, with a successful update, writes the row back unchanged and closes the dialog,
  as long as its phone and e-mail are not empty strings (\<open>|| ""\<close> and \<open>|| null\<close> turn
  an empty string into null) and its required fields are filled.
\<close>

theorem prof_edit_unchanged_roundtrip:
  assumes "p \<in> set (pdb_rows db)" "distinct (map pr_id (pdb_rows db))"
      and "pr_name p \<noteq> []" "pr_specialty p \<noteq> []" "pr_registration_number p \<noteq> []"
      and "pr_phone p \<noteq> Some []" "pr_email p \<noteq> Some []"
  shows "prof_handleEditSubmit None (prof_handleEdit p s, db)
         = ((prof_handleEdit p s\<lparr>ps_isEditDialogOpen := False, ps_selectedProfessional := None\<rparr>, db),
            [(''Sucesso'', ''Profissional atualizado com sucesso!'', False)])"
proof -
  have nm: "\<not> prof_required_missing (ps_formData (prof_handleEdit p s))"
    using assms(3-5) by (simp add: prof_required_missing_def prof_handleEdit_def)
  have rows: "map (\<lambda>q. if pr_id q = pr_id p then update_professional_row (ps_formData (prof_handleEdit p s)) q else q)
                (pdb_rows db) = pdb_rows db"
    using map_update_unique [OF assms(2,1)] update_professional_row_same [OF assms(6,7)] by blast
  have sel: "ps_selectedProfessional (prof_handleEdit p s) = Some p"
    by (simp add: prof_handleEdit_def)
  show ?thesis
    unfolding prof_handleEditSubmit_def updateProfessional_def using nm rows sel by simp
qed

text \<open>
  C31 (error). Neither a successful edit nor "Cancelar" resets the form: after editing a
  professional, "Novo Profissional" opens with that professional's data, and saving it
  inserts a second row with the same name and registration number.
\<close>

theorem prof_new_after_edit_prefilled:
  assumes "pr_name p \<noteq> []" "pr_specialty p \<noteq> []" "pr_registration_number p \<noteq> []"
      and "prof_handleEditSubmit None (prof_handleEdit p s, db) = ((s1, db1), ts)"
  shows "ps_formData (prof_open_new s1) = ps_formData (prof_handleEdit p s)
         \<and> pr_name (last (pdb_rows (snd (fst (prof_handleSubmit now None (prof_open_new s1, db1)))))) = pr_name p
         \<and> pr_registration_number (last (pdb_rows (snd (fst (prof_handleSubmit now None (prof_open_new s1, db1))))))
           = pr_registration_number p"
proof -
  have nm: "\<not> prof_required_missing (ps_formData (prof_handleEdit p s))"
    using assms(1-3) by (simp add: prof_required_missing_def prof_handleEdit_def)
  have sel: "ps_selectedProfessional (prof_handleEdit p s) = Some p"
    by (simp add: prof_handleEdit_def)
  from assms(4) nm sel have s1: "ps_formData s1 = ps_formData (prof_handleEdit p s)"
    by (auto simp: prof_handleEditSubmit_def updateProfessional_def)
  then have f: "ps_formData (prof_open_new s1) = ps_formData (prof_handleEdit p s)"
    by (simp add: prof_open_new_def)
  with nm show ?thesis
    by (simp add: prof_handleSubmit_def createProfessional_def insert_professional_def prof_handleEdit_def)
qed

theorem prof_specialty_option_nonempty:
  assumes "sp \<in> set (uniqueSpecialties profs)" "ps_searchTerm s = []" "ps_statusFilter s = []"
  shows "filteredProfessionals (s\<lparr>ps_specialtyFilter := sp\<rparr>) profs \<noteq> []
         \<and> sorted (uniqueSpecialties profs) \<and> distinct (uniqueSpecialties profs)"
  using assms by (auto simp: uniqueSpecialties_def filteredProfessionals_def js_includes_def
      js_toLowerCase_def filter_empty_conv)
theorem prof_edit_unchanged_roundtrip_witness:
  "sample_professional \<in> set (pdb_rows sample_prof_db) \<and> distinct (map pr_id (pdb_rows sample_prof_db))
   \<and> snd (fst (prof_handleEditSubmit None (prof_handleEdit sample_professional prof_init, sample_prof_db)))
       = sample_prof_db"
proof -
  have pre: "sample_professional \<in> set (pdb_rows sample_prof_db)" "distinct (map pr_id (pdb_rows sample_prof_db))"
    "pr_name sample_professional \<noteq> []" "pr_specialty sample_professional \<noteq> []"
    "pr_registration_number sample_professional \<noteq> []"
    "pr_phone sample_professional \<noteq> Some []" "pr_email sample_professional \<noteq> Some []"
    by (simp_all add: sample_prof_db_def sample_professional_def)
  show ?thesis using prof_edit_unchanged_roundtrip [OF pre, of prof_init] pre(1,2) by simp
qed

theorem prof_specialty_option_nonempty_witness:
  "''Cardiologia'' \<in> set (uniqueSpecialties [sample_professional]) \<and> ps_searchTerm prof_init = []
   \<and> ps_statusFilter prof_init = []
   \<and> filteredProfessionals (prof_init\<lparr>ps_specialtyFilter := ''Cardiologia''\<rparr>) [sample_professional] \<noteq> []"
proof -
  have pre: "''Cardiologia'' \<in> set (uniqueSpecialties [sample_professional])" "ps_searchTerm prof_init = []"
     "ps_statusFilter prof_init = []"
    by (simp_all add: uniqueSpecialties_def sample_professional_def prof_init_def)
  show ?thesis using prof_specialty_option_nonempty [OF pre] pre by simp
qed

theorem prof_new_after_edit_prefilled_witness:
  "let R = prof_handleEditSubmit None (prof_handleEdit sample_professional prof_init, sample_prof_db)
   in pr_name (last (pdb_rows (snd (fst (prof_handleSubmit 1 None (prof_open_new (fst (fst R)), snd (fst R)))))))
        = ''Ana Lima''
      \<and> length (pdb_rows (snd (fst (prof_handleSubmit 1 None (prof_open_new (fst (fst R)), snd (fst R)))))) = 2"
proof -
  define R where "R = prof_handleEditSubmit None (prof_handleEdit sample_professional prof_init, sample_prof_db)"
  have pre: "pr_name sample_professional \<noteq> []" "pr_specialty sample_professional \<noteq> []"
      "pr_registration_number sample_professional \<noteq> []"
    by (simp_all add: sample_professional_def)
  have r: "prof_handleEditSubmit None (prof_handleEdit sample_professional prof_init, sample_prof_db)
           = ((fst (fst R), snd (fst R)), snd R)" by (simp add: R_def)
  have len: "length (pdb_rows (snd (fst (prof_handleSubmit 1 None (prof_open_new (fst (fst R)), snd (fst R)))))) = 2"
    by (simp add: R_def prof_handleEditSubmit_def prof_handleEdit_def updateProfessional_def sample_prof_db_def
        sample_professional_def prof_required_missing_def prof_handleSubmit_def prof_open_new_def
        createProfessional_def insert_professional_def)
  from prof_new_after_edit_prefilled [OF pre r, of 1] len
  show ?thesis by (simp add: Let_def R_def sample_professional_def)
qed
end
