(* ===== verification/Records.thy ===== *)
theory Records
  imports Beds
begin

text \<open>
  The electronic medical records page, \<open>src/pages/Prontuarios.tsx\<close>.  The two tables it
  writes, \<open>medical_records\<close> and \<open>medical_record_entries\<close>, are an explicit store
  (\<open>records_db\<close>); each write takes the backend's error as an input.  What the database
  fills in by itself is an input too: the record number (a trigger outside the
  repository), the entry's date (the column default, today) and the timestamps.
  \<open>updated_at\<close> is a \<open>timestamptz\<close>, which the API returns as an ISO string in UTC.
\<close>

section \<open>Rows and the store\<close>

definition entryTypes :: "string list" where
  "entryTypes = [''Consulta'', ''Exame'', ''Prescri'' @ CEDILLA @ TILDE_A @ ''o'', ''Procedimento'',
                 ''Evolu'' @ CEDILLA @ TILDE_A @ ''o'']"

definition PRESCRICAO :: string where "PRESCRICAO = ''Prescri'' @ CEDILLA @ TILDE_A @ ''o''"

record medical_record =
  mr_id :: string
  mr_record_number :: string
  mr_patient_id :: string
  mr_professional_id :: "string option"
  mr_primary_diagnosis :: "string option"
  mr_status :: string
  mr_notes :: "string option"
  mr_updated_at :: timestamp

record record_entry =
  me_id :: string
  me_record_id :: string
  me_professional_id :: "string option"
  me_entry_type :: string
  me_description :: string
  me_entry_date :: string
  me_created_at :: timestamp

record records_db =
  rdb_records :: "medical_record list"
  rdb_entries :: "record_entry list"
  rdb_next_id :: nat

text \<open>A \<open>timestamptz\<close> as the API returns it: the UTC date and time, \<open>+00:00\<close>.\<close>

definition pg_timestamptz :: "timestamp \<Rightarrow> string" where
  "pg_timestamptz t =
     format_yyyy_MM_dd 0 t @ ''T''
     @ pad_start 2 (int_to_string ((t mod MS_PER_DAY) div MS_PER_HOUR)) @ '':''
     @ pad_start 2 (int_to_string ((t mod MS_PER_HOUR) div MS_PER_MINUTE)) @ '':''
     @ pad_start 2 (int_to_string ((t mod MS_PER_MINUTE) div 1000)) @ ''+00:00''"

section \<open>Page state\<close>

record new_record_form =
  nr_patient_id :: string
  nr_professional_id :: string
  nr_diagnosis :: string
  nr_notes :: string

definition new_record_init :: new_record_form where
  "new_record_init = \<lparr>nr_patient_id = [], nr_professional_id = [], nr_diagnosis = [], nr_notes = []\<rparr>"

record new_entry_form =
  ne_entry_type :: string
  ne_description :: string

definition new_entry_init :: new_entry_form where
  "new_entry_init = \<lparr>ne_entry_type = ''Consulta'', ne_description = []\<rparr>"

record records_state =
  rs_searchTerm :: string
  rs_isNewRecordOpen :: bool
  rs_isDetailsOpen :: bool
  rs_isNewEntryOpen :: bool
  rs_selectedRecord :: "medical_record option"
  rs_newRecordData :: new_record_form
  rs_newEntryData :: new_entry_form

definition records_init :: records_state where
  "records_init = \<lparr>rs_searchTerm = [], rs_isNewRecordOpen = False, rs_isDetailsOpen = False,
     rs_isNewEntryOpen = False, rs_selectedRecord = None, rs_newRecordData = new_record_init,
     rs_newEntryData = new_entry_init\<rparr>"

section \<open>Queries\<close>

text \<open>
  \<open>order("updated_at", {ascending: false})\<close>; the order among equal timestamps is the
  database's, here the reverse of the table's.
\<close>

definition medicalRecordsQuery :: "records_db \<Rightarrow> medical_record list" where
  "medicalRecordsQuery db = rev (sort_key mr_updated_at (rdb_records db))"

definition recordEntriesQuery :: "records_state \<Rightarrow> records_db \<Rightarrow> record_entry list" where
  "recordEntriesQuery s db =
     (case rs_selectedRecord s of
        None \<Rightarrow> []
      | Some r \<Rightarrow> rev (sort_key me_entry_date (filter (\<lambda>e. me_record_id e = mr_id r) (rdb_entries db))))"

definition recentEntriesQuery :: "records_db \<Rightarrow> record_entry list" where
  "recentEntriesQuery db = take 10 (sort_key (\<lambda>e. - me_created_at e) (rdb_entries db))"

section \<open>Mutations\<close>

text \<open>The insert sends an empty \<open>record_number\<close>; the trigger's number \<open>rn\<close> is an input.\<close>

definition createRecord ::
    "string \<Rightarrow> timestamp \<Rightarrow> new_record_form \<Rightarrow> string option \<Rightarrow> records_db \<Rightarrow> records_db \<times> string option" where
  "createRecord rn now fd err db =
     (case err of
        None \<Rightarrow> (db\<lparr>rdb_records := rdb_records db @
                   [\<lparr>mr_id = nat_to_string (rdb_next_id db), mr_record_number = rn,
                     mr_patient_id = nr_patient_id fd, mr_professional_id = opt_field (nr_professional_id fd),
                     mr_primary_diagnosis = opt_field (nr_diagnosis fd), mr_status = ''ativo'',
                     mr_notes = opt_field (nr_notes fd), mr_updated_at = now\<rparr>],
                 rdb_next_id := Suc (rdb_next_id db)\<rparr>, None)
      | Some m \<Rightarrow> (db, Some m))"

definition MSG_NO_RECORD :: string where
  "MSG_NO_RECORD = ''Nenhum prontu'' @ ACUTE_A @ ''rio selecionado''"

text \<open>
  \<open>createEntry\<close>: without a selected record the function throws before writing; the insert
  sends the record, the type and the description only.
\<close>

definition createEntry ::
    "string \<Rightarrow> timestamp \<Rightarrow> records_state \<Rightarrow> new_entry_form \<Rightarrow> string option \<Rightarrow> records_db
     \<Rightarrow> records_db \<times> string option" where
  "createEntry today now s fd err db =
     (case rs_selectedRecord s of
        None \<Rightarrow> (db, Some MSG_NO_RECORD)
      | Some r \<Rightarrow>
          (case err of
             None \<Rightarrow> (db\<lparr>rdb_entries := rdb_entries db @
                        [\<lparr>me_id = nat_to_string (rdb_next_id db), me_record_id = mr_id r,
                          me_professional_id = None, me_entry_type = ne_entry_type fd,
                          me_description = ne_description fd, me_entry_date = today, me_created_at = now\<rparr>],
                      rdb_next_id := Suc (rdb_next_id db)\<rparr>, None)
           | Some m \<Rightarrow> (db, Some m)))"

definition updateRecordStatus ::
    "string \<Rightarrow> string \<Rightarrow> string option \<Rightarrow> records_db \<Rightarrow> records_db \<times> string option" where
  "updateRecordStatus rid st err db =
     (case err of
        None \<Rightarrow> (db\<lparr>rdb_records := map (\<lambda>r. if mr_id r = rid then r\<lparr>mr_status := st\<rparr> else r) (rdb_records db)\<rparr>, None)
      | Some m \<Rightarrow> (db, Some m))"

section \<open>Handlers\<close>

definition PRONTUARIO_CRIADO :: string where
  "PRONTUARIO_CRIADO = ''Prontu'' @ ACUTE_A @ ''rio criado com sucesso!''"

definition handleCreateRecord ::
    "string \<Rightarrow> timestamp \<Rightarrow> string option \<Rightarrow> records_state \<times> records_db
     \<Rightarrow> (records_state \<times> records_db) \<times> ui_toast list" where
  "handleCreateRecord rn now err st =
     (case st of (s, db) \<Rightarrow>
       if nr_patient_id (rs_newRecordData s) = [] then ((s, db), [ToastError ''Selecione um paciente''])
       else (case createRecord rn now (rs_newRecordData s) err db of
               (db', None) \<Rightarrow> ((s\<lparr>rs_isNewRecordOpen := False, rs_newRecordData := new_record_init\<rparr>, db'),
                               [ToastSuccess PRONTUARIO_CRIADO])
             | (db', Some m) \<Rightarrow> ((s, db'),
                  [ToastError (''Erro ao criar prontu'' @ ACUTE_A @ ''rio: '' @ m)])))"

definition handleCreateEntry ::
    "string \<Rightarrow> timestamp \<Rightarrow> string option \<Rightarrow> records_state \<times> records_db
     \<Rightarrow> (records_state \<times> records_db) \<times> ui_toast list" where
  "handleCreateEntry today now err st =
     (case st of (s, db) \<Rightarrow>
       if ne_description (rs_newEntryData s) = [] then ((s, db), [ToastError (''Preencha a descri'' @ CEDILLA @ TILDE_A @ ''o'')])
       else (case createEntry today now s (rs_newEntryData s) err db of
               (db', None) \<Rightarrow> ((s\<lparr>rs_isNewEntryOpen := False, rs_newEntryData := new_entry_init\<rparr>, db'),
                               [ToastSuccess ''Registro adicionado com sucesso!''])
             | (db', Some m) \<Rightarrow> ((s, db'), [ToastError (''Erro ao adicionar registro: '' @ m)])))"

text \<open>The archive and restore buttons of a row.\<close>

definition toggle_record_status ::
    "medical_record \<Rightarrow> string option \<Rightarrow> records_db \<Rightarrow> records_db \<times> ui_toast list" where
  "toggle_record_status r err db =
     (case updateRecordStatus (mr_id r) (if mr_status r = ''ativo'' then ''arquivado'' else ''ativo'') err db of
        (db', None) \<Rightarrow> (db', [ToastSuccess ''Status atualizado com sucesso!''])
      | (db', Some m) \<Rightarrow> (db', [ToastError (''Erro ao atualizar status: '' @ m)]))"

definition open_record_details :: "medical_record \<Rightarrow> records_state \<Rightarrow> records_state" where
  "open_record_details r s = s\<lparr>rs_selectedRecord := Some r, rs_isDetailsOpen := True\<rparr>"

section \<open>Derived data\<close>

text \<open>\<open>patients\<close> is the \<open>patient(name, cpf)\<close> join.\<close>

definition filteredRecords ::
    "(string \<Rightarrow> (string \<times> string) option) \<Rightarrow> records_state \<Rightarrow> medical_record list \<Rightarrow> medical_record list" where
  "filteredRecords patients s rs =
     (let search = js_toLowerCase (rs_searchTerm s) in
      filter (\<lambda>r. js_includes (js_toLowerCase (mr_record_number r)) search
                  \<or> (case patients (mr_patient_id r) of
                       Some (nm, cpf) \<Rightarrow> js_includes (js_toLowerCase nm) search \<or> js_includes cpf search
                     | None \<Rightarrow> False)) rs)"

definition activeRecords :: "medical_record list \<Rightarrow> medical_record list" where
  "activeRecords rs = filter (\<lambda>r. mr_status r = ''ativo'') rs"

definition archivedRecords :: "medical_record list \<Rightarrow> medical_record list" where
  "archivedRecords rs = filter (\<lambda>r. mr_status r = ''arquivado'') rs"

text \<open>\<open>r.updated_at.startsWith(format(new Date(), "yyyy-MM-dd"))\<close>: a local date against a UTC string.\<close>

definition updatedToday :: "int \<Rightarrow> timestamp \<Rightarrow> medical_record list \<Rightarrow> nat" where
  "updatedToday tz now rs = length (filter (\<lambda>r. prefix (format_yyyy_MM_dd tz now) (pg_timestamptz (mr_updated_at r))) rs)"

definition records_stats :: "int \<Rightarrow> timestamp \<Rightarrow> medical_record list \<Rightarrow> record_entry list \<Rightarrow> (nat \<times> string) list" where
  "records_stats tz now rs recent =
     [(length (activeRecords rs), ''Prontu'' @ ACUTE_A @ ''rios Ativos''),
      (updatedToday tz now rs, ''Atualizados Hoje''),
      (length (filter (\<lambda>e. me_entry_type e = PRESCRICAO) recent), ''Prescri'' @ CEDILLA @ [CHR 0xC3, CHR 0xB5] @ ''es Recentes''),
      (length (archivedRecords rs), ''Arquivados'')]"

datatype entry_icon = IconActivity | IconFileWarning | IconPill | IconFileMuted

definition getEntryIcon :: "string \<Rightarrow> entry_icon" where
  "getEntryIcon t = (if t = ''Consulta'' then IconActivity else if t = ''Exame'' then IconFileWarning
                     else if t = PRESCRICAO then IconPill else IconFileMuted)"

section \<open>Views\<close>

definition PROF_NAO_INFORMADO :: string where
  "PROF_NAO_INFORMADO = ''Profissional n'' @ TILDE_A @ ''o informado''"

text \<open>An entry as the details dialog lists it: type, date, description, professional.\<close>

definition entry_view ::
    "(string \<Rightarrow> string option) \<Rightarrow> record_entry \<Rightarrow> string \<times> string \<times> string \<times> string" where
  "entry_view profs e =
     (me_entry_type e, formatDate (me_entry_date e), me_description e,
      case js_truthy_str (Option.bind (me_professional_id e) profs) of Some n \<Rightarrow> n | None \<Rightarrow> PROF_NAO_INFORMADO)"

definition format_dd_MM_yyyy :: "int \<Rightarrow> timestamp \<Rightarrow> string" where
  "format_dd_MM_yyyy tz t = (case local_date tz t of (y, m, d) \<Rightarrow>
     pad_start 2 (int_to_string d) @ ''/'' @ pad_start 2 (int_to_string m) @ ''/''
       @ pad_start 4 (int_to_string y))"

datatype record_action = ArchiveButton | RestoreButton

text \<open>A row of \<open>renderRecordsTable\<close>: number, patient, CPF, diagnosis, physician, last update, badge, button.\<close>

definition record_row_view ::
    "(string \<Rightarrow> (string \<times> string) option) \<Rightarrow> (string \<Rightarrow> string option) \<Rightarrow> int \<Rightarrow> medical_record
     \<Rightarrow> string \<times> string option \<times> string option \<times> string \<times> string \<times> string \<times> string \<times> record_action" where
  "record_row_view patients profs tz r =
     (mr_record_number r, map_option fst (patients (mr_patient_id r)), map_option snd (patients (mr_patient_id r)),
      (case js_truthy_str (mr_primary_diagnosis r) of Some d \<Rightarrow> d | None \<Rightarrow> ''-''),
      (case js_truthy_str (Option.bind (mr_professional_id r) profs) of Some n \<Rightarrow> n | None \<Rightarrow> ''-''),
      format_dd_MM_yyyy tz (mr_updated_at r),
      (if mr_status r = ''ativo'' then ''Ativo'' else ''Arquivado''),
      (if mr_status r = ''ativo'' then ArchiveButton else RestoreButton))"

text \<open>The details dialog: physician, diagnosis, the notes when truthy, and the record's entries.\<close>

definition record_details_view ::
    "(string \<Rightarrow> string option) \<Rightarrow> records_state \<Rightarrow> records_db
     \<Rightarrow> (string \<times> string \<times> string option \<times> (string \<times> string \<times> string \<times> string) list) option" where
  "record_details_view profs s db =
     (if \<not> rs_isDetailsOpen s then None
      else case rs_selectedRecord s of
             None \<Rightarrow> None
           | Some r \<Rightarrow> Some ((case js_truthy_str (Option.bind (mr_professional_id r) profs) of Some n \<Rightarrow> n | None \<Rightarrow> NAO_DEFINIDO),
                              (case js_truthy_str (mr_primary_diagnosis r) of Some d \<Rightarrow> d | None \<Rightarrow> NAO_INFORMADO),
                              js_truthy_str (mr_notes r),
                              map (entry_view profs) (recordEntriesQuery s db)))"

section \<open>Reachable stores\<close>

text \<open>The stores the page produces from \<open>db0\<close>, whatever its state and each write's outcome.\<close>

inductive records_reachable :: "records_db \<Rightarrow> records_db \<Rightarrow> bool" for db0 where
  records_start: "records_reachable db0 db0"
| records_create: "records_reachable db0 db \<Longrightarrow> records_reachable db0 (snd (fst (handleCreateRecord rn now err (s, db))))"
| records_entry: "records_reachable db0 db \<Longrightarrow> records_reachable db0 (snd (fst (handleCreateEntry today now err (s, db))))"
| records_toggle: "records_reachable db0 db \<Longrightarrow> records_reachable db0 (fst (toggle_record_status r err db))"

definition record_status_valid :: "medical_record \<Rightarrow> bool" where
  "record_status_valid r \<longleftrightarrow> mr_status r = ''ativo'' \<or> mr_status r = ''arquivado''"

definition empty_records_db :: records_db where
  "empty_records_db = \<lparr>rdb_records = [], rdb_entries = [], rdb_next_id = 0\<rparr>"

definition sample_record_state :: records_state where
  "sample_record_state = records_init\<lparr>rs_newRecordData := new_record_init\<lparr>nr_patient_id := ''p1''\<rparr>\<rparr>"


definition sample_record :: medical_record where
  "sample_record = \<lparr>mr_id = ''r1'', mr_record_number = ''PR-1'', mr_patient_id = ''p1'',
     mr_professional_id = Some ''d1'', mr_primary_diagnosis = None, mr_status = ''ativo'', mr_notes = None,
     mr_updated_at = 0\<rparr>"

definition sample_entry_state :: records_state where
  "sample_entry_state = records_init\<lparr>rs_selectedRecord := Some sample_record, rs_isDetailsOpen := True,
     rs_newEntryData := \<lparr>ne_entry_type = ''Consulta'', ne_description = ''ok''\<rparr>\<rparr>"

section \<open>Lemmas\<close>

lemma handleCreateRecord_db:
  "snd (fst (handleCreateRecord rn now err (s, db))) = db
   \<or> snd (fst (handleCreateRecord rn now err (s, db))) = fst (createRecord rn now (rs_newRecordData s) err db)"
  by (auto simp: handleCreateRecord_def split: prod.splits option.splits)

lemma createRecord_records_valid:
  "list_all record_status_valid (rdb_records db)
   \<Longrightarrow> list_all record_status_valid (rdb_records (fst (createRecord rn now fd err db)))"
  by (simp add: createRecord_def record_status_valid_def split: option.splits)

lemma createEntry_records [simp]: "rdb_records (fst (createEntry today now s fd err db)) = rdb_records db"
  by (simp add: createEntry_def split: option.splits)

lemma handleCreateEntry_records [simp]:
  "rdb_records (snd (fst (handleCreateEntry today now err (s, db)))) = rdb_records db"
proof (cases "createEntry today now s (rs_newEntryData s) err db")
  case (Pair db' m)
  then have "rdb_records db' = rdb_records db"
    using createEntry_records [of today now s "rs_newEntryData s" err db] by simp
  with Pair show ?thesis by (cases m) (simp_all add: handleCreateEntry_def)
qed

lemma toggle_records_valid:
  "list_all record_status_valid (rdb_records db)
   \<Longrightarrow> list_all record_status_valid (rdb_records (fst (toggle_record_status r err db)))"
  by (auto simp: toggle_record_status_def updateRecordStatus_def record_status_valid_def list_all_iff
           split: prod.splits option.splits)

lemma records_reachable_valid:
  "records_reachable db0 db \<Longrightarrow> list_all record_status_valid (rdb_records db0)
   \<Longrightarrow> list_all record_status_valid (rdb_records db)"
proof (induction rule: records_reachable.induct)
  case (records_create db rn now err s)
  then show ?case using handleCreateRecord_db [of rn now err s db] createRecord_records_valid by metis
qed (simp_all add: toggle_records_valid)

lemma active_archived_partition:
  "list_all record_status_valid rs \<Longrightarrow> length (activeRecords rs) + length (archivedRecords rs) = length rs"
proof -
  assume v: "list_all record_status_valid rs"
  have "archivedRecords rs = filter (\<lambda>r. \<not> mr_status r = ''ativo'') rs"
    unfolding archivedRecords_def
    by (rule filter_cong) (use v in \<open>auto simp: list_all_iff record_status_valid_def\<close>)
  then show ?thesis by (simp add: activeRecords_def sum_length_filter_compl)
qed

lemma medicalRecordsQuery_set: "set (medicalRecordsQuery db) = set (rdb_records db)"
  by (simp add: medicalRecordsQuery_def)

text \<open>
  C7: on every store the page reaches from one whose records are all active or archived,
  the Prontuarios Ativos and Arquivados counters add up to the number of records listed.
\<close>

theorem records_cards_add_up:
  assumes "records_reachable db0 db" and "list_all record_status_valid (rdb_records db0)"
  shows "length (activeRecords (medicalRecordsQuery db)) + length (archivedRecords (medicalRecordsQuery db))
         = length (medicalRecordsQuery db)"
proof (rule active_archived_partition)
  show "list_all record_status_valid (medicalRecordsQuery db)"
    using records_reachable_valid [OF assms] by (simp add: list_all_iff medicalRecordsQuery_set)
qed

theorem records_cards_add_up_witness:
  "length (activeRecords (medicalRecordsQuery (snd (fst (handleCreateRecord ''PR-1'' 0 None (sample_record_state, empty_records_db))))))
   + length (archivedRecords (medicalRecordsQuery (snd (fst (handleCreateRecord ''PR-1'' 0 None (sample_record_state, empty_records_db))))))
   = length (medicalRecordsQuery (snd (fst (handleCreateRecord ''PR-1'' 0 None (sample_record_state, empty_records_db)))))"
  by (rule records_cards_add_up [OF records_reachable.records_create [OF records_reachable.records_start]])
     (simp add: empty_records_db_def)

text \<open>
  C29: createEntry never sends a professional_id, so every entry the page adds is listed in
  the details dialog as Profissional nao informado, whoever wrote it.
\<close>

theorem entry_without_professional:
  assumes "rs_selectedRecord s = Some r" and "ne_description (rs_newEntryData s) \<noteq> []"
  shows "\<exists>e. rdb_entries (snd (fst (handleCreateEntry today now None (s, db)))) = rdb_entries db @ [e]
             \<and> me_record_id e = mr_id r \<and> me_professional_id e = None
             \<and> snd (snd (snd (entry_view profs e))) = PROF_NAO_INFORMADO"
  using assms by (simp add: handleCreateEntry_def createEntry_def entry_view_def js_truthy_str_def)

theorem entry_without_professional_witness:
  "\<exists>e. rdb_entries (snd (fst (handleCreateEntry ''2024-03-15'' 0 None (sample_entry_state, empty_records_db))))
         = rdb_entries empty_records_db @ [e]
       \<and> me_record_id e = mr_id sample_record \<and> me_professional_id e = None
       \<and> snd (snd (snd (entry_view (\<lambda>_. Some ''Dra. Ana'') e))) = PROF_NAO_INFORMADO"
  by (rule entry_without_professional [of sample_entry_state sample_record])
     (simp_all add: sample_entry_state_def)

text \<open>
  C27: Atualizados Hoje compares the local date with the UTC timestamp string.  In Sao Paulo
  (UTC-3) at 22:30 on 15 March 2024, a record created that moment is stamped 2024-03-16 in UTC
  and the counter stays at 0.
\<close>

theorem updatedToday_utc_mismatch:
  "(let tz = -10800000; now = 1710552600000;
        ((s', db'), ts) = handleCreateRecord ''PR-2024-0001'' now None (sample_record_state, empty_records_db)
    in ts = [ToastSuccess PRONTUARIO_CRIADO] \<and> length (medicalRecordsQuery db') = 1
       \<and> format_yyyy_MM_dd tz now = ''2024-03-15'' \<and> updatedToday tz now (medicalRecordsQuery db') = 0)"
  by code_simp

end
