(* ===== verification/QuickActions.thy ===== *)
theory QuickActions
  imports Records
begin

text \<open>
  The dashboard's quick actions, \<open>src/components/dashboard/QuickActions.tsx\<close>: three dialogs
  that create a patient, an appointment and a medical record without leaving the dashboard.
  The patient and appointment inserts are the writes the handlers issue, with the mutation's
  outcome as an input; the medical record is created on the \<open>records_db\<close> store of
  \<open>Records\<close>, since its number is computed from the rows already there.  The file's
  \<open>formatCPF\<close> and \<open>formatPhone\<close> are character for character those of \<open>Pacientes.tsx\<close>,
  and the model uses \<open>Patients.formatCPF\<close> and \<open>Patients.formatPhone\<close> for them.
\<close>

section \<open>State\<close>

record qa_patient_form =
  qp_name :: string
  qp_cpf :: string
  qp_birth_date :: string
  qp_phone :: string
  qp_email :: string

definition qa_patient_init :: qa_patient_form where
  "qa_patient_init = \<lparr>qp_name = [], qp_cpf = [], qp_birth_date = [], qp_phone = [], qp_email = []\<rparr>"

record qa_appt_form =
  qa_patient_id :: string
  qa_professional_id :: string
  qa_appointment_date :: string
  qa_appointment_time :: string
  qa_type :: string
  qa_is_video :: bool

definition qa_appt_init :: qa_appt_form where
  "qa_appt_init = \<lparr>qa_patient_id = [], qa_professional_id = [], qa_appointment_date = [],
     qa_appointment_time = [], qa_type = ''Consulta'', qa_is_video = False\<rparr>"

record qa_record_form =
  qr_patient_id :: string
  qr_primary_diagnosis :: string
  qr_notes :: string

definition qa_record_init :: qa_record_form where
  "qa_record_init = \<lparr>qr_patient_id = [], qr_primary_diagnosis = [], qr_notes = []\<rparr>"

record qa_state =
  qa_isPatientDialogOpen :: bool
  qa_isAppointmentDialogOpen :: bool
  qa_isMedicalRecordDialogOpen :: bool
  qa_saving :: bool
  qa_patientData :: qa_patient_form
  qa_appointmentData :: qa_appt_form
  qa_recordData :: qa_record_form

definition qa_init :: qa_state where
  "qa_init = \<lparr>qa_isPatientDialogOpen = False, qa_isAppointmentDialogOpen = False,
     qa_isMedicalRecordDialogOpen = False, qa_saving = False, qa_patientData = qa_patient_init,
     qa_appointmentData = qa_appt_init, qa_recordData = qa_record_init\<rparr>"

section \<open>Form events\<close>

text \<open>The inputs of the three dialogs; the CPF and phone inputs mask what is typed.\<close>

datatype qa_event =
    QPName string | QPCpf string | QPBirth string | QPPhone string | QPEmail string
  | QAPatient string | QAProfessional string | QADate string | QATime string | QAType string
  | QAModality string
  | QRPatient string | QRDiagnosis string | QRNotes string
  | OpenPatient | OpenAppointment | OpenRecord | ClosePatient | CloseAppointment | CloseRecord

fun qa_step :: "qa_event \<Rightarrow> qa_state \<Rightarrow> qa_state" where
  "qa_step (QPName v) s = s\<lparr>qa_patientData := (qa_patientData s)\<lparr>qp_name := v\<rparr>\<rparr>"
| "qa_step (QPCpf v) s = s\<lparr>qa_patientData := (qa_patientData s)\<lparr>qp_cpf := formatCPF v\<rparr>\<rparr>"
| "qa_step (QPBirth v) s = s\<lparr>qa_patientData := (qa_patientData s)\<lparr>qp_birth_date := v\<rparr>\<rparr>"
| "qa_step (QPPhone v) s = s\<lparr>qa_patientData := (qa_patientData s)\<lparr>qp_phone := formatPhone v\<rparr>\<rparr>"
| "qa_step (QPEmail v) s = s\<lparr>qa_patientData := (qa_patientData s)\<lparr>qp_email := v\<rparr>\<rparr>"
| "qa_step (QAPatient v) s = s\<lparr>qa_appointmentData := (qa_appointmentData s)\<lparr>qa_patient_id := v\<rparr>\<rparr>"
| "qa_step (QAProfessional v) s = s\<lparr>qa_appointmentData := (qa_appointmentData s)\<lparr>qa_professional_id := v\<rparr>\<rparr>"
| "qa_step (QADate v) s = s\<lparr>qa_appointmentData := (qa_appointmentData s)\<lparr>qa_appointment_date := v\<rparr>\<rparr>"
| "qa_step (QATime v) s = s\<lparr>qa_appointmentData := (qa_appointmentData s)\<lparr>qa_appointment_time := v\<rparr>\<rparr>"
| "qa_step (QAType v) s = s\<lparr>qa_appointmentData := (qa_appointmentData s)\<lparr>qa_type := v\<rparr>\<rparr>"
| "qa_step (QAModality v) s = s\<lparr>qa_appointmentData := (qa_appointmentData s)\<lparr>qa_is_video := (v = ''video'')\<rparr>\<rparr>"
| "qa_step (QRPatient v) s = s\<lparr>qa_recordData := (qa_recordData s)\<lparr>qr_patient_id := v\<rparr>\<rparr>"
| "qa_step (QRDiagnosis v) s = s\<lparr>qa_recordData := (qa_recordData s)\<lparr>qr_primary_diagnosis := v\<rparr>\<rparr>"
| "qa_step (QRNotes v) s = s\<lparr>qa_recordData := (qa_recordData s)\<lparr>qr_notes := v\<rparr>\<rparr>"
| "qa_step OpenPatient s = s\<lparr>qa_isPatientDialogOpen := True\<rparr>"
| "qa_step OpenAppointment s = s\<lparr>qa_isAppointmentDialogOpen := True\<rparr>"
| "qa_step OpenRecord s = s\<lparr>qa_isMedicalRecordDialogOpen := True\<rparr>"
| "qa_step ClosePatient s = s\<lparr>qa_isPatientDialogOpen := False\<rparr>"
| "qa_step CloseAppointment s = s\<lparr>qa_isAppointmentDialogOpen := False\<rparr>"
| "qa_step CloseRecord s = s\<lparr>qa_isMedicalRecordDialogOpen := False\<rparr>"

section \<open>Patient and appointment dialogs\<close>

record qa_appt_insert =
  qi_patient_id :: string
  qi_professional_id :: string
  qi_appointment_date :: string
  qi_appointment_time :: string
  qi_type :: string
  qi_is_video :: bool
  qi_status :: string

datatype qa_write = QAInsertPatient patient_fields | QAInsertAppointment qa_appt_insert

text \<open>\<open>error.message\<close> of what the insert throws.\<close>

definition thrown_message :: "thrown \<Rightarrow> string option" where
  "thrown_message e = (case e of ErrorInstance m \<Rightarrow> Some m | OtherValue m \<Rightarrow> m)"

definition MSG_QA_CPF_DUPLICATE :: string where
  "MSG_QA_CPF_DUPLICATE = ''CPF j'' @ ACUTE_A @ '' cadastrado no sistema.''"

definition qa_handleCreatePatient ::
    "thrown option \<Rightarrow> qa_state \<Rightarrow> qa_state \<times> qa_write list \<times> ui_toast list" where
  "qa_handleCreatePatient r s =
     (let pd = qa_patientData s in
      if qp_name pd = [] \<or> qp_cpf pd = [] \<or> qp_birth_date pd = [] then (s, [], [ToastError MSG_REQUIRED])
      else (let w = QAInsertPatient \<lparr>w_name = qp_name pd, w_cpf = qp_cpf pd, w_birth_date = qp_birth_date pd,
                      w_phone = opt_field (qp_phone pd), w_email = opt_field (qp_email pd), w_status = ''Ativo''\<rparr> in
            case r of
              None \<Rightarrow> (s\<lparr>qa_isPatientDialogOpen := False, qa_patientData := qa_patient_init\<rparr>, [w],
                       [ToastSuccess ''Paciente cadastrado com sucesso!''])
            | Some e \<Rightarrow> (s, [w],
                [ToastError (case thrown_message e of
                               Some m \<Rightarrow> if js_includes m ''duplicate'' then MSG_QA_CPF_DUPLICATE
                                         else ''Erro ao cadastrar paciente.''
                             | None \<Rightarrow> ''Erro ao cadastrar paciente.'')])))"

definition qa_handleCreateAppointment ::
    "bool \<Rightarrow> qa_state \<Rightarrow> qa_state \<times> qa_write list \<times> ui_toast list" where
  "qa_handleCreateAppointment ok s =
     (let ad = qa_appointmentData s in
      if qa_patient_id ad = [] \<or> qa_professional_id ad = [] \<or> qa_appointment_date ad = []
         \<or> qa_appointment_time ad = [] then (s, [], [ToastError MSG_REQUIRED])
      else (let w = QAInsertAppointment \<lparr>qi_patient_id = qa_patient_id ad, qi_professional_id = qa_professional_id ad,
                      qi_appointment_date = qa_appointment_date ad, qi_appointment_time = qa_appointment_time ad,
                      qi_type = qa_type ad, qi_is_video = qa_is_video ad, qi_status = ''Agendado''\<rparr> in
            if ok then (s\<lparr>qa_isAppointmentDialogOpen := False, qa_appointmentData := qa_appt_init\<rparr>, [w],
                        [ToastSuccess ''Consulta agendada com sucesso!''])
            else (s, [w], [ToastError ''Erro ao agendar consulta.''])))"

section \<open>The medical record dialog\<close>

text \<open>
  \<open>.maybeSingle()\<close>: no row is \<open>null\<close>, one row is that row, more than one is an error and
  \<open>data\<close> is \<open>null\<close>; the handler reads \<open>data\<close> only.
\<close>

definition maybeSingle :: "'a list \<Rightarrow> 'a option" where
  "maybeSingle xs = (case xs of [x] \<Rightarrow> Some x | _ \<Rightarrow> None)"

text \<open>
  \<open>record_number.match(/PRO-(\d+)/)\<close>: the leftmost \<open>PRO-\<close> followed by a digit, and the
  longest run of digits after it (group 1).
\<close>

fun pro_match :: "string \<Rightarrow> string option" where
  "pro_match [] = None"
| "pro_match (c # cs) =
     (if prefix ''PRO-'' (c # cs) \<and> (case drop 4 (c # cs) of d # _ \<Rightarrow> is_digit d | [] \<Rightarrow> False)
      then Some (takeWhile is_digit (drop 4 (c # cs))) else pro_match cs)"

text \<open>\<open>nextNum\<close>: one more than the number of the last record, or 1.\<close>

definition qa_nextNum :: "medical_record option \<Rightarrow> nat" where
  "qa_nextNum last_rec =
     (case last_rec of
        None \<Rightarrow> 1
      | Some r \<Rightarrow> if mr_record_number r = [] then 1
                  else (case pro_match (mr_record_number r) of None \<Rightarrow> 1 | Some ds \<Rightarrow> digits_value ds + 1))"

definition record_number_of :: "nat \<Rightarrow> string" where
  "record_number_of n = ''PRO-'' @ pad_start 4 (nat_to_string n)"

text \<open>
  The \<open>created_at\<close> order of the table is the order of its rows (the column defaults to the
  time of the insert), so the last record by \<open>created_at\<close> is the last row.
\<close>

definition lastRecordQuery :: "records_db \<Rightarrow> medical_record option" where
  "lastRecordQuery db = maybeSingle (take 1 (rev (rdb_records db)))"

definition MSG_QA_HAS_RECORD :: string where
  "MSG_QA_HAS_RECORD = ''Este paciente j'' @ ACUTE_A @ '' possui um prontu'' @ ACUTE_A @ ''rio.''"

definition qa_insert_record :: "string \<Rightarrow> timestamp \<Rightarrow> qa_record_form \<Rightarrow> records_db \<Rightarrow> records_db" where
  "qa_insert_record rn now fd db =
     db\<lparr>rdb_records := rdb_records db @
          [\<lparr>mr_id = nat_to_string (rdb_next_id db), mr_record_number = rn, mr_patient_id = qr_patient_id fd,
            mr_professional_id = None, mr_primary_diagnosis = opt_field (qr_primary_diagnosis fd),
            mr_status = ''ativo'', mr_notes = opt_field (qr_notes fd), mr_updated_at = now\<rparr>],
        rdb_next_id := Suc (rdb_next_id db)\<rparr>"

definition qa_handleCreateMedicalRecord ::
    "bool \<Rightarrow> timestamp \<Rightarrow> qa_state \<times> records_db \<Rightarrow> (qa_state \<times> records_db) \<times> ui_toast list" where
  "qa_handleCreateMedicalRecord ok now st =
     (case st of (s, db) \<Rightarrow>
       let fd = qa_recordData s in
       if qr_patient_id fd = [] then ((s, db), [ToastError ''Selecione um paciente.''])
       else if maybeSingle (filter (\<lambda>r. mr_patient_id r = qr_patient_id fd) (rdb_records db)) \<noteq> None
       then ((s, db), [ToastError MSG_QA_HAS_RECORD])
       else (let rn = record_number_of (qa_nextNum (lastRecordQuery db)) in
             if ok then ((s\<lparr>qa_isMedicalRecordDialogOpen := False, qa_recordData := qa_record_init\<rparr>,
                          qa_insert_record rn now fd db), [ToastSuccess (PRONTUARIO_CRIADO)])
             else ((s, db), [ToastError (''Erro ao criar prontu'' @ ACUTE_A @ ''rio.'')])))"

section \<open>The action buttons\<close>

datatype qa_action = ActNewPatient | ActAppointment | ActNewRecord | ActTeleconsulta

datatype qa_effect = QAState qa_state | QANavigate string

definition qa_actions :: "(string \<times> qa_action) list" where
  "qa_actions = [(''Novo Paciente'', ActNewPatient), (''Agendar Consulta'', ActAppointment),
                 (''Novo Prontu'' @ ACUTE_A @ ''rio'', ActNewRecord), (''Teleconsulta'', ActTeleconsulta)]"

fun qa_onClick :: "qa_action \<Rightarrow> qa_state \<Rightarrow> qa_effect" where
  "qa_onClick ActNewPatient s = QAState (qa_step OpenPatient s)"
| "qa_onClick ActAppointment s = QAState (qa_step OpenAppointment s)"
| "qa_onClick ActNewRecord s = QAState (qa_step OpenRecord s)"
| "qa_onClick ActTeleconsulta s = QANavigate ''/telemedicina''"

definition sample_qa_db :: records_db where
  "sample_qa_db = empty_records_db\<lparr>rdb_records := [sample_record\<lparr>mr_record_number := ''PRO-9999''\<rparr>],
     rdb_next_id := 1\<rparr>"

definition sample_qa_state :: qa_state where
  "sample_qa_state = qa_init\<lparr>qa_isMedicalRecordDialogOpen := True, qa_recordData := qa_record_init\<lparr>qr_patient_id := ''p2''\<rparr>\<rparr>"

definition sample_two_records_db :: records_db where
  "sample_two_records_db = empty_records_db\<lparr>rdb_records := [sample_record, sample_record\<lparr>mr_id := ''r2''\<rparr>],
     rdb_next_id := 2\<rparr>"

section \<open>Lemmas\<close>

lemma pro_match_digits:
  assumes "ds \<noteq> []" and "list_all is_digit ds"
  shows "pro_match (''PRO-'' @ ds) = Some ds"
proof -
  obtain d ds' where ds: "ds = d # ds'" using assms(1) by (cases ds) auto
  have "takeWhile is_digit ds = ds" using assms(2) by (simp add: list_all_iff)
  then show ?thesis using assms(2) ds by simp
qed

lemma record_number_digits:
  "pad_start 4 (nat_to_string n) \<noteq> [] \<and> list_all is_digit (pad_start 4 (nat_to_string n))"
  using nat_to_string_not_Nil [of n] nat_to_string_digits [of n]
  by (auto simp: pad_start_def list_all_iff is_digit_def)

lemma digits_value_record_number: "digits_value (pad_start 4 (nat_to_string n)) = n"
  by (simp add: pad_start_def digits_value_zeros digits_value_nat_to_string)

lemma lastRecordQuery_last: "rdb_records db \<noteq> [] \<Longrightarrow> lastRecordQuery db = Some (last (rdb_records db))"
  by (cases "rdb_records db" rule: rev_cases) (simp_all add: lastRecordQuery_def maybeSingle_def)

lemma maybeSingle_two: "2 \<le> length xs \<Longrightarrow> maybeSingle xs = None"
  by (cases xs rule: remdups_adj.cases) (simp_all add: maybeSingle_def)

lemma qa_create_record_ok:
  assumes "qr_patient_id (qa_recordData s) \<noteq> []"
    and "maybeSingle (filter (\<lambda>r. mr_patient_id r = qr_patient_id (qa_recordData s)) (rdb_records db)) = None"
  shows "snd (fst (qa_handleCreateMedicalRecord True now (s, db)))
         = qa_insert_record (record_number_of (qa_nextNum (lastRecordQuery db))) now (qa_recordData s) db"
  using assms by (simp add: qa_handleCreateMedicalRecord_def Let_def)

lemma record_number_parse: "map_option digits_value (pro_match (record_number_of n)) = Some n"
  using pro_match_digits [of "pad_start 4 (nat_to_string n)"] record_number_digits [of n]
  by (simp add: record_number_of_def digits_value_record_number)

lemma qa_nextNum_record_number: "qa_nextNum (Some r) = Suc n" if "mr_record_number r = record_number_of n"
proof -
  obtain ds where "pro_match (record_number_of n) = Some ds" "digits_value ds = n"
    using record_number_parse [of n] by auto
  then show ?thesis using that by (simp add: qa_nextNum_def record_number_of_def)
qed

text \<open>
  C8: the quick action numbers records in sequence: after a record numbered \<open>PRO-\<close> and
  \<open>n\<close> in four digits, a successful submission for a patient without a record appends one
  active record of that patient numbered \<open>n + 1\<close>, five digits and more included.
\<close>

theorem qa_record_number_next:
  assumes "rdb_records db \<noteq> []" and "mr_record_number (last (rdb_records db)) = record_number_of n"
    and "qr_patient_id (qa_recordData s) \<noteq> []"
    and "filter (\<lambda>r. mr_patient_id r = qr_patient_id (qa_recordData s)) (rdb_records db) = []"
  shows "\<exists>r. rdb_records (snd (fst (qa_handleCreateMedicalRecord True now (s, db)))) = rdb_records db @ [r]
             \<and> mr_record_number r = record_number_of (Suc n) \<and> mr_patient_id r = qr_patient_id (qa_recordData s)
             \<and> mr_status r = ''ativo''"
proof -
  have "qa_nextNum (lastRecordQuery db) = Suc n"
    using assms(1,2) by (simp add: lastRecordQuery_last qa_nextNum_record_number)
  then show ?thesis
    using assms(3,4) by (simp add: qa_create_record_ok maybeSingle_def qa_insert_record_def)
qed

theorem qa_record_number_next_witness:
  "\<exists>r. rdb_records (snd (fst (qa_handleCreateMedicalRecord True 0 (sample_qa_state, sample_qa_db))))
         = rdb_records sample_qa_db @ [r]
       \<and> mr_record_number r = record_number_of (Suc 9999) \<and> mr_patient_id r = ''p2'' \<and> mr_status r = ''ativo''"
  using qa_record_number_next [of sample_qa_db 9999 sample_qa_state 0]
  by (simp add: sample_qa_db_def sample_qa_state_def sample_record_def empty_records_db_def
                record_number_of_def pad_start_def nat_to_string.simps)

text \<open>
  C22: a patient who already has two records (the Prontuarios page never checks) gets a third
  from the quick action: \<open>maybeSingle\<close> fails on two rows, the handler reads only \<open>data\<close>,
  which is null, and the duplicate check passes.
\<close>

theorem qa_duplicate_check_bypassed:
  assumes "qr_patient_id (qa_recordData s) \<noteq> []"
    and "2 \<le> length (filter (\<lambda>r. mr_patient_id r = qr_patient_id (qa_recordData s)) (rdb_records db))"
  shows "length (filter (\<lambda>r. mr_patient_id r = qr_patient_id (qa_recordData s))
            (rdb_records (snd (fst (qa_handleCreateMedicalRecord True now (s, db))))))
         = Suc (length (filter (\<lambda>r. mr_patient_id r = qr_patient_id (qa_recordData s)) (rdb_records db)))"
  using assms maybeSingle_two [OF assms(2)]
  by (simp add: qa_create_record_ok qa_insert_record_def)

theorem qa_duplicate_check_bypassed_witness:
  "length (filter (\<lambda>r. mr_patient_id r = ''p1'')
      (rdb_records (snd (fst (qa_handleCreateMedicalRecord True 0 (sample_qa_state\<lparr>qa_recordData := qa_record_init\<lparr>qr_patient_id := ''p1''\<rparr>\<rparr>, sample_two_records_db))))))
   = Suc (length (filter (\<lambda>r. mr_patient_id r = ''p1'') (rdb_records sample_two_records_db)))"
  using qa_duplicate_check_bypassed [of "sample_qa_state\<lparr>qa_recordData := qa_record_init\<lparr>qr_patient_id := ''p1''\<rparr>\<rparr>"
                                        sample_two_records_db 0]
  by (simp add: sample_two_records_db_def sample_record_def empty_records_db_def)

lemma qa_single_record_refused:
  assumes "filter (\<lambda>r. mr_patient_id r = qr_patient_id (qa_recordData s)) (rdb_records db) = [r]"
    and "qr_patient_id (qa_recordData s) \<noteq> []"
  shows "qa_handleCreateMedicalRecord ok now (s, db) = ((s, db), [ToastError MSG_QA_HAS_RECORD])"
  using assms by (simp add: qa_handleCreateMedicalRecord_def maybeSingle_def)

lemma qa_single_record_refused_witness:
  "qa_handleCreateMedicalRecord True 0 (sample_qa_state\<lparr>qa_recordData := qa_record_init\<lparr>qr_patient_id := ''p1''\<rparr>\<rparr>, sample_qa_db)
   = ((sample_qa_state\<lparr>qa_recordData := qa_record_init\<lparr>qr_patient_id := ''p1''\<rparr>\<rparr>, sample_qa_db), [ToastError MSG_QA_HAS_RECORD])"
  by (rule qa_single_record_refused [where r = "sample_record\<lparr>mr_record_number := ''PRO-9999''\<rparr>"])
     (simp_all add: sample_qa_db_def sample_record_def empty_records_db_def)

text \<open>
  A record numbered by the database trigger of the Prontuarios page in any other form than
  \<open>PRO-\<close> and digits (the trigger is not in the repository) restarts the quick action's
  numbering: after a last record numbered \<open>PR-2024-0007\<close>, the next one is \<open>PRO-0001\<close>
  again, the number of the first record of the store.
\<close>

lemma qa_numbering_restarts:
  "(let db = empty_records_db\<lparr>rdb_records := [sample_record\<lparr>mr_record_number := ''PRO-0001''\<rparr>,
                                               sample_record\<lparr>mr_id := ''r2'', mr_patient_id := ''p3'', mr_record_number := ''PR-2024-0007''\<rparr>],
                              rdb_next_id := 2\<rparr>;
        db' = snd (fst (qa_handleCreateMedicalRecord True 0 (sample_qa_state, db)))
    in map mr_record_number (rdb_records db') = [''PRO-0001'', ''PR-2024-0007'', ''PRO-0001''])"
  by code_simp

end
