(* ===== verification/AuditLog.thy ===== *)
theory AuditLog
  imports Records
begin

text \<open>
  The audit log viewer, \<open>src/pages/Auditoria.tsx\<close>: the last hundred rows of \<open>audit_logs\<close>,
  the four counters of the stats query, the tab, search and advanced filters, the security
  alerts panel, the table rows and the chips of the active filters.  Timestamps are
  milliseconds with the browser's fixed offset \<open>tz\<close> (local time is \<open>t + tz\<close>); the stats
  query's five counts each carry their own outcome, since the page never reads their errors.
\<close>

section \<open>Rows and page state\<close>

record audit_log =
  al_id :: string
  al_created_at :: timestamp
  al_user_name :: string
  al_action :: string
  al_resource :: string
  al_resource_id :: "string option"
  al_ip_address :: "string option"
  al_status :: string
  al_log_type :: string
  al_details :: "string option"

record audit_state =
  au_searchTerm :: string
  au_activeTab :: string
  au_isFilterOpen :: bool
  au_filterDateFrom :: string
  au_filterDateTo :: string
  au_filterStatus :: string
  au_filterLogType :: string
  au_filterResource :: string

definition audit_init :: audit_state where
  "audit_init = \<lparr>au_searchTerm = [], au_activeTab = ''todos'', au_isFilterOpen = False,
     au_filterDateFrom = [], au_filterDateTo = [], au_filterStatus = ''todos'', au_filterLogType = ''todos'',
     au_filterResource = ''todos''\<rparr>"

definition audit_hasActiveFilters :: "audit_state \<Rightarrow> bool" where
  "audit_hasActiveFilters s \<longleftrightarrow> au_filterDateFrom s \<noteq> [] \<or> au_filterDateTo s \<noteq> []
     \<or> au_filterStatus s \<noteq> ''todos'' \<or> au_filterLogType s \<noteq> ''todos'' \<or> au_filterResource s \<noteq> ''todos''"

definition audit_clearFilters :: "audit_state \<Rightarrow> audit_state" where
  "audit_clearFilters s = s\<lparr>au_filterDateFrom := [], au_filterDateTo := [], au_filterStatus := ''todos'',
     au_filterLogType := ''todos'', au_filterResource := ''todos''\<rparr>"

section \<open>Queries\<close>

text \<open>\<open>order("created_at", {ascending: false}).limit(100)\<close>; ties in the reverse of the table's order.\<close>

definition auditLogsQuery :: "audit_log list \<Rightarrow> audit_log list" where
  "auditLogsQuery table = take 100 (rev (sort_key al_created_at table))"

record audit_stats =
  st_todayEvents :: int
  st_successRate :: string
  st_activeAlerts :: int
  st_blockedAttempts :: int

text \<open>
  \<open>x.toFixed(1)\<close> for \<open>x \<ge> 0\<close>: the integer \<open>n\<close> nearest to \<open>10 x\<close>, the larger one on a tie,
  written with one decimal.  The quotient is computed exactly.
\<close>

definition toFixed1 :: "rat \<Rightarrow> string" where
  "toFixed1 x = (let n = \<lfloor>10 * x + 1 / 2\<rfloor> in int_to_string (n div 10) @ ''.'' @ int_to_string (n mod 10))"

definition successRate :: "int option \<Rightarrow> int option \<Rightarrow> string" where
  "successRate successCount totalCount =
     (case totalCount of
        Some t \<Rightarrow> if t > 0 then toFixed1 (of_int (case successCount of Some c \<Rightarrow> c | None \<Rightarrow> 0) / of_int t * 100)
                  else ''100.0''
      | None \<Rightarrow> ''100.0'')"

text \<open>A \<open>count: "exact", head: true\<close> query: the count, or \<open>null\<close> when it fails.\<close>

definition count_query :: "bool \<Rightarrow> (audit_log \<Rightarrow> bool) \<Rightarrow> audit_log list \<Rightarrow> int option" where
  "count_query ok P table = (if ok then Some (int (length (filter P table))) else None)"

definition start_of_day :: "int \<Rightarrow> timestamp \<Rightarrow> timestamp" where
  "start_of_day tz now = (now + tz) div MS_PER_DAY * MS_PER_DAY - tz"

definition is_problem :: "audit_log \<Rightarrow> bool" where
  "is_problem l \<longleftrightarrow> al_status l = ''falha'' \<or> al_status l = ''bloqueado''"

definition fetchAuditStats ::
    "int \<Rightarrow> timestamp \<Rightarrow> bool \<Rightarrow> bool \<Rightarrow> bool \<Rightarrow> bool \<Rightarrow> bool \<Rightarrow> audit_log list \<Rightarrow> audit_stats" where
  "fetchAuditStats tz now ok1 ok2 ok3 ok4 ok5 table =
     (let todayCount = count_query ok1 (\<lambda>l. start_of_day tz now \<le> al_created_at l) table;
          successCount = count_query ok2 (\<lambda>l. al_status l = ''sucesso'') table;
          totalCount = count_query ok3 (\<lambda>_. True) table;
          alertsCount = count_query ok4 is_problem table;
          blockedCount = count_query ok5 (\<lambda>l. al_status l = ''bloqueado'') table;
          or0 = (\<lambda>c. case c of Some n \<Rightarrow> n | None \<Rightarrow> 0)
      in \<lparr>st_todayEvents = or0 todayCount, st_successRate = successRate successCount totalCount,
          st_activeAlerts = or0 alertsCount, st_blockedAttempts = or0 blockedCount\<rparr>)"

section \<open>Security alerts\<close>

record security_alert =
  sa_id :: string
  sa_titulo :: string
  sa_descricao :: string
  sa_data :: string
  sa_severidade :: string

definition format_HH_mm :: "int \<Rightarrow> timestamp \<Rightarrow> string" where
  "format_HH_mm tz t =
     pad_start 2 (int_to_string (((t + tz) mod MS_PER_DAY) div MS_PER_HOUR)) @ '':''
     @ pad_start 2 (int_to_string (((t + tz) mod MS_PER_HOUR) div MS_PER_MINUTE))"

definition format_HH_mm_ss :: "int \<Rightarrow> timestamp \<Rightarrow> string" where
  "format_HH_mm_ss tz t = format_HH_mm tz t @ '':'' @ pad_start 2 (int_to_string (((t + tz) mod MS_PER_MINUTE) div 1000))"

definition securityAlerts :: "int \<Rightarrow> audit_log list \<Rightarrow> security_alert list" where
  "securityAlerts tz logs =
     map (\<lambda>l. \<lparr>sa_id = al_id l,
               sa_titulo = (if al_status l = ''bloqueado'' then ''Tentativa bloqueada'' else ''A'' @ CEDILLA @ TILDE_A @ ''o com falha''),
               sa_descricao = al_action l @ '' em '' @ al_resource l,
               sa_data = format_dd_MM_yyyy tz (al_created_at l) @ '' '' @ format_HH_mm tz (al_created_at l),
               sa_severidade = (if al_status l = ''bloqueado'' then ''alta'' else ''media'')\<rparr>)
         (take 5 (filter is_problem logs))"

definition uniqueResources :: "audit_log list \<Rightarrow> string list" where
  "uniqueResources logs = remdups (map al_resource logs)"

section \<open>The filter\<close>

text \<open>
  \<open>new Date("yyyy-MM-dd")\<close> is midnight UTC; \<open>new Date("yyyy-MM-ddT23:59:59")\<close> is local
  time.  An invalid date is \<open>None\<close> (\<open>NaN\<close>), against which \<open>isAfter\<close> and \<open>isBefore\<close> are false.
\<close>

definition js_date_utc :: "string \<Rightarrow> timestamp option" where
  "js_date_utc s = map_option (\<lambda>(y, m, d). days_from_civil y m d * MS_PER_DAY) (parse_iso_date s)"

definition js_date_local_end :: "int \<Rightarrow> string \<Rightarrow> timestamp option" where
  "js_date_local_end tz s =
     map_option (\<lambda>(y, m, d). days_from_civil y m d * MS_PER_DAY + 86399000 - tz) (parse_iso_date s)"

definition audit_matchesTab :: "string \<Rightarrow> audit_log \<Rightarrow> bool" where
  "audit_matchesTab tab l \<longleftrightarrow> tab = ''todos''
     \<or> (tab = ''seguranca'' \<and> (al_status l = ''falha'' \<or> al_status l = ''bloqueado'' \<or> al_log_type l = ''seguranca''))
     \<or> (tab = ''acessos'' \<and> (al_log_type l = ''leitura'' \<or> al_log_type l = ''autenticacao''))
     \<or> (tab = ''modificacoes'' \<and> al_log_type l = ''escrita'')"

definition audit_matches :: "int \<Rightarrow> audit_state \<Rightarrow> audit_log \<Rightarrow> bool" where
  "audit_matches tz s l \<longleftrightarrow>
     (let q = js_toLowerCase (au_searchTerm s) in
      (au_searchTerm s = [] \<or> js_includes (js_toLowerCase (al_user_name l)) q
         \<or> js_includes (js_toLowerCase (al_action l)) q \<or> js_includes (js_toLowerCase (al_resource l)) q)
      \<and> audit_matchesTab (au_activeTab s) l
      \<and> (au_filterDateFrom s = [] \<or> (case js_date_utc (au_filterDateFrom s) of
                                      Some b \<Rightarrow> b < al_created_at l | None \<Rightarrow> False))
      \<and> (au_filterDateTo s = [] \<or> (case js_date_local_end tz (au_filterDateTo s) of
                                    Some e \<Rightarrow> al_created_at l < e | None \<Rightarrow> False))
      \<and> (au_filterStatus s = ''todos'' \<or> al_status l = au_filterStatus s)
      \<and> (au_filterLogType s = ''todos'' \<or> al_log_type l = au_filterLogType s)
      \<and> (au_filterResource s = ''todos'' \<or> al_resource l = au_filterResource s))"

definition filteredLogs :: "int \<Rightarrow> audit_state \<Rightarrow> audit_log list \<Rightarrow> audit_log list" where
  "filteredLogs tz s logs = filter (audit_matches tz s) logs"

section \<open>Events\<close>

datatype audit_event =
    ASearch string | ATab string | AFilterOpen bool | ADateFrom string | ADateTo string
  | AStatus string | ALogType string | AResource string | AClear | AApply
  | AChipFrom | AChipTo | AChipStatus | AChipLogType | AChipResource

fun audit_step :: "audit_event \<Rightarrow> audit_state \<Rightarrow> audit_state" where
  "audit_step (ASearch v) s = s\<lparr>au_searchTerm := v\<rparr>"
| "audit_step (ATab v) s = s\<lparr>au_activeTab := v\<rparr>"
| "audit_step (AFilterOpen b) s = s\<lparr>au_isFilterOpen := b\<rparr>"
| "audit_step (ADateFrom v) s = s\<lparr>au_filterDateFrom := v\<rparr>"
| "audit_step (ADateTo v) s = s\<lparr>au_filterDateTo := v\<rparr>"
| "audit_step (AStatus v) s = s\<lparr>au_filterStatus := v\<rparr>"
| "audit_step (ALogType v) s = s\<lparr>au_filterLogType := v\<rparr>"
| "audit_step (AResource v) s = s\<lparr>au_filterResource := v\<rparr>"
| "audit_step AClear s = (if audit_hasActiveFilters s then audit_clearFilters s else s)"
| "audit_step AApply s = s\<lparr>au_isFilterOpen := False\<rparr>"
| "audit_step AChipFrom s = s\<lparr>au_filterDateFrom := []\<rparr>"
| "audit_step AChipTo s = s\<lparr>au_filterDateTo := []\<rparr>"
| "audit_step AChipStatus s = s\<lparr>au_filterStatus := ''todos''\<rparr>"
| "audit_step AChipLogType s = s\<lparr>au_filterLogType := ''todos''\<rparr>"
| "audit_step AChipResource s = s\<lparr>au_filterResource := ''todos''\<rparr>"

section \<open>Views\<close>

datatype log_type_icon = IconEye | IconFileText | IconShield | IconLock | IconActivity

definition getLogTypeIcon :: "string \<Rightarrow> log_type_icon" where
  "getLogTypeIcon t = (if t = ''leitura'' then IconEye else if t = ''escrita'' then IconFileText
     else if t = ''seguranca'' then IconShield else if t = ''autenticacao'' then IconLock else IconActivity)"

datatype resource_icon = ResUsers | ResFileText | ResCalendar | ResStethoscope | ResActivity

definition getResourceIcon :: "string \<Rightarrow> resource_icon" where
  "getResourceIcon r =
     (if js_includes r ''Paciente'' then ResUsers
      else if js_includes r (''Prontu'' @ ACUTE_A @ ''rio'') then ResFileText
      else if js_includes r ''Agendamento'' then ResCalendar
      else if js_includes r ''Telemedicina'' then ResStethoscope else ResActivity)"

text \<open>\<open>s.charAt(0).toUpperCase() + s.slice(1)\<close>.\<close>

definition capitalize :: "string \<Rightarrow> string" where
  "capitalize s = (case s of [] \<Rightarrow> [] | c # cs \<Rightarrow> ascii_upper c # cs)"

definition audit_status_variant :: "string \<Rightarrow> string" where
  "audit_status_variant st = (if st = ''sucesso'' then ''success'' else if st = ''falha'' then ''destructive'' else ''warning'')"

text \<open>A row of the table: date, time, user, action, resource icon and name, status badge, type.\<close>

definition audit_row_view ::
    "int \<Rightarrow> audit_log \<Rightarrow> string \<times> string \<times> string \<times> string \<times> resource_icon \<times> string \<times> (string \<times> string) \<times> log_type_icon \<times> string" where
  "audit_row_view tz l =
     (format_dd_MM_yyyy tz (al_created_at l), format_HH_mm_ss tz (al_created_at l), al_user_name l, al_action l,
      getResourceIcon (al_resource l), al_resource l, (audit_status_variant (al_status l), capitalize (al_status l)),
      getLogTypeIcon (al_log_type l), capitalize (al_log_type l))"

text \<open>The chips of the active filters; \<open>format\<close> of an invalid date throws (\<open>None\<close>).\<close>

definition audit_filter_chips :: "int \<Rightarrow> audit_state \<Rightarrow> string list option" where
  "audit_filter_chips tz s =
     (if \<not> audit_hasActiveFilters s then Some []
      else (let from_chip = (if au_filterDateFrom s = [] then Some []
                             else map_option (\<lambda>t. [''De: '' @ format_dd_MM_yyyy tz t]) (js_date_utc (au_filterDateFrom s)));
                to_chip = (if au_filterDateTo s = [] then Some []
                           else map_option (\<lambda>t. [''At'' @ [CHR 0xC3, CHR 0xA9] @ '': '' @ format_dd_MM_yyyy tz t])
                                  (js_date_utc (au_filterDateTo s)))
            in case (from_chip, to_chip) of
                 (Some a, Some b) \<Rightarrow> Some (a @ b
                    @ (if au_filterStatus s \<noteq> ''todos'' then [''Status: '' @ au_filterStatus s] else [])
                    @ (if au_filterLogType s \<noteq> ''todos'' then [''Tipo: '' @ au_filterLogType s] else [])
                    @ (if au_filterResource s \<noteq> ''todos'' then [''Recurso: '' @ au_filterResource s] else []))
               | _ \<Rightarrow> None))"

datatype audit_table = AuditLoading | AuditEmpty | AuditRows "audit_log list"

definition audit_table_view :: "bool \<Rightarrow> int \<Rightarrow> audit_state \<Rightarrow> audit_log list \<Rightarrow> audit_table" where
  "audit_table_view isLoading tz s logs =
     (if isLoading then AuditLoading
      else if filteredLogs tz s logs = [] then AuditEmpty else AuditRows (filteredLogs tz s logs))"

definition sample_audit_log :: audit_log where
  "sample_audit_log = \<lparr>al_id = ''a1'', al_created_at = 1710462600000, al_user_name = ''Dra. Ana'',
     al_action = ''Login'', al_resource = ''Sistema'', al_resource_id = None, al_ip_address = None,
     al_status = ''sucesso'', al_log_type = ''autenticacao'', al_details = None\<rparr>"

section \<open>Lemmas\<close>

lemma filteredLogs_security_tab:
  "filteredLogs tz (audit_init\<lparr>au_activeTab := ''seguranca''\<rparr>) logs
   = filter (\<lambda>l. is_problem l \<or> al_log_type l = ''seguranca'') logs"
  unfolding filteredLogs_def
  by (rule filter_cong) (simp_all add: audit_matches_def audit_matchesTab_def audit_init_def is_problem_def)

lemma subseq_take_filter_filter:
  "(\<And>x. P x \<Longrightarrow> Q x) \<Longrightarrow> subseq (take n (filter P xs)) (filter Q xs)"
proof -
  assume pq: "\<And>x. P x \<Longrightarrow> Q x"
  have "filter P (filter Q xs) = filter P xs" using pq by (induction xs) auto
  then have "subseq (filter P xs) (filter Q xs)" by (metis subseq_filter_left)
  moreover have "subseq (take n (filter P xs)) (filter P xs)" by (rule prefix_imp_subseq) (rule take_is_prefix)
  ultimately show ?thesis by (rule subseq_order.order_trans [rotated])
qed

text \<open>
  C12: every log of the security alerts panel is listed, in the same order, by the Seguranca
  tab with no search and no filter; the tab shows more (successful events of type seguranca).
\<close>

theorem audit_alerts_in_security_tab:
  "subseq (map sa_id (securityAlerts tz logs))
          (map al_id (filteredLogs tz (audit_init\<lparr>au_activeTab := ''seguranca''\<rparr>) logs))"
proof -
  have "subseq (take 5 (filter is_problem logs)) (filter (\<lambda>l. is_problem l \<or> al_log_type l = ''seguranca'') logs)"
    by (rule subseq_take_filter_filter) simp
  then show ?thesis
    by (simp add: securityAlerts_def filteredLogs_security_tab comp_def subseq_map)
qed

text \<open>
  C9: the date range mixes time zones.  In Sao Paulo (UTC-3) the range from 15/03/2024 to
  15/03/2024 lists a log of 14/03 at 21:30 local (after midnight UTC) and drops one of 15/03 at
  23:59:59.5 (\<open>isBefore\<close> the local 23:59:59 is strict), and the chip of the start date reads
  14/03/2024.
\<close>

theorem audit_date_range_mixes_zones:
  "(let tz = -10800000; s = audit_init\<lparr>au_filterDateFrom := ''2024-03-15'', au_filterDateTo := ''2024-03-15''\<rparr>;
        late = sample_audit_log\<lparr>al_id := ''a2'', al_created_at := 1710557999500\<rparr>
    in filteredLogs tz s [late, sample_audit_log] = [sample_audit_log]
       \<and> format_dd_MM_yyyy tz (al_created_at sample_audit_log) = ''14/03/2024''
       \<and> format_HH_mm tz (al_created_at sample_audit_log) = ''21:30''
       \<and> format_dd_MM_yyyy tz (al_created_at late) = ''15/03/2024''
       \<and> hd (the (audit_filter_chips tz s)) = ''De: 14/03/2024'')"
  by code_simp

text \<open>
  C34: the stats query never reads the errors of its count queries.  A failed total reads as a
  success rate of 100.0% whatever the other counts, a failed count of today's events, alerts
  or blocked attempts reads 0, and an empty table also shows 100.0%.
\<close>

theorem audit_stats_errors_read_as_success:
  "st_successRate (fetchAuditStats tz now ok1 ok2 False ok4 ok5 table) = ''100.0''
   \<and> st_todayEvents (fetchAuditStats tz now False ok2 ok3 ok4 ok5 table) = 0
   \<and> st_activeAlerts (fetchAuditStats tz now ok1 ok2 ok3 False ok5 table) = 0
   \<and> st_blockedAttempts (fetchAuditStats tz now ok1 ok2 ok3 ok4 False table) = 0
   \<and> st_successRate (fetchAuditStats tz now True True True True True []) = ''100.0''"
  by (simp add: fetchAuditStats_def count_query_def successRate_def)

end
