(* ===== verification/Telemedicine.thy ===== *)
theory Telemedicine
  imports QuickActions Appointments "HOL-Library.Product_Lexorder"
begin

text \<open>
  The teleconsultation page, \<open>src/pages/Telemedicina.tsx\<close>: the video appointments of the
  \<open>appt_db\<close> store of \<open>Appointments\<close> (the upcoming and the recent ones), the call's
  lifecycle (start, end, cancel) as status writes, and the three quick actions of a selected
  call: a return appointment, a prescription written into the \<open>records_db\<close> store of
  \<open>Records\<close> (creating the patient's record when the lookup finds none), and the patient's
  record.  Each write takes its backend error as an input; what the database fills in (the
  record number of its trigger, the duration's default, the entry's date) is an input too.
\<close>

section \<open>Page state\<close>

record tele_state =
  tm_isVideoOn :: bool
  tm_isMicOn :: bool
  tm_selectedCall :: "appointment option"
  tm_isInCall :: bool
  tm_callStartTime :: "timestamp option"
  tm_isReturnDialogOpen :: bool
  tm_isPrescriptionDialogOpen :: bool
  tm_isMedicalRecordDialogOpen :: bool
  tm_returnDate :: string
  tm_returnTime :: string
  tm_returnNotes :: string
  tm_prescriptionMedication :: string
  tm_prescriptionDosage :: string
  tm_prescriptionInstructions :: string

definition tele_init :: tele_state where
  "tele_init = \<lparr>tm_isVideoOn = True, tm_isMicOn = True, tm_selectedCall = None, tm_isInCall = False,
     tm_callStartTime = None, tm_isReturnDialogOpen = False, tm_isPrescriptionDialogOpen = False,
     tm_isMedicalRecordDialogOpen = False, tm_returnDate = [], tm_returnTime = ''09:00'', tm_returnNotes = [],
     tm_prescriptionMedication = [], tm_prescriptionDosage = [], tm_prescriptionInstructions = []\<rparr>"

text \<open>The page raises \<open>toast.info\<close> besides success and error.\<close>

datatype tele_toast = TeleToast ui_toast | TeleInfo string

section \<open>Queries\<close>

text \<open>
  Upcoming: video appointments from today on, scheduled or confirmed, by date and time.
  Recent: video appointments before today or concluded or cancelled, latest first, ten.
  Dates and times are ISO strings, whose order is the order of the values.
\<close>

definition upcomingCallsQuery :: "int \<Rightarrow> timestamp \<Rightarrow> appt_db \<Rightarrow> appointment list" where
  "upcomingCallsQuery tz now db =
     sort_key (\<lambda>a. (ap_date a, ap_time a))
       (filter (\<lambda>a. ap_is_video a \<and> format_yyyy_MM_dd tz now \<le> ap_date a
                    \<and> (ap_status a = ''Agendado'' \<or> ap_status a = ''Confirmado'')) (adb_rows db))"

definition recentCallsQuery :: "int \<Rightarrow> timestamp \<Rightarrow> appt_db \<Rightarrow> appointment list" where
  "recentCallsQuery tz now db =
     take 10 (rev (sort_key (\<lambda>a. (ap_date a, ap_time a))
       (filter (\<lambda>a. ap_is_video a \<and> (ap_date a < format_yyyy_MM_dd tz now
                    \<or> ap_status a = CONCLUIDO \<or> ap_status a = ''Cancelado'')) (adb_rows db))))"

section \<open>The call\<close>

definition tele_updateStatus :: "string \<Rightarrow> string \<Rightarrow> string option \<Rightarrow> appt_db \<Rightarrow> appt_db \<times> tele_toast list" where
  "tele_updateStatus aid st err db =
     (case updateAppointmentStatus aid st err db of
        (db', None) \<Rightarrow> (db', [])
      | (db', Some m) \<Rightarrow> (db', [TeleToast (ToastError (''Erro ao atualizar status: '' @ m))]))"

text \<open>The success toasts are raised at once; an error toast of the write follows.\<close>

definition startCall ::
    "timestamp \<Rightarrow> appointment \<Rightarrow> string option \<Rightarrow> tele_state \<times> appt_db \<Rightarrow> (tele_state \<times> appt_db) \<times> tele_toast list" where
  "startCall now a err st =
     (case st of (s, db) \<Rightarrow>
       (case tele_updateStatus (ap_id a) ''Em atendimento'' err db of
          (db', ts) \<Rightarrow> ((s\<lparr>tm_selectedCall := Some a, tm_isInCall := True, tm_callStartTime := Some now\<rparr>, db'),
                        TeleToast (ToastSuccess ''Teleconsulta iniciada!'') # ts)))"

definition endCall ::
    "string option \<Rightarrow> tele_state \<times> appt_db \<Rightarrow> (tele_state \<times> appt_db) \<times> tele_toast list" where
  "endCall err st =
     (case st of (s, db) \<Rightarrow>
       let s' = s\<lparr>tm_isInCall := False, tm_selectedCall := None, tm_callStartTime := None\<rparr> in
       (case tm_selectedCall s of
          None \<Rightarrow> ((s', db), [])
        | Some a \<Rightarrow> (case tele_updateStatus (ap_id a) CONCLUIDO err db of
                       (db', ts) \<Rightarrow> ((s', db'), TeleToast (ToastSuccess ''Teleconsulta finalizada!'') # ts))))"

definition cancelCall ::
    "appointment \<Rightarrow> string option \<Rightarrow> appt_db \<Rightarrow> appt_db \<times> tele_toast list" where
  "cancelCall a err db =
     (case tele_updateStatus (ap_id a) ''Cancelado'' err db of
        (db', ts) \<Rightarrow> (db', TeleInfo ''Consulta cancelada'' # ts))"

text \<open>\<open>getCallDuration\<close>: whole seconds since the start, as minutes and seconds.\<close>

definition getCallDuration :: "timestamp \<Rightarrow> tele_state \<Rightarrow> string" where
  "getCallDuration now s =
     (case tm_callStartTime s of
        None \<Rightarrow> ''00:00''
      | Some t0 \<Rightarrow> (let diff = (now - t0) div 1000; mins = diff div 60;
                        secs = (if diff < 0 then - ((- diff) mod 60) else diff mod 60)
                    in pad_start 2 (int_to_string mins) @ '':'' @ pad_start 2 (int_to_string secs)))"

section \<open>Quick actions of a selected call\<close>

definition MSG_SELECT_CALL :: string where "MSG_SELECT_CALL = ''Selecione uma consulta primeiro''"

definition openMedicalRecord :: "tele_state \<Rightarrow> tele_state \<times> tele_toast list" where
  "openMedicalRecord s =
     (if tm_selectedCall s = None then (s, [TeleToast (ToastError MSG_SELECT_CALL)])
      else (s\<lparr>tm_isMedicalRecordDialogOpen := True\<rparr>, []))"

definition openReturnDialog :: "int \<Rightarrow> timestamp \<Rightarrow> tele_state \<Rightarrow> tele_state \<times> tele_toast list" where
  "openReturnDialog tz now s =
     (if tm_selectedCall s = None then (s, [TeleToast (ToastError MSG_SELECT_CALL)])
      else (s\<lparr>tm_returnDate := format_yyyy_MM_dd tz (now + 7 * MS_PER_DAY), tm_isReturnDialogOpen := True\<rparr>, []))"

definition openPrescriptionDialog :: "tele_state \<Rightarrow> tele_state \<times> tele_toast list" where
  "openPrescriptionDialog s =
     (if tm_selectedCall s = None then (s, [TeleToast (ToastError MSG_SELECT_CALL)])
      else (s\<lparr>tm_isPrescriptionDialogOpen := True\<rparr>, []))"

definition MSG_NO_CALL :: string where "MSG_NO_CALL = ''Nenhuma consulta selecionada''"

text \<open>
  The return appointment (its button is disabled without a date).  The insert sends no
  duration: \<open>dur\<close> is the column's default.
\<close>

definition createReturnAppointment ::
    "int option \<Rightarrow> string option \<Rightarrow> tele_state \<times> appt_db \<Rightarrow> (tele_state \<times> appt_db) \<times> tele_toast list" where
  "createReturnAppointment dur err st =
     (case st of (s, db) \<Rightarrow>
       if tm_returnDate s = [] then ((s, db), [])
       else (case tm_selectedCall s of
               None \<Rightarrow> ((s, db), [TeleToast (ToastError (''Erro ao agendar retorno: '' @ MSG_NO_CALL))])
             | Some c \<Rightarrow>
                 (case err of
                    None \<Rightarrow> ((s\<lparr>tm_isReturnDialogOpen := False, tm_returnDate := [], tm_returnTime := ''09:00'',
                                tm_returnNotes := []\<rparr>,
                              db\<lparr>adb_rows := adb_rows db @
                                  [\<lparr>ap_id = nat_to_string (adb_next_id db), ap_patient_id = ap_patient_id c,
                                    ap_professional_id = ap_professional_id c, ap_date = tm_returnDate s,
                                    ap_time = pg_time (tm_returnTime s), ap_duration = dur, ap_type = ''Retorno'',
                                    ap_is_video = True, ap_status = ''Agendado'', ap_notes = opt_field (tm_returnNotes s)\<rparr>],
                                  adb_next_id := Suc (adb_next_id db)\<rparr>),
                             [TeleToast (ToastSuccess ''Retorno agendado com sucesso!'')])
                  | Some m \<Rightarrow> ((s, db), [TeleToast (ToastError (''Erro ao agendar retorno: '' @ m))]))))"

definition prescriptionText :: "tele_state \<Rightarrow> string" where
  "prescriptionText s =
     ''Medicamento: '' @ tm_prescriptionMedication s @ [CHR 0x0A] @ ''Posologia: '' @ tm_prescriptionDosage s
     @ [CHR 0x0A] @ ''Instru'' @ CEDILLA @ [CHR 0xC3, CHR 0xB5] @ ''es: '' @ tm_prescriptionInstructions s"

text \<open>
  \<open>savePrescription\<close>: the record lookup (\<open>maybeSingle\<close>, its error unread), the record insert
  when none is found (number \<open>rn\<close> from the trigger, \<open>err1\<close>), then the entry insert (\<open>err2\<close>).
  Its button is disabled without medication or dosage.
\<close>

definition savePrescription ::
    "string \<Rightarrow> string \<Rightarrow> timestamp \<Rightarrow> string option \<Rightarrow> string option \<Rightarrow> tele_state \<times> records_db
     \<Rightarrow> (tele_state \<times> records_db) \<times> tele_toast list" where
  "savePrescription rn today now err1 err2 st =
     (case st of (s, rdb) \<Rightarrow>
       let fail = (\<lambda>m. [TeleToast (ToastError (''Erro ao emitir receita: '' @ m))]) in
       if tm_prescriptionMedication s = [] \<or> tm_prescriptionDosage s = [] then ((s, rdb), [])
       else (case tm_selectedCall s of
               None \<Rightarrow> ((s, rdb), fail MSG_NO_CALL)
             | Some c \<Rightarrow>
                 let found = maybeSingle (filter (\<lambda>r. mr_patient_id r = ap_patient_id c) (rdb_records rdb));
                     created = (case found of
                                  Some r \<Rightarrow> Inr (r, rdb)
                                | None \<Rightarrow> (case err1 of
                                            Some m \<Rightarrow> Inl m
                                          | None \<Rightarrow> (let r = \<lparr>mr_id = nat_to_string (rdb_next_id rdb), mr_record_number = rn,
                                                              mr_patient_id = ap_patient_id c,
                                                              mr_professional_id = Some (ap_professional_id c),
                                                              mr_primary_diagnosis = None, mr_status = ''ativo'',
                                                              mr_notes = None, mr_updated_at = now\<rparr>
                                                     in Inr (r, rdb\<lparr>rdb_records := rdb_records rdb @ [r],
                                                                     rdb_next_id := Suc (rdb_next_id rdb)\<rparr>))))
                 in (case created of
                       Inl m \<Rightarrow> ((s, rdb), fail m)
                     | Inr (r, rdb1) \<Rightarrow>
                         (case err2 of
                            Some m \<Rightarrow> ((s, rdb1), fail m)
                          | None \<Rightarrow> ((s\<lparr>tm_isPrescriptionDialogOpen := False, tm_prescriptionMedication := [],
                                         tm_prescriptionDosage := [], tm_prescriptionInstructions := []\<rparr>,
                                      rdb1\<lparr>rdb_entries := rdb_entries rdb1 @
                                        [\<lparr>me_id = nat_to_string (rdb_next_id rdb1), me_record_id = mr_id r,
                                          me_professional_id = Some (ap_professional_id c), me_entry_type = PRESCRICAO,
                                          me_description = prescriptionText s, me_entry_date = today, me_created_at = now\<rparr>],
                                        rdb_next_id := Suc (rdb_next_id rdb1)\<rparr>),
                                     [TeleToast (ToastSuccess ''Receita emitida com sucesso!'')])))))"

text \<open>The record dialog's query: the patient's record (\<open>maybeSingle\<close>) and its entries, latest date first.\<close>

definition patientMedicalRecordQuery ::
    "tele_state \<Rightarrow> records_db \<Rightarrow> (medical_record \<times> record_entry list) option" where
  "patientMedicalRecordQuery s rdb =
     (case tm_selectedCall s of
        None \<Rightarrow> None
      | Some c \<Rightarrow> map_option (\<lambda>r. (r, rev (sort_key me_entry_date (filter (\<lambda>e. me_record_id e = mr_id r) (rdb_entries rdb)))))
                   (maybeSingle (filter (\<lambda>r. mr_patient_id r = ap_patient_id c) (rdb_records rdb))))"

section \<open>Derived data and views\<close>

text \<open>\<open>isToday(new Date(date + "T12:00:00"))\<close>: local noon of the date is today.\<close>

definition is_today_date :: "int \<Rightarrow> timestamp \<Rightarrow> string \<Rightarrow> bool" where
  "is_today_date tz now d \<longleftrightarrow> parse_iso_date d = Some (local_date tz now)"

definition todaysCalls :: "int \<Rightarrow> timestamp \<Rightarrow> appointment list \<Rightarrow> appointment list" where
  "todaysCalls tz now upcoming = filter (\<lambda>c. is_today_date tz now (ap_date c)) upcoming"

definition completedToday :: "int \<Rightarrow> timestamp \<Rightarrow> appointment list \<Rightarrow> nat" where
  "completedToday tz now recent = length (filter (\<lambda>c. ap_status c = CONCLUIDO \<and> is_today_date tz now (ap_date c)) recent)"

definition tele_getInitials :: "string option \<Rightarrow> string" where
  "tele_getInitials n = (case n of None \<Rightarrow> ''??'' | Some x \<Rightarrow> if x = [] then ''??'' else getInitials x)"

text \<open>The "Iniciar Proxima Consulta" button: shown when a call is due today, it starts the first.\<close>

definition start_next_call ::
    "int \<Rightarrow> timestamp \<Rightarrow> string option \<Rightarrow> tele_state \<times> appt_db \<Rightarrow> ((tele_state \<times> appt_db) \<times> tele_toast list) option" where
  "start_next_call tz now err st =
     (case todaysCalls tz now (upcomingCallsQuery tz now (snd st)) of
        [] \<Rightarrow> None
      | c # _ \<Rightarrow> Some (startCall now c err st))"

text \<open>An upcoming call as listed: initials, name, type, \<open>HH:MM\<close>, "Hoje" or \<open>dd/MM\<close>, selected.\<close>

definition upcoming_item ::
    "(string \<Rightarrow> string option) \<Rightarrow> int \<Rightarrow> timestamp \<Rightarrow> tele_state \<Rightarrow> appointment
     \<Rightarrow> string \<times> string option \<times> string \<times> string \<times> string option \<times> bool" where
  "upcoming_item names tz now s c =
     (tele_getInitials (names (ap_patient_id c)), names (ap_patient_id c), ap_type c, take 5 (ap_time c),
      (if is_today_date tz now (ap_date c) then Some ''Hoje''
       else map_option (\<lambda>(y, m, d). pad2 d @ ''/'' @ pad2 m) (parse_iso_date (ap_date c))),
      (case tm_selectedCall s of Some a \<Rightarrow> ap_id a = ap_id c | None \<Rightarrow> False))"

definition recent_item ::
    "(string \<Rightarrow> string option) \<Rightarrow> appointment \<Rightarrow> string \<times> string option \<times> string option \<times> string \<times> string" where
  "recent_item names c =
     (tele_getInitials (names (ap_patient_id c)), names (ap_patient_id c),
      map_option (\<lambda>(y, m, d). pad2 d @ ''/'' @ pad2 m @ ''/'' @ pad4 y) (parse_iso_date (ap_date c)),
      (if ap_status c = CONCLUIDO then ''success-light'' else ''destructive-light''), ap_status c)"

definition tele_lists ::
    "(string \<Rightarrow> string option) \<Rightarrow> int \<Rightarrow> timestamp \<Rightarrow> tele_state \<Rightarrow> appt_db
     \<Rightarrow> (string \<times> string option \<times> string \<times> string \<times> string option \<times> bool) list
        \<times> (string \<times> string option \<times> string option \<times> string \<times> string) list" where
  "tele_lists names tz now s db =
     (map (upcoming_item names tz now s) (take 5 (upcomingCallsQuery tz now db)),
      map (recent_item names) (take 5 (recentCallsQuery tz now db)))"

definition tele_stats :: "int \<Rightarrow> timestamp \<Rightarrow> appt_db \<Rightarrow> nat \<times> nat" where
  "tele_stats tz now db =
     (length (todaysCalls tz now (upcomingCallsQuery tz now db)), completedToday tz now (recentCallsQuery tz now db))"

definition sample_video_call :: appointment where
  "sample_video_call = \<lparr>ap_id = ''c1'', ap_patient_id = ''p1'', ap_professional_id = ''d1'',
     ap_date = format_yyyy_MM_dd 0 0, ap_time = ''09:00:00'', ap_duration = Some 30, ap_type = ''Consulta'',
     ap_is_video = True, ap_status = ''Agendado'', ap_notes = None\<rparr>"

definition sample_prescription_state :: tele_state where
  "sample_prescription_state = tele_init\<lparr>tm_selectedCall := Some sample_video_call, tm_isPrescriptionDialogOpen := True,
     tm_prescriptionMedication := ''Losartana 50 mg'', tm_prescriptionDosage := ''1 comprimido ao dia''\<rparr>"

section \<open>Lemmas\<close>

lemma startCall_rows:
  "adb_rows (snd (fst (startCall now a None (s, db))))
   = map (\<lambda>r. if ap_id r = ap_id a then r\<lparr>ap_status := ''Em atendimento''\<rparr> else r) (adb_rows db)"
  by (simp add: startCall_def tele_updateStatus_def updateAppointmentStatus_def)

lemma distinct_id_same:
  "distinct (map ap_id rows) \<Longrightarrow> r \<in> set rows \<Longrightarrow> a \<in> set rows \<Longrightarrow> ap_id r = ap_id a \<Longrightarrow> r = a"
  by (metis distinct_map inj_onD)

lemma started_row:
  assumes "distinct (map ap_id (adb_rows db))" "a \<in> set (adb_rows db)"
    and "b \<in> set (adb_rows (snd (fst (startCall now a None (s, db)))))" "ap_id b = ap_id a"
  shows "ap_status b = ''Em atendimento'' \<and> ap_date b = ap_date a"
proof -
  obtain r where r: "r \<in> set (adb_rows db)"
    and b: "b = (if ap_id r = ap_id a then r\<lparr>ap_status := ''Em atendimento''\<rparr> else r)"
    using assms(3) by (auto simp: startCall_rows)
  have "ap_id r = ap_id a" using b assms(4) by (auto split: if_splits)
  then have "r = a" using distinct_id_same [OF assms(1) r assms(2)] by simp
  then show ?thesis using b by simp
qed

text \<open>
  C26: a call started today leaves both lists: once its status is Em atendimento it is
  neither upcoming (scheduled or confirmed) nor recent (before today, concluded or cancelled),
  so after a reload, which resets the page's state, no list shows it and it cannot be ended.
\<close>

theorem started_call_leaves_lists:
  assumes "distinct (map ap_id (adb_rows db))" and "a \<in> set (adb_rows db)"
    and "ap_date a = format_yyyy_MM_dd tz now"
  shows "ap_id a \<notin> ap_id ` set (upcomingCallsQuery tz now (snd (fst (startCall now a None (s, db)))))
         \<and> ap_id a \<notin> ap_id ` set (recentCallsQuery tz now (snd (fst (startCall now a None (s, db)))))"
proof -
  have st: "ap_status b = ''Em atendimento'' \<and> ap_date b = format_yyyy_MM_dd tz now"
    if "b \<in> set (adb_rows (snd (fst (startCall now a None (s, db)))))" "ap_id b = ap_id a" for b
    using started_row [OF assms(1,2) that] assms(3) by simp
  have "ap_id a \<notin> ap_id ` set (upcomingCallsQuery tz now (snd (fst (startCall now a None (s, db)))))"
    using st by (auto simp: upcomingCallsQuery_def)
  moreover have "ap_id a \<notin> ap_id ` set (recentCallsQuery tz now (snd (fst (startCall now a None (s, db)))))"
  proof
    assume "ap_id a \<in> ap_id ` set (recentCallsQuery tz now (snd (fst (startCall now a None (s, db)))))"
    then obtain x where x: "x \<in> set (recentCallsQuery tz now (snd (fst (startCall now a None (s, db)))))"
      and id: "ap_id x = ap_id a" by auto
    then have "x \<in> set (adb_rows (snd (fst (startCall now a None (s, db)))))"
      and "ap_date x < format_yyyy_MM_dd tz now \<or> ap_status x = CONCLUIDO \<or> ap_status x = ''Cancelado''"
      by (auto simp: recentCallsQuery_def dest: in_set_takeD)
    with st [OF _ id] show False by (auto simp: CONCLUIDO_def I_ACUTE_def)
  qed
  ultimately show ?thesis by blast
qed

theorem started_call_leaves_lists_witness:
  "ap_id sample_video_call \<notin> ap_id ` set (upcomingCallsQuery 0 0 (snd (fst (startCall 0 sample_video_call None
        (tele_init, empty_appt_db\<lparr>adb_rows := [sample_video_call]\<rparr>)))))
   \<and> ap_id sample_video_call \<notin> ap_id ` set (recentCallsQuery 0 0 (snd (fst (startCall 0 sample_video_call None
        (tele_init, empty_appt_db\<lparr>adb_rows := [sample_video_call]\<rparr>)))))"
  using started_call_leaves_lists [of "empty_appt_db\<lparr>adb_rows := [sample_video_call]\<rparr>" sample_video_call 0 0 tele_init]
  by (simp add: sample_video_call_def)

lemma savePrescription_two_records:
  assumes "tm_selectedCall s = Some c" "tm_prescriptionMedication s \<noteq> []" "tm_prescriptionDosage s \<noteq> []"
    and "2 \<le> length (filter (\<lambda>r. mr_patient_id r = ap_patient_id c) (rdb_records rdb))"
  shows "snd (fst (savePrescription rn today now None None (s, rdb)))
         = (let r = \<lparr>mr_id = nat_to_string (rdb_next_id rdb), mr_record_number = rn, mr_patient_id = ap_patient_id c,
                     mr_professional_id = Some (ap_professional_id c), mr_primary_diagnosis = None,
                     mr_status = ''ativo'', mr_notes = None, mr_updated_at = now\<rparr>
            in rdb\<lparr>rdb_records := rdb_records rdb @ [r],
                   rdb_entries := rdb_entries rdb @
                     [\<lparr>me_id = nat_to_string (Suc (rdb_next_id rdb)), me_record_id = mr_id r,
                       me_professional_id = Some (ap_professional_id c), me_entry_type = PRESCRICAO,
                       me_description = prescriptionText s, me_entry_date = today, me_created_at = now\<rparr>],
                   rdb_next_id := Suc (Suc (rdb_next_id rdb))\<rparr>)"
  using assms maybeSingle_two [OF assms(4)] by (simp add: savePrescription_def Let_def)

text \<open>
  C35: a prescription for a patient who already has two records (the Prontuarios page allows
  it) opens a third: the lookup's \<open>maybeSingle\<close> fails on two rows, \<open>data\<close> is null, a new
  record of the patient is inserted, and the prescription is filed there.
\<close>

theorem prescription_opens_new_record:
  assumes "tm_selectedCall s = Some c" "tm_prescriptionMedication s \<noteq> []" "tm_prescriptionDosage s \<noteq> []"
    and "2 \<le> length (filter (\<lambda>r. mr_patient_id r = ap_patient_id c) (rdb_records rdb))"
  shows "\<exists>r e. rdb_records (snd (fst (savePrescription rn today now None None (s, rdb)))) = rdb_records rdb @ [r]
             \<and> mr_patient_id r = ap_patient_id c
             \<and> rdb_entries (snd (fst (savePrescription rn today now None None (s, rdb)))) = rdb_entries rdb @ [e]
             \<and> me_record_id e = mr_id r \<and> me_entry_type e = PRESCRICAO"
  using savePrescription_two_records [OF assms] by (simp add: Let_def)

theorem prescription_opens_new_record_witness:
  "\<exists>r e. rdb_records (snd (fst (savePrescription ''PRO-0003'' ''2024-03-15'' 0 None None (sample_prescription_state, sample_two_records_db))))
           = rdb_records sample_two_records_db @ [r]
       \<and> mr_patient_id r = ap_patient_id sample_video_call
       \<and> rdb_entries (snd (fst (savePrescription ''PRO-0003'' ''2024-03-15'' 0 None None (sample_prescription_state, sample_two_records_db))))
           = rdb_entries sample_two_records_db @ [e]
       \<and> me_record_id e = mr_id r \<and> me_entry_type e = PRESCRICAO"
  by (rule prescription_opens_new_record)
     (simp_all add: sample_prescription_state_def sample_two_records_db_def sample_record_def sample_video_call_def
                    empty_records_db_def)

end
