(* ===== verification/Spec2Isabelle.thy ===== *)
theory Spec2Isabelle
  imports Notifications Search Toast Patients Beds Appointments Professionals Records QuickActions AuditLog Telemedicine
begin

text \<open>
  \<^bold>\<open>MedCore: a verification development of the hospital dashboard.\<close>

  MedCore (\<open>src/\<close>) is a React/TypeScript administration front end over a Supabase
  database (tables \<open>patients\<close>, \<open>appointments\<close>, \<open>beds\<close>, \<open>admissions\<close>,
  \<open>medical_records\<close>, \<open>audit_logs\<close>, ...).  Every page reads rows through the
  Supabase client, shapes them on the client (grouping, percentages, filters, sorting,
  truncation) and writes through insert/update/delete calls.  The development models the
  data shaping and the client-side state of the pages as HOL functions on explicit rows;
  the database and the network are outside it: a query's rows, or its error, are inputs.

  \<^bold>\<open>Layout.\<close>
  \<^item> \<open>Prelude\<close>: how the JavaScript primitives the code uses are read in HOL.
    \<open>Math.round\<close> is \<open>math_round\<close> (\<open>floor (x + 1/2)\<close>) on exact rationals;
    \<open>math_round_quotient\<close> turns it into integer division.  \<open>Array.prototype.sort\<close>
    with a comparator is \<open>js_sort\<close>, a stable insertion sort (ECMA-262 requires
    stability, and for a consistent comparator every conforming engine returns the same
    list); \<open>js_sort_key_eq\<close> proves it equal to HOL's \<open>sort_key\<close>, and
    \<open>js_sort_desc_eq\<close> reads \<open>(a, b) => f(b) - f(a)\<close> as a descending sort.  A
    JavaScript \<open>Map\<close> updated by get-or-default-then-set is \<open>AList.update_with_aux\<close>,
    which keeps the first insertion order of the keys.  Accented status strings
    (Disponivel, Critico, Manutencao with their accents) are their UTF-8 bytes.
  \<^item> \<open>Occupancy\<close> models \<open>src/components/dashboard/BedOccupancy.tsx\<close>: the records
    \<open>bed\<close> and \<open>department_occupancy\<close> are the file's interfaces;
    \<open>calculateOccupancyPercentage\<close>, \<open>getOccupancyLevel\<close>, \<open>getProgressColor\<close>,
    \<open>getTextColor\<close> and \<open>groupBedsByDepartment\<close> are its functions (the \<open>forEach\<close>
    loop is \<open>departmentMap\<close>, a \<open>foldl\<close> over the beds); \<open>DepartmentItem\<close> is the view
    model of one row; \<open>fetchBedOccupancy\<close> and \<open>BedOccupancy_render\<close> are the
    component's effect and its three render branches.  The abstract specification is
    \<open>dept_counts\<close> (occupied and total beds of a department); \<open>map_of_departmentMap\<close>
    is the refinement lemma.  Properties: refinement, the totals of spec section 8,
    descending order, first-occurrence order of ties, bounds, the exact thresholds of the
    levels under rounding (C1 to C6), and the rendering of a failed query.
  \<^item> \<open>Dashboard\<close> models \<open>src/pages/Index.tsx\<close> and \<open>StatsCard.tsx\<close>: the record
    \<open>dashboard_stats\<close>, the seven query responses (\<open>count_result\<close>, \<open>rows_result\<close>; their
    errors are dropped as the code drops them), \<open>calculateTrend\<close>, \<open>calculatePercentage\<close>,
    \<open>countOccupiedBeds\<close>, \<open>fetchAllStats\<close> and \<open>loadDashboardStats\<close> (the effect), the three
    trend objects and \<open>Index_render\<close> with the card's \<open>getTrendIcon\<close>, \<open>getTrendColor\<close> and
    \<open>trend_text\<close>.  Properties C10 (the sign of a trend) and C13 (failed queries read as
    zero); lemmas give the spec's trend values, the patients scenario and the admissions
    count shown with a percent sign.
  \<^item> \<open>Notifications\<close> models the notification feed of \<open>src/components/layout/Header.tsx\<close>:
    the row types of the three queries, \<open>appointment_start\<close> (split, \<open>parseInt\<close>,
    \<open>setHours\<close> on local midnight), \<open>appointment_notification\<close>,
    \<open>admission_notification\<close> and \<open>patient_notification\<close> (the three \<open>forEach\<close> bodies),
    \<open>collectNotifications\<close> (the pushes), \<open>buildNotifications\<close> (sort and cut at 10),
    \<open>fetchNotifications\<close> on the header's state, the three queries as filter, order and
    limit over a table (\<open>appointmentsQuery\<close>, ...), \<open>formatNotificationTime\<close> and the
    badge.  date-fns' \<open>differenceInMinutes\<close> truncates towards zero; \<open>format\<close> is computed
    with the civil-calendar algorithm on a fixed time-zone offset.  Properties C16, C18
    and C19: the exact window, the query limit that hides upcoming appointments, order and
    size of the feed and the cut keeping the newest; the "Agora" label of upcoming
    appointments is a lemma.
  \<^item> \<open>Search\<close> models the search box of \<open>Header.tsx\<close>: \<open>like_match\<close> is PostgreSQL's
    \<open>LIKE\<close> (\<open>%\<close> and \<open>_\<close>) and \<open>ilike\<close> its case-insensitive form, lower-casing with
    \<open>pg_lower\<close> (ASCII and the Latin-1 capitals of Portuguese); the three
    lookups of \<open>performSearch\<close> are filters with a limit of five over the tables; the box's
    state, its events (\<open>search_step\<close>) and the reachable states (\<open>search_reachable\<close>) model
    what the header wires.  Property C24: the popover never shows results (the
    function is never called).
  \<^item> \<open>Toast\<close> models \<open>src/hooks/use-toast.ts\<close> as an explicit store (\<open>toast_store\<close>: the
    module's \<open>count\<close>, \<open>memoryState\<close>, \<open>toastTimeouts\<close> and \<open>listeners\<close>), the
    \<open>reducer\<close> with its four actions, \<open>dispatch\<close>, \<open>toast\<close>, the firing of a removal timer
    and the hook's mount and unmount, with the reachable states \<open>toast_reachable\<close>.
    \<open>run_timers\<close> is the event loop firing the pending timers, a \<open>while_option\<close>.
    Properties C25 and C30, C32: the loop of timers terminates (C25, with
    \<open>measure_while_option_Some\<close> on the number of pending timers), the limit and the
    counter, and the removal of dismissed toasts once the timers fire.  The store's
    \<open>UPDATE_TOAST\<close> branch is modelled, but no code of the repository calls \<open>update\<close>.
  \<^item> \<open>Errors\<close> models \<open>src/lib/errorHandler.ts\<close>: the pattern table, the loop of
    \<open>findErrorMessage\<close> and \<open>handlePatientError\<close>; a lemma reads the loop as the first
    matching entry of the table (\<open>List.find\<close>).
  \<^item> \<open>Patients\<close> models \<open>src/pages/Pacientes.tsx\<close>: the row, the CPF and phone masks
    (the \<open>.replace\<close> chains as leftmost-match replacements), the filters, the page state, the
    create, edit and delete handlers (the write's outcome is an input; the writes and
    toasts are outputs), the table and the details dialog.  C37 to C40: the CPF mask's round
    trip, the landline phone bug, the submit contract, and the CPF search (no search of
    four digits or more ever matches a masked CPF).
  \<^item> \<open>Beds\<close> models \<open>src/pages/Leitos.tsx\<close> over an explicit store \<open>ward_db\<close> of the
    \<open>beds\<close> and \<open>admissions\<close> rows: \<open>createAdmission\<close> and \<open>dischargePatient\<close> are
    their two writes, each succeeding or failing by an input flag, so that a failure between
    them is a state of the model; \<open>ward_reachable W db0\<close> is the store after any sequence of
    the page's admissions (on a bed the dialog offers) and discharges (from the details
    dialog), with write outcomes in \<open>W\<close>.  \<open>ward_consistent\<close> is the store's invariant.
    Also the derived data (joins, filters, counters, \<open>departmentStats\<close>), the page state and
    handlers, and the views.  Properties C14 (invariant), C21 (bed statuses stay in their
    domain), C23 (a failed bed update double-books a bed), C33 (on every reachable store the
    Ocupados card of \<open>ward_counters\<close> equals the active admissions).  C17, in the root theory, relates the page to the occupancy card.
  \<^item> \<open>Appointments\<close> models \<open>src/pages/Agendamentos.tsx\<close> over an explicit store
    \<open>appt_db\<close>: the day query, the insert, status update and delete (the backend's error is
    an input), the page state and handlers, \<open>filteredAppointments\<close>,
    \<open>getAppointmentForSlot\<close>, \<open>generateWeekDates\<close> and the views.  Properties C4 (a booked
    free slot shows the appointment), C11 (the mini calendar's week), C20 (double booking),
    C28 (the optimistic status of the details dialog).
  \<^item> \<open>Professionals\<close> models \<open>src/pages/Profissionais.tsx\<close> over an explicit store
    \<open>prof_db\<close>: the query, the three writes, the handlers, the two dialogs' events, the
    filter, the specialty list, the cards and the profile.  \<open>utf8_chars\<close> splits a UTF-8
    string into characters; its recursion is on what \<open>dropWhile\<close> leaves, so it is a
    \<open>function\<close> with a \<open>measure length\<close> termination proof.  Properties C31 (the form is
    not reset after an edit, and saving duplicates the row) and C36 (editing without change
    is a round trip).
  \<^item> \<open>Records\<close> models \<open>src/pages/Prontuarios.tsx\<close> over an explicit store
    \<open>records_db\<close> (the rows of \<open>medical_records\<close> and \<open>medical_record_entries\<close>): the
    three queries, \<open>createRecord\<close>, \<open>createEntry\<close> and \<open>updateRecordStatus\<close> with the
    backend's error as an input, the two submit handlers and the archive/restore button,
    the search filter, the tabs and the four counters, the table row and the details
    dialog.  What the database fills in (the record number of its trigger, the entry's
    default date, the timestamps) is an input; \<open>pg_timestamptz\<close> is the UTC string the API
    returns for a timestamp.  \<open>records_reachable\<close> are the stores the page produces.
    Properties C7 (the Ativos and Arquivados counters partition the records of every
    reachable store), C27 (Atualizados Hoje compares a local date with a UTC string and
    misses the evening's updates west of UTC) and C29 (entries added by the page never name
    their professional).
  \<^item> \<open>QuickActions\<close> models \<open>src/components/dashboard/QuickActions.tsx\<close>: the three dialogs'
    state and events (\<open>qa_step\<close>; the CPF and phone masks are \<open>Patients.formatCPF\<close> and
    \<open>Patients.formatPhone\<close>, whose code the file repeats), the patient and appointment
    inserts as the writes they issue, and the medical record handler on the \<open>records_db\<close>
    store of \<open>Records\<close>: PostgREST's \<open>maybeSingle\<close>, the pattern \<open>/PRO-(\d+)/\<close>
    (\<open>pro_match\<close>), \<open>qa_nextNum\<close> and \<open>record_number_of\<close>.  Properties C8 (records are
    numbered in sequence: the number written reads back through the pattern) and C22 (a
    patient with two records passes the duplicate check, since \<open>maybeSingle\<close> fails on two
    rows and the handler ignores the error).
  \<^item> \<open>AuditLog\<close> models \<open>src/pages/Auditoria.tsx\<close>: the row \<open>audit_log\<close>, the page state and
    its events (\<open>audit_step\<close>), the query of the last hundred logs, the stats query's five
    counts (\<open>fetchAuditStats\<close>, each with its own outcome, and \<open>toFixed1\<close> on the exact
    quotient), the filter (\<open>audit_matches\<close>: search, tab, the date range with
    \<open>new Date\<close> read as UTC midnight for a date and as local time for a date-time), the
    security alerts, the icons, the table row and the filter chips.  Properties C9 (the date
    range mixes time zones), C12 (the alerts panel is a subsequence of the Seguranca tab) and
    C34 (the stats read failed queries as 0 events and a 100.0% success rate).
  \<^item> \<open>Telemedicine\<close> models \<open>src/pages/Telemedicina.tsx\<close> over the \<open>appt_db\<close> store of
    \<open>Appointments\<close> and the \<open>records_db\<close> store of \<open>Records\<close>: the upcoming and recent
    queries, the call's start, end and cancel as status writes (\<open>tele_updateStatus\<close>), the
    return appointment (the duration's column default is an input), \<open>savePrescription\<close>
    with its record lookup (\<open>maybeSingle\<close> of \<open>QuickActions\<close>), record insert and entry
    insert, the record dialog's query, the stats, the list items and \<open>getCallDuration\<close>.
    Properties C26 (a call started today leaves both lists) and C35 (a prescription for a
    patient with two records opens a third).

  \<^bold>\<open>Plan of the development\<close> (later work extends it): the sidebar badges, the dashboard
  widgets and the settings page.

  \<^bold>\<open>Not modelled.\<close>  Rendering (JSX, styling) beyond the view models named above,
  routing (\<open>App.tsx\<close>), authentication
  (\<open>AuthContext.tsx\<close>, \<open>Login.tsx\<close>: delegated to Supabase Auth), the Supabase
  client itself and the database (queries are modelled by the rows they return), React's
  scheduling of effects, and IEEE-754 rounding: percentages are computed on exact
  rationals, which agrees with the code except where a binary quotient lands within
  rounding error of a half.
\<close>

section \<open>The two readings of the beds table\<close>

text \<open>
  The occupancy card reads \<open>department, status\<close> of the rows of \<open>beds\<close>; the ward page reads
  the whole row.  \<open>ward_card_bed\<close> is the card's projection of a ward row.
\<close>

definition ward_card_bed :: "ward_bed \<Rightarrow> bed" where
  "ward_card_bed b = \<lparr>department = lb_department b, status = lb_status b\<rparr>"

section \<open>Properties spanning components\<close>

lemma department_stat_of_counts:
  "(ds_occupied (department_stat_of (bedsWithAdmissions beds adms) d),
    ds_total (department_stat_of (bedsWithAdmissions beds adms) d))
   = dept_counts (map ward_card_bed beds) d"
  by (simp add: department_stat_of_def bedsWithAdmissions_def dept_counts_def ward_card_bed_def
      filter_map comp_def filter_filter STATUS_OCUPADO_def case_prod_beta Let_def)

lemma department_stat_of_percentage:
  "ds_percentage (department_stat_of bs d)
   = calculateOccupancyPercentage (ds_occupied (department_stat_of bs d)) (ds_total (department_stat_of bs d))"
  by (simp add: department_stat_of_def calculateOccupancyPercentage_def Let_def)



text \<open>
  C15 (refinement). The dashboard's bed KPI and the occupancy card agree: for the same bed
  rows, the occupied and total beds of the KPI are the sums over the card's departments,
  and the KPI's percentage is the rounded percentage of those sums.
\<close>

theorem dashboard_occupancy_matches_card:
  "occupiedBeds (fetchAllStats r1 r2 r3 r4 \<lparr>result_data = Some beds, rows_error = e\<rparr> r6 r7)
     = sum_list (map occupied (groupBedsByDepartment beds))
   \<and> totalBeds (fetchAllStats r1 r2 r3 r4 \<lparr>result_data = Some beds, rows_error = e\<rparr> r6 r7)
     = sum_list (map department_occupancy.total (groupBedsByDepartment beds))
   \<and> occupancyPercentage (fetchAllStats r1 r2 r3 r4 \<lparr>result_data = Some beds, rows_error = e\<rparr> r6 r7)
     = calculateOccupancyPercentage (sum_list (map occupied (groupBedsByDepartment beds)))
         (sum_list (map department_occupancy.total (groupBedsByDepartment beds)))"
  using groupBedsByDepartment_sums [of beds]
  by (simp add: fetchAllStats_def data_or_empty_def countOccupiedBeds_eq occupancyPercentage_def
      calculatePercentage_eq_occupancy)

text \<open>
  C17 (refinement). The ward page and the dashboard's occupancy card count the same beds:
  for the same rows of \<open>beds\<close>, a department's occupied and total beds and its rounded
  percentage on the page equal the card's.  Their colour scales differ: the card is amber
  from 80\% (the spec's "high"), the page from 70\%, so the two agree exactly outside 70 to 79\%.
\<close>

theorem ward_page_and_card_levels:
  "(ds_occupied (department_stat_of (bedsWithAdmissions beds adms) d),
    ds_total (department_stat_of (bedsWithAdmissions beds adms) d))
     = dept_counts (map ward_card_bed beds) d
   \<and> ds_percentage (department_stat_of (bedsWithAdmissions beds adms) d)
     = calculateOccupancyPercentage (fst (dept_counts (map ward_card_bed beds) d))
         (snd (dept_counts (map ward_card_bed beds) d))
   \<and> (getProgressColor (getOccupancyLevel p) = progress_indicator p \<longleftrightarrow> \<not> (70 \<le> p \<and> p < 80))"
proof (intro conjI)
  show "getProgressColor (getOccupancyLevel p) = progress_indicator p \<longleftrightarrow> \<not> (70 \<le> p \<and> p < 80)"
    by (simp add: getOccupancyLevel_def progress_indicator_def OCCUPANCY_THRESHOLDS_CRITICAL_def
        OCCUPANCY_THRESHOLDS_HIGH_def)
next
  show "(ds_occupied (department_stat_of (bedsWithAdmissions beds adms) d),
    ds_total (department_stat_of (bedsWithAdmissions beds adms) d))
     = dept_counts (map ward_card_bed beds) d"
    by (rule department_stat_of_counts)
  then show "ds_percentage (department_stat_of (bedsWithAdmissions beds adms) d)
     = calculateOccupancyPercentage (fst (dept_counts (map ward_card_bed beds) d))
         (snd (dept_counts (map ward_card_bed beds) d))"
    using department_stat_of_percentage [of "bedsWithAdmissions beds adms" d]
    by (metis fst_conv snd_conv)
qed
end
